(* ===== verification/Go_Prelude.thy ===== *)
theory Go_Prelude
  imports
    Main
    "HOL-Library.AList"
    "HOL-Library.Char_ord"
    "HOL-Library.List_Lexorder"
    "HOL-Library.Multiset"
    "HOL-Library.State_Monad"
    "HOL-Library.Sublist"
begin

text \<open>
  What the components share of Go and its standard library: 64-bit signed wrap-around, the decimal
  conversions of \<^verbatim>\<open>strconv\<close> and \<^verbatim>\<open>fmt\<close>, \<^verbatim>\<open>strings.Contains\<close>, maps with an iteration order,
  \<^verbatim>\<open>sort.Slice\<close>, and effectful operations over a world, with a weakest-precondition calculus for
  them. A Go \<^verbatim>\<open>error\<close> is its message; an operation that may fail returns a sum with the message
  on the left, or an optional message where it returns nothing else.
\<close>

named_theorems schema_consts "definitions of the string constants of the schema package"
named_theorems wp_intros "weakest-precondition rules of the effectful operations"

type_synonym go_error = string

section \<open>Signed 64-bit integers\<close>

text \<open>
  Go's \<^verbatim>\<open>int\<close> and \<^verbatim>\<open>int64\<close> are 64 bits wide and wrap around. The model keeps their values as
  \<open>int\<close> and applies \<open>wrap64\<close> where the source adds or subtracts values that come from outside.
\<close>

definition wrap64 :: "int \<Rightarrow> int" where
  "wrap64 x = (x + 2 ^ 63) mod 2 ^ 64 - 2 ^ 63"

definition is_int64 :: "int \<Rightarrow> bool" where
  "is_int64 x \<longleftrightarrow> - (2 ^ 63) \<le> x \<and> x < 2 ^ 63"

lemma wrap64_id: "is_int64 x \<Longrightarrow> wrap64 x = x"
  by (simp add: wrap64_def is_int64_def)

lemma is_int64_wrap64 [simp]: "is_int64 (wrap64 x)"
proof -
  have "0 \<le> (x + 2 ^ 63) mod 2 ^ 64" and "(x + 2 ^ 63) mod 2 ^ 64 < (2::int) ^ 64"
    by (rule pos_mod_sign, simp) (rule pos_mod_bound, simp)
  then show ?thesis by (simp add: wrap64_def is_int64_def)
qed

lemma wrap64_over: "2 ^ 63 \<le> x \<Longrightarrow> x < 2 ^ 64 \<Longrightarrow> wrap64 x = x - 2 ^ 64"
proof -
  assume x: "2 ^ 63 \<le> x" "x < 2 ^ 64"
  have "(x + 2 ^ 63) mod 2 ^ 64 = (x + 2 ^ 63 - 2 ^ 64) mod 2 ^ 64"
    by (rule minus_mod_self2 [symmetric])
  also have "\<dots> = x + 2 ^ 63 - 2 ^ 64"
    using x by (intro mod_pos_pos_trivial) auto
  finally show ?thesis by (simp add: wrap64_def)
qed

section \<open>Decimal numbers: strconv.Atoi and the verb d of fmt\<close>

definition is_digit :: "char \<Rightarrow> bool" where
  "is_digit c \<longleftrightarrow> 48 \<le> (of_char c :: nat) \<and> (of_char c :: nat) \<le> 57"

definition digit_val :: "char \<Rightarrow> nat" where
  "digit_val c = of_char c - 48"

definition digit_char :: "nat \<Rightarrow> char" where
  "digit_char d = char_of (48 + d)"

fun digits_val :: "nat \<Rightarrow> string \<Rightarrow> nat" where
  "digits_val acc [] = acc"
| "digits_val acc (c # cs) = digits_val (10 * acc + digit_val c) cs"

fun nat_itoa :: "nat \<Rightarrow> string" where
  "nat_itoa n = (if n < 10 then [digit_char n] else nat_itoa (n div 10) @ [digit_char (n mod 10)])"

declare nat_itoa.simps [simp del]

definition itoa :: "int \<Rightarrow> string" where
  "itoa i = (if i < 0 then CHR ''-'' # nat_itoa (nat (- i)) else nat_itoa (nat i))"

text \<open>
  \<^verbatim>\<open>strconv.Atoi\<close>: an optional sign, then one or more decimal digits, within the range of
  \<^verbatim>\<open>int\<close>; any other input is an error.
\<close>

definition Atoi_digits :: "string \<Rightarrow> nat option" where
  "Atoi_digits s = (if s \<noteq> [] \<and> list_all is_digit s then Some (digits_val 0 s) else None)"

definition Atoi :: "string \<Rightarrow> int option" where
  "Atoi s =
     (case s of
        CHR ''-'' # ds \<Rightarrow>
          (case Atoi_digits ds of
             Some n \<Rightarrow> if n \<le> 2 ^ 63 then Some (- int n) else None
           | None \<Rightarrow> None)
      | _ \<Rightarrow>
          (case Atoi_digits (case s of CHR ''+'' # ds \<Rightarrow> ds | _ \<Rightarrow> s) of
             Some n \<Rightarrow> if n < 2 ^ 63 then Some (int n) else None
           | None \<Rightarrow> None))"

lemma digit_char_props:
  assumes "d < 10"
  shows "is_digit (digit_char d)" and "digit_val (digit_char d) = d"
proof -
  have "(of_char (digit_char d) :: nat) = 48 + d"
    using assms by (simp add: digit_char_def of_char_of)
  then show "is_digit (digit_char d)" and "digit_val (digit_char d) = d"
    using assms by (simp_all add: is_digit_def digit_val_def)
qed

lemma nat_itoa_digits: "list_all is_digit (nat_itoa n)"
proof (induction n rule: nat_itoa.induct)
  case (1 n)
  then show ?case
    by (subst nat_itoa.simps) (auto simp: digit_char_props)
qed

lemma nat_itoa_nonempty [simp]: "nat_itoa n \<noteq> []"
  by (subst nat_itoa.simps) simp

lemma digits_val_append: "digits_val a (xs @ ys) = digits_val (digits_val a xs) ys"
  by (induction xs arbitrary: a) auto

lemma digits_val_itoa: "digits_val 0 (nat_itoa n) = n"
proof (induction n rule: nat_itoa.induct)
  case (1 n)
  show ?case
  proof (cases "n < 10")
    case True
    then show ?thesis by (subst nat_itoa.simps) (simp add: digit_char_props)
  next
    case False
    with 1 show ?thesis by (subst nat_itoa.simps) (simp add: digits_val_append digit_char_props)
  qed
qed

lemma is_digit_not_sign: "is_digit c \<Longrightarrow> c \<noteq> CHR ''-'' \<and> c \<noteq> CHR ''+'' \<and> c \<noteq> CHR ''.''"
  by (auto simp: is_digit_def)

lemma Atoi_digits_only:
  assumes "list_all is_digit s" and "s \<noteq> []"
  shows "Atoi s = (if digits_val 0 s < 2 ^ 63 then Some (int (digits_val 0 s)) else None)"
proof -
  obtain c cs where s: "s = c # cs" and c: "is_digit c"
    using assms by (cases s) auto
  from c have c_no: "c \<noteq> CHR ''-''" "c \<noteq> CHR ''+''" by (auto dest: is_digit_not_sign)
  have "Atoi s = (case Atoi_digits s of Some n \<Rightarrow> if n < 2 ^ 63 then Some (int n) else None
                  | None \<Rightarrow> None)"
    unfolding s Atoi_def using c_no by (simp split: char.splits bool.splits)
  then show ?thesis using assms by (simp add: Atoi_digits_def)
qed

lemma Atoi_nat_itoa: "n < 2 ^ 63 \<Longrightarrow> Atoi (nat_itoa n) = Some (int n)"
  by (subst Atoi_digits_only) (auto simp: nat_itoa_digits digits_val_itoa)

lemma Atoi_nat_itoa_nonneg: "0 \<le> i \<Longrightarrow> i < 2 ^ 63 \<Longrightarrow> Atoi (nat_itoa (nat i)) = Some i"
  by (subst Atoi_nat_itoa) (simp_all add: nat_less_iff)

section \<open>strings.Contains\<close>

fun contains :: "string \<Rightarrow> string \<Rightarrow> bool" where
  "contains [] sub = (sub = [])"
| "contains (c # cs) sub = (prefix sub (c # cs) \<or> contains cs sub)"

lemma contains_iff_sublist: "contains s sub \<longleftrightarrow> sublist sub s"
  by (induction s) (auto simp: sublist_Cons_right)

section \<open>Maps\<close>

text \<open>
  A Go map is an association list with distinct keys: the list's order is the order in which a
  \<^verbatim>\<open>range\<close> loop visits the entries. Go leaves that order open, so a statement about every list with
  the same entries is a statement about every iteration order.
\<close>

type_synonym ('k, 'v) gomap = "('k \<times> 'v) list"

abbreviation mput :: "'k \<Rightarrow> 'v \<Rightarrow> ('k, 'v) gomap \<Rightarrow> ('k, 'v) gomap" where
  "mput \<equiv> AList.update"

abbreviation mget :: "('k, 'v) gomap \<Rightarrow> 'k \<Rightarrow> 'v option" where
  "mget \<equiv> map_of"

definition gomap_ok :: "('k, 'v) gomap \<Rightarrow> bool" where
  "gomap_ok m \<longleftrightarrow> distinct (map fst m)"

lemma mget_mput: "mget (mput k v m) k' = (if k' = k then Some v else mget m k')"
  by (simp add: update_conv)

lemma gomap_ok_Nil [simp]: "gomap_ok []"
  by (simp add: gomap_ok_def)

lemma gomap_ok_mput [simp]: "gomap_ok m \<Longrightarrow> gomap_ok (mput k v m)"
  by (simp add: gomap_ok_def distinct_update)

lemma keys_mput [simp]: "fst ` set (mput k v m) = insert k (fst ` set m)"
  by (simp add: dom_update)

lemma gomap_ok_filter: "gomap_ok m \<Longrightarrow> gomap_ok (filter P m)"
  by (simp add: gomap_ok_def distinct_map_filter)

section \<open>sort.Slice\<close>

text \<open>
  \<^verbatim>\<open>sort.Slice\<close> orders a slice by a \<open>less\<close> function; its algorithm is not specified and it is not
  stable. The model sorts by insertion; \<open>sort_less_unique\<close> shows that where \<open>less\<close> is total
  on the elements every correct sort returns the same list.
\<close>

fun insert_less :: "('a \<Rightarrow> 'a \<Rightarrow> bool) \<Rightarrow> 'a \<Rightarrow> 'a list \<Rightarrow> 'a list" where
  "insert_less lt x [] = [x]"
| "insert_less lt x (y # ys) = (if lt y x then y # insert_less lt x ys else x # y # ys)"

fun sort_less :: "('a \<Rightarrow> 'a \<Rightarrow> bool) \<Rightarrow> 'a list \<Rightarrow> 'a list" where
  "sort_less lt [] = []"
| "sort_less lt (x # xs) = insert_less lt x (sort_less lt xs)"

lemma mset_insert_less [simp]: "mset (insert_less lt x xs) = add_mset x (mset xs)"
  by (induction xs) auto

lemma mset_sort_less [simp]: "mset (sort_less lt xs) = mset xs"
  by (induction xs) auto

lemma set_sort_less [simp]: "set (sort_less lt xs) = set xs"
  by (metis mset_sort_less set_mset_mset)

lemma length_sort_less [simp]: "length (sort_less lt xs) = length xs"
  by (metis mset_sort_less size_mset)

lemma sort_less_Nil_iff [simp]: "sort_less lt xs = [] \<longleftrightarrow> xs = []"
  by (metis length_0_conv length_sort_less)

definition no_inversion :: "('a \<Rightarrow> 'a \<Rightarrow> bool) \<Rightarrow> 'a list \<Rightarrow> bool" where
  "no_inversion lt xs \<longleftrightarrow> sorted_wrt (\<lambda>x y. \<not> lt y x) xs"

lemma no_inversion_insert_less:
  assumes asym: "\<And>x y. lt x y \<Longrightarrow> \<not> lt y x"
    and trans: "\<And>x y z. \<not> lt y x \<Longrightarrow> \<not> lt z y \<Longrightarrow> \<not> lt z x"
    and "no_inversion lt xs"
  shows "no_inversion lt (insert_less lt x xs)"
  using assms(3)
proof (induction xs)
  case Nil
  then show ?case by (simp add: no_inversion_def)
next
  case (Cons y ys)
  have set_ins: "set (insert_less lt x ys) = insert x (set ys)"
    by (metis mset_insert_less set_mset_add_mset_insert set_mset_mset)
  show ?case
  proof (cases "lt y x")
    case True
    with Cons show ?thesis by (auto simp: no_inversion_def set_ins dest: asym)
  next
    case False
    with Cons.prems have "\<forall>z\<in>set ys. \<not> lt z x"
      by (auto simp: no_inversion_def dest: trans)
    with False Cons.prems show ?thesis by (simp add: no_inversion_def)
  qed
qed

lemma no_inversion_sort_less:
  assumes "\<And>x y. lt x y \<Longrightarrow> \<not> lt y x"
    and "\<And>x y z. \<not> lt y x \<Longrightarrow> \<not> lt z y \<Longrightarrow> \<not> lt z x"
  shows "no_inversion lt (sort_less lt xs)"
proof (induction xs)
  case Nil
  show ?case by (simp add: no_inversion_def)
next
  case (Cons x xs)
  have "no_inversion lt (insert_less lt x (sort_less lt xs))"
    by (rule no_inversion_insert_less) (use assms Cons in blast)+
  then show ?case by simp
qed

lemma sort_less_unique:
  assumes total: "\<And>x y. x \<in> set xs \<Longrightarrow> y \<in> set xs \<Longrightarrow> \<not> lt x y \<Longrightarrow> \<not> lt y x \<Longrightarrow> x = y"
    and "mset ys = mset xs" and "no_inversion lt ys" and "no_inversion lt xs"
  shows "ys = xs"
  using assms
proof (induction xs arbitrary: ys)
  case Nil
  then show ?case by simp
next
  case (Cons x xs)
  then obtain y ys' where ys: "ys = y # ys'"
    by (cases ys) auto
  have set_eq: "set (y # ys') = set (x # xs)"
    using Cons.prems(2) ys by (metis set_mset_mset)
  have "y = x"
  proof (rule ccontr)
    assume "y \<noteq> x"
    then have "y \<in> set xs" and "x \<in> set ys'" using set_eq by auto
    then have "\<not> lt y x" and "\<not> lt x y"
      using Cons.prems(3,4) ys by (auto simp: no_inversion_def)
    with Cons.prems(1) set_eq have "y = x" by (metis list.set_intros(1))
    with \<open>y \<noteq> x\<close> show False ..
  qed
  moreover have "ys' = xs"
  proof (rule Cons.IH)
    show "\<And>a b. a \<in> set xs \<Longrightarrow> b \<in> set xs \<Longrightarrow> \<not> lt a b \<Longrightarrow> \<not> lt b a \<Longrightarrow> a = b"
      using Cons.prems(1) by simp
  qed (use Cons.prems(2-4) ys \<open>y = x\<close> in \<open>auto simp: no_inversion_def\<close>)
  ultimately show ?case using ys by simp
qed

section \<open>Effectful operations\<close>

text \<open>
  An operation with effects is a state transformer over a world \<open>'w\<close>, written in the do-notation of
  the library's state monad. \<open>wp m Q w\<close> says that running \<open>m\<close> in world \<open>w\<close> ends in a result and
  a world that satisfy \<open>Q\<close>. An interface call about which nothing is assumed is passed with \<open>wp_any\<close>.
\<close>

abbreviation ret :: "'a \<Rightarrow> ('w, 'a) state" where
  "ret \<equiv> State_Monad.return"

definition wp :: "('w, 'a) state \<Rightarrow> ('a \<Rightarrow> 'w \<Rightarrow> bool) \<Rightarrow> 'w \<Rightarrow> bool" where
  "wp m Q w \<longleftrightarrow> (case run_state m w of (a, w') \<Rightarrow> Q a w')"

lemma wp_return [simp]: "wp (ret a) Q w = Q a w"
  by (simp add: wp_def)

lemma wp_bind [simp]: "wp (State_Monad.bind m f) Q w = wp m (\<lambda>a w'. wp (f a) Q w') w"
  by (simp add: wp_def split: prod.splits)

lemma wp_State [simp]: "wp (State f) Q w = Q (fst (f w)) (snd (f w))"
  by (simp add: wp_def split: prod.splits)

lemma wp_any: "(\<And>a w'. Q a w') \<Longrightarrow> wp m Q w"
  by (simp add: wp_def split: prod.splits)

lemma wp_const [simp]: "wp m (\<lambda>_ _. P) w = P"
  by (simp add: wp_def split: prod.splits)

lemma wp_mono: "wp m P w \<Longrightarrow> (\<And>a w'. P a w' \<Longrightarrow> Q a w') \<Longrightarrow> wp m Q w"
  by (auto simp: wp_def split: prod.splits)

lemma wp_conj: "wp m P w \<Longrightarrow> wp m Q w \<Longrightarrow> wp m (\<lambda>a w'. P a w' \<and> Q a w') w"
  by (auto simp: wp_def split: prod.splits)

lemma wp_run: "wp m Q w \<longleftrightarrow> Q (fst (run_state m w)) (snd (run_state m w))"
  by (simp add: wp_def split: prod.splits)

lemma wp_if: "wp (if b then m else n) Q w = (if b then wp m Q w else wp n Q w)"
  by simp

lemma wp_option_case:
  "wp (case x of None \<Rightarrow> m | Some y \<Rightarrow> f y) Q w =
   (case x of None \<Rightarrow> wp m Q w | Some y \<Rightarrow> wp (f y) Q w)"
  by (simp split: option.splits)

lemma wp_sum_case:
  "wp (case x of Inl e \<Rightarrow> f e | Inr y \<Rightarrow> g y) Q w =
   (case x of Inl e \<Rightarrow> wp (f e) Q w | Inr y \<Rightarrow> wp (g y) Q w)"
  by (simp split: sum.splits)

lemma wp_prod_case: "wp (case x of (a, b) \<Rightarrow> f a b) Q w = (case x of (a, b) \<Rightarrow> wp (f a b) Q w)"
  by (simp split: prod.splits)

lemma wp_ifI [wp_intros]:
  "(b \<Longrightarrow> wp m Q w) \<Longrightarrow> (\<not> b \<Longrightarrow> wp n Q w) \<Longrightarrow> wp (if b then m else n) Q w"
  by simp

lemma wp_retI [wp_intros]: "Q a w \<Longrightarrow> wp (ret a) Q w"
  by simp

lemma wp_bindI [wp_intros]:
  "wp m (\<lambda>a w'. wp (f a) Q w') w \<Longrightarrow> wp (State_Monad.bind m f) Q w"
  by simp

lemma wp_optionI [wp_intros]:
  "(x = None \<Longrightarrow> wp m Q w) \<Longrightarrow> (\<And>y. x = Some y \<Longrightarrow> wp (f y) Q w) \<Longrightarrow>
   wp (case x of None \<Rightarrow> m | Some y \<Rightarrow> f y) Q w"
  by (cases x) simp_all

lemma wp_sumI [wp_intros]:
  "(\<And>e. x = Inl e \<Longrightarrow> wp (f e) Q w) \<Longrightarrow> (\<And>y. x = Inr y \<Longrightarrow> wp (g y) Q w) \<Longrightarrow>
   wp (case x of Inl e \<Rightarrow> f e | Inr y \<Rightarrow> g y) Q w"
  by (cases x) simp_all

lemma wp_prodI [wp_intros]:
  "(\<And>a b. x = (a, b) \<Longrightarrow> wp (f a b) Q w) \<Longrightarrow> wp (case x of (a, b) \<Rightarrow> f a b) Q w"
  by (cases x) simp_all

lemmas wp_cases = wp_if wp_option_case wp_sum_case wp_prod_case

end
