(* ===== verification/Schema.thy ===== *)
theory Schema
  imports Go_Prelude
begin

text \<open>
  The package \<^verbatim>\<open>pkg/schema\<close>: the string constants of \<^verbatim>\<open>constants.go\<close>, the registry of reason codes
  of \<^verbatim>\<open>registry.go\<close>, and the envelope a node agent sends (\<^verbatim>\<open>v1alpha1.go\<close>). A pointer field is an
  option, a slice a list (Go's nil and empty slices are the same list), \<^verbatim>\<open>interface{}\<close> the JSON value
  the decoder stored there. The field prefix names the struct.
\<close>

section \<open>Constants\<close>

subsection \<open>Architectures\<close>

definition ArchAarch64 :: string where [schema_consts]: "ArchAarch64 = ''aarch64''"
definition ArchX86_64 :: string where [schema_consts]: "ArchX86_64 = ''x86_64''"
definition ArchAny :: string where [schema_consts]: "ArchAny = ''any''"

subsection \<open>Runtime classes\<close>

definition RuntimeClassVirtualMachine :: string where [schema_consts]: "RuntimeClassVirtualMachine = ''VirtualMachine''"
definition RuntimeClassMicroVM :: string where [schema_consts]: "RuntimeClassMicroVM = ''MicroVM''"
definition RuntimeClassContainer :: string where [schema_consts]: "RuntimeClassContainer = ''Container''"

subsection \<open>Runtime backends\<close>

definition BackendKvmQemu :: string where [schema_consts]: "BackendKvmQemu = ''kvm_qemu''"
definition BackendCloudHypervisor :: string where [schema_consts]: "BackendCloudHypervisor = ''cloud_hypervisor''"
definition BackendFirecracker :: string where [schema_consts]: "BackendFirecracker = ''firecracker''"

subsection \<open>Capability states and features\<close>

definition CapabilityStateSupported :: string where [schema_consts]: "CapabilityStateSupported = ''Supported''"
definition CapabilityStateUnsupported :: string where [schema_consts]: "CapabilityStateUnsupported = ''Unsupported''"
definition CapabilityStateUnavailable :: string where [schema_consts]: "CapabilityStateUnavailable = ''Unavailable''"
definition CapabilityStateUnknown :: string where [schema_consts]: "CapabilityStateUnknown = ''Unknown''"
definition CapabilityKvmVmLaunch :: string where [schema_consts]: "CapabilityKvmVmLaunch = ''kvm_vm_launch''"
definition CapabilityCloudHypervisorLaunch :: string where [schema_consts]: "CapabilityCloudHypervisorLaunch = ''cloud_hypervisor_launch''"
definition CapabilityFirecrackerLaunch :: string where [schema_consts]: "CapabilityFirecrackerLaunch = ''firecracker_launch''"
definition CapabilityHardwareTpm :: string where [schema_consts]: "CapabilityHardwareTpm = ''hardware_tpm''"

subsection \<open>Health states\<close>

definition HealthStateHealthy :: string where [schema_consts]: "HealthStateHealthy = ''Healthy''"
definition HealthStateWarning :: string where [schema_consts]: "HealthStateWarning = ''Warning''"
definition HealthStateDegraded :: string where [schema_consts]: "HealthStateDegraded = ''Degraded''"
definition HealthStateUnschedulable :: string where [schema_consts]: "HealthStateUnschedulable = ''Unschedulable''"
definition HealthStateQuarantined :: string where [schema_consts]: "HealthStateQuarantined = ''Quarantined''"
definition HealthStateUnknown :: string where [schema_consts]: "HealthStateUnknown = ''Unknown''"

subsection \<open>Compatibility classes\<close>

definition ClassArmProduction :: string where [schema_consts]: "ClassArmProduction = ''ArmProduction''"
definition ClassX86HoldingPool :: string where [schema_consts]: "ClassX86HoldingPool = ''X86HoldingPool''"
definition ClassUnsupported :: string where [schema_consts]: "ClassUnsupported = ''Unsupported''"
definition ClassDegraded :: string where [schema_consts]: "ClassDegraded = ''Degraded''"

subsection \<open>Reason codes\<close>

definition ReasonCapKvmOpenable :: string where [schema_consts]: "ReasonCapKvmOpenable = ''CAP_KVM_OPENABLE''"
definition ReasonCapKvmMissing :: string where [schema_consts]: "ReasonCapKvmMissing = ''CAP_KVM_MISSING''"
definition ReasonCapKvmNotOpenablePerms :: string where [schema_consts]: "ReasonCapKvmNotOpenablePerms = ''CAP_KVM_NOT_OPENABLE_PERMS''"
definition ReasonCapQemuBinaryPresent :: string where [schema_consts]: "ReasonCapQemuBinaryPresent = ''CAP_QEMU_BINARY_PRESENT''"
definition ReasonCapQemuBinaryMissing :: string where [schema_consts]: "ReasonCapQemuBinaryMissing = ''CAP_QEMU_BINARY_MISSING''"
definition ReasonCapQemuUnsupportedArch :: string where [schema_consts]: "ReasonCapQemuUnsupportedArch = ''CAP_QEMU_UNSUPPORTED_ARCH''"
definition ReasonCapCloudHypervisorBinaryPresent :: string where [schema_consts]: "ReasonCapCloudHypervisorBinaryPresent = ''CAP_CLOUDHYPERVISOR_BINARY_PRESENT''"
definition ReasonCapCloudHypervisorBinaryMissing :: string where [schema_consts]: "ReasonCapCloudHypervisorBinaryMissing = ''CAP_CLOUDHYPERVISOR_BINARY_MISSING''"
definition ReasonCapCloudHypervisorReady :: string where [schema_consts]: "ReasonCapCloudHypervisorReady = ''CAP_CLOUDHYPERVISOR_READY''"
definition ReasonCapCloudHypervisorPrereqsMissing :: string where [schema_consts]: "ReasonCapCloudHypervisorPrereqsMissing = ''CAP_CLOUDHYPERVISOR_PREREQS_MISSING''"
definition ReasonCapFirecrackerBinaryPresent :: string where [schema_consts]: "ReasonCapFirecrackerBinaryPresent = ''CAP_FIRECRACKER_BINARY_PRESENT''"
definition ReasonCapFirecrackerBinaryMissing :: string where [schema_consts]: "ReasonCapFirecrackerBinaryMissing = ''CAP_FIRECRACKER_BINARY_MISSING''"
definition ReasonCapFirecrackerTunReady :: string where [schema_consts]: "ReasonCapFirecrackerTunReady = ''CAP_FIRECRACKER_TUN_READY''"
definition ReasonCapFirecrackerTunMissing :: string where [schema_consts]: "ReasonCapFirecrackerTunMissing = ''CAP_FIRECRACKER_TUN_MISSING''"
definition ReasonCapFirecrackerCgroupsReady :: string where [schema_consts]: "ReasonCapFirecrackerCgroupsReady = ''CAP_FIRECRACKER_CGROUPS_READY''"
definition ReasonCapFirecrackerCgroupsMissing :: string where [schema_consts]: "ReasonCapFirecrackerCgroupsMissing = ''CAP_FIRECRACKER_CGROUPS_MISSING''"
definition ReasonCapFirecrackerReady :: string where [schema_consts]: "ReasonCapFirecrackerReady = ''CAP_FIRECRACKER_READY''"
definition ReasonCapFirecrackerPrereqsMissing :: string where [schema_consts]: "ReasonCapFirecrackerPrereqsMissing = ''CAP_FIRECRACKER_PREREQS_MISSING''"
definition ReasonRejectArchitectureMismatch :: string where [schema_consts]: "ReasonRejectArchitectureMismatch = ''REJECT_ARCHITECTURE_MISMATCH''"
definition ReasonRejectCompatibilityClassMismatch :: string where [schema_consts]: "ReasonRejectCompatibilityClassMismatch = ''REJECT_COMPATIBILITY_CLASS_MISMATCH''"
definition ReasonRejectMissingKVM :: string where [schema_consts]: "ReasonRejectMissingKVM = ''REJECT_MISSING_KVM''"
definition ReasonRejectMissingTPM :: string where [schema_consts]: "ReasonRejectMissingTPM = ''REJECT_MISSING_TPM''"
definition ReasonRejectNodeUnhealthy :: string where [schema_consts]: "ReasonRejectNodeUnhealthy = ''REJECT_NODE_UNHEALTHY''"
definition ReasonRejectTelemetryStale :: string where [schema_consts]: "ReasonRejectTelemetryStale = ''REJECT_TELEMETRY_STALE''"
definition ReasonRejectForbiddenConstraintPrefix :: string where [schema_consts]: "ReasonRejectForbiddenConstraintPrefix = ''REJECT_FORBIDDEN_CONSTRAINT_''"
definition ReasonErrLaunchArchMismatch :: string where [schema_consts]: "ReasonErrLaunchArchMismatch = ''ERR_LAUNCH_ARCH_MISMATCH''"
definition ReasonErrLaunchBackendNotSupported :: string where [schema_consts]: "ReasonErrLaunchBackendNotSupported = ''ERR_LAUNCH_BACKEND_NOT_SUPPORTED''"
definition ReasonErrLaunchBackendExecutionUnsupported :: string where [schema_consts]: "ReasonErrLaunchBackendExecutionUnsupported = ''ERR_LAUNCH_BACKEND_EXECUTION_UNSUPPORTED''"
definition ReasonErrLaunchMissingArtifact :: string where [schema_consts]: "ReasonErrLaunchMissingArtifact = ''ERR_LAUNCH_MISSING_ARTIFACT''"
definition ReasonErrLaunchInvalidStorageFormat :: string where [schema_consts]: "ReasonErrLaunchInvalidStorageFormat = ''ERR_LAUNCH_INVALID_STORAGE_FORMAT''"
definition ReasonErrLaunchInvalidFirecrackerArtifactModel :: string where [schema_consts]: "ReasonErrLaunchInvalidFirecrackerArtifactModel = ''ERR_LAUNCH_INVALID_FIRECRACKER_ARTIFACT_MODEL''"
definition ReasonErrLaunchMissingCapabilityCloudHypervisor :: string where [schema_consts]: "ReasonErrLaunchMissingCapabilityCloudHypervisor = ''ERR_LAUNCH_MISSING_CAPABILITY_CLOUDHYPERVISOR''"
definition ReasonErrLaunchMissingCapabilityChBinary :: string where [schema_consts]: "ReasonErrLaunchMissingCapabilityChBinary = ''ERR_LAUNCH_MISSING_CAPABILITY_CH_BINARY''"
definition ReasonErrLaunchMissingCapabilityFcBinary :: string where [schema_consts]: "ReasonErrLaunchMissingCapabilityFcBinary = ''ERR_LAUNCH_MISSING_CAPABILITY_FC_BINARY''"
definition ReasonErrLaunchMissingCapabilityFcTun :: string where [schema_consts]: "ReasonErrLaunchMissingCapabilityFcTun = ''ERR_LAUNCH_MISSING_CAPABILITY_FC_TUN''"
definition ReasonErrLaunchMissingCapabilityFcCgroups :: string where [schema_consts]: "ReasonErrLaunchMissingCapabilityFcCgroups = ''ERR_LAUNCH_MISSING_CAPABILITY_FC_CGROUPS''"
definition ReasonErrLaunchMissingCapabilityKvmQemu :: string where [schema_consts]: "ReasonErrLaunchMissingCapabilityKvmQemu = ''ERR_LAUNCH_MISSING_CAPABILITY_KVM_QEMU''"
definition ReasonErrLaunchMissingCapabilityQemuBinary :: string where [schema_consts]: "ReasonErrLaunchMissingCapabilityQemuBinary = ''ERR_LAUNCH_MISSING_CAPABILITY_QEMU_BINARY''"
definition ReasonErrLaunchMissingCapabilitySeccomp :: string where [schema_consts]: "ReasonErrLaunchMissingCapabilitySeccomp = ''ERR_LAUNCH_MISSING_CAPABILITY_SECCOMP''"
definition ReasonErrLaunchMissingCapabilityNamespaces :: string where [schema_consts]: "ReasonErrLaunchMissingCapabilityNamespaces = ''ERR_LAUNCH_MISSING_CAPABILITY_NAMESPACES''"
definition ReasonErrLaunchUnsafeWorkloadID :: string where [schema_consts]: "ReasonErrLaunchUnsafeWorkloadID = ''ERR_LAUNCH_UNSAFE_WORKLOAD_ID''"
definition ReasonErrLaunchRuntimeVersionUnknown :: string where [schema_consts]: "ReasonErrLaunchRuntimeVersionUnknown = ''ERR_LAUNCH_RUNTIME_VERSION_UNKNOWN''"
definition ReasonErrLaunchRuntimeVersionUnparseable :: string where [schema_consts]: "ReasonErrLaunchRuntimeVersionUnparseable = ''ERR_LAUNCH_RUNTIME_VERSION_UNPARSEABLE''"
definition ReasonErrLaunchRuntimeVersionTooOld :: string where [schema_consts]: "ReasonErrLaunchRuntimeVersionTooOld = ''ERR_LAUNCH_RUNTIME_VERSION_TOO_OLD''"
definition ReasonErrLaunchRuntimeVersionMismatch :: string where [schema_consts]: "ReasonErrLaunchRuntimeVersionMismatch = ''ERR_LAUNCH_RUNTIME_VERSION_MISMATCH''"
definition ReasonWarnDeprecatedImageReference :: string where [schema_consts]: "ReasonWarnDeprecatedImageReference = ''WARN_DEPRECATED_IMAGE_REFERENCE''"
definition ReasonWarnDeprecatedNetworkAttachments :: string where [schema_consts]: "ReasonWarnDeprecatedNetworkAttachments = ''WARN_DEPRECATED_NETWORK_ATTACHMENTS''"
definition ReasonErrPreparationFailed :: string where [schema_consts]: "ReasonErrPreparationFailed = ''ERR_PREPARATION_FAILED''"
definition ReasonErrPreparationRequiresNodeAgent :: string where [schema_consts]: "ReasonErrPreparationRequiresNodeAgent = ''ERR_PREPARATION_REQUIRES_NODE_AGENT''"
definition ReasonErrNodeNotFound :: string where [schema_consts]: "ReasonErrNodeNotFound = ''ERR_NODE_NOT_FOUND''"
definition ReasonErrValidationFailed :: string where [schema_consts]: "ReasonErrValidationFailed = ''ERR_VALIDATION_FAILED''"
definition ReasonErrExecRuntimeSpawnFailed :: string where [schema_consts]: "ReasonErrExecRuntimeSpawnFailed = ''ERR_EXEC_RUNTIME_SPAWN_FAILED''"
definition ReasonErrExecRuntimeCrashed :: string where [schema_consts]: "ReasonErrExecRuntimeCrashed = ''ERR_EXEC_RUNTIME_CRASHED''"
definition ReasonErrExecRuntimeExitedEarly :: string where [schema_consts]: "ReasonErrExecRuntimeExitedEarly = ''ERR_EXEC_RUNTIME_EXITED_EARLY''"
definition ReasonErrTermSignalFailed :: string where [schema_consts]: "ReasonErrTermSignalFailed = ''ERR_TERM_SIGNAL_FAILED''"
definition ReasonErrReadyProbeFailed :: string where [schema_consts]: "ReasonErrReadyProbeFailed = ''ERR_READY_PROBE_FAILED''"
definition ReasonErrReadyTimeout :: string where [schema_consts]: "ReasonErrReadyTimeout = ''ERR_READY_TIMEOUT''"
definition ReasonErrReadyQemuSocketTimeout :: string where [schema_consts]: "ReasonErrReadyQemuSocketTimeout = ''ERR_READY_QEMU_SOCKET_TIMEOUT''"
definition ReasonErrReadyCloudHypervisorSocketTimeout :: string where [schema_consts]: "ReasonErrReadyCloudHypervisorSocketTimeout = ''ERR_READY_CLOUDHYPERVISOR_SOCKET_TIMEOUT''"
definition ReasonErrReadyBackendUnsupported :: string where [schema_consts]: "ReasonErrReadyBackendUnsupported = ''ERR_READY_BACKEND_UNSUPPORTED''"
definition ReasonErrReconcileProcessMissing :: string where [schema_consts]: "ReasonErrReconcileProcessMissing = ''ERR_RECONCILE_PROCESS_MISSING''"
definition ReasonErrReconcileStatusUnreadable :: string where [schema_consts]: "ReasonErrReconcileStatusUnreadable = ''ERR_RECONCILE_STATUS_UNREADABLE''"
definition ReasonErrRecoveryExecutionMissing :: string where [schema_consts]: "ReasonErrRecoveryExecutionMissing = ''ERR_RECOVERY_EXECUTION_MISSING''"
definition ReasonErrRecoveryReassociationAmbiguous :: string where [schema_consts]: "ReasonErrRecoveryReassociationAmbiguous = ''ERR_RECOVERY_REASSOCIATION_AMBIGUOUS''"
definition ReasonErrRecoveryRehydrateFailed :: string where [schema_consts]: "ReasonErrRecoveryRehydrateFailed = ''ERR_RECOVERY_REHYDRATE_FAILED''"
definition ReasonErrRecoveryStaleHandle :: string where [schema_consts]: "ReasonErrRecoveryStaleHandle = ''ERR_RECOVERY_STALE_HANDLE''"
definition ReasonRecoveryConfirmed :: string where [schema_consts]: "ReasonRecoveryConfirmed = ''RECOVERY_CONFIRMED''"
definition ReasonRecoveryTerminatedMissing :: string where [schema_consts]: "ReasonRecoveryTerminatedMissing = ''RECOVERY_TERMINATED_MISSING''"
definition ReasonErrOrphanPossibleScheduneProcess :: string where [schema_consts]: "ReasonErrOrphanPossibleScheduneProcess = ''ERR_ORPHAN_POSSIBLE_SCHEDUNE_PROCESS''"
definition ReasonErrOrphanStaleArtifactState :: string where [schema_consts]: "ReasonErrOrphanStaleArtifactState = ''ERR_ORPHAN_STALE_ARTIFACT_STATE''"
definition ReasonErrOrphanUnmanagedBackendProcess :: string where [schema_consts]: "ReasonErrOrphanUnmanagedBackendProcess = ''ERR_ORPHAN_UNMANAGED_BACKEND_PROCESS''"

section \<open>The registry of reason codes\<close>

definition knownReasonCodes :: "string list" where
  "knownReasonCodes =
    [ReasonCapKvmOpenable,
     ReasonCapKvmMissing,
     ReasonCapKvmNotOpenablePerms,
     ReasonCapQemuBinaryPresent,
     ReasonCapQemuBinaryMissing,
     ReasonCapQemuUnsupportedArch,
     ReasonCapCloudHypervisorBinaryPresent,
     ReasonCapCloudHypervisorBinaryMissing,
     ReasonCapCloudHypervisorReady,
     ReasonCapCloudHypervisorPrereqsMissing,
     ReasonCapFirecrackerBinaryPresent,
     ReasonCapFirecrackerBinaryMissing,
     ReasonCapFirecrackerTunReady,
     ReasonCapFirecrackerTunMissing,
     ReasonCapFirecrackerCgroupsReady,
     ReasonCapFirecrackerCgroupsMissing,
     ReasonCapFirecrackerReady,
     ReasonCapFirecrackerPrereqsMissing,
     ReasonRejectArchitectureMismatch,
     ReasonRejectCompatibilityClassMismatch,
     ReasonRejectMissingKVM,
     ReasonRejectMissingTPM,
     ReasonRejectNodeUnhealthy,
     ReasonRejectTelemetryStale,
     ReasonRejectForbiddenConstraintPrefix,
     ReasonErrLaunchArchMismatch,
     ReasonErrLaunchBackendNotSupported,
     ReasonErrLaunchMissingArtifact,
     ReasonErrLaunchInvalidStorageFormat,
     ReasonErrLaunchInvalidFirecrackerArtifactModel,
     ReasonErrLaunchMissingCapabilityCloudHypervisor,
     ReasonErrLaunchMissingCapabilityChBinary,
     ReasonErrLaunchMissingCapabilityFcBinary,
     ReasonErrLaunchMissingCapabilityFcTun,
     ReasonErrLaunchMissingCapabilityFcCgroups,
     ReasonErrLaunchMissingCapabilityKvmQemu,
     ReasonErrLaunchMissingCapabilityQemuBinary,
     ReasonErrLaunchMissingCapabilitySeccomp,
     ReasonErrLaunchMissingCapabilityNamespaces,
     ReasonErrLaunchUnsafeWorkloadID,
     ReasonErrLaunchRuntimeVersionUnknown,
     ReasonErrLaunchRuntimeVersionUnparseable,
     ReasonErrLaunchRuntimeVersionTooOld,
     ReasonErrLaunchRuntimeVersionMismatch,
     ReasonWarnDeprecatedImageReference,
     ReasonWarnDeprecatedNetworkAttachments,
     ReasonErrPreparationFailed,
     ReasonErrNodeNotFound,
     ReasonErrValidationFailed,
     ReasonErrExecRuntimeSpawnFailed,
     ReasonErrExecRuntimeCrashed,
     ReasonErrExecRuntimeExitedEarly,
     ReasonErrTermSignalFailed,
     ReasonErrReadyProbeFailed,
     ReasonErrReadyTimeout,
     ReasonErrReadyQemuSocketTimeout,
     ReasonErrReadyCloudHypervisorSocketTimeout,
     ReasonErrReadyBackendUnsupported,
     ReasonErrReconcileProcessMissing,
     ReasonErrReconcileStatusUnreadable,
     ReasonErrRecoveryExecutionMissing,
     ReasonErrRecoveryReassociationAmbiguous,
     ReasonErrRecoveryRehydrateFailed,
     ReasonErrRecoveryStaleHandle,
     ReasonRecoveryConfirmed,
     ReasonRecoveryTerminatedMissing,
     ReasonErrOrphanPossibleScheduneProcess,
     ReasonErrOrphanStaleArtifactState,
     ReasonErrOrphanUnmanagedBackendProcess]"

definition KnownReasonCodes :: "string list" where
  "KnownReasonCodes = fold (\<lambda>k copied. copied @ [k]) knownReasonCodes []"

definition IsKnownReasonCode :: "string \<Rightarrow> bool" where
  "IsKnownReasonCode code \<longleftrightarrow> List.member knownReasonCodes code"

lemma fold_snoc: "fold (\<lambda>k acc. acc @ [k]) ks acc = acc @ ks"
  by (induction ks arbitrary: acc) auto

lemma KnownReasonCodes_copy: "KnownReasonCodes = knownReasonCodes"
  by (simp add: KnownReasonCodes_def fold_snoc)

text \<open>The prefixes the registry's own test demands.\<close>

definition allowed_reason_prefix :: "string \<Rightarrow> bool" where
  "allowed_reason_prefix code \<longleftrightarrow>
     list_ex (\<lambda>p. take (length p) code = p) [''CAP_'', ''REJECT_'', ''ERR_'', ''WARN_'', ''RECOVERY_'']"

section \<open>The envelope of the node agent\<close>

text \<open>JSON values, as \<^verbatim>\<open>encoding/json\<close> decodes them into an \<^verbatim>\<open>interface{}\<close>.\<close>

datatype json =
    JNull
  | JBool bool
  | JNum int
  | JString string
  | JArray "json list"
  | JObject "(string \<times> json) list"

record CompatibilityClassification =
  cc_Class :: string
  cc_ReasonCodes :: "string list"

record CpuFacts =
  cpu_Architecture :: string
  cpu_Cores :: int
  cpu_VendorID :: string

record MemoryFacts =
  mem_TotalMB :: int

record OsFacts =
  os_Hostname :: string
  os_Name :: string
  os_KernelVersion :: string

record NodeFacts =
  facts_CPU :: CpuFacts
  facts_Memory :: MemoryFacts
  facts_OS :: OsFacts

record NodeCapability =
  nc_Feature :: string
  nc_State :: string
  nc_Provenance :: json
  nc_ReasonCode :: "string option"
  nc_Version :: "string option"
  nc_ObservedAtSec :: int
  nc_StaleAfterSec :: "int option"

record NodeConstraint =
  con_ConstraintType :: string
  con_Code :: string
  con_Description :: string
  con_ObservedValue :: "string option"
  con_ExpectedValue :: "string option"

record ActiveAlarm =
  alarm_Source :: string
  alarm_Severity :: string
  alarm_Code :: string
  alarm_Description :: string
  alarm_RemediationHint :: "string option"
  alarm_TimestampSec :: int

record NodeHealth =
  nh_State :: string
  nh_ActiveAlarms :: "ActiveAlarm list"

record CollectorStatus =
  cs_CollectorName :: string
  cs_Success :: bool
  cs_DurationMs :: int
  cs_ErrorMessage :: "string option"

record SchedulerEnvelope =
  env_SchemaVersion :: string
  env_AgentVersion :: string
  env_CollectionID :: string
  env_TimestampSec :: int
  env_NodeID :: string
  env_Compatibility :: CompatibilityClassification
  env_Facts :: NodeFacts
  env_Capabilities :: "NodeCapability list"
  env_Constraints :: "NodeConstraint list"
  env_Health :: NodeHealth
  env_CollectorStatuses :: "CollectorStatus list"

end
