(* ===== verification/Launch_Schema.thy ===== *)
theory Launch_Schema
  imports Schema
begin

text \<open>
  The request and record types of \<^verbatim>\<open>pkg/schema/workload\<close>, \<^verbatim>\<open>pkg/schema/launch\<close> and
  \<^verbatim>\<open>pkg/schema/plan\<close>. The field prefix names the struct: \<open>intent_\<close> WorkloadIntent, \<open>spec_\<close>
  LaunchSpec, \<open>val_\<close> LaunchValidationResult, \<open>prep_\<close> PreparedLaunch, \<open>rec_\<close> LaunchExecutionRecord,
  \<open>ev_\<close> RuntimeEvent, and so on.
\<close>

section \<open>Workload intents\<close>

record WorkloadIntent =
  intent_SchemaVersion :: string
  intent_WorkloadID :: string
  intent_TenantID :: string
  intent_RuntimeClass :: string
  intent_RequiredArchitecture :: string
  intent_MaxTelemetryAgeSec :: int
  intent_RequiresKVM :: bool
  intent_RequiresTPM :: bool
  intent_KernelImagePath :: string
  intent_RootfsPath :: string
  intent_RuntimeBackendPreference :: string
  intent_AllowBackendFallback :: bool
  intent_ForbiddenConstraints :: "string list"
  intent_RequiredCompatibilityClasses :: "string list"
  intent_PreferredFeatures :: "string list"

section \<open>Launch specifications\<close>

record StorageAttachmentSpec =
  sto_VolumeID :: string
  sto_HostPath :: string
  sto_ReadOnly :: bool
  sto_Format :: string
  sto_MountPoint :: string

record NetworkAttachmentSpec =
  net_NetworkID :: string
  net_Type :: string
  net_HostDevice :: string
  net_MacAddress :: string

record SecurityContextSpec =
  sec_Privileged :: bool
  sec_SeccompProfile :: string
  sec_AppArmorProfile :: string
  sec_DropCapabilities :: "string list"

record RuntimeVersionRequirement =
  req_MinimumVersion :: string
  req_ExactVersion :: string

record LaunchSpec =
  spec_SchemaVersion :: string
  spec_WorkloadID :: string
  spec_TenantID :: string
  spec_NodeID :: string
  spec_RuntimeClass :: string
  spec_Architecture :: string
  spec_ImageReference :: string
  spec_KernelImagePath :: string
  spec_RootfsPath :: string
  spec_NetworkAttachments :: "string list"
  spec_Storage :: "StorageAttachmentSpec list"
  spec_Networks :: "NetworkAttachmentSpec list"
  spec_Security :: "SecurityContextSpec option"
  spec_Vcpu :: int
  spec_MemoryMB :: int
  spec_LaunchMode :: string
  spec_RuntimeBackendPreference :: string
  spec_AllowBackendFallback :: bool
  spec_RuntimeVersion :: "RuntimeVersionRequirement option"

section \<open>Validation results\<close>

record BackendRejectionEvidence =
  bre_Backend :: string
  bre_ReasonCode :: string
  bre_CapabilityName :: "string option"
  bre_CapabilityState :: "string option"
  bre_CapabilityReasonCode :: "string option"
  bre_CapabilityStale :: "bool option"
  bre_Message :: "string option"

record LaunchValidationResult =
  val_IsValid :: bool
  val_SelectedBackend :: string
  val_RejectedBackends :: "(string, string) gomap"
  val_BackendRejectionEvidence :: "BackendRejectionEvidence list"
  val_BlockingReasonCodes :: "string list"
  val_Warnings :: "string list"
  val_RequiredHostFeatures :: "string list"
  val_MissingHostFeatures :: "string list"
  val_RecommendedRuntime :: string
  val_ExplainabilityText :: string
  val_ValidationTrace :: "string list"
  val_RemediationHints :: "(string, string) gomap"

section \<open>Execution records\<close>

text \<open>
  \<^verbatim>\<open>LaunchState\<close> is a Go string type with twelve constants. \<open>StateOther\<close> stands for any other
  string, which a record read back from storage could carry.
\<close>

datatype LaunchState =
    StatePending
  | StatePreparing
  | StateValidated
  | StateLaunching
  | StateStarting
  | StateRunning
  | StateDegraded
  | StateExited
  | StateFailed
  | StateTerminating
  | StateTerminated
  | StateUnknown
  | StateOther string

fun state_name :: "LaunchState \<Rightarrow> string" where
  "state_name StatePending = ''Pending''"
| "state_name StatePreparing = ''Preparing''"
| "state_name StateValidated = ''Validated''"
| "state_name StateLaunching = ''Launching''"
| "state_name StateStarting = ''Starting''"
| "state_name StateRunning = ''Running''"
| "state_name StateDegraded = ''Degraded''"
| "state_name StateExited = ''Exited''"
| "state_name StateFailed = ''Failed''"
| "state_name StateTerminating = ''Terminating''"
| "state_name StateTerminated = ''Terminated''"
| "state_name StateUnknown = ''Unknown''"
| "state_name (StateOther s) = s"

record ExecutionTraceStep =
  step_Stage :: string
  step_Status :: string
  step_ReasonCode :: string
  step_Message :: string
  step_TimestampSec :: int

record PreparedQemuLaunch =
  qemu_BinaryPath :: string
  qemu_ArtifactPath :: string
  qemu_CommandArgs :: "string list"
  qemu_ControlSocketPath :: string

record PreparedCloudHypervisorLaunch =
  ch_BinaryPath :: string
  ch_ArtifactPath :: string
  ch_CommandArgs :: "string list"
  ch_ControlSocketPath :: string

record PreparedFirecrackerLaunch =
  fc_BinaryPath :: string
  fc_KernelImagePath :: string
  fc_RootfsPath :: string
  fc_CommandArgs :: "string list"
  fc_ControlSocketPath :: string

record PreparedLaunch =
  prep_RuntimeBackend :: string
  prep_MemoryMB :: int
  prep_Vcpu :: int
  prep_StartupGraceSec :: int
  prep_KvmQemu :: "PreparedQemuLaunch option"
  prep_CloudHypervisor :: "PreparedCloudHypervisorLaunch option"
  prep_Firecracker :: "PreparedFirecrackerLaunch option"

text \<open>The zero value \<^verbatim>\<open>launch.PreparedLaunch{}\<close>.\<close>

definition zero_PreparedLaunch :: PreparedLaunch where
  "zero_PreparedLaunch =
     \<lparr>prep_RuntimeBackend = '''', prep_MemoryMB = 0, prep_Vcpu = 0, prep_StartupGraceSec = 0,
      prep_KvmQemu = None, prep_CloudHypervisor = None, prep_Firecracker = None\<rparr>"

record ReadinessSignalSummary =
  sig_ControlSocketPath :: string
  sig_ControlSocketExists :: bool
  sig_ControlSocketDialOK :: bool
  sig_BackendReadySignal :: bool
  sig_BackendSignalSource :: string
  sig_StartupGraceElapsed :: bool
  sig_LastObservedAtSec :: int

record LaunchExecutionRecord =
  rec_ExecutionID :: string
  rec_WorkloadID :: string
  rec_NodeID :: string
  rec_Spec :: LaunchSpec
  rec_PreparedState :: "PreparedLaunch option"
  rec_State :: LaunchState
  rec_RuntimeLiveness :: string
  rec_RuntimeReadiness :: string
  rec_CreatedAtSec :: int
  rec_UpdatedAtSec :: int
  rec_StartedAtSec :: "int option"
  rec_ReadyAtSec :: "int option"
  rec_TerminatedAtSec :: "int option"
  rec_PID :: "int option"
  rec_ExitCode :: "int option"
  rec_FailureReasonCode :: "string option"
  rec_Trace :: "ExecutionTraceStep list"
  rec_Generation :: int
  rec_RecoveryEpoch :: string
  rec_LastObservedAtSec :: "int option"
  rec_ReadinessSignal :: "ReadinessSignalSummary option"

text \<open>The zero values \<^verbatim>\<open>launch.LaunchSpec{}\<close> and \<^verbatim>\<open>launch.LaunchExecutionRecord{}\<close>.\<close>

definition zero_LaunchSpec :: LaunchSpec where
  "zero_LaunchSpec =
     \<lparr>spec_SchemaVersion = '''', spec_WorkloadID = '''', spec_TenantID = '''', spec_NodeID = '''',
      spec_RuntimeClass = '''', spec_Architecture = '''', spec_ImageReference = '''',
      spec_KernelImagePath = '''', spec_RootfsPath = '''', spec_NetworkAttachments = [],
      spec_Storage = [], spec_Networks = [], spec_Security = None, spec_Vcpu = 0, spec_MemoryMB = 0,
      spec_LaunchMode = '''', spec_RuntimeBackendPreference = '''', spec_AllowBackendFallback = False,
      spec_RuntimeVersion = None\<rparr>"

definition zero_LaunchExecutionRecord :: LaunchExecutionRecord where
  "zero_LaunchExecutionRecord =
     \<lparr>rec_ExecutionID = '''', rec_WorkloadID = '''', rec_NodeID = '''', rec_Spec = zero_LaunchSpec,
      rec_PreparedState = None, rec_State = StateOther '''', rec_RuntimeLiveness = '''',
      rec_RuntimeReadiness = '''', rec_CreatedAtSec = 0, rec_UpdatedAtSec = 0, rec_StartedAtSec = None,
      rec_ReadyAtSec = None, rec_TerminatedAtSec = None, rec_PID = None, rec_ExitCode = None,
      rec_FailureReasonCode = None, rec_Trace = [], rec_Generation = 0, rec_RecoveryEpoch = '''',
      rec_LastObservedAtSec = None, rec_ReadinessSignal = None\<rparr>"

record LaunchDryRunResult =
  dry_Validation :: LaunchValidationResult
  dry_PreparedLaunch :: "PreparedLaunch option"
  dry_PreparationReasonCode :: "string option"
  dry_PreparationError :: "string option"

section \<open>Readiness views\<close>

record ReadinessSignalView =
  sv_ControlSocketPath :: string
  sv_ControlSocketExists :: bool
  sv_ControlSocketDialOK :: bool
  sv_BackendReadySignal :: bool
  sv_BackendSignalSource :: string

record ReadinessTimingView =
  tv_StartupGraceSec :: int
  tv_StartupGraceElapsed :: bool
  tv_ReadinessTimeoutSec :: int
  tv_ReadinessDeadlineSec :: int
  tv_LastObservedAtSec :: int

record LaunchReadinessResponse =
  lrr_ExecutionID :: string
  lrr_WorkloadID :: string
  lrr_NodeID :: string
  lrr_Backend :: string
  lrr_State :: LaunchState
  lrr_RuntimeLiveness :: string
  lrr_RuntimeReadiness :: string
  lrr_ReasonCode :: string
  lrr_Message :: string
  lrr_Signal :: ReadinessSignalView
  lrr_Timing :: ReadinessTimingView

end
