(* ===== verification/Projection.thy ===== *)
theory Projection
  imports Launch_Schema
begin

text \<open>
  \<^verbatim>\<open>internal/domain/projector.go\<close>: the node record of the control plane and its construction from an
  agent's envelope. The only reading of the clock is the argument \<open>now\<close>. The type assertion
  \<^verbatim>\<open>v.(string)\<close> on a provenance object panics on any other JSON value, so the projection returns a sum
  with the panic on the left.
\<close>

datatype go_panic = InterfaceConversion

record NodeIdentity =
  id_Hostname :: string
  id_Architecture :: string
  id_TotalCores :: int
  id_TotalMemoryMB :: int

record NodeHealthSummary =
  health_State :: string
  health_ActiveAlarms :: "ActiveAlarm list"

record NodeCompatibilityRecord =
  compat_Class :: string
  compat_ReasonCodes :: "string list"

record NodeCapabilityRecord =
  cap_State :: string
  cap_Provenance :: string
  cap_ReasonCode :: string
  cap_Version :: string
  cap_IsStale :: bool

record NodeConstraintRecord =
  cr_ConstraintType :: string
  cr_Description :: string
  cr_ObservedValue :: string
  cr_ExpectedValue :: string

text \<open>\<^verbatim>\<open>LastCollectionTime\<close> is kept as its Unix second, the only thing the code reads of it.\<close>

record NodeFreshnessRecord =
  fresh_LastCollectionID :: string
  fresh_LastCollectionTime :: int
  fresh_IsStale :: bool
  fresh_StaleCollectors :: "string list"

record NodeRecord =
  node_ID :: string
  node_Identity :: NodeIdentity
  node_Health :: NodeHealthSummary
  node_Compatibility :: NodeCompatibilityRecord
  node_Capabilities :: "(string, NodeCapabilityRecord) gomap"
  node_Constraints :: "(string, NodeConstraintRecord) gomap"
  node_Freshness :: NodeFreshnessRecord

section \<open>The loops of ProjectEnvelope\<close>

fun string_or_empty :: "string option \<Rightarrow> string" where
  "string_or_empty None = ''''"
| "string_or_empty (Some s) = s"

definition mark_stale :: "string \<Rightarrow> NodeFreshnessRecord \<Rightarrow> NodeFreshnessRecord" where
  "mark_stale who f =
     f\<lparr>fresh_IsStale := True, fresh_StaleCollectors := fresh_StaleCollectors f @ [who]\<rparr>"

fun project_statuses :: "CollectorStatus list \<Rightarrow> NodeFreshnessRecord \<Rightarrow> NodeFreshnessRecord" where
  "project_statuses [] f = f"
| "project_statuses (st # sts) f =
     project_statuses sts (if \<not> cs_Success st then mark_stale (cs_CollectorName st) f else f)"

text \<open>The loop over a provenance object keeps the entry it visits last.\<close>

fun provenance_entries :: "(string \<times> json) list \<Rightarrow> string \<Rightarrow> go_panic + string" where
  "provenance_entries [] provStr = Inr provStr"
| "provenance_entries ((k, v) # rest) provStr =
     (case v of
        JString s \<Rightarrow> provenance_entries rest (k @ '': '' @ s)
      | _ \<Rightarrow> Inl InterfaceConversion)"

definition provenance_str :: "json \<Rightarrow> go_panic + string" where
  "provenance_str p =
     (case p of
        JObject entries \<Rightarrow> provenance_entries entries ''Observed''
      | JString s \<Rightarrow> Inr s
      | _ \<Rightarrow> Inr ''Observed'')"

definition capability_stale :: "int \<Rightarrow> NodeCapability \<Rightarrow> bool" where
  "capability_stale now c \<longleftrightarrow> (case nc_StaleAfterSec c of None \<Rightarrow> False | Some t \<Rightarrow> t < now)"

fun project_capabilities :: "int \<Rightarrow> NodeCapability list \<Rightarrow> NodeRecord \<Rightarrow> go_panic + NodeRecord" where
  "project_capabilities now [] r = Inr r"
| "project_capabilities now (c # cs) r =
     (let isStale = capability_stale now c;
          r1 = (if isStale
                then r\<lparr>node_Freshness := mark_stale (nc_Feature c @ ''_probe'') (node_Freshness r)\<rparr>
                else r)
      in case provenance_str (nc_Provenance c) of
           Inl p \<Rightarrow> Inl p
         | Inr provStr \<Rightarrow>
             project_capabilities now cs
               (r1\<lparr>node_Capabilities :=
                   mput (nc_Feature c)
                     \<lparr>cap_State = nc_State c, cap_Provenance = provStr,
                      cap_ReasonCode = string_or_empty (nc_ReasonCode c),
                      cap_Version = string_or_empty (nc_Version c), cap_IsStale = isStale\<rparr>
                     (node_Capabilities r1)\<rparr>))"

fun project_constraints ::
    "NodeConstraint list \<Rightarrow> (string, NodeConstraintRecord) gomap \<Rightarrow> (string, NodeConstraintRecord) gomap" where
  "project_constraints [] m = m"
| "project_constraints (c # cs) m =
     project_constraints cs
       (mput (con_Code c)
          \<lparr>cr_ConstraintType = con_ConstraintType c, cr_Description = con_Description c,
           cr_ObservedValue = string_or_empty (con_ObservedValue c),
           cr_ExpectedValue = string_or_empty (con_ExpectedValue c)\<rparr> m)"

definition envelope_too_old :: "int \<Rightarrow> SchedulerEnvelope \<Rightarrow> bool" where
  "envelope_too_old now env \<longleftrightarrow> wrap64 (now - env_TimestampSec env) > 300"

definition initial_record :: "SchedulerEnvelope \<Rightarrow> NodeRecord" where
  "initial_record env =
     \<lparr>node_ID = env_NodeID env,
      node_Identity =
        \<lparr>id_Hostname = os_Hostname (facts_OS (env_Facts env)),
         id_Architecture = cpu_Architecture (facts_CPU (env_Facts env)),
         id_TotalCores = cpu_Cores (facts_CPU (env_Facts env)),
         id_TotalMemoryMB = mem_TotalMB (facts_Memory (env_Facts env))\<rparr>,
      node_Health =
        \<lparr>health_State = nh_State (env_Health env),
         health_ActiveAlarms = nh_ActiveAlarms (env_Health env)\<rparr>,
      node_Compatibility =
        \<lparr>compat_Class = cc_Class (env_Compatibility env),
         compat_ReasonCodes = cc_ReasonCodes (env_Compatibility env)\<rparr>,
      node_Capabilities = [],
      node_Constraints = [],
      node_Freshness =
        \<lparr>fresh_LastCollectionID = env_CollectionID env,
         fresh_LastCollectionTime = env_TimestampSec env,
         fresh_IsStale = False,
         fresh_StaleCollectors = []\<rparr>\<rparr>"

definition ProjectEnvelope :: "int \<Rightarrow> SchedulerEnvelope \<Rightarrow> go_panic + NodeRecord" where
  "ProjectEnvelope now env =
     (let r0 = initial_record env;
          r1 = r0\<lparr>node_Freshness := project_statuses (env_CollectorStatuses env) (node_Freshness r0)\<rparr>
      in case project_capabilities now (env_Capabilities env) r1 of
           Inl p \<Rightarrow> Inl p
         | Inr r2 \<Rightarrow>
             (let r3 = r2\<lparr>node_Constraints :=
                          project_constraints (env_Constraints env) (node_Constraints r2)\<rparr>
              in Inr (if envelope_too_old now env
                      then r3\<lparr>node_Freshness := mark_stale ''GlobalEnvelopeStale'' (node_Freshness r3)\<rparr>
                      else r3)))"

section \<open>What the loops compute\<close>

definition failed_collectors :: "CollectorStatus list \<Rightarrow> string list" where
  "failed_collectors sts = map cs_CollectorName (filter (\<lambda>st. \<not> cs_Success st) sts)"

definition stale_probes :: "int \<Rightarrow> NodeCapability list \<Rightarrow> string list" where
  "stale_probes now cs = map (\<lambda>c. nc_Feature c @ ''_probe'') (filter (capability_stale now) cs)"

definition capability_view :: "int \<Rightarrow> NodeCapability \<Rightarrow> NodeCapabilityRecord" where
  "capability_view now c =
     \<lparr>cap_State = nc_State c,
      cap_Provenance = (case provenance_str (nc_Provenance c) of Inl _ \<Rightarrow> '''' | Inr s \<Rightarrow> s),
      cap_ReasonCode = string_or_empty (nc_ReasonCode c),
      cap_Version = string_or_empty (nc_Version c), cap_IsStale = capability_stale now c\<rparr>"

definition constraint_view :: "NodeConstraint \<Rightarrow> NodeConstraintRecord" where
  "constraint_view c =
     \<lparr>cr_ConstraintType = con_ConstraintType c, cr_Description = con_Description c,
      cr_ObservedValue = string_or_empty (con_ObservedValue c),
      cr_ExpectedValue = string_or_empty (con_ExpectedValue c)\<rparr>"

definition add_stale :: "string list \<Rightarrow> NodeFreshnessRecord \<Rightarrow> NodeFreshnessRecord" where
  "add_stale whos f =
     f\<lparr>fresh_IsStale := (fresh_IsStale f \<or> whos \<noteq> []),
       fresh_StaleCollectors := fresh_StaleCollectors f @ whos\<rparr>"

lemma add_stale_Nil [simp]: "add_stale [] f = f"
  by (simp add: add_stale_def)

lemma mark_stale_add: "mark_stale w f = add_stale [w] f"
  by (simp add: mark_stale_def add_stale_def)

lemma add_stale_add [simp]: "add_stale ys (add_stale xs f) = add_stale (xs @ ys) f"
  by (simp add: add_stale_def)

lemma project_statuses_eq: "project_statuses sts f = add_stale (failed_collectors sts) f"
  by (induction sts arbitrary: f) (auto simp: failed_collectors_def mark_stale_add)

fun put_all :: "('k \<times> 'v) list \<Rightarrow> ('k, 'v) gomap \<Rightarrow> ('k, 'v) gomap" where
  "put_all [] m = m"
| "put_all ((k, v) # kvs) m = put_all kvs (mput k v m)"

lemma put_all_lookup: "mget (put_all kvs m) k = (case map_of (rev kvs) k of None \<Rightarrow> mget m k | Some v \<Rightarrow> Some v)"
  by (induction kvs m rule: put_all.induct) (auto simp: mget_mput map_add_Some_iff split: option.splits)

lemma put_all_keys: "fst ` set (put_all kvs m) = fst ` set kvs \<union> fst ` set m"
  by (induction kvs m rule: put_all.induct) auto

lemma put_all_ok: "gomap_ok m \<Longrightarrow> gomap_ok (put_all kvs m)"
  by (induction kvs m rule: put_all.induct) auto

lemma project_constraints_eq:
  "project_constraints cs m = put_all (map (\<lambda>c. (con_Code c, constraint_view c)) cs) m"
  by (induction cs arbitrary: m) (auto simp: constraint_view_def)

definition provenance_panics :: "NodeCapability \<Rightarrow> bool" where
  "provenance_panics c \<longleftrightarrow>
     (case nc_Provenance c of
        JObject entries \<Rightarrow> list_ex (\<lambda>(k, v). case v of JString _ \<Rightarrow> False | _ \<Rightarrow> True) entries
      | _ \<Rightarrow> False)"

lemma provenance_entries_panics:
  "(\<exists>p. provenance_entries es acc = Inl p) \<longleftrightarrow>
   list_ex (\<lambda>(k, v). case v of JString _ \<Rightarrow> False | _ \<Rightarrow> True) es"
  by (induction es acc rule: provenance_entries.induct) (auto split: json.splits)

lemma provenance_str_panics: "(\<exists>p. provenance_str (nc_Provenance c) = Inl p) \<longleftrightarrow> provenance_panics c"
  by (auto simp: provenance_str_def provenance_panics_def provenance_entries_panics split: json.splits)

lemma project_capabilities_eq:
  "project_capabilities now cs r =
   (if list_ex provenance_panics cs then Inl InterfaceConversion
    else Inr (r\<lparr>node_Capabilities :=
                  put_all (map (\<lambda>c. (nc_Feature c, capability_view now c)) cs) (node_Capabilities r),
                node_Freshness := add_stale (stale_probes now cs) (node_Freshness r)\<rparr>))"
proof (induction cs arbitrary: r)
  case Nil
  then show ?case by (simp add: stale_probes_def)
next
  case (Cons c cs)
  show ?case
  proof (cases "provenance_str (nc_Provenance c)")
    case (Inl p)
    then have "provenance_panics c" using provenance_str_panics by blast
    with Inl show ?thesis by (cases p) simp
  next
    case (Inr s)
    then have "\<not> provenance_panics c"
      using provenance_str_panics [of c] by auto
    with Inr Cons.IH show ?thesis
      by (simp add: stale_probes_def mark_stale_add capability_view_def Let_def)
  qed
qed

section \<open>The projection in closed form\<close>

definition stale_reasons :: "int \<Rightarrow> SchedulerEnvelope \<Rightarrow> string list" where
  "stale_reasons now env =
     failed_collectors (env_CollectorStatuses env) @ stale_probes now (env_Capabilities env) @
     (if envelope_too_old now env then [''GlobalEnvelopeStale''] else [])"

definition projected :: "int \<Rightarrow> SchedulerEnvelope \<Rightarrow> NodeRecord" where
  "projected now env =
     (initial_record env)
       \<lparr>node_Capabilities :=
          put_all (map (\<lambda>c. (nc_Feature c, capability_view now c)) (env_Capabilities env)) [],
        node_Constraints := put_all (map (\<lambda>c. (con_Code c, constraint_view c)) (env_Constraints env)) [],
        node_Freshness := add_stale (stale_reasons now env) (node_Freshness (initial_record env))\<rparr>"

lemma ProjectEnvelope_eq:
  "ProjectEnvelope now env =
   (if list_ex provenance_panics (env_Capabilities env) then Inl InterfaceConversion
    else Inr (projected now env))"
  by (simp add: ProjectEnvelope_def project_statuses_eq project_capabilities_eq project_constraints_eq
      mark_stale_add projected_def stale_reasons_def initial_record_def Let_def)

text \<open>A record as the store holds it: its maps have distinct keys.\<close>

definition node_ok :: "NodeRecord \<Rightarrow> bool" where
  "node_ok n \<longleftrightarrow> gomap_ok (node_Capabilities n) \<and> gomap_ok (node_Constraints n)"

lemma projected_ok: "node_ok (projected now env)"
  by (simp add: node_ok_def projected_def put_all_ok)

lemma projected_capability:
  "mget (node_Capabilities (projected now env)) f =
   map_of (rev (map (\<lambda>c. (nc_Feature c, capability_view now c)) (env_Capabilities env))) f"
  by (simp add: projected_def put_all_lookup split: option.splits)

lemma projected_stale:
  "fresh_IsStale (node_Freshness (projected now env)) \<longleftrightarrow> stale_reasons now env \<noteq> []"
  by (simp add: projected_def add_stale_def initial_record_def)

lemma projected_fields [simp]:
  "node_ID (projected now env) = env_NodeID env"
  "fresh_LastCollectionTime (node_Freshness (projected now env)) = env_TimestampSec env"
  "node_Health (projected now env) = node_Health (initial_record env)"
  "node_Compatibility (projected now env) = node_Compatibility (initial_record env)"
  "node_Identity (projected now env) = node_Identity (initial_record env)"
  by (simp_all add: projected_def add_stale_def initial_record_def)

lemma stale_capability_recorded:
  assumes "mget (node_Capabilities (projected now env)) f = Some c" and "cap_IsStale c"
  shows "f @ ''_probe'' \<in> set (stale_reasons now env)"
proof -
  have "(f, c) \<in> set (map (\<lambda>c. (nc_Feature c, capability_view now c)) (env_Capabilities env))"
    using assms(1) by (auto simp: projected_capability dest: map_of_SomeD)
  with assms(2) show ?thesis
    by (auto simp: stale_reasons_def stale_probes_def capability_view_def)
qed

section \<open>Properties\<close>

text \<open>
  C36: A projected node is stale exactly when a collector failed, a capability outlived its deadline
  or the envelope is more than 300 seconds old; a capability recorded as stale always makes its node
  stale. The node's maps have distinct keys.
\<close>
theorem projection_staleness:
  assumes "ProjectEnvelope now env = Inr n"
  shows "(fresh_IsStale (node_Freshness n) \<longleftrightarrow>
            (\<exists>st\<in>set (env_CollectorStatuses env). \<not> cs_Success st) \<or>
            (\<exists>c\<in>set (env_Capabilities env). capability_stale now c) \<or>
            wrap64 (now - env_TimestampSec env) > 300) \<and>
         (\<forall>f c. mget (node_Capabilities n) f = Some c \<and> cap_IsStale c \<longrightarrow>
            f @ ''_probe'' \<in> set (fresh_StaleCollectors (node_Freshness n)) \<and>
            fresh_IsStale (node_Freshness n)) \<and>
         node_ok n"
proof -
  have n: "n = projected now env"
    using assms by (simp add: ProjectEnvelope_eq split: if_splits)
  have collectors: "fresh_StaleCollectors (node_Freshness n) = stale_reasons now env"
    by (simp add: n projected_def add_stale_def initial_record_def)
  have "f @ ''_probe'' \<in> set (stale_reasons now env)"
    if "mget (node_Capabilities n) f = Some c" "cap_IsStale c" for f c
    using that stale_capability_recorded unfolding n by blast
  moreover have "stale_reasons now env \<noteq> [] \<longleftrightarrow>
      (\<exists>st\<in>set (env_CollectorStatuses env). \<not> cs_Success st) \<or>
      (\<exists>c\<in>set (env_Capabilities env). capability_stale now c) \<or>
      wrap64 (now - env_TimestampSec env) > 300"
    by (auto simp: stale_reasons_def failed_collectors_def stale_probes_def envelope_too_old_def
        filter_empty_conv)
  ultimately show ?thesis
    using collectors projected_stale [of now env] projected_ok [of now env] unfolding n by fastforce
qed

definition sample_capability :: "string \<Rightarrow> NodeCapability" where
  "sample_capability f =
     \<lparr>nc_Feature = f, nc_State = ''Supported'', nc_Provenance = JString ''probe'', nc_ReasonCode = None,
      nc_Version = Some ''8.2.1'', nc_ObservedAtSec = 1000, nc_StaleAfterSec = Some 2000\<rparr>"

definition sample_envelope :: SchedulerEnvelope where
  "sample_envelope =
     \<lparr>env_SchemaVersion = ''1'', env_AgentVersion = ''1'', env_CollectionID = ''c'', env_TimestampSec = 1000,
      env_NodeID = ''n1'',
      env_Compatibility = \<lparr>cc_Class = ''ArmProduction'', cc_ReasonCodes = []\<rparr>,
      env_Facts = \<lparr>facts_CPU = \<lparr>cpu_Architecture = ''x86_64'', cpu_Cores = 4, cpu_VendorID = ''''\<rparr>,
        facts_Memory = \<lparr>mem_TotalMB = 8192\<rparr>,
        facts_OS = \<lparr>os_Hostname = ''h'', os_Name = ''linux'', os_KernelVersion = ''6''\<rparr>\<rparr>,
      env_Capabilities = [sample_capability ''kvm_vm_launch'', sample_capability ''qemu_binary_present''],
      env_Constraints = [], env_Health = \<lparr>nh_State = ''Healthy'', nh_ActiveAlarms = []\<rparr>,
      env_CollectorStatuses = []\<rparr>"

lemma sample_envelope_fields [simp]:
  "env_NodeID sample_envelope = ''n1''" "env_TimestampSec sample_envelope = 1000"
  "env_CollectorStatuses sample_envelope = []" "env_Constraints sample_envelope = []"
  "env_Health sample_envelope = \<lparr>nh_State = ''Healthy'', nh_ActiveAlarms = []\<rparr>"
  "env_Compatibility sample_envelope = \<lparr>cc_Class = ''ArmProduction'', cc_ReasonCodes = []\<rparr>"
  "env_Capabilities sample_envelope =
     [sample_capability ''kvm_vm_launch'', sample_capability ''qemu_binary_present'']"
  "cpu_Architecture (facts_CPU (env_Facts sample_envelope)) = ''x86_64''"
  by (simp_all add: sample_envelope_def)

lemma sample_projects: "ProjectEnvelope now sample_envelope = Inr (projected now sample_envelope)"
  by (simp add: ProjectEnvelope_eq provenance_panics_def sample_capability_def)

theorem projection_staleness_witness:
  "fresh_IsStale (node_Freshness (projected 2500 sample_envelope)) \<and>
   \<not> fresh_IsStale (node_Freshness (projected 1100 sample_envelope))"
  using projection_staleness [OF sample_projects, of 2500] projection_staleness [OF sample_projects, of 1100]
  by (simp add: sample_capability_def capability_stale_def wrap64_def)

text \<open>
  C37: Projection panics exactly when the provenance of some capability is an object with a value
  that is not a string. Otherwise the record of a feature is that of its last occurrence in the
  envelope, and features that do not occur have none.
\<close>
theorem projection_capabilities:
  "case ProjectEnvelope now env of
     Inl p \<Rightarrow> list_ex provenance_panics (env_Capabilities env)
   | Inr n \<Rightarrow> \<not> list_ex provenance_panics (env_Capabilities env) \<and>
       (\<forall>f. mget (node_Capabilities n) f =
          map_option (capability_view now) (find (\<lambda>c. nc_Feature c = f) (rev (env_Capabilities env))))"
proof -
  have find: "map_of (map (\<lambda>c. (nc_Feature c, capability_view now c)) cs) f =
      map_option (capability_view now) (find (\<lambda>c. nc_Feature c = f) cs)" for cs f
    by (induction cs) auto
  show ?thesis
    by (auto simp: ProjectEnvelope_eq projected_capability rev_map find)
qed

text \<open>
  C40: Envelope age and 64-bit wrap-around. For a clock after 1970 an envelope counts as too old
  exactly when it is more than 300 seconds behind the clock and the difference still fits into 64
  bits: a timestamp so far in the past that the subtraction wraps around passes as fresh.
\<close>
theorem envelope_age:
  assumes "0 \<le> now" and "is_int64 now" and "is_int64 (env_TimestampSec env)"
  shows "envelope_too_old now env \<longleftrightarrow>
           now - env_TimestampSec env > 300 \<and> now - env_TimestampSec env < 2 ^ 63"
proof (cases "now - env_TimestampSec env < 2 ^ 63")
  case True
  with assms have "is_int64 (now - env_TimestampSec env)" by (simp add: is_int64_def)
  with True show ?thesis by (simp add: envelope_too_old_def wrap64_id)
next
  case False
  with assms have "wrap64 (now - env_TimestampSec env) = now - env_TimestampSec env - 2 ^ 64"
    by (intro wrap64_over) (auto simp: is_int64_def)
  with False assms show ?thesis by (simp add: envelope_too_old_def is_int64_def)
qed

theorem envelope_age_witness:
  "\<not> envelope_too_old 1700000000 (sample_envelope\<lparr>env_TimestampSec := - (2 ^ 63)\<rparr>) \<and>
   envelope_too_old 1700000000 sample_envelope"
  using envelope_age [of 1700000000 "sample_envelope\<lparr>env_TimestampSec := - (2 ^ 63)\<rparr>"]
    envelope_age [of 1700000000 sample_envelope]
  by (simp add: is_int64_def)

end
