(* ===== verification/Eligibility.thy ===== *)
theory Eligibility
  imports Projection
begin

text \<open>
  \<^verbatim>\<open>internal/domain/evaluate.go\<close> (the evaluation of a workload intent against a node) and
  \<^verbatim>\<open>internal/domain/eligibility.go\<close> (the questions the explain endpoint answers). The one reading of
  the clock in \<^verbatim>\<open>Evaluate\<close> is the argument \<open>now\<close>; the difference of seconds wraps at 64 bits.
\<close>

record EligibilityResult =
  er_NodeID :: string
  er_IsEligible :: bool
  er_HardRejectionCodes :: "string list"
  er_FreshnessOK :: bool
  er_CompatibilityOK :: bool
  er_HealthOK :: bool
  er_MatchedFeatures :: "string list"
  er_Warnings :: "string list"

section \<open>Evaluate\<close>

definition hard_reject :: "string \<Rightarrow> EligibilityResult \<Rightarrow> EligibilityResult" where
  "hard_reject code r =
     r\<lparr>er_IsEligible := False, er_HardRejectionCodes := er_HardRejectionCodes r @ [code]\<rparr>"

definition capability_supported :: "NodeRecord \<Rightarrow> string \<Rightarrow> bool" where
  "capability_supported node f \<longleftrightarrow>
     (case mget (node_Capabilities node) f of None \<Rightarrow> False | Some cap \<Rightarrow> cap_State cap = ''Supported'')"

definition health_acceptable :: "NodeRecord \<Rightarrow> bool" where
  "health_acceptable node \<longleftrightarrow>
     health_State (node_Health node) = ''Healthy'' \<or> health_State (node_Health node) = ''Warning''"

definition telemetry_fresh :: "int \<Rightarrow> WorkloadIntent \<Rightarrow> NodeRecord \<Rightarrow> bool" where
  "telemetry_fresh now intent node \<longleftrightarrow>
     wrap64 (now - fresh_LastCollectionTime (node_Freshness node)) \<le> intent_MaxTelemetryAgeSec intent \<and>
     \<not> fresh_IsStale (node_Freshness node)"

fun forbidden_inner :: "string \<Rightarrow> string list \<Rightarrow> EligibilityResult \<Rightarrow> EligibilityResult" where
  "forbidden_inner forbidden [] r = r"
| "forbidden_inner forbidden (code # codes) r =
     forbidden_inner forbidden codes
       (if forbidden = code then hard_reject (ReasonRejectForbiddenConstraintPrefix @ code) r else r)"

fun forbidden_outer :: "string list \<Rightarrow> string list \<Rightarrow> EligibilityResult \<Rightarrow> EligibilityResult" where
  "forbidden_outer [] codes r = r"
| "forbidden_outer (f # fs) codes r = forbidden_outer fs codes (forbidden_inner f codes r)"

fun match_preferred :: "NodeRecord \<Rightarrow> string list \<Rightarrow> EligibilityResult \<Rightarrow> EligibilityResult" where
  "match_preferred node [] r = r"
| "match_preferred node (pref # prefs) r =
     match_preferred node prefs
       (if capability_supported node pref
        then r\<lparr>er_MatchedFeatures := er_MatchedFeatures r @ [pref]\<rparr> else r)"

definition reject_unless :: "bool \<Rightarrow> string \<Rightarrow> EligibilityResult \<Rightarrow> EligibilityResult" where
  "reject_unless ok code r = (if \<not> ok then hard_reject code r else r)"

definition warn_alarms :: "NodeRecord \<Rightarrow> EligibilityResult \<Rightarrow> EligibilityResult" where
  "warn_alarms node r =
     (if health_ActiveAlarms (node_Health node) \<noteq> []
      then r\<lparr>er_Warnings := er_Warnings r @ [''Node has active operational alarms'']\<rparr> else r)"

definition Evaluate :: "int \<Rightarrow> WorkloadIntent \<Rightarrow> NodeRecord \<Rightarrow> EligibilityResult" where
  "Evaluate now intent node =
     (let r0 = \<lparr>er_NodeID = node_ID node, er_IsEligible = True, er_HardRejectionCodes = [],
                er_FreshnessOK = False, er_CompatibilityOK = False, er_HealthOK = False,
                er_MatchedFeatures = [], er_Warnings = []\<rparr>;
          healthOK = health_acceptable node;
          r1 = reject_unless healthOK ReasonRejectNodeUnhealthy (r0\<lparr>er_HealthOK := healthOK\<rparr>);
          freshnessOK = telemetry_fresh now intent node;
          r2 = reject_unless freshnessOK ReasonRejectTelemetryStale (r1\<lparr>er_FreshnessOK := freshnessOK\<rparr>);
          r3 = reject_unless
                 (\<not> (intent_RequiredArchitecture intent \<noteq> ''any'' \<and>
                     intent_RequiredArchitecture intent \<noteq> id_Architecture (node_Identity node)))
                 ReasonRejectArchitectureMismatch r2;
          compatibilityOK = list_ex (\<lambda>reqClass. reqClass = compat_Class (node_Compatibility node))
                              (intent_RequiredCompatibilityClasses intent);
          r4 = reject_unless compatibilityOK ReasonRejectCompatibilityClassMismatch
                 (r3\<lparr>er_CompatibilityOK := compatibilityOK\<rparr>);
          r5 = reject_unless (\<not> (intent_RequiresKVM intent \<and> \<not> capability_supported node ''kvm_vm_launch''))
                 ReasonRejectMissingKVM r4;
          r6 = reject_unless (\<not> (intent_RequiresTPM intent \<and> \<not> capability_supported node ''hardware_tpm''))
                 ReasonRejectMissingTPM r5;
          r7 = forbidden_outer (intent_ForbiddenConstraints intent) (map fst (node_Constraints node)) r6;
          r8 = match_preferred node (intent_PreferredFeatures intent) r7
      in warn_alarms node r8)"

section \<open>The evaluation in closed form\<close>

text \<open>The hard requirements of an intent, each with its code, in the order of evaluation.\<close>

definition hard_codes :: "int \<Rightarrow> WorkloadIntent \<Rightarrow> NodeRecord \<Rightarrow> string list" where
  "hard_codes now intent node =
     (if health_acceptable node then [] else [ReasonRejectNodeUnhealthy]) @
     (if telemetry_fresh now intent node then [] else [ReasonRejectTelemetryStale]) @
     (if intent_RequiredArchitecture intent = ''any'' \<or>
         intent_RequiredArchitecture intent = id_Architecture (node_Identity node)
      then [] else [ReasonRejectArchitectureMismatch]) @
     (if compat_Class (node_Compatibility node) \<in> set (intent_RequiredCompatibilityClasses intent)
      then [] else [ReasonRejectCompatibilityClassMismatch]) @
     (if intent_RequiresKVM intent \<longrightarrow> capability_supported node ''kvm_vm_launch''
      then [] else [ReasonRejectMissingKVM]) @
     (if intent_RequiresTPM intent \<longrightarrow> capability_supported node ''hardware_tpm''
      then [] else [ReasonRejectMissingTPM]) @
     map (\<lambda>f. ReasonRejectForbiddenConstraintPrefix @ f)
       (filter (\<lambda>f. f \<in> fst ` set (node_Constraints node)) (intent_ForbiddenConstraints intent))"

lemma list_ex_eq_mem: "list_ex (\<lambda>y. y = x) xs \<longleftrightarrow> x \<in> set xs"
  by (auto simp: list_ex_iff)

definition add_codes :: "string list \<Rightarrow> EligibilityResult \<Rightarrow> EligibilityResult" where
  "add_codes cs r =
     r\<lparr>er_IsEligible := (er_IsEligible r \<and> cs = []),
       er_HardRejectionCodes := er_HardRejectionCodes r @ cs\<rparr>"

lemma add_codes_Nil [simp]: "add_codes [] r = r"
  by (simp add: add_codes_def)

lemma hard_reject_add: "hard_reject c r = add_codes [c] r"
  by (simp add: hard_reject_def add_codes_def)

lemma reject_unless_add: "reject_unless ok c r = add_codes (if ok then [] else [c]) r"
  by (simp add: reject_unless_def hard_reject_add)

lemma warn_alarms_eq:
  "warn_alarms node r =
   r\<lparr>er_Warnings := er_Warnings r @ (if health_ActiveAlarms (node_Health node) = [] then []
                                        else [''Node has active operational alarms''])\<rparr>"
  by (simp add: warn_alarms_def)

lemma add_codes_add [simp]: "add_codes ys (add_codes xs r) = add_codes (xs @ ys) r"
  by (simp add: add_codes_def)

lemma forbidden_inner_none: "f \<notin> set codes \<Longrightarrow> forbidden_inner f codes r = r"
  by (induction f codes r rule: forbidden_inner.induct) auto

lemma forbidden_inner_eq:
  assumes "distinct codes"
  shows "forbidden_inner f codes r =
    (if f \<in> set codes then hard_reject (ReasonRejectForbiddenConstraintPrefix @ f) r else r)"
  using assms
  by (induction f codes r rule: forbidden_inner.induct) (auto simp: forbidden_inner_none)

lemma forbidden_outer_eq:
  assumes "distinct codes"
  shows "forbidden_outer fs codes r =
    add_codes (map (\<lambda>f. ReasonRejectForbiddenConstraintPrefix @ f) (filter (\<lambda>f. f \<in> set codes) fs)) r"
  by (induction fs arbitrary: r) (auto simp: forbidden_inner_eq [OF assms] hard_reject_add)

lemma match_preferred_eq:
  "match_preferred node prefs r =
   r\<lparr>er_MatchedFeatures := er_MatchedFeatures r @ filter (capability_supported node) prefs\<rparr>"
  by (induction node prefs r rule: match_preferred.induct) auto

lemma add_codes_commute:
  "(add_codes cs r)\<lparr>er_HealthOK := b\<rparr> = add_codes cs (r\<lparr>er_HealthOK := b\<rparr>)"
  "(add_codes cs r)\<lparr>er_FreshnessOK := b\<rparr> = add_codes cs (r\<lparr>er_FreshnessOK := b\<rparr>)"
  "(add_codes cs r)\<lparr>er_CompatibilityOK := b\<rparr> = add_codes cs (r\<lparr>er_CompatibilityOK := b\<rparr>)"
  "(add_codes cs r)\<lparr>er_MatchedFeatures := fs\<rparr> = add_codes cs (r\<lparr>er_MatchedFeatures := fs\<rparr>)"
  "(add_codes cs r)\<lparr>er_Warnings := ws\<rparr> = add_codes cs (r\<lparr>er_Warnings := ws\<rparr>)"
  "er_MatchedFeatures (add_codes cs r) = er_MatchedFeatures r"
  "er_Warnings (add_codes cs r) = er_Warnings r"
  by (simp_all add: add_codes_def)

lemma Evaluate_add_codes:
  assumes "node_ok node"
  shows "Evaluate now intent node =
    add_codes (hard_codes now intent node)
    \<lparr>er_NodeID = node_ID node, er_IsEligible = True, er_HardRejectionCodes = [],
     er_FreshnessOK = telemetry_fresh now intent node,
     er_CompatibilityOK =
       (compat_Class (node_Compatibility node) \<in> set (intent_RequiredCompatibilityClasses intent)),
     er_HealthOK = health_acceptable node,
     er_MatchedFeatures = filter (capability_supported node) (intent_PreferredFeatures intent),
     er_Warnings = (if health_ActiveAlarms (node_Health node) = [] then []
                    else [''Node has active operational alarms''])\<rparr>"
proof -
  have d: "distinct (map fst (node_Constraints node))"
    using assms by (simp add: node_ok_def gomap_ok_def)
  show ?thesis
    unfolding Evaluate_def Let_def forbidden_outer_eq [OF d] match_preferred_eq reject_unless_add
      warn_alarms_eq list_ex_eq_mem add_codes_commute add_codes_add append_assoc hard_codes_def
    by (simp only: set_map image_comp de_Morgan_conj not_not imp_conv_disj
        EligibilityResult.simps append_Nil)
qed

lemma Evaluate_eq:
  assumes "node_ok node"
  shows "Evaluate now intent node =
    \<lparr>er_NodeID = node_ID node, er_IsEligible = (hard_codes now intent node = []),
     er_HardRejectionCodes = hard_codes now intent node,
     er_FreshnessOK = telemetry_fresh now intent node,
     er_CompatibilityOK =
       (compat_Class (node_Compatibility node) \<in> set (intent_RequiredCompatibilityClasses intent)),
     er_HealthOK = health_acceptable node,
     er_MatchedFeatures = filter (capability_supported node) (intent_PreferredFeatures intent),
     er_Warnings = (if health_ActiveAlarms (node_Health node) = [] then []
                    else [''Node has active operational alarms''])\<rparr>"
  by (simp add: Evaluate_add_codes [OF assms] add_codes_def)

lemma hard_codes_Nil:
  "hard_codes now intent node = [] \<longleftrightarrow>
     health_acceptable node \<and> telemetry_fresh now intent node \<and>
     (intent_RequiredArchitecture intent = ''any'' \<or>
      intent_RequiredArchitecture intent = id_Architecture (node_Identity node)) \<and>
     compat_Class (node_Compatibility node) \<in> set (intent_RequiredCompatibilityClasses intent) \<and>
     (intent_RequiresKVM intent \<longrightarrow> capability_supported node ''kvm_vm_launch'') \<and>
     (intent_RequiresTPM intent \<longrightarrow> capability_supported node ''hardware_tpm'') \<and>
     set (intent_ForbiddenConstraints intent) \<inter> fst ` set (node_Constraints node) = {}"
  by (auto simp: hard_codes_def filter_empty_conv)

lemma Evaluate_NodeID [simp]: "node_ok node \<Longrightarrow> er_NodeID (Evaluate now intent node) = node_ID node"
  by (simp add: Evaluate_eq)

lemma Evaluate_eligible:
  "node_ok node \<Longrightarrow> er_IsEligible (Evaluate now intent node) \<longleftrightarrow> hard_codes now intent node = []"
  by (simp add: Evaluate_eq)

section \<open>The eligibility engine\<close>

text \<open>Supported and not stale: the condition of the engine, and of every launch check.\<close>

definition capability_usable :: "NodeRecord \<Rightarrow> string \<Rightarrow> bool" where
  "capability_usable node f \<longleftrightarrow>
     (case mget (node_Capabilities node) f of
        None \<Rightarrow> False | Some cap \<Rightarrow> cap_State cap = ''Supported'' \<and> \<not> cap_IsStale cap)"

definition CanRunKVMVMs :: "NodeRecord \<Rightarrow> bool" where
  "CanRunKVMVMs node \<longleftrightarrow> capability_usable node ''kvm_virtualization''"

definition CanRunFirecrackerMicroVMs :: "NodeRecord \<Rightarrow> bool" where
  "CanRunFirecrackerMicroVMs node \<longleftrightarrow> CanRunKVMVMs node"

definition CanJoinArmProductionPool :: "NodeRecord \<Rightarrow> bool" where
  "CanJoinArmProductionPool node \<longleftrightarrow>
     compat_Class (node_Compatibility node) = ''ArmProduction'' \<and>
     health_State (node_Health node) = ''Healthy'' \<and> \<not> fresh_IsStale (node_Freshness node)"

definition IsOnlyEligibleForHoldingPool :: "NodeRecord \<Rightarrow> bool" where
  "IsOnlyEligibleForHoldingPool node \<longleftrightarrow>
     compat_Class (node_Compatibility node) = ''X86HoldingPool'' \<and>
     health_State (node_Health node) = ''Healthy''"

definition IsFreshEnoughToTrust :: "NodeRecord \<Rightarrow> bool" where
  "IsFreshEnoughToTrust node \<longleftrightarrow> \<not> fresh_IsStale (node_Freshness node)"

definition IsHealthyButPolicyIneligible :: "NodeRecord \<Rightarrow> bool" where
  "IsHealthyButPolicyIneligible node \<longleftrightarrow>
     health_State (node_Health node) = ''Healthy'' \<and>
     compat_Class (node_Compatibility node) = ''Unsupported''"

section \<open>Properties\<close>

text \<open>
  C29: A node is eligible for an intent exactly when it is healthy enough, its telemetry is fresh,
  its architecture and compatibility class are accepted, it supports KVM and a TPM where they are
  required, and it carries none of the forbidden constraints. The hard rejection codes are empty in
  exactly that case, and the three summary flags tell the truth.
\<close>
theorem evaluate_eligible_iff:
  assumes "node_ok node"
  shows "(er_IsEligible (Evaluate now intent node) \<longleftrightarrow>
            health_acceptable node \<and> telemetry_fresh now intent node \<and>
            (intent_RequiredArchitecture intent = ''any'' \<or>
             intent_RequiredArchitecture intent = id_Architecture (node_Identity node)) \<and>
            compat_Class (node_Compatibility node) \<in> set (intent_RequiredCompatibilityClasses intent) \<and>
            (intent_RequiresKVM intent \<longrightarrow> capability_supported node ''kvm_vm_launch'') \<and>
            (intent_RequiresTPM intent \<longrightarrow> capability_supported node ''hardware_tpm'') \<and>
            set (intent_ForbiddenConstraints intent) \<inter> fst ` set (node_Constraints node) = {}) \<and>
         (er_IsEligible (Evaluate now intent node) \<longleftrightarrow>
            er_HardRejectionCodes (Evaluate now intent node) = []) \<and>
         er_HealthOK (Evaluate now intent node) = health_acceptable node \<and>
         er_FreshnessOK (Evaluate now intent node) = telemetry_fresh now intent node \<and>
         er_CompatibilityOK (Evaluate now intent node) =
           (compat_Class (node_Compatibility node) \<in> set (intent_RequiredCompatibilityClasses intent)) \<and>
         er_MatchedFeatures (Evaluate now intent node) =
           filter (capability_supported node) (intent_PreferredFeatures intent)"
  using assms by (simp add: Evaluate_eq hard_codes_Nil)

definition sample_intent :: WorkloadIntent where
  "sample_intent =
     \<lparr>intent_SchemaVersion = ''1'', intent_WorkloadID = ''wl-1'', intent_TenantID = ''t'',
      intent_RuntimeClass = ''VirtualMachine'', intent_RequiredArchitecture = ''any'',
      intent_MaxTelemetryAgeSec = 60, intent_RequiresKVM = True, intent_RequiresTPM = False,
      intent_KernelImagePath = '''', intent_RootfsPath = '''', intent_RuntimeBackendPreference = '''',
      intent_AllowBackendFallback = False, intent_ForbiddenConstraints = [''no_gpu''],
      intent_RequiredCompatibilityClasses = [''ArmProduction''],
      intent_PreferredFeatures = [''qemu_binary_present'']\<rparr>"

definition sample_node :: NodeRecord where
  "sample_node = projected 1010 sample_envelope"

lemma sample_node_ok [simp]: "node_ok sample_node"
  by (simp add: sample_node_def projected_ok)

lemma sample_node_fields [simp]:
  "node_ID sample_node = ''n1''" "node_Constraints sample_node = []"
  "health_State (node_Health sample_node) = ''Healthy''"
  "health_ActiveAlarms (node_Health sample_node) = []"
  "compat_Class (node_Compatibility sample_node) = ''ArmProduction''"
  "id_Architecture (node_Identity sample_node) = ''x86_64''"
  "fresh_LastCollectionTime (node_Freshness sample_node) = 1000"
  "\<not> fresh_IsStale (node_Freshness sample_node)"
  using projected_stale [of 1010 sample_envelope]
  by (simp_all add: sample_node_def initial_record_def projected_def stale_reasons_def
      failed_collectors_def stale_probes_def capability_stale_def envelope_too_old_def wrap64_def
      sample_capability_def)

lemma sample_node_capability:
  "mget (node_Capabilities sample_node) f =
     (if f = ''kvm_vm_launch'' \<or> f = ''qemu_binary_present''
      then Some \<lparr>cap_State = ''Supported'', cap_Provenance = ''probe'', cap_ReasonCode = '''',
                 cap_Version = ''8.2.1'', cap_IsStale = False\<rparr> else None)"
  by (simp add: sample_node_def projected_capability capability_view_def sample_capability_def
      provenance_str_def capability_stale_def)

theorem evaluate_eligible_iff_witness:
  "er_IsEligible (Evaluate 1030 sample_intent sample_node) \<and>
   \<not> er_IsEligible (Evaluate 1100 sample_intent sample_node)"
  using evaluate_eligible_iff [OF sample_node_ok, of 1030 sample_intent]
    evaluate_eligible_iff [OF sample_node_ok, of 1100 sample_intent]
  by (simp add: health_acceptable_def telemetry_fresh_def sample_intent_def capability_supported_def
      sample_node_capability wrap64_def)

end
