(* ===== verification/Event_Schema.thy ===== *)
theory Event_Schema
  imports Launch_Schema
begin

text \<open>
  The append-only event stream of \<^verbatim>\<open>pkg/schema/launch\<close> with its payloads, the summaries built from
  records and events, and the orphan records of \<^verbatim>\<open>internal/domain/orphan_policy.go\<close> (an event may
  carry one). Prefixes: \<open>orph_\<close> OrphanRecord, \<open>filter_\<close> OrphanFilter, \<open>pl_\<close> and \<open>pr_\<close> the lifecycle
  and reconcile payloads, \<open>ev_\<close> RuntimeEvent.
\<close>

section \<open>Orphans\<close>

datatype OrphanClassification =
    OrphanUnmanagedBackendProcess
  | OrphanPossiblyManagedButUnlinked
  | OrphanStaleExecutionArtifact
  | OrphanUnknownRuntimeProcess

fun classification_name :: "OrphanClassification \<Rightarrow> string" where
  "classification_name OrphanUnmanagedBackendProcess = ''UnmanagedBackendProcess''"
| "classification_name OrphanPossiblyManagedButUnlinked = ''PossiblyManagedButUnlinked''"
| "classification_name OrphanStaleExecutionArtifact = ''StaleExecutionArtifact''"
| "classification_name OrphanUnknownRuntimeProcess = ''UnknownRuntimeProcess''"

datatype OrphanStatus = OrphanStatusActive | OrphanStatusDisappeared | OrphanStatusReclassified

fun orphan_status_name :: "OrphanStatus \<Rightarrow> string" where
  "orphan_status_name OrphanStatusActive = ''Active''"
| "orphan_status_name OrphanStatusDisappeared = ''Disappeared''"
| "orphan_status_name OrphanStatusReclassified = ''Reclassified''"

record OrphanRecord =
  orph_OrphanID :: string
  orph_Backend :: string
  orph_PID :: int
  orph_PPID :: "int option"
  orph_Command :: string
  orph_CommandArgs :: "string list"
  orph_CommandFingerprint :: string
  orph_ExecutionIDHint :: string
  orph_WorkloadIDHint :: string
  orph_Classification :: OrphanClassification
  orph_Status :: OrphanStatus
  orph_ReasonCode :: string
  orph_FirstSeenAtSec :: int
  orph_LastSeenAtSec :: int
  orph_NodeID :: string
  orph_RecoveryEpoch :: string
  orph_Details :: "(string \<times> json) list"

record OrphanFilter =
  filter_Backend :: string
  filter_Status :: string
  filter_Classification :: string

section \<open>Events\<close>

record EventPayloadLifecycle =
  pl_ExecutionID :: string
  pl_WorkloadID :: string
  pl_NodeID :: string
  pl_Backend :: string
  pl_State :: LaunchState
  pl_Message :: string

record EventPayloadReconcile =
  pr_ExecutionID :: string
  pr_NodeID :: string
  pr_BeforeState :: LaunchState
  pr_AfterState :: LaunchState
  pr_BeforeLiveness :: string
  pr_AfterLiveness :: string
  pr_BeforeReadiness :: string
  pr_AfterReadiness :: string
  pr_ExitCode :: "int option"
  pr_Signal :: "ReadinessSignalSummary option"

text \<open>
  The values the code stores in the \<^verbatim>\<open>interface{}\<close> payload: a lifecycle or reconcile payload, the
  one-entry message map of the recovery bootstrap, or an orphan record.
\<close>

datatype EventPayload =
    PayloadLifecycle EventPayloadLifecycle
  | PayloadReconcile EventPayloadReconcile
  | PayloadMessage string
  | PayloadOrphan OrphanRecord

text \<open>The event-type constants, and the four literals the recovery package uses.\<close>

datatype EventType =
    EventTypeExecutionCreated
  | EventTypeValidationFailed
  | EventTypeValidationPassed
  | EventTypePreparationFailed
  | EventTypePreparationPassed
  | EventTypeRuntimeSpawnFailed
  | EventTypeRuntimeSpawned
  | EventTypeDryRunCompleted
  | EventTypeTerminationRequested
  | EventTypeTerminationFailed
  | EventTypeTerminated
  | EventTypeReconcileStateChanged
  | EventExecutionRehydrated
  | EventExecutionRecoveryUnknown
  | EventOrphanDetected
  | EventOrphanReclassified

record RuntimeEvent =
  ev_EventID :: string
  ev_ExecutionID :: string
  ev_EventType :: EventType
  ev_TimestampSec :: int
  ev_ReasonCode :: string
  ev_PayloadJSON :: "EventPayload option"

record ExecutionSummary =
  sum_ExecutionID :: string
  sum_WorkloadID :: string
  sum_NodeID :: string
  sum_State :: LaunchState
  sum_RuntimeLiveness :: string
  sum_RuntimeReadiness :: string
  sum_CreatedAtSec :: int

record ExecutionObservation =
  eo_Summary :: ExecutionSummary
  eo_PreparedWith :: "PreparedLaunch option"
  eo_Readiness :: LaunchReadinessResponse
  eo_Trace :: "ExecutionTraceStep list"
  eo_RecentEvents :: "RuntimeEvent list"

end
