(* ===== verification/Stores.thy ===== *)
theory Stores
  imports Eligibility Event_Schema
begin

text \<open>
  The two stores. \<^verbatim>\<open>internal/store/memory.go\<close> keeps nodes, raw envelopes and executions in maps; its
  mutex makes each operation atomic, so an operation is a function on the store. The SQL store of
  \<^verbatim>\<open>internal/store/sqlite\<close> is modelled by its three tables as lists of rows, and each statement by
  what SQL documents of it: the upsert on the primary key, the filters and the order. A statement
  may fail; the error the driver returns for it is the argument \<open>flt\<close>, and a statement that fails
  changes nothing. A JSON column holds the value itself: encoding and decoding a record is the
  identity (a nil and an empty slice are the same list).
\<close>

section \<open>The in-memory store\<close>

record InMemoryStore =
  mem_nodes :: "(string, NodeRecord) gomap"
  mem_rawEnvelopes :: "(string, SchedulerEnvelope) gomap"
  mem_executions :: "(string, LaunchExecutionRecord) gomap"

definition NewInMemoryStore :: InMemoryStore where
  "NewInMemoryStore = \<lparr>mem_nodes = [], mem_rawEnvelopes = [], mem_executions = []\<rparr>"

definition mem_SaveExecution :: "LaunchExecutionRecord \<Rightarrow> InMemoryStore \<Rightarrow> InMemoryStore" where
  "mem_SaveExecution rec s = s\<lparr>mem_executions := mput (rec_ExecutionID rec) rec (mem_executions s)\<rparr>"

definition mem_GetExecution ::
    "string \<Rightarrow> InMemoryStore \<Rightarrow> LaunchExecutionRecord \<times> bool \<times> go_error option" where
  "mem_GetExecution i s =
     (case mget (mem_executions s) i of
        None \<Rightarrow> (zero_LaunchExecutionRecord, False, Some ''execution not found'')
      | Some rec \<Rightarrow> (rec, True, None))"

definition SaveNodeState :: "SchedulerEnvelope \<Rightarrow> NodeRecord \<Rightarrow> InMemoryStore \<Rightarrow> InMemoryStore" where
  "SaveNodeState env record s =
     s\<lparr>mem_rawEnvelopes := mput (env_NodeID env) env (mem_rawEnvelopes s),
       mem_nodes := mput (node_ID record) record (mem_nodes s)\<rparr>"

definition zero_NodeRecord :: NodeRecord where
  "zero_NodeRecord =
     \<lparr>node_ID = '''',
      node_Identity = \<lparr>id_Hostname = '''', id_Architecture = '''', id_TotalCores = 0, id_TotalMemoryMB = 0\<rparr>,
      node_Health = \<lparr>health_State = '''', health_ActiveAlarms = []\<rparr>,
      node_Compatibility = \<lparr>compat_Class = '''', compat_ReasonCodes = []\<rparr>,
      node_Capabilities = [], node_Constraints = [],
      node_Freshness = \<lparr>fresh_LastCollectionID = '''', fresh_LastCollectionTime = - 62135596800,
        fresh_IsStale = False, fresh_StaleCollectors = []\<rparr>\<rparr>"

definition GetNode :: "string \<Rightarrow> InMemoryStore \<Rightarrow> NodeRecord \<times> go_error option" where
  "GetNode i s =
     (case mget (mem_nodes s) i of
        Some node \<Rightarrow> (node, None)
      | None \<Rightarrow> (zero_NodeRecord, Some ''node not found''))"

definition ListAllNodes :: "InMemoryStore \<Rightarrow> NodeRecord list" where
  "ListAllNodes s = map snd (mem_nodes s)"

definition ListNodesByCompatibility :: "string \<Rightarrow> InMemoryStore \<Rightarrow> NodeRecord list" where
  "ListNodesByCompatibility cls s =
     filter (\<lambda>node. compat_Class (node_Compatibility node) = cls) (map snd (mem_nodes s))"

definition eligible_for :: "string \<Rightarrow> NodeRecord \<Rightarrow> bool" where
  "eligible_for runtimeClass node \<longleftrightarrow>
     (if runtimeClass = ''kvm'' then CanRunKVMVMs node
      else if runtimeClass = ''firecracker'' then CanRunFirecrackerMicroVMs node
      else if runtimeClass = ''arm-prod'' then CanJoinArmProductionPool node
      else if runtimeClass = ''x86-holding'' then IsOnlyEligibleForHoldingPool node
      else False)"

definition ListNodesEligibleFor :: "string \<Rightarrow> InMemoryStore \<Rightarrow> NodeRecord list" where
  "ListNodesEligibleFor runtimeClass s = filter (eligible_for runtimeClass) (map snd (mem_nodes s))"

definition ListStaleNodes :: "InMemoryStore \<Rightarrow> NodeRecord list" where
  "ListStaleNodes s = filter (\<lambda>node. fresh_IsStale (node_Freshness node)) (map snd (mem_nodes s))"

text \<open>What the store keeps of its maps: distinct keys, and each node under its own id.\<close>

definition mem_ok :: "InMemoryStore \<Rightarrow> bool" where
  "mem_ok s \<longleftrightarrow>
     gomap_ok (mem_nodes s) \<and> gomap_ok (mem_rawEnvelopes s) \<and> gomap_ok (mem_executions s) \<and>
     (\<forall>(i, n)\<in>set (mem_nodes s). node_ID n = i \<and> node_ok n)"

lemma mem_ok_new [simp]: "mem_ok NewInMemoryStore"
  by (simp add: mem_ok_def NewInMemoryStore_def)

lemma set_mput: "gomap_ok m \<Longrightarrow> (k', v') \<in> set (mput k v m) \<Longrightarrow> (k', v') = (k, v) \<or> (k', v') \<in> set m"
  by (induction m) (auto simp: gomap_ok_def split: if_splits)

lemma mem_ok_SaveNodeState: "mem_ok s \<Longrightarrow> node_ok n \<Longrightarrow> mem_ok (SaveNodeState env n s)"
  by (auto simp: mem_ok_def SaveNodeState_def dest!: set_mput)

lemma mem_ok_SaveExecution: "mem_ok s \<Longrightarrow> mem_ok (mem_SaveExecution rec s)"
  by (simp add: mem_ok_def mem_SaveExecution_def)

lemma ListAllNodes_ids: "mem_ok s \<Longrightarrow> map node_ID (ListAllNodes s) = map fst (mem_nodes s)"
  by (auto simp: mem_ok_def ListAllNodes_def)

lemma ListAllNodes_distinct: "mem_ok s \<Longrightarrow> distinct (map node_ID (ListAllNodes s))"
  by (simp add: ListAllNodes_ids) (simp add: mem_ok_def gomap_ok_def)

lemma ListAllNodes_ok: "mem_ok s \<Longrightarrow> n \<in> set (ListAllNodes s) \<Longrightarrow> node_ok n"
  by (auto simp: mem_ok_def ListAllNodes_def)

lemma ListAllNodes_get: "mem_ok s \<Longrightarrow> n \<in> set (ListAllNodes s) \<Longrightarrow> GetNode (node_ID n) s = (n, None)"
proof -
  assume ok: "mem_ok s" and "n \<in> set (ListAllNodes s)"
  then obtain i where i: "(i, n) \<in> set (mem_nodes s)" by (auto simp: ListAllNodes_def)
  with ok have "node_ID n = i" and "distinct (map fst (mem_nodes s))"
    by (auto simp: mem_ok_def gomap_ok_def)
  with i show ?thesis by (simp add: GetNode_def)
qed

section \<open>The SQL tables\<close>

record execution_row =
  row_execution_id :: string
  row_workload_id :: string
  row_node_id :: string
  row_state :: string
  row_created_at_sec :: int
  row_updated_at_sec :: int
  row_payload :: LaunchExecutionRecord

record SQLiteStore =
  db_executions :: "execution_row list"
  db_events :: "RuntimeEvent list"
  db_orphans :: "OrphanRecord list"

text \<open>\<^verbatim>\<open>INSERT ... ON CONFLICT(key) DO UPDATE\<close>: \<open>merge old new\<close> is the row after the update.\<close>

fun upsert :: "('r \<Rightarrow> 'k) \<Rightarrow> ('r \<Rightarrow> 'r \<Rightarrow> 'r) \<Rightarrow> 'r \<Rightarrow> 'r list \<Rightarrow> 'r list" where
  "upsert key merge r [] = [r]"
| "upsert key merge r (x # xs) =
     (if key x = key r then merge x r # xs else x # upsert key merge r xs)"

definition row_of :: "LaunchExecutionRecord \<Rightarrow> execution_row" where
  "row_of rec =
     \<lparr>row_execution_id = rec_ExecutionID rec, row_workload_id = rec_WorkloadID rec,
      row_node_id = rec_NodeID rec, row_state = state_name (rec_State rec),
      row_created_at_sec = rec_CreatedAtSec rec, row_updated_at_sec = rec_UpdatedAtSec rec,
      row_payload = rec\<rparr>"

definition merge_execution :: "execution_row \<Rightarrow> execution_row \<Rightarrow> execution_row" where
  "merge_execution old excluded =
     old\<lparr>row_state := row_state excluded, row_updated_at_sec := row_updated_at_sec excluded,
         row_payload := row_payload excluded\<rparr>"

subsection \<open>Executions\<close>

definition SaveExecution ::
    "go_error option \<Rightarrow> LaunchExecutionRecord \<Rightarrow> SQLiteStore \<Rightarrow> go_error option \<times> SQLiteStore" where
  "SaveExecution flt rec db =
     (case flt of
        Some err \<Rightarrow> (Some err, db)
      | None \<Rightarrow> (None, db\<lparr>db_executions :=
                  upsert row_execution_id merge_execution (row_of rec) (db_executions db)\<rparr>))"

definition GetExecution ::
    "go_error option \<Rightarrow> string \<Rightarrow> SQLiteStore \<Rightarrow> LaunchExecutionRecord \<times> bool \<times> go_error option" where
  "GetExecution flt executionID db =
     (case flt of
        Some err \<Rightarrow> (zero_LaunchExecutionRecord, False, Some err)
      | None \<Rightarrow>
          (case find (\<lambda>row. row_execution_id row = executionID) (db_executions db) of
             None \<Rightarrow> (zero_LaunchExecutionRecord, False, None)
           | Some row \<Rightarrow> (row_payload row, True, None)))"

definition listByStateCondition ::
    "go_error option \<Rightarrow> (execution_row \<Rightarrow> bool) \<Rightarrow> SQLiteStore \<Rightarrow> go_error + LaunchExecutionRecord list" where
  "listByStateCondition flt condition db =
     (case flt of
        Some err \<Rightarrow> Inl err
      | None \<Rightarrow> Inr (map row_payload (filter condition (db_executions db))))"

definition state_not_terminal :: "execution_row \<Rightarrow> bool" where
  "state_not_terminal row \<longleftrightarrow> row_state row \<notin> {''Failed'', ''Terminated'', ''Exited''}"

definition ListActiveExecutions ::
    "go_error option \<Rightarrow> SQLiteStore \<Rightarrow> go_error + LaunchExecutionRecord list" where
  "ListActiveExecutions flt db = listByStateCondition flt state_not_terminal db"

definition ListExecutions ::
    "go_error option \<Rightarrow> SQLiteStore \<Rightarrow> go_error + LaunchExecutionRecord list" where
  "ListExecutions flt db = listByStateCondition flt (\<lambda>_. True) db"

definition ListRecoverableExecutions ::
    "go_error option \<Rightarrow> SQLiteStore \<Rightarrow> go_error + LaunchExecutionRecord list" where
  "ListRecoverableExecutions flt db = listByStateCondition flt state_not_terminal db"

subsection \<open>Events\<close>

definition AppendEvent ::
    "go_error option \<Rightarrow> RuntimeEvent \<Rightarrow> SQLiteStore \<Rightarrow> go_error option \<times> SQLiteStore" where
  "AppendEvent flt ev db =
     (case flt of
        Some err \<Rightarrow> (Some err, db)
      | None \<Rightarrow>
          if list_ex (\<lambda>e. ev_EventID e = ev_EventID ev) (db_events db)
          then (Some ''UNIQUE constraint failed: events.event_id'', db)
          else (None, db\<lparr>db_events := db_events db @ [ev]\<rparr>))"

text \<open>\<^verbatim>\<open>ORDER BY timestamp_sec ASC\<close>; events of one second stay in the order of insertion.\<close>

definition ListEvents ::
    "go_error option \<Rightarrow> string \<Rightarrow> SQLiteStore \<Rightarrow> go_error + RuntimeEvent list" where
  "ListEvents flt executionID db =
     (case flt of
        Some err \<Rightarrow> Inl err
      | None \<Rightarrow> Inr (sort_key ev_TimestampSec (filter (\<lambda>e. ev_ExecutionID e = executionID) (db_events db))))"

subsection \<open>Orphans\<close>

definition merge_orphan :: "OrphanRecord \<Rightarrow> OrphanRecord \<Rightarrow> OrphanRecord" where
  "merge_orphan old excluded =
     old\<lparr>orph_PID := orph_PID excluded, orph_PPID := orph_PPID excluded,
         orph_Classification := orph_Classification excluded, orph_Status := orph_Status excluded,
         orph_ReasonCode := orph_ReasonCode excluded, orph_LastSeenAtSec := orph_LastSeenAtSec excluded,
         orph_RecoveryEpoch := orph_RecoveryEpoch excluded, orph_Details := orph_Details excluded\<rparr>"

definition UpsertOrphan ::
    "go_error option \<Rightarrow> OrphanRecord \<Rightarrow> SQLiteStore \<Rightarrow> go_error option \<times> SQLiteStore" where
  "UpsertOrphan flt rec db =
     (case flt of
        Some err \<Rightarrow> (Some err, db)
      | None \<Rightarrow> (None, db\<lparr>db_orphans := upsert orph_OrphanID merge_orphan rec (db_orphans db)\<rparr>))"

text \<open>The record returned with a false flag is read by no caller; it is left out.\<close>

definition GetOrphan :: "go_error option \<Rightarrow> string \<Rightarrow> SQLiteStore \<Rightarrow> go_error + OrphanRecord option" where
  "GetOrphan flt orphanID db =
     (case flt of
        Some err \<Rightarrow> Inl err
      | None \<Rightarrow> Inr (find (\<lambda>r. orph_OrphanID r = orphanID) (db_orphans db)))"

definition filter_accepts :: "OrphanFilter \<Rightarrow> OrphanRecord \<Rightarrow> bool" where
  "filter_accepts f r \<longleftrightarrow>
     (filter_Backend f \<noteq> '''' \<longrightarrow> orph_Backend r = filter_Backend f) \<and>
     (filter_Status f \<noteq> '''' \<longrightarrow> orphan_status_name (orph_Status r) = filter_Status f) \<and>
     (filter_Classification f \<noteq> '''' \<longrightarrow>
        classification_name (orph_Classification r) = filter_Classification f)"

definition ListOrphans ::
    "go_error option \<Rightarrow> OrphanFilter \<Rightarrow> SQLiteStore \<Rightarrow> go_error + OrphanRecord list" where
  "ListOrphans flt f db =
     (case flt of
        Some err \<Rightarrow> Inl err
      | None \<Rightarrow> Inr (filter (filter_accepts f) (db_orphans db)))"

definition MarkMissingAsDisappeared ::
    "go_error option \<Rightarrow> string list \<Rightarrow> int \<Rightarrow> SQLiteStore \<Rightarrow> go_error option \<times> SQLiteStore" where
  "MarkMissingAsDisappeared flt observedOrphanIDs nowSec db =
     (case flt of
        Some err \<Rightarrow> (Some err, db)
      | None \<Rightarrow> (None, db\<lparr>db_orphans := map (\<lambda>r.
            if orph_Status r = OrphanStatusActive \<and>
               (observedOrphanIDs = [] \<or> orph_OrphanID r \<notin> set observedOrphanIDs)
            then r\<lparr>orph_Status := OrphanStatusDisappeared, orph_LastSeenAtSec := nowSec\<rparr> else r)
          (db_orphans db)\<rparr>))"

section \<open>The tables as maps\<close>

definition key_view :: "('r \<Rightarrow> string) \<Rightarrow> 'r list \<Rightarrow> string \<Rightarrow> 'r option" where
  "key_view key rows k = find (\<lambda>r. key r = k) rows"

lemma key_view_Nil [simp]: "key_view key [] k = None"
  by (simp add: key_view_def)

lemma key_view_Cons [simp]:
  "key_view key (r # rows) k = (if key r = k then Some r else key_view key rows k)"
  by (simp add: key_view_def)

lemma key_view_upsert:
  assumes "\<And>old new. key (merge old new) = key old"
  shows "key_view key (upsert key merge r rows) k =
    (if k = key r then Some (case key_view key rows k of None \<Rightarrow> r | Some old \<Rightarrow> merge old r)
     else key_view key rows k)"
  using assms by (induction key merge r rows rule: upsert.induct) auto

lemma upsert_keys:
  assumes "\<And>old new. key (merge old new) = key old"
  shows "map key (upsert key merge r rows) =
    (if key r \<in> set (map key rows) then map key rows else map key rows @ [key r])"
  using assms by (induction key merge r rows rule: upsert.induct) auto

lemma upsert_distinct:
  assumes "\<And>old new. key (merge old new) = key old" and "distinct (map key rows)"
  shows "distinct (map key (upsert key merge r rows))"
proof -
  have "map key (upsert key merge r rows) =
    (if key r \<in> set (map key rows) then map key rows else map key rows @ [key r])"
    by (rule upsert_keys) (rule assms(1))
  then show ?thesis using assms(2) by (simp split: if_splits)
qed

lemma key_view_Some: "key_view key rows k = Some r \<Longrightarrow> r \<in> set rows \<and> key r = k"
  by (induction rows) (auto split: if_splits)

lemma key_view_in: "distinct (map key rows) \<Longrightarrow> r \<in> set rows \<Longrightarrow> key_view key rows (key r) = Some r"
  by (induction rows) (auto dest: imageI)

lemma key_view_map:
  assumes "\<And>r. key (f r) = key r"
  shows "key_view key (map f rows) k = map_option f (key_view key rows k)"
  using assms by (induction rows) auto

text \<open>A database the program has written: distinct keys, and the columns of an execution agree with it.\<close>

definition row_ok :: "execution_row \<Rightarrow> bool" where
  "row_ok row \<longleftrightarrow>
     row_execution_id row = rec_ExecutionID (row_payload row) \<and>
     row_state row = state_name (rec_State (row_payload row))"

definition db_ok :: "SQLiteStore \<Rightarrow> bool" where
  "db_ok db \<longleftrightarrow>
     distinct (map row_execution_id (db_executions db)) \<and> list_all row_ok (db_executions db) \<and>
     distinct (map ev_EventID (db_events db)) \<and> distinct (map orph_OrphanID (db_orphans db))"

definition execution_view :: "SQLiteStore \<Rightarrow> string \<Rightarrow> LaunchExecutionRecord option" where
  "execution_view db i = map_option row_payload (key_view row_execution_id (db_executions db) i)"

definition orphan_view :: "SQLiteStore \<Rightarrow> string \<Rightarrow> OrphanRecord option" where
  "orphan_view db i = key_view orph_OrphanID (db_orphans db) i"

lemma merge_execution_key [simp]: "row_execution_id (merge_execution old r) = row_execution_id old"
  by (simp add: merge_execution_def)

lemma merge_orphan_key [simp]: "orph_OrphanID (merge_orphan old r) = orph_OrphanID old"
  by (simp add: merge_orphan_def)

lemma row_of_simps [simp]:
  "row_execution_id (row_of rec) = rec_ExecutionID rec" "row_payload (row_of rec) = rec"
  "row_state (row_of rec) = state_name (rec_State rec)" "row_ok (row_of rec)"
  by (simp_all add: row_of_def row_ok_def)

lemma upsert_row_ok:
  "list_all row_ok rows \<Longrightarrow>
   list_all row_ok (upsert row_execution_id merge_execution (row_of rec) rows)"
  by (induction rows) (auto simp: row_ok_def merge_execution_def)

lemma SaveExecution_ok: "db_ok db \<Longrightarrow> db_ok (snd (SaveExecution flt rec db))"
  by (cases flt) (simp_all add: SaveExecution_def db_ok_def upsert_distinct upsert_row_ok)

lemma SaveExecution_view:
  "execution_view (snd (SaveExecution flt rec db)) i =
     (if flt = None \<and> i = rec_ExecutionID rec then Some rec else execution_view db i)"
  by (cases flt)
    (auto simp: SaveExecution_def execution_view_def key_view_upsert merge_execution_def
      split: option.splits)

lemma SaveExecution_err [simp]: "fst (SaveExecution flt rec db) = flt"
  by (cases flt) (simp_all add: SaveExecution_def)

lemma GetExecution_view:
  "GetExecution flt i db =
     (case flt of
        Some err \<Rightarrow> (zero_LaunchExecutionRecord, False, Some err)
      | None \<Rightarrow> (case execution_view db i of
            None \<Rightarrow> (zero_LaunchExecutionRecord, False, None) | Some rec \<Rightarrow> (rec, True, None)))"
  by (auto simp: GetExecution_def execution_view_def key_view_def split: option.splits)

lemma AppendEvent_ok: "db_ok db \<Longrightarrow> db_ok (snd (AppendEvent flt ev db))"
  by (cases flt) (auto simp: AppendEvent_def db_ok_def list_ex_iff)

lemma AppendEvent_views [simp]:
  "execution_view (snd (AppendEvent flt ev db)) = execution_view db"
  "orphan_view (snd (AppendEvent flt ev db)) = orphan_view db"
  by (cases flt; auto simp: AppendEvent_def execution_view_def orphan_view_def)+

lemma ListRecoverable_view:
  assumes "db_ok db"
  shows "ListRecoverableExecutions None db = Inr recs \<Longrightarrow>
    distinct (map rec_ExecutionID recs) \<and>
    (\<forall>rec. rec \<in> set recs \<longleftrightarrow> execution_view db (rec_ExecutionID rec) = Some rec \<and>
       state_name (rec_State rec) \<notin> {''Failed'', ''Terminated'', ''Exited''})"
proof -
  assume "ListRecoverableExecutions None db = Inr recs"
  then have recs: "recs = map row_payload (filter state_not_terminal (db_executions db))"
    by (simp add: ListRecoverableExecutions_def listByStateCondition_def)
  have dist: "distinct (map row_execution_id (db_executions db))"
    and ok: "\<forall>row\<in>set (db_executions db). row_ok row"
    using assms by (auto simp: db_ok_def list_all_iff)
  have "map rec_ExecutionID recs = map row_execution_id (filter state_not_terminal (db_executions db))"
    using ok by (auto simp: recs row_ok_def)
  then have "distinct (map rec_ExecutionID recs)" using dist by (simp add: distinct_map_filter)
  moreover have "rec \<in> set recs \<longleftrightarrow> execution_view db (rec_ExecutionID rec) = Some rec \<and>
       state_name (rec_State rec) \<notin> {''Failed'', ''Terminated'', ''Exited''}" for rec
  proof
    assume "rec \<in> set recs"
    then obtain row where row: "row \<in> set (db_executions db)" "state_not_terminal row" "rec = row_payload row"
      by (auto simp: recs)
    with key_view_in [OF dist row(1)] ok show "execution_view db (rec_ExecutionID rec) = Some rec \<and>
       state_name (rec_State rec) \<notin> {''Failed'', ''Terminated'', ''Exited''}"
      by (auto simp: execution_view_def row_ok_def state_not_terminal_def)
  next
    assume "execution_view db (rec_ExecutionID rec) = Some rec \<and>
       state_name (rec_State rec) \<notin> {''Failed'', ''Terminated'', ''Exited''}"
    then obtain row where "key_view row_execution_id (db_executions db) (rec_ExecutionID rec) = Some row"
      "rec = row_payload row" and "state_name (rec_State rec) \<notin> {''Failed'', ''Terminated'', ''Exited''}"
      by (auto simp: execution_view_def)
    with key_view_Some [of row_execution_id "db_executions db"] ok show "rec \<in> set recs"
      by (force simp: recs row_ok_def state_not_terminal_def)
  qed
  ultimately show ?thesis by blast
qed

end
