(* ===== verification/Version.thy ===== *)
theory Version
  imports Launch_Schema "HOL-Library.Product_Lexorder"
begin

text \<open>
  \<^verbatim>\<open>internal/domain/version.go\<close>: finding the first \<open>d.d\<close> or \<open>d.d.d\<close> in a version banner, comparing
  versions, and checking a requested minimum or exact version. The regular expression
  \<^verbatim>\<open>(\d+)\.(\d+)(?:\.(\d+))?\<close> is matched leftmost and greedily, as Go's \<^verbatim>\<open>regexp\<close> does: a match starts
  at the first digit of a maximal run of digits, because a run is followed by no digit.
\<close>

record parsedVersion =
  pv_major :: int
  pv_minor :: int
  pv_patch :: int

section \<open>The version pattern\<close>

text \<open>The sub-matches of a match that starts at the head of \<open>s\<close>; an absent third group is empty.\<close>

definition versionRegex_at :: "string \<Rightarrow> (string \<times> string \<times> string) option" where
  "versionRegex_at s =
     (let d1 = takeWhile is_digit s; r1 = dropWhile is_digit s in
      case r1 of
        CHR ''.'' # r2 \<Rightarrow>
          (let d2 = takeWhile is_digit r2; r3 = dropWhile is_digit r2 in
           if d1 = [] \<or> d2 = [] then None
           else Some (d1, d2, case r3 of CHR ''.'' # r4 \<Rightarrow> takeWhile is_digit r4 | _ \<Rightarrow> []))
      | _ \<Rightarrow> None)"

fun versionRegex_find :: "string \<Rightarrow> (string \<times> string \<times> string) option" where
  "versionRegex_find [] = None"
| "versionRegex_find (c # cs) =
     (case versionRegex_at (c # cs) of Some m \<Rightarrow> Some m | None \<Rightarrow> versionRegex_find cs)"

definition parseVersion :: "string \<Rightarrow> parsedVersion option" where
  "parseVersion raw =
     (case versionRegex_find raw of
        None \<Rightarrow> None
      | Some (m1, m2, m3) \<Rightarrow>
          (case Atoi m1 of
             None \<Rightarrow> None
           | Some major \<Rightarrow>
               (case Atoi m2 of
                  None \<Rightarrow> None
                | Some minor \<Rightarrow>
                    (if m3 \<noteq> '''' then
                       (case Atoi m3 of
                          None \<Rightarrow> None
                        | Some patch \<Rightarrow> Some \<lparr>pv_major = major, pv_minor = minor, pv_patch = patch\<rparr>)
                     else Some \<lparr>pv_major = major, pv_minor = minor, pv_patch = 0\<rparr>))))"

definition compareVersions :: "parsedVersion \<Rightarrow> parsedVersion \<Rightarrow> int" where
  "compareVersions a b =
     (if pv_major a \<noteq> pv_major b then (if pv_major a < pv_major b then - 1 else 1)
      else if pv_minor a \<noteq> pv_minor b then (if pv_minor a < pv_minor b then - 1 else 1)
      else if pv_patch a \<noteq> pv_patch b then (if pv_patch a < pv_patch b then - 1 else 1)
      else 0)"

text \<open>
  The two results of \<^verbatim>\<open>checkVersionRequirement\<close> are the flag and the reason code. The checks after
  the two early returns are those on the exact version, then those on the minimum version.
\<close>

definition checkVersionRequirement ::
    "string \<Rightarrow> RuntimeVersionRequirement option \<Rightarrow> bool \<times> string" where
  "checkVersionRequirement observedRaw reqp =
     (case reqp of
        None \<Rightarrow> (True, '''')
      | Some req \<Rightarrow>
          if req_MinimumVersion req = '''' \<and> req_ExactVersion req = '''' then (True, '''')
          else if observedRaw = '''' then (False, ReasonErrLaunchRuntimeVersionUnknown)
          else
            (case parseVersion observedRaw of
               None \<Rightarrow> (False, ReasonErrLaunchRuntimeVersionUnparseable)
             | Some observed \<Rightarrow>
                 (let exactCheck =
                        (if req_ExactVersion req = '''' then None
                         else case parseVersion (req_ExactVersion req) of
                                None \<Rightarrow> Some ReasonErrLaunchRuntimeVersionUnparseable
                              | Some exact \<Rightarrow>
                                  if compareVersions observed exact \<noteq> 0
                                  then Some ReasonErrLaunchRuntimeVersionMismatch else None);
                      minCheck =
                        (if req_MinimumVersion req = '''' then None
                         else case parseVersion (req_MinimumVersion req) of
                                None \<Rightarrow> Some ReasonErrLaunchRuntimeVersionUnparseable
                              | Some mn \<Rightarrow>
                                  if compareVersions observed mn < 0
                                  then Some ReasonErrLaunchRuntimeVersionTooOld else None)
                  in case exactCheck of
                       Some code \<Rightarrow> (False, code)
                     | None \<Rightarrow> (case minCheck of Some code \<Rightarrow> (False, code) | None \<Rightarrow> (True, '''')))))"

section \<open>The order of versions\<close>

text \<open>
  Versions are ordered by major, minor and patch number, in that order; \<^verbatim>\<open>compareVersions\<close> is the
  three-way comparison of this order.
\<close>

instantiation parsedVersion_ext :: (linorder) linorder
begin

definition less_eq_parsedVersion_ext :: "'a parsedVersion_scheme \<Rightarrow> 'a parsedVersion_scheme \<Rightarrow> bool" where
  "less_eq_parsedVersion_ext a b \<longleftrightarrow>
     (pv_major a, pv_minor a, pv_patch a, parsedVersion.more a) \<le>
     (pv_major b, pv_minor b, pv_patch b, parsedVersion.more b)"

definition less_parsedVersion_ext :: "'a parsedVersion_scheme \<Rightarrow> 'a parsedVersion_scheme \<Rightarrow> bool" where
  "less_parsedVersion_ext a b \<longleftrightarrow>
     (pv_major a, pv_minor a, pv_patch a, parsedVersion.more a) <
     (pv_major b, pv_minor b, pv_patch b, parsedVersion.more b)"

instance
proof
  fix a b c :: "'a parsedVersion_scheme"
  show "a < b \<longleftrightarrow> a \<le> b \<and> \<not> b \<le> a"
    unfolding less_eq_parsedVersion_ext_def less_parsedVersion_ext_def by (rule less_le_not_le)
  show "a \<le> a"
    unfolding less_eq_parsedVersion_ext_def by simp
  show "a \<le> b \<Longrightarrow> b \<le> c \<Longrightarrow> a \<le> c"
    unfolding less_eq_parsedVersion_ext_def by (rule order_trans)
  show "a \<le> b \<or> b \<le> a"
    unfolding less_eq_parsedVersion_ext_def by (rule linear)
  show "a \<le> b \<Longrightarrow> b \<le> a \<Longrightarrow> a = b"
    unfolding less_eq_parsedVersion_ext_def
    by (drule (1) order_antisym) (simp add: parsedVersion.equality)
qed

end

lemma compareVersions_eq_0 [simp]: "compareVersions a b = 0 \<longleftrightarrow> a = b"
  by (cases a; cases b) (simp add: compareVersions_def)

lemma compareVersions_less: "compareVersions a b < 0 \<longleftrightarrow> a < b"
  by (cases a; cases b) (simp add: compareVersions_def less_parsedVersion_ext_def)

lemma compareVersions_greater: "compareVersions a b > 0 \<longleftrightarrow> b < a"
  by (cases a; cases b) (simp add: compareVersions_def less_parsedVersion_ext_def)

section \<open>Parsing what was printed\<close>

definition show_version :: "parsedVersion \<Rightarrow> string" where
  "show_version v =
     itoa (pv_major v) @ ''.'' @ itoa (pv_minor v) @ ''.'' @ itoa (pv_patch v)"

definition version_ok :: "parsedVersion \<Rightarrow> bool" where
  "version_ok v \<longleftrightarrow>
     (\<forall>n \<in> {pv_major v, pv_minor v, pv_patch v}. 0 \<le> n \<and> n < 2 ^ 63)"

lemma takeWhile_digits_stop:
  assumes "list_all is_digit ds" and "\<not> is_digit c"
  shows "takeWhile is_digit (ds @ c # r) = ds" and "dropWhile is_digit (ds @ c # r) = c # r"
  using assms by (induction ds) auto

lemma takeWhile_digits_end:
  assumes "list_all is_digit ds"
  shows "takeWhile is_digit ds = ds" and "dropWhile is_digit ds = []"
  using assms by (induction ds) auto

lemma not_digit_dot [simp]: "\<not> is_digit CHR ''.''"
  by (simp add: is_digit_def)

lemma versionRegex_at_triple:
  assumes "list_all is_digit a" "list_all is_digit b" "list_all is_digit c" "a \<noteq> []" "b \<noteq> []"
    and rest: "takeWhile is_digit (c @ rest) = c"
  shows "versionRegex_at (a @ CHR ''.'' # b @ CHR ''.'' # c @ rest) = Some (a, b, c)"
  using assms by (simp add: versionRegex_at_def takeWhile_digits_stop)

lemma itoa_nonneg: "0 \<le> i \<Longrightarrow> itoa i = nat_itoa (nat i)"
  by (simp add: itoa_def)

text \<open>
  A banner: a prefix without a digit, the version, and a suffix that does not continue the patch
  number.
\<close>

lemma versionRegex_find_prefix:
  assumes "list_all (\<lambda>c. \<not> is_digit c) pre"
  shows "versionRegex_find (pre @ s) = versionRegex_find s"
  using assms
proof (induction pre)
  case Nil
  then show ?case by simp
next
  case (Cons c cs)
  then have "versionRegex_at (c # cs @ s) = None"
    by (simp add: versionRegex_at_def Let_def split: list.splits char.splits bool.splits)
  with Cons show ?case by simp
qed

lemma parseVersion_banner:
  assumes ok: "version_ok v" and pre: "list_all (\<lambda>c. \<not> is_digit c) pre"
    and post: "takeWhile is_digit post = []"
  shows "parseVersion (pre @ show_version v @ post) = Some v"
proof -
  define a b c where "a = nat_itoa (nat (pv_major v))" and "b = nat_itoa (nat (pv_minor v))"
    and "c = nat_itoa (nat (pv_patch v))"
  have shown: "show_version v @ post = a @ CHR ''.'' # b @ CHR ''.'' # c @ post"
    using ok by (simp add: show_version_def itoa_nonneg version_ok_def a_def b_def c_def)
  have digits: "list_all is_digit a" "list_all is_digit b" "list_all is_digit c"
    by (simp_all add: a_def b_def c_def nat_itoa_digits)
  have "takeWhile is_digit (c @ post) = c"
    using digits(3) post by (simp add: takeWhile_append2 list_all_iff)
  then have "versionRegex_at (show_version v @ post) = Some (a, b, c)"
    unfolding shown using digits by (intro versionRegex_at_triple) (simp_all add: a_def b_def)
  moreover obtain x xs where "show_version v @ post = x # xs"
    unfolding shown a_def by (cases "nat_itoa (nat (pv_major v))") auto
  ultimately have "versionRegex_find (show_version v @ post) = Some (a, b, c)"
    by (metis option.simps(5) versionRegex_find.simps(2))
  then have "versionRegex_find (pre @ show_version v @ post) = Some (a, b, c)"
    using versionRegex_find_prefix [OF pre] by simp
  moreover have "Atoi a = Some (pv_major v)" "Atoi b = Some (pv_minor v)" "Atoi c = Some (pv_patch v)"
    using ok by (simp_all add: a_def b_def c_def version_ok_def Atoi_nat_itoa_nonneg)
  ultimately show ?thesis by (simp add: parseVersion_def c_def)
qed

section \<open>What the requirement check accepts\<close>

definition version_requirement_met :: "string \<Rightarrow> RuntimeVersionRequirement \<Rightarrow> bool" where
  "version_requirement_met observedRaw req \<longleftrightarrow>
     (\<exists>v. observedRaw \<noteq> '''' \<and> parseVersion observedRaw = Some v \<and>
        (req_ExactVersion req \<noteq> '''' \<longrightarrow> parseVersion (req_ExactVersion req) = Some v) \<and>
        (req_MinimumVersion req \<noteq> '''' \<longrightarrow>
           (\<exists>m. parseVersion (req_MinimumVersion req) = Some m \<and> m \<le> v)))"

lemma checkVersionRequirement_spec:
  "fst (checkVersionRequirement raw reqp) \<longleftrightarrow>
     (case reqp of
        None \<Rightarrow> True
      | Some req \<Rightarrow>
          (req_MinimumVersion req = '''' \<and> req_ExactVersion req = '''') \<or> version_requirement_met raw req)"
  by (auto simp: checkVersionRequirement_def version_requirement_met_def compareVersions_less not_less
      Let_def split: option.splits if_splits)

lemma checkVersionRequirement_reason:
  assumes "checkVersionRequirement raw reqp = (False, code)"
  shows "code \<in> {ReasonErrLaunchRuntimeVersionUnknown, ReasonErrLaunchRuntimeVersionUnparseable,
                 ReasonErrLaunchRuntimeVersionMismatch, ReasonErrLaunchRuntimeVersionTooOld}"
  using assms by (auto simp: checkVersionRequirement_def Let_def split: option.splits if_splits)

section \<open>Properties\<close>

text \<open>
  C38: Parsing a version banner gives back the version printed in it, whatever digit-free text comes
  before it and whatever text that does not continue the patch number comes after it.
\<close>
theorem version_roundtrip:
  assumes "version_ok v" and "list_all (\<lambda>c. \<not> is_digit c) pre" and "takeWhile is_digit post = []"
  shows "parseVersion (pre @ show_version v @ post) = Some v"
  using assms by (rule parseVersion_banner)

theorem version_roundtrip_witness:
  "parseVersion ''QEMU version 8.2.1 (Debian 1:8)'' = Some \<lparr>pv_major = 8, pv_minor = 2, pv_patch = 1\<rparr>"
proof -
  have eight: "nat_itoa 8 = ''8''" and two: "nat_itoa 2 = ''2''" and one: "nat_itoa 1 = ''1''"
    by code_simp+
  have "show_version \<lparr>pv_major = 8, pv_minor = 2, pv_patch = 1\<rparr> = ''8.2.1''"
    using one by (simp add: show_version_def itoa_def eight two)
  then show ?thesis
    using version_roundtrip [of "\<lparr>pv_major = 8, pv_minor = 2, pv_patch = 1\<rparr>" "''QEMU version ''" "'' (Debian 1:8)''"]
    by (simp add: version_ok_def is_digit_def)
qed

text \<open>
  C39: A version requirement is accepted exactly when it is empty, or the observed banner parses and
  the parsed version equals the exact version and is at least the minimum version, as far as these
  are given. Versions are compared as triples, and every refusal carries one of the four version codes.
\<close>
theorem version_requirement_exact:
  "(fst (checkVersionRequirement raw reqp) \<longleftrightarrow>
     (case reqp of
        None \<Rightarrow> True
      | Some req \<Rightarrow>
          (req_MinimumVersion req = '''' \<and> req_ExactVersion req = '''') \<or> version_requirement_met raw req)) \<and>
   (fst (checkVersionRequirement raw reqp) \<or>
    snd (checkVersionRequirement raw reqp) \<in>
      {ReasonErrLaunchRuntimeVersionUnknown, ReasonErrLaunchRuntimeVersionUnparseable,
       ReasonErrLaunchRuntimeVersionMismatch, ReasonErrLaunchRuntimeVersionTooOld}) \<and>
   (compareVersions a b < 0 \<longleftrightarrow> a < b) \<and> (compareVersions a b > 0 \<longleftrightarrow> b < a)"
  using checkVersionRequirement_spec [of raw reqp]
    checkVersionRequirement_reason [of raw reqp "snd (checkVersionRequirement raw reqp)"]
  by (cases "checkVersionRequirement raw reqp") (auto simp: compareVersions_less compareVersions_greater)

end
