(* ===== verification/Runtime_Select.thy ===== *)
theory Runtime_Select
  imports Eligibility Version
begin

text \<open>
  \<^verbatim>\<open>internal/domain/runtime_select.go\<close>: which runtime backend a launch specification gets on a node,
  and why the others were rejected. The closure \<^verbatim>\<open>reject\<close> of the source appends to the evidence and
  writes the legacy map; here it is a function on the pair of both. The checks of one backend are a
  list of which the first that fails decides, as the early returns of the source do.
\<close>

section \<open>Legacy fields\<close>

definition normalizeStorage :: "LaunchSpec \<Rightarrow> StorageAttachmentSpec list" where
  "normalizeStorage spec =
     (if spec_Storage spec \<noteq> [] then spec_Storage spec
      else if spec_RuntimeClass spec = ''MicroVM'' then
        (if spec_KernelImagePath spec \<noteq> '''' \<and> spec_RootfsPath spec \<noteq> '''' then
           [\<lparr>sto_VolumeID = '''', sto_HostPath = spec_RootfsPath spec, sto_ReadOnly = False,
             sto_Format = ''ext4'', sto_MountPoint = ''/''\<rparr>,
            \<lparr>sto_VolumeID = '''', sto_HostPath = spec_KernelImagePath spec, sto_ReadOnly = True,
             sto_Format = ''raw'', sto_MountPoint = ''/boot/vmlinux''\<rparr>]
         else [])
      else if spec_ImageReference spec \<noteq> '''' then
        [\<lparr>sto_VolumeID = '''', sto_HostPath = spec_ImageReference spec, sto_ReadOnly = False,
          sto_Format = ''qcow2'', sto_MountPoint = ''''\<rparr>]
      else [])"

definition normalizeNetworks :: "LaunchSpec \<Rightarrow> NetworkAttachmentSpec list" where
  "normalizeNetworks spec =
     (if spec_Networks spec \<noteq> [] then spec_Networks spec
      else map (\<lambda>n. \<lparr>net_NetworkID = '''', net_Type = ''tap'', net_HostDevice = n, net_MacAddress = ''''\<rparr>)
             (spec_NetworkAttachments spec))"

section \<open>Rejections\<close>

type_synonym rejections = "BackendRejectionEvidence list \<times> (string, string) gomap"

text \<open>Why a backend is rejected: the reason code, the capability looked at, and its record.\<close>

type_synonym blocker = "string \<times> string option \<times> NodeCapabilityRecord option"

definition reject_reason :: "blocker \<Rightarrow> string" where
  "reject_reason b =
     (case b of (reasonCode, _, cap) \<Rightarrow>
        (case cap of
           None \<Rightarrow> reasonCode
         | Some c \<Rightarrow> if cap_ReasonCode c \<noteq> '''' then reasonCode @ '' ('' @ cap_ReasonCode c @ '')''
                    else reasonCode))"

definition rejection_evidence :: "string \<Rightarrow> blocker \<Rightarrow> BackendRejectionEvidence" where
  "rejection_evidence backend b =
     (case b of (reasonCode, capName, cap) \<Rightarrow>
        \<lparr>bre_Backend = backend, bre_ReasonCode = reasonCode, bre_CapabilityName = capName,
         bre_CapabilityState = map_option cap_State cap,
         bre_CapabilityReasonCode =
           (case cap of None \<Rightarrow> None
            | Some c \<Rightarrow> if cap_ReasonCode c \<noteq> '''' then Some (cap_ReasonCode c) else None),
         bre_CapabilityStale = map_option cap_IsStale cap,
         bre_Message = None\<rparr>)"

definition reject_backend :: "string \<Rightarrow> blocker \<Rightarrow> rejections \<Rightarrow> rejections" where
  "reject_backend backend b acc =
     (case acc of (evidence, rejected) \<Rightarrow>
        (evidence @ [rejection_evidence backend b], mput backend (reject_reason b) rejected))"

section \<open>The checks\<close>

definition capability_check :: "NodeRecord \<Rightarrow> string \<Rightarrow> string \<Rightarrow> blocker option" where
  "capability_check node capName reasonCode =
     (if capability_usable node capName then None
      else Some (reasonCode, Some capName, mget (node_Capabilities node) capName))"

definition version_check :: "NodeRecord \<Rightarrow> string \<Rightarrow> RuntimeVersionRequirement option \<Rightarrow> blocker option" where
  "version_check node capName req =
     (case mget (node_Capabilities node) capName of
        None \<Rightarrow> None
      | Some binCap \<Rightarrow>
          (case checkVersionRequirement (cap_Version binCap) req of
             (ok, reason) \<Rightarrow> if ok then None else Some (reason, Some capName, Some binCap)))"

fun first_some :: "'a option list \<Rightarrow> 'a option" where
  "first_some [] = None"
| "first_some (None # xs) = first_some xs"
| "first_some (Some x # xs) = Some x"

definition storage_check :: "StorageAttachmentSpec list \<Rightarrow> string \<Rightarrow> blocker option" where
  "storage_check storage reasonCode = (if storage = [] then Some (reasonCode, None, None) else None)"

definition firecracker_blocker :: "LaunchSpec \<Rightarrow> NodeRecord \<Rightarrow> blocker option" where
  "firecracker_blocker spec node =
     (let storage = normalizeStorage spec in
      first_some
        [capability_check node ''kvm_vm_launch'' ReasonErrLaunchMissingCapabilityKvmQemu,
         capability_check node ''firecracker_binary_present'' ReasonErrLaunchMissingCapabilityFcBinary,
         version_check node ''firecracker_binary_present'' (spec_RuntimeVersion spec),
         capability_check node ''firecracker_tun_ready'' ReasonErrLaunchMissingCapabilityFcTun,
         capability_check node ''firecracker_cgroups_ready'' ReasonErrLaunchMissingCapabilityFcCgroups,
         storage_check storage ReasonErrLaunchInvalidFirecrackerArtifactModel,
         if list_ex (\<lambda>s. sto_Format s = ''qcow2'') storage
         then Some (ReasonErrLaunchInvalidStorageFormat, None, None) else None])"

definition cloud_hypervisor_blocker :: "LaunchSpec \<Rightarrow> NodeRecord \<Rightarrow> blocker option" where
  "cloud_hypervisor_blocker spec node =
     first_some
       [capability_check node ''kvm_vm_launch'' ReasonErrLaunchMissingCapabilityKvmQemu,
        capability_check node ''cloud_hypervisor_binary_present'' ReasonErrLaunchMissingCapabilityChBinary,
        version_check node ''cloud_hypervisor_binary_present'' (spec_RuntimeVersion spec),
        storage_check (normalizeStorage spec) ReasonErrLaunchMissingArtifact]"

definition kvm_qemu_blocker :: "LaunchSpec \<Rightarrow> NodeRecord \<Rightarrow> blocker option" where
  "kvm_qemu_blocker spec node =
     first_some
       [capability_check node ''kvm_vm_launch'' ReasonErrLaunchMissingCapabilityKvmQemu,
        capability_check node ''qemu_binary_present'' ReasonErrLaunchMissingCapabilityQemuBinary,
        version_check node ''qemu_binary_present'' (spec_RuntimeVersion spec),
        storage_check (normalizeStorage spec) ReasonErrLaunchMissingArtifact]"

section \<open>SelectBackend\<close>

text \<open>The candidate list of a virtual machine; \<open>None\<close> is a preference that names no VM backend.\<close>

definition vm_backends :: "LaunchSpec \<Rightarrow> string list option" where
  "vm_backends spec =
     (let pref = spec_RuntimeBackendPreference spec in
      if pref \<noteq> '''' then
        (if pref = ''cloud_hypervisor'' \<or> pref = ''kvm_qemu'' then
           Some (if spec_AllowBackendFallback spec
                 then (if pref = ''cloud_hypervisor'' then [''cloud_hypervisor'', ''kvm_qemu'']
                       else [''kvm_qemu'', ''cloud_hypervisor''])
                 else [pref])
         else None)
      else Some [''cloud_hypervisor'', ''kvm_qemu''])"

text \<open>The loop body skips a name that is neither backend, which \<open>vm_backends\<close> never produces.\<close>

definition vm_blocker :: "LaunchSpec \<Rightarrow> NodeRecord \<Rightarrow> string \<Rightarrow> blocker option option" where
  "vm_blocker spec node backend =
     (if backend = ''cloud_hypervisor'' then Some (cloud_hypervisor_blocker spec node)
      else if backend = ''kvm_qemu'' then Some (kvm_qemu_blocker spec node)
      else None)"

fun vm_loop :: "LaunchSpec \<Rightarrow> NodeRecord \<Rightarrow> string list \<Rightarrow> rejections \<Rightarrow> string \<times> rejections" where
  "vm_loop spec node [] acc = ('''', acc)"
| "vm_loop spec node (backend # backends) acc =
     (case vm_blocker spec node backend of
        None \<Rightarrow> vm_loop spec node backends acc
      | Some None \<Rightarrow> (backend, acc)
      | Some (Some b) \<Rightarrow> vm_loop spec node backends (reject_backend backend b acc))"

definition SelectBackend :: "LaunchSpec \<Rightarrow> NodeRecord \<Rightarrow> string \<times> rejections" where
  "SelectBackend spec node =
     (if spec_RuntimeClass spec = ''MicroVM'' then
        (case firecracker_blocker spec node of
           None \<Rightarrow> (''firecracker'', [], [])
         | Some b \<Rightarrow> ('''', reject_backend ''firecracker'' b ([], [])))
      else if spec_RuntimeClass spec = ''VirtualMachine'' then
        (case vm_backends spec of
           None \<Rightarrow> ('''', reject_backend (spec_RuntimeBackendPreference spec)
                            (ReasonErrLaunchBackendNotSupported, None, None) ([], []))
         | Some backends \<Rightarrow> vm_loop spec node backends ([], []))
      else ('''', [], []))"

section \<open>The requirement on a node, per backend\<close>

definition version_satisfied :: "LaunchSpec \<Rightarrow> NodeRecord \<Rightarrow> string \<Rightarrow> bool" where
  "version_satisfied spec node capName \<longleftrightarrow>
     (case mget (node_Capabilities node) capName of
        None \<Rightarrow> False
      | Some cap \<Rightarrow> fst (checkVersionRequirement (cap_Version cap) (spec_RuntimeVersion spec)))"

definition backend_ready :: "LaunchSpec \<Rightarrow> NodeRecord \<Rightarrow> string \<Rightarrow> bool" where
  "backend_ready spec node backend \<longleftrightarrow>
     capability_usable node ''kvm_vm_launch'' \<and> normalizeStorage spec \<noteq> [] \<and>
     (if backend = ''firecracker'' then
        capability_usable node ''firecracker_binary_present'' \<and>
        version_satisfied spec node ''firecracker_binary_present'' \<and>
        capability_usable node ''firecracker_tun_ready'' \<and>
        capability_usable node ''firecracker_cgroups_ready'' \<and>
        (\<forall>s \<in> set (normalizeStorage spec). sto_Format s \<noteq> ''qcow2'')
      else if backend = ''cloud_hypervisor'' then
        capability_usable node ''cloud_hypervisor_binary_present'' \<and>
        version_satisfied spec node ''cloud_hypervisor_binary_present''
      else if backend = ''kvm_qemu'' then
        capability_usable node ''qemu_binary_present'' \<and>
        version_satisfied spec node ''qemu_binary_present''
      else False)"

text \<open>The backends the specification admits, in the order of preference.\<close>

definition admitted_backends :: "LaunchSpec \<Rightarrow> string list" where
  "admitted_backends spec =
     (if spec_RuntimeClass spec = ''MicroVM'' then [''firecracker'']
      else if spec_RuntimeClass spec = ''VirtualMachine'' then
        (case vm_backends spec of None \<Rightarrow> [] | Some bs \<Rightarrow> bs)
      else [])"

lemma usable_present: "capability_usable node f \<Longrightarrow> mget (node_Capabilities node) f \<noteq> None"
  by (auto simp: capability_usable_def split: option.splits)

lemma version_check_None:
  "capability_usable node f \<Longrightarrow>
   version_check node f (spec_RuntimeVersion spec) = None \<longleftrightarrow> version_satisfied spec node f"
  by (drule usable_present)
    (auto simp: version_check_def version_satisfied_def split: option.splits prod.splits)

lemma first_some_None: "first_some xs = None \<longleftrightarrow> (\<forall>x \<in> set xs. x = None)"
  by (induction xs rule: first_some.induct) auto

lemma capability_check_None [simp]:
  "capability_check node f r = None \<longleftrightarrow> capability_usable node f"
  by (simp add: capability_check_def)

lemma storage_check_None [simp]: "storage_check st r = None \<longleftrightarrow> st \<noteq> []"
  by (simp add: storage_check_def)

lemma firecracker_blocker_None:
  "firecracker_blocker spec node = None \<longleftrightarrow> backend_ready spec node ''firecracker''"
  by (auto simp: firecracker_blocker_def first_some_None backend_ready_def version_check_None
      list_ex_iff Let_def split: if_splits)

lemma cloud_hypervisor_blocker_None:
  "cloud_hypervisor_blocker spec node = None \<longleftrightarrow> backend_ready spec node ''cloud_hypervisor''"
  by (auto simp: cloud_hypervisor_blocker_def first_some_None backend_ready_def version_check_None)

lemma kvm_qemu_blocker_None:
  "kvm_qemu_blocker spec node = None \<longleftrightarrow> backend_ready spec node ''kvm_qemu''"
  by (auto simp: kvm_qemu_blocker_def first_some_None backend_ready_def version_check_None)

lemma vm_backends_set: "vm_backends spec = Some bs \<Longrightarrow> set bs \<subseteq> {''cloud_hypervisor'', ''kvm_qemu''}"
  by (auto simp: vm_backends_def Let_def split: if_splits)

lemma vm_backends_distinct: "vm_backends spec = Some bs \<Longrightarrow> distinct bs \<and> bs \<noteq> []"
  by (auto simp: vm_backends_def Let_def split: if_splits)

lemma vm_blocker_cases:
  assumes "b \<in> {''cloud_hypervisor'', ''kvm_qemu''}"
  obtains "vm_blocker spec node b = Some None" and "backend_ready spec node b"
  | w where "vm_blocker spec node b = Some (Some w)" and "\<not> backend_ready spec node b"
proof -
  from assms consider "b = ''cloud_hypervisor''" | "b = ''kvm_qemu''" by blast
  then show ?thesis
  proof cases
    case 1
    with that show ?thesis
      by (cases "cloud_hypervisor_blocker spec node")
        (auto simp: vm_blocker_def simp flip: cloud_hypervisor_blocker_None)
  next
    case 2
    with that show ?thesis
      by (cases "kvm_qemu_blocker spec node")
        (auto simp: vm_blocker_def simp flip: kvm_qemu_blocker_None)
  qed
qed

definition find_backend :: "LaunchSpec \<Rightarrow> NodeRecord \<Rightarrow> string list \<Rightarrow> string" where
  "find_backend spec node bs = (case find (backend_ready spec node) bs of None \<Rightarrow> '''' | Some b \<Rightarrow> b)"

lemma vm_loop_selects:
  assumes "set bs \<subseteq> {''cloud_hypervisor'', ''kvm_qemu''}"
  shows "fst (vm_loop spec node bs acc) = find_backend spec node bs"
  using assms
proof (induction bs arbitrary: acc)
  case Nil
  then show ?case by (simp add: find_backend_def)
next
  case (Cons b bs)
  then have "b \<in> {''cloud_hypervisor'', ''kvm_qemu''}" by simp
  then show ?case
    using Cons by (cases rule: vm_blocker_cases [of b spec node]) (auto simp: find_backend_def)
qed

lemma SelectBackend_find: "fst (SelectBackend spec node) = find_backend spec node (admitted_backends spec)"
proof -
  consider (micro) "spec_RuntimeClass spec = ''MicroVM''"
    | (vm) "spec_RuntimeClass spec = ''VirtualMachine''"
    | (other) "spec_RuntimeClass spec \<noteq> ''MicroVM''" "spec_RuntimeClass spec \<noteq> ''VirtualMachine''"
    by blast
  then show ?thesis
  proof cases
    case micro
    then show ?thesis
      using firecracker_blocker_None [of spec node]
      by (auto simp: SelectBackend_def admitted_backends_def find_backend_def split: option.splits)
  next
    case vm
    then show ?thesis
      by (auto simp: SelectBackend_def admitted_backends_def find_backend_def vm_loop_selects
          vm_backends_set split: option.split)
  next
    case other
    then show ?thesis by (simp add: SelectBackend_def admitted_backends_def find_backend_def)
  qed
qed

section \<open>The evidence\<close>

lemma find_backend_ready:
  assumes "find_backend spec node bs = b" and "b \<noteq> ''''"
  shows "b \<in> set bs \<and> backend_ready spec node b"
  using assms by (auto simp: find_backend_def find_Some_iff in_set_conv_nth split: option.splits)

lemma backend_ready_name: "backend_ready spec node b \<Longrightarrow> b \<noteq> ''''"
  by (auto simp: backend_ready_def split: if_splits)

lemma find_backend_none: "find_backend spec node bs = '''' \<longleftrightarrow> (\<forall>b \<in> set bs. \<not> backend_ready spec node b)"
  by (auto simp: find_backend_def find_None_iff find_Some_iff dest: backend_ready_name split: option.splits)

text \<open>Evidence and legacy map always name the same backends.\<close>

definition rejections_agree :: "rejections \<Rightarrow> bool" where
  "rejections_agree acc \<longleftrightarrow> fst ` set (snd acc) = bre_Backend ` set (fst acc) \<and> gomap_ok (snd acc)"

lemma reject_backend_agree: "rejections_agree acc \<Longrightarrow> rejections_agree (reject_backend backend b acc)"
  by (cases acc; cases b) (simp add: rejections_agree_def reject_backend_def rejection_evidence_def)

lemma vm_loop_agree: "rejections_agree acc \<Longrightarrow> rejections_agree (snd (vm_loop spec node bs acc))"
  by (induction bs arbitrary: acc) (auto simp: reject_backend_agree split: option.splits)

lemma rejections_agree_Nil [simp]: "rejections_agree ([], [])"
  by (simp add: rejections_agree_def)

lemma SelectBackend_agree: "rejections_agree (snd (SelectBackend spec node))"
  by (auto simp: SelectBackend_def vm_loop_agree reject_backend_agree split: option.splits)

lemma vm_loop_rejects:
  assumes "set bs \<subseteq> {''cloud_hypervisor'', ''kvm_qemu''}"
    and "fst (vm_loop spec node bs acc) = ''''"
  shows "map bre_Backend (fst (snd (vm_loop spec node bs acc))) = map bre_Backend (fst acc) @ bs"
  using assms
proof (induction bs arbitrary: acc)
  case Nil
  then show ?case by simp
next
  case (Cons b bs)
  then have "b \<in> {''cloud_hypervisor'', ''kvm_qemu''}" by simp
  then show ?case
    using Cons
    by (cases rule: vm_blocker_cases [of b spec node])
      (auto simp: reject_backend_def rejection_evidence_def split: prod.splits)
qed

text \<open>The backends that appear in the evidence when nothing was selected.\<close>

definition tried_backends :: "LaunchSpec \<Rightarrow> string list" where
  "tried_backends spec =
     (if spec_RuntimeClass spec = ''VirtualMachine'' \<and> vm_backends spec = None
      then [spec_RuntimeBackendPreference spec] else admitted_backends spec)"

lemma SelectBackend_explains:
  assumes "fst (SelectBackend spec node) = ''''"
  shows "map bre_Backend (fst (snd (SelectBackend spec node))) = tried_backends spec"
  using assms
  by (auto simp: SelectBackend_def tried_backends_def admitted_backends_def reject_backend_def
      rejection_evidence_def vm_loop_rejects vm_backends_set split: option.splits if_splits prod.splits)

section \<open>Properties\<close>

text \<open>
  C23: SelectBackend returns the first backend, in the order of preference the specification admits,
  that is ready on the node: its capabilities are supported and fresh, the requested version is met,
  and there is storage it can use. It returns none exactly when no admitted backend is ready.
\<close>
theorem SelectBackend_first_ready:
  "fst (SelectBackend spec node) =
     (case find (backend_ready spec node) (admitted_backends spec) of None \<Rightarrow> '''' | Some b \<Rightarrow> b) \<and>
   (fst (SelectBackend spec node) = '''' \<longleftrightarrow>
      (\<forall>b\<in>set (admitted_backends spec). \<not> backend_ready spec node b)) \<and>
   (fst (SelectBackend spec node) = '''' \<or> backend_ready spec node (fst (SelectBackend spec node)))"
  using SelectBackend_find [of spec node] find_backend_none [of spec node "admitted_backends spec"]
    find_backend_ready [of spec node "admitted_backends spec"]
  by (auto simp: find_backend_def)

theorem SelectBackend_first_ready_witness:
  "fst (SelectBackend (zero_LaunchSpec\<lparr>spec_RuntimeClass := ''Container''\<rparr>) sample_node) = ''''"
  using SelectBackend_first_ready [of "zero_LaunchSpec\<lparr>spec_RuntimeClass := ''Container''\<rparr>" sample_node]
  by (simp add: admitted_backends_def)

text \<open>
  Every backend passed over is explained: the evidence list and the legacy map name the same
  backends, and when nothing was selected the evidence names, in order, every backend that was tried
  (or the unsupported preference itself).
\<close>
theorem SelectBackend_explained:
  "fst ` set (snd (snd (SelectBackend spec node))) = bre_Backend ` set (fst (snd (SelectBackend spec node))) \<and>
   gomap_ok (snd (snd (SelectBackend spec node))) \<and>
   (fst (SelectBackend spec node) = '''' \<longrightarrow>
      map bre_Backend (fst (snd (SelectBackend spec node))) = tried_backends spec)"
  using SelectBackend_agree [of spec node] SelectBackend_explains [of spec node]
  by (simp add: rejections_agree_def)

theorem SelectBackend_explained_witness:
  "map bre_Backend (fst (snd (SelectBackend
     (zero_LaunchSpec\<lparr>spec_RuntimeClass := ''VirtualMachine'', spec_RuntimeBackendPreference := ''xen''\<rparr>) sample_node)))
   = [''xen'']"
  using SelectBackend_explained
    [of "zero_LaunchSpec\<lparr>spec_RuntimeClass := ''VirtualMachine'', spec_RuntimeBackendPreference := ''xen''\<rparr>" sample_node]
  by (simp add: SelectBackend_def vm_backends_def tried_backends_def Let_def reject_backend_def
      rejection_evidence_def)

end
