(* ===== verification/Validate_Launch.thy ===== *)
theory Validate_Launch
  imports Runtime_Select
begin

text \<open>
  \<^verbatim>\<open>internal/domain/validate_launch.go\<close>: the validation of a launch specification against a node, in
  the two layers of the source (generic checks, then the backend selection), and the remediation
  hints. The loops over the map of rejected backends visit it in the order of its list.
\<close>

definition val_trace :: "string \<Rightarrow> LaunchValidationResult \<Rightarrow> LaunchValidationResult" where
  "val_trace msg r = r\<lparr>val_ValidationTrace := val_ValidationTrace r @ [msg]\<rparr>"

definition val_warn :: "string \<Rightarrow> LaunchValidationResult \<Rightarrow> LaunchValidationResult" where
  "val_warn w r = r\<lparr>val_Warnings := val_Warnings r @ [w]\<rparr>"

definition val_block :: "string \<Rightarrow> LaunchValidationResult \<Rightarrow> LaunchValidationResult" where
  "val_block code r =
     r\<lparr>val_IsValid := False, val_BlockingReasonCodes := val_BlockingReasonCodes r @ [code]\<rparr>"

section \<open>Remediation hints\<close>

type_synonym hints = "(string, string) gomap"

definition put_if :: "bool \<Rightarrow> string \<Rightarrow> string \<Rightarrow> hints \<Rightarrow> hints" where
  "put_if b k v h = (if b then mput k v h else h)"

definition blocking_hints :: "string \<Rightarrow> hints \<Rightarrow> hints" where
  "blocking_hints code h =
     (let h1 = put_if (code = ReasonErrLaunchArchMismatch) ''architecture''
                 ''Ensure the requested architecture matches the node architecture.'' h;
          h2 = put_if (code = ReasonErrLaunchBackendNotSupported) ''backend''
                 ''Check the RejectedBackends map for specific missing capabilities.'' h1;
          h3 = put_if (code = ReasonErrLaunchBackendExecutionUnsupported) ''launch_mode''
                 ''Firecracker execution is not supported in Data Plane V0. Use Validate or DryRun, or select a different backend.'' h2
      in put_if (code = ReasonErrLaunchMissingCapabilitySeccomp) ''kernel_seccomp''
           ''Ensure the host kernel is compiled with CONFIG_SECCOMP and actions_avail is readable.'' h3)"

definition qemu_hints :: "string \<Rightarrow> hints \<Rightarrow> hints" where
  "qemu_hints reason h =
     (let h1 = put_if (contains reason ReasonCapQemuBinaryMissing) ''kvm_qemu_binary''
                 ''Install qemu-system-x86_64 or qemu-system-aarch64 on the host.'' h;
          h2 = put_if (contains reason ReasonCapKvmMissing) ''kvm_qemu_kvm''
                 ''Enable KVM in BIOS or load kvm kernel modules.'' h1
      in put_if (contains reason ReasonCapKvmNotOpenablePerms) ''kvm_qemu_perms''
           ''Ensure the Schedune agent has rw permissions to /dev/kvm.'' h2)"

definition ch_hints :: "string \<Rightarrow> hints \<Rightarrow> hints" where
  "ch_hints reason h =
     (let h1 = put_if (contains reason ReasonCapCloudHypervisorBinaryMissing) ''cloud_hypervisor_binary''
                 ''Install cloud-hypervisor binary on the host.'' h
      in put_if (contains reason ReasonCapKvmMissing) ''cloud_hypervisor_kvm''
           ''Enable KVM in BIOS or load kvm kernel modules.'' h1)"

definition fc_hints :: "string \<Rightarrow> hints \<Rightarrow> hints" where
  "fc_hints reason h =
     (let h1 = put_if (contains reason ReasonCapFirecrackerBinaryMissing) ''firecracker_binary''
                 ''Install firecracker binary on the host.'' h;
          h2 = put_if (contains reason ReasonCapFirecrackerTunMissing) ''firecracker_tun''
                 ''Ensure the tun kernel module is loaded (/dev/net/tun).'' h1;
          h3 = put_if (contains reason ReasonCapFirecrackerCgroupsMissing) ''firecracker_cgroups''
                 ''Ensure cgroups v2 are mounted on the host.'' h2
      in put_if (contains reason ReasonCapKvmMissing) ''firecracker_kvm''
           ''Enable KVM in BIOS or load kvm kernel modules.'' h3)"

definition reason_hints :: "string \<Rightarrow> hints \<Rightarrow> hints" where
  "reason_hints reason h =
     (let h1 = put_if (contains reason ReasonErrLaunchRuntimeVersionUnknown) ''runtime_version_unknown''
                 ''Wait for the agent to observe the runtime version, or ensure the binary is correctly installed.'' h;
          h2 = put_if (contains reason ReasonErrLaunchRuntimeVersionUnparseable) ''runtime_version_unparseable''
                 ''Ensure the requested version is a valid semver-like format, or check host agent logs.'' h1;
          h3 = put_if (contains reason ReasonErrLaunchRuntimeVersionTooOld) ''runtime_version_too_old''
                 ''Upgrade the runtime binary on the host to meet the minimum version requirement.'' h2;
          h4 = put_if (contains reason ReasonErrLaunchRuntimeVersionMismatch) ''runtime_version_mismatch''
                 ''Install the exact runtime binary version requested on the host.'' h3;
          h5 = put_if (contains reason ReasonErrLaunchMissingArtifact) ''artifact_missing''
                 ''Ensure ImageReference is provided for the workload.'' h4
      in put_if (contains reason ReasonErrLaunchInvalidFirecrackerArtifactModel) ''firecracker_artifact''
           ''Ensure KernelImagePath and RootfsPath are provided for MicroVMs.'' h5)"

definition rejected_hints :: "string \<times> string \<Rightarrow> hints \<Rightarrow> hints" where
  "rejected_hints = (\<lambda>(backend, reason) h.
     (let h1 = (if backend = BackendKvmQemu then qemu_hints reason h else h);
          h2 = (if backend = BackendCloudHypervisor then ch_hints reason h1 else h1);
          h3 = (if backend = BackendFirecracker then fc_hints reason h2 else h2)
      in reason_hints reason h3))"

definition generateRemediationHints :: "LaunchValidationResult \<Rightarrow> hints" where
  "generateRemediationHints result =
     fold rejected_hints (val_RejectedBackends result)
       (fold blocking_hints (val_BlockingReasonCodes result) [])"

definition add_hints :: "LaunchValidationResult \<Rightarrow> LaunchValidationResult" where
  "add_hints r = r\<lparr>val_RemediationHints := generateRemediationHints r\<rparr>"

definition val_finish :: "string \<Rightarrow> LaunchValidationResult \<Rightarrow> LaunchValidationResult" where
  "val_finish txt r = add_hints (r\<lparr>val_ExplainabilityText := txt\<rparr>)"

section \<open>ValidateLaunch\<close>

definition val_init :: "NodeRecord \<Rightarrow> LaunchValidationResult" where
  "val_init node =
     \<lparr>val_IsValid = True, val_SelectedBackend = '''', val_RejectedBackends = [],
      val_BackendRejectionEvidence = [], val_BlockingReasonCodes = [], val_Warnings = [],
      val_RequiredHostFeatures = [], val_MissingHostFeatures = [], val_RecommendedRuntime = '''',
      val_ExplainabilityText = '''',
      val_ValidationTrace = [''Started validation against node '' @ node_ID node],
      val_RemediationHints = []\<rparr>"

definition check_architecture :: "LaunchSpec \<Rightarrow> NodeRecord \<Rightarrow> LaunchValidationResult \<Rightarrow> LaunchValidationResult" where
  "check_architecture spec node r =
     (if spec_Architecture spec \<noteq> id_Architecture (node_Identity node)
      then val_trace (''Failed: Architecture mismatch. Node is '' @ id_Architecture (node_Identity node))
             (val_block ReasonErrLaunchArchMismatch r)
      else r)"

definition warn_deprecated :: "LaunchSpec \<Rightarrow> LaunchValidationResult \<Rightarrow> LaunchValidationResult" where
  "warn_deprecated spec r =
     (let r1 = (if spec_ImageReference spec \<noteq> '''' \<or> spec_KernelImagePath spec \<noteq> ''''
                then val_trace
                       (if spec_Storage spec \<noteq> []
                        then ''Warning: Both typed Storage and legacy ImageReference provided. Typed Storage takes precedence.''
                        else ''Warning: Using deprecated legacy artifact fields. Please migrate to typed Storage array.'')
                       (val_warn ReasonWarnDeprecatedImageReference r)
                else r)
      in if spec_NetworkAttachments spec \<noteq> []
         then val_trace ''Warning: Using deprecated NetworkAttachments field. Please migrate to typed Networks array.''
                (val_warn ReasonWarnDeprecatedNetworkAttachments r1)
         else r1)"

definition seccomp_requested :: "LaunchSpec \<Rightarrow> bool" where
  "seccomp_requested spec \<longleftrightarrow>
     (case spec_Security spec of None \<Rightarrow> False | Some s \<Rightarrow> sec_SeccompProfile s \<noteq> '''')"

definition check_security :: "LaunchSpec \<Rightarrow> NodeRecord \<Rightarrow> LaunchValidationResult \<Rightarrow> LaunchValidationResult" where
  "check_security spec node r =
     (if seccomp_requested spec then
        (if \<not> capability_usable node ''kernel_seccomp_supported''
         then val_trace ''Failed: Security Context requires seccomp profile, but kernel seccomp is not supported or missing.''
                (val_block ReasonErrLaunchMissingCapabilitySeccomp r)
         else val_trace ''Passed: Node supports kernel seccomp for requested profile.'' r)
      else r)"

fun trace_rejected :: "(string \<times> string) list \<Rightarrow> LaunchValidationResult \<Rightarrow> LaunchValidationResult" where
  "trace_rejected [] r = r"
| "trace_rejected ((backend, reason) # rest) r =
     trace_rejected rest (val_trace (''Backend '' @ backend @ '' rejected: '' @ reason) r)"

definition version_requested :: "LaunchSpec \<Rightarrow> bool" where
  "version_requested spec \<longleftrightarrow>
     (case spec_RuntimeVersion spec of
        None \<Rightarrow> False | Some v \<Rightarrow> req_MinimumVersion v \<noteq> '''' \<or> req_ExactVersion v \<noteq> '''')"

definition recommended_runtime :: "LaunchSpec \<Rightarrow> string \<Rightarrow> string" where
  "recommended_runtime spec backend =
     (if backend = BackendKvmQemu then ''qemu-system-'' @ spec_Architecture spec
      else if backend = BackendCloudHypervisor then ''cloud-hypervisor''
      else if backend = BackendFirecracker then ''firecracker''
      else '''')"

text \<open>The part of the source after the generic checks have passed.\<close>

definition validate_backend :: "LaunchSpec \<Rightarrow> NodeRecord \<Rightarrow> LaunchValidationResult \<Rightarrow> LaunchValidationResult" where
  "validate_backend spec node r =
     (case SelectBackend spec node of
        (selectedBackend, evidence, rejectedBackends) \<Rightarrow>
          (let r1 = r\<lparr>val_RejectedBackends := rejectedBackends,
                      val_BackendRejectionEvidence := evidence,
                      val_SelectedBackend := selectedBackend\<rparr>
           in if selectedBackend = '''' then
                val_finish ''Node cannot launch workload due to missing backend prerequisites or constraints.''
                  (trace_rejected rejectedBackends
                    (val_trace ''Failed: No supported runtime backend found for spec.''
                      (val_block ReasonErrLaunchBackendNotSupported r1)))
              else if selectedBackend = BackendFirecracker \<and> spec_LaunchMode spec = ''Execute'' then
                val_finish ''Node cannot launch workload due to Data Plane limitations.''
                  (val_trace ''Failed: Firecracker execution is not implemented in Data Plane V0. Only Validate and DryRun are supported.''
                    (val_block ReasonErrLaunchBackendExecutionUnsupported r1))
              else
                (let r2 = val_trace (''Passed: Selected backend '' @ selectedBackend) r1;
                     r3 = (if version_requested spec
                           then val_trace (''Passed: Runtime version requirement satisfied by '' @ selectedBackend) r2
                           else r2);
                     r4 = r3\<lparr>val_ExplainabilityText := ''Node is fully capable of executing this launch spec.'',
                             val_RecommendedRuntime := recommended_runtime spec selectedBackend\<rparr>;
                     r5 = (if spec_LaunchMode spec = ''DryRun'' \<and> val_IsValid r4
                           then val_trace (''DryRun: Successfully simulated allocation of '' @
                                           itoa (spec_Vcpu spec) @ '' vcpus.'') r4
                           else r4)
                 in add_hints r5)))"

definition ValidateLaunch :: "LaunchSpec \<Rightarrow> NodeRecord \<Rightarrow> LaunchValidationResult" where
  "ValidateLaunch spec node =
     (let r1 = check_security spec node (warn_deprecated spec (check_architecture spec node (val_init node)))
      in if \<not> val_IsValid r1
         then val_finish ''Node cannot launch workload due to generic preflight blockers.'' r1
         else validate_backend spec node r1)"

section \<open>The verdict\<close>

text \<open>
  The fields that carry the verdict (validity, blocking codes, selection) under the steps that only
  add to the trace, the warnings or the hints.
\<close>

lemma val_trace_fields [simp]:
  "val_IsValid (val_trace m r) = val_IsValid r"
  "val_BlockingReasonCodes (val_trace m r) = val_BlockingReasonCodes r"
  "val_SelectedBackend (val_trace m r) = val_SelectedBackend r"
  "val_RejectedBackends (val_trace m r) = val_RejectedBackends r"
  "val_BackendRejectionEvidence (val_trace m r) = val_BackendRejectionEvidence r"
  by (simp_all add: val_trace_def)

lemma val_warn_fields [simp]:
  "val_IsValid (val_warn m r) = val_IsValid r"
  "val_BlockingReasonCodes (val_warn m r) = val_BlockingReasonCodes r"
  "val_SelectedBackend (val_warn m r) = val_SelectedBackend r"
  "val_RejectedBackends (val_warn m r) = val_RejectedBackends r"
  by (simp_all add: val_warn_def)

lemma val_block_fields [simp]:
  "val_IsValid (val_block c r) = False"
  "val_BlockingReasonCodes (val_block c r) = val_BlockingReasonCodes r @ [c]"
  "val_SelectedBackend (val_block c r) = val_SelectedBackend r"
  "val_RejectedBackends (val_block c r) = val_RejectedBackends r"
  by (simp_all add: val_block_def)

lemma val_finish_fields [simp]:
  "val_IsValid (val_finish t r) = val_IsValid r"
  "val_BlockingReasonCodes (val_finish t r) = val_BlockingReasonCodes r"
  "val_SelectedBackend (val_finish t r) = val_SelectedBackend r"
  "val_RejectedBackends (val_finish t r) = val_RejectedBackends r"
  by (simp_all add: val_finish_def add_hints_def)

lemma add_hints_fields [simp]:
  "val_IsValid (add_hints r) = val_IsValid r"
  "val_BlockingReasonCodes (add_hints r) = val_BlockingReasonCodes r"
  "val_SelectedBackend (add_hints r) = val_SelectedBackend r"
  "val_RejectedBackends (add_hints r) = val_RejectedBackends r"
  by (simp_all add: add_hints_def)

lemma trace_rejected_fields [simp]:
  "val_IsValid (trace_rejected rs r) = val_IsValid r"
  "val_BlockingReasonCodes (trace_rejected rs r) = val_BlockingReasonCodes r"
  "val_SelectedBackend (trace_rejected rs r) = val_SelectedBackend r"
  "val_RejectedBackends (trace_rejected rs r) = val_RejectedBackends r"
  by (induction rs r rule: trace_rejected.induct) auto

lemma warn_deprecated_fields [simp]:
  "val_IsValid (warn_deprecated spec r) = val_IsValid r"
  "val_BlockingReasonCodes (warn_deprecated spec r) = val_BlockingReasonCodes r"
  by (simp_all add: warn_deprecated_def Let_def)

definition generic_codes :: "LaunchSpec \<Rightarrow> NodeRecord \<Rightarrow> string list" where
  "generic_codes spec node =
     (if spec_Architecture spec = id_Architecture (node_Identity node) then []
      else [ReasonErrLaunchArchMismatch]) @
     (if seccomp_requested spec \<and> \<not> capability_usable node ''kernel_seccomp_supported''
      then [ReasonErrLaunchMissingCapabilitySeccomp] else [])"

definition selection_codes :: "LaunchSpec \<Rightarrow> NodeRecord \<Rightarrow> string list" where
  "selection_codes spec node =
     (let b = fst (SelectBackend spec node) in
      if b = '''' then [ReasonErrLaunchBackendNotSupported]
      else if b = BackendFirecracker \<and> spec_LaunchMode spec = ''Execute''
      then [ReasonErrLaunchBackendExecutionUnsupported] else [])"

definition generic_checked :: "LaunchSpec \<Rightarrow> NodeRecord \<Rightarrow> LaunchValidationResult" where
  "generic_checked spec node =
     check_security spec node (warn_deprecated spec (check_architecture spec node (val_init node)))"

lemma generic_checked_fields:
  "val_BlockingReasonCodes (generic_checked spec node) = generic_codes spec node"
  "val_IsValid (generic_checked spec node) \<longleftrightarrow> generic_codes spec node = []"
  by (simp_all add: generic_checked_def check_security_def check_architecture_def val_init_def
      generic_codes_def)

lemma validate_backend_fields:
  assumes "val_IsValid r" and "val_BlockingReasonCodes r = []"
  shows "val_BlockingReasonCodes (validate_backend spec node r) = selection_codes spec node"
    and "val_IsValid (validate_backend spec node r) \<longleftrightarrow> selection_codes spec node = []"
    and "val_SelectedBackend (validate_backend spec node r) = fst (SelectBackend spec node)"
    and "val_RejectedBackends (validate_backend spec node r) = snd (snd (SelectBackend spec node))"
proof -
  obtain b ev rj where sel: "SelectBackend spec node = (b, ev, rj)"
    by (cases "SelectBackend spec node") auto
  show "val_BlockingReasonCodes (validate_backend spec node r) = selection_codes spec node"
    and "val_IsValid (validate_backend spec node r) \<longleftrightarrow> selection_codes spec node = []"
    and "val_SelectedBackend (validate_backend spec node r) = fst (SelectBackend spec node)"
    and "val_RejectedBackends (validate_backend spec node r) = snd (snd (SelectBackend spec node))"
    using assms by (simp_all add: validate_backend_def sel selection_codes_def Let_def)
qed

lemma ValidateLaunch_split:
  "ValidateLaunch spec node =
   (if generic_codes spec node = [] then validate_backend spec node (generic_checked spec node)
    else val_finish ''Node cannot launch workload due to generic preflight blockers.''
           (generic_checked spec node))"
  by (simp add: ValidateLaunch_def Let_def generic_checked_fields flip: generic_checked_def)

lemma ValidateLaunch_codes:
  "val_BlockingReasonCodes (ValidateLaunch spec node) =
     (if generic_codes spec node = [] then selection_codes spec node else generic_codes spec node)"
  "val_IsValid (ValidateLaunch spec node) \<longleftrightarrow>
     generic_codes spec node = [] \<and> selection_codes spec node = []"
  by (auto simp: ValidateLaunch_split validate_backend_fields generic_checked_fields)

lemma ValidateLaunch_selected:
  "val_IsValid (ValidateLaunch spec node) \<Longrightarrow>
   val_SelectedBackend (ValidateLaunch spec node) = fst (SelectBackend spec node)"
  by (simp add: ValidateLaunch_codes(2))
    (simp add: ValidateLaunch_split validate_backend_fields generic_checked_fields)

lemma generic_codes_Nil:
  "generic_codes spec node = [] \<longleftrightarrow>
     spec_Architecture spec = id_Architecture (node_Identity node) \<and>
     (seccomp_requested spec \<longrightarrow> capability_usable node ''kernel_seccomp_supported'')"
  by (auto simp: generic_codes_def)

lemma selection_codes_Nil:
  "selection_codes spec node = [] \<longleftrightarrow>
     fst (SelectBackend spec node) \<noteq> '''' \<and>
     \<not> (fst (SelectBackend spec node) = ''firecracker'' \<and> spec_LaunchMode spec = ''Execute'')"
  by (simp add: selection_codes_def Let_def BackendFirecracker_def)

lemma ValidateLaunch_valid_backend:
  assumes "val_IsValid (ValidateLaunch spec node)"
  shows "\<exists>b. fst (SelectBackend spec node) = b \<and> b \<noteq> '''' \<and> backend_ready spec node b"
  using assms find_backend_ready [of spec node "admitted_backends spec"]
  by (auto simp: ValidateLaunch_codes selection_codes_Nil SelectBackend_find)

section \<open>Every refusal carries a hint\<close>

lemma put_if_mono: "K \<subseteq> fst ` set h \<Longrightarrow> K \<subseteq> fst ` set (put_if b k v h)"
  by (auto simp: put_if_def)

lemma put_if_key: "b \<Longrightarrow> {k} \<subseteq> fst ` set (put_if b k v h)"
  by (simp add: put_if_def)

definition hint_key :: "string \<Rightarrow> string" where
  "hint_key code =
     (if code = ReasonErrLaunchArchMismatch then ''architecture''
      else if code = ReasonErrLaunchBackendNotSupported then ''backend''
      else if code = ReasonErrLaunchBackendExecutionUnsupported then ''launch_mode''
      else ''kernel_seccomp'')"

abbreviation blocking_code_set :: "string set" where
  "blocking_code_set \<equiv>
     {ReasonErrLaunchArchMismatch, ReasonErrLaunchBackendNotSupported,
      ReasonErrLaunchBackendExecutionUnsupported, ReasonErrLaunchMissingCapabilitySeccomp}"

lemma blocking_hints_mono: "K \<subseteq> fst ` set h \<Longrightarrow> K \<subseteq> fst ` set (blocking_hints code h)"
  unfolding blocking_hints_def Let_def by (intro put_if_mono)

lemma blocking_codes_distinct:
  "distinct [ReasonErrLaunchArchMismatch, ReasonErrLaunchBackendNotSupported,
     ReasonErrLaunchBackendExecutionUnsupported, ReasonErrLaunchMissingCapabilitySeccomp]"
  by (simp add: ReasonErrLaunchArchMismatch_def ReasonErrLaunchBackendNotSupported_def
      ReasonErrLaunchBackendExecutionUnsupported_def ReasonErrLaunchMissingCapabilitySeccomp_def)

lemma hint_key_simps:
  "hint_key ReasonErrLaunchArchMismatch = ''architecture''"
  "hint_key ReasonErrLaunchBackendNotSupported = ''backend''"
  "hint_key ReasonErrLaunchBackendExecutionUnsupported = ''launch_mode''"
  "hint_key ReasonErrLaunchMissingCapabilitySeccomp = ''kernel_seccomp''"
  using blocking_codes_distinct by (auto simp: hint_key_def)

lemma blocking_hints_key:
  assumes "code \<in> blocking_code_set"
  shows "{hint_key code} \<subseteq> fst ` set (blocking_hints code h)"
proof -
  consider "code = ReasonErrLaunchArchMismatch" | "code = ReasonErrLaunchBackendNotSupported"
    | "code = ReasonErrLaunchBackendExecutionUnsupported"
    | "code = ReasonErrLaunchMissingCapabilitySeccomp"
    using assms by blast
  then show ?thesis
    unfolding blocking_hints_def Let_def
    by cases (auto simp only: hint_key_simps intro!: put_if_mono put_if_key)
qed

lemma fold_hints_mono:
  assumes "\<And>x h. K \<subseteq> fst ` set h \<Longrightarrow> K \<subseteq> fst ` set (f x h)" and "K \<subseteq> fst ` set h"
  shows "K \<subseteq> fst ` set (fold f xs h)"
  using assms(2)
proof (induction xs arbitrary: h)
  case Nil
  then show ?case by simp
next
  case (Cons x xs)
  from Cons.IH [OF assms(1) [OF Cons.prems]] show ?case by simp
qed

lemma rejected_hints_mono: "K \<subseteq> fst ` set h \<Longrightarrow> K \<subseteq> fst ` set (rejected_hints p h)"
  unfolding rejected_hints_def reason_hints_def qemu_hints_def ch_hints_def fc_hints_def Let_def
    case_prod_beta
  by (intro put_if_mono) (simp add: put_if_mono)

lemma blocking_fold_key:
  assumes "code \<in> set codes" and "code \<in> blocking_code_set"
  shows "{hint_key code} \<subseteq> fst ` set (fold blocking_hints codes h)"
  using assms
proof (induction codes arbitrary: h)
  case Nil
  then show ?case by simp
next
  case (Cons c cs)
  show ?case
  proof (cases "c = code")
    case True
    have "{hint_key code} \<subseteq> fst ` set (fold blocking_hints cs (blocking_hints code h))"
      by (rule fold_hints_mono [OF blocking_hints_mono blocking_hints_key [OF Cons.prems(2)]])
    with True show ?thesis by simp
  next
    case False
    with Cons show ?thesis by simp
  qed
qed

lemma ValidateLaunch_hints:
  "val_RemediationHints (ValidateLaunch spec node) =
     fold rejected_hints (val_RejectedBackends (ValidateLaunch spec node))
       (fold blocking_hints (val_BlockingReasonCodes (ValidateLaunch spec node)) [])"
proof -
  have hints: "val_RemediationHints (add_hints r) =
      fold rejected_hints (val_RejectedBackends (add_hints r))
        (fold blocking_hints (val_BlockingReasonCodes (add_hints r)) [])" for r
    by (simp add: add_hints_def generateRemediationHints_def)
  have "\<exists>r. ValidateLaunch spec node = add_hints r"
    by (auto simp: ValidateLaunch_split validate_backend_def val_finish_def Let_def split: prod.splits)
  then show ?thesis by (metis hints)
qed

lemma blocking_codes_known: "set (val_BlockingReasonCodes (ValidateLaunch spec node)) \<subseteq> blocking_code_set"
  by (auto simp: ValidateLaunch_codes generic_codes_def selection_codes_def Let_def)

section \<open>Properties\<close>

text \<open>
  C22: A launch is valid exactly when the architectures agree, seccomp is usable where a profile is
  requested, some admitted backend is ready on the node, and the launch does not ask to execute on
  Firecracker. A valid result has no blocking code and names the backend SelectBackend chose, which
  is ready; an invalid one has at least one blocking code.
\<close>
theorem ValidateLaunch_exact:
  "(val_IsValid (ValidateLaunch spec node) \<longleftrightarrow>
      spec_Architecture spec = id_Architecture (node_Identity node) \<and>
      (seccomp_requested spec \<longrightarrow> capability_usable node ''kernel_seccomp_supported'') \<and>
      (\<exists>b\<in>set (admitted_backends spec). backend_ready spec node b) \<and>
      \<not> (fst (SelectBackend spec node) = ''firecracker'' \<and> spec_LaunchMode spec = ''Execute'')) \<and>
   (val_IsValid (ValidateLaunch spec node) \<longleftrightarrow>
      val_BlockingReasonCodes (ValidateLaunch spec node) = []) \<and>
   (val_IsValid (ValidateLaunch spec node) \<longrightarrow>
      val_SelectedBackend (ValidateLaunch spec node) = fst (SelectBackend spec node) \<and>
      backend_ready spec node (val_SelectedBackend (ValidateLaunch spec node)))"
proof -
  have "fst (SelectBackend spec node) \<noteq> '''' \<longleftrightarrow> (\<exists>b\<in>set (admitted_backends spec). backend_ready spec node b)"
    by (simp add: SelectBackend_find find_backend_none)
  then show ?thesis
    using ValidateLaunch_valid_backend [of spec node] ValidateLaunch_selected [of spec node]
    by (auto simp: ValidateLaunch_codes generic_codes_Nil selection_codes_Nil)
qed

definition vm_spec :: LaunchSpec where
  "vm_spec = zero_LaunchSpec
     \<lparr>spec_WorkloadID := ''wl-1'', spec_NodeID := ''n1'', spec_Architecture := ''x86_64'',
      spec_RuntimeClass := ''VirtualMachine'', spec_RuntimeBackendPreference := ''kvm_qemu'',
      spec_ImageReference := ''/img/a.qcow2'', spec_Vcpu := 2, spec_MemoryMB := 512,
      spec_LaunchMode := ''Execute''\<rparr>"

theorem ValidateLaunch_exact_witness: "val_IsValid (ValidateLaunch vm_spec sample_node)"
proof -
  have "backend_ready vm_spec sample_node ''kvm_qemu''"
    by (simp add: backend_ready_def vm_spec_def zero_LaunchSpec_def capability_usable_def
        sample_node_capability normalizeStorage_def version_satisfied_def checkVersionRequirement_def)
  moreover have "admitted_backends vm_spec = [''kvm_qemu'']"
    by (simp add: admitted_backends_def vm_spec_def zero_LaunchSpec_def vm_backends_def)
  ultimately show ?thesis
    using ValidateLaunch_exact [of vm_spec sample_node]
    by (simp add: SelectBackend_find find_backend_def seccomp_requested_def)
      (simp add: vm_spec_def zero_LaunchSpec_def)
qed

text \<open>
  Every refusal is actionable: each blocking code of a validation has a remediation hint in the
  result, and the code is one of four.
\<close>
theorem ValidateLaunch_hinted:
  assumes "code \<in> set (val_BlockingReasonCodes (ValidateLaunch spec node))"
  shows "code \<in> {ReasonErrLaunchArchMismatch, ReasonErrLaunchBackendNotSupported,
           ReasonErrLaunchBackendExecutionUnsupported, ReasonErrLaunchMissingCapabilitySeccomp} \<and>
         (\<exists>hint. mget (val_RemediationHints (ValidateLaunch spec node)) (hint_key code) = Some hint)"
proof -
  have known: "code \<in> blocking_code_set" using assms blocking_codes_known by blast
  have "{hint_key code} \<subseteq> fst ` set (val_RemediationHints (ValidateLaunch spec node))"
    unfolding ValidateLaunch_hints
    by (rule fold_hints_mono [OF rejected_hints_mono blocking_fold_key [OF assms known]])
  with known show ?thesis by (simp add: map_of_eq_Some_iff weak_map_of_SomeI) (metis map_of_eq_None_iff not_None_eq)
qed

theorem ValidateLaunch_hinted_witness:
  "\<exists>hint. mget (val_RemediationHints (ValidateLaunch (vm_spec\<lparr>spec_Architecture := ''arm64''\<rparr>) sample_node))
     ''architecture'' = Some hint"
proof -
  have "ReasonErrLaunchArchMismatch \<in>
      set (val_BlockingReasonCodes (ValidateLaunch (vm_spec\<lparr>spec_Architecture := ''arm64''\<rparr>) sample_node))"
    by (simp add: ValidateLaunch_codes generic_codes_def)
  from ValidateLaunch_hinted [OF this] show ?thesis by (simp add: hint_key_simps)
qed

text \<open>
  The reason-code registry against the codes a validation emits: every blocking code other than
  the one for unsupported execution is registered, and that one is not, although ValidateLaunch
  returns it. Every registered code is unique and has one of the prefixes the registry demands.
\<close>
theorem registry_covers_validation:
  assumes "code \<in> set (val_BlockingReasonCodes (ValidateLaunch spec node))"
  shows "(IsKnownReasonCode code \<longleftrightarrow> code \<noteq> ReasonErrLaunchBackendExecutionUnsupported) \<and>
         distinct KnownReasonCodes \<and> list_all allowed_reason_prefix KnownReasonCodes"
proof -
  have "code \<in> blocking_code_set" using assms blocking_codes_known by blast
  moreover have "IsKnownReasonCode ReasonErrLaunchArchMismatch" "IsKnownReasonCode ReasonErrLaunchBackendNotSupported"
      "IsKnownReasonCode ReasonErrLaunchMissingCapabilitySeccomp"
    by (simp_all add: IsKnownReasonCode_def knownReasonCodes_def)
  moreover have "\<not> IsKnownReasonCode ReasonErrLaunchBackendExecutionUnsupported" by code_simp
  moreover have "distinct KnownReasonCodes" by code_simp
  moreover have "list_all allowed_reason_prefix KnownReasonCodes" by code_simp
  ultimately show ?thesis by auto
qed

theorem registry_covers_validation_witness: "IsKnownReasonCode ReasonErrLaunchArchMismatch"
proof -
  have "ReasonErrLaunchArchMismatch \<in>
      set (val_BlockingReasonCodes (ValidateLaunch (vm_spec\<lparr>spec_Architecture := ''arm64''\<rparr>) sample_node))"
    by (simp add: ValidateLaunch_codes generic_codes_def)
  from registry_covers_validation [OF this] show ?thesis
    by (simp add: ReasonErrLaunchArchMismatch_def ReasonErrLaunchBackendExecutionUnsupported_def)
qed

end
