(* ===== verification/Host.thy ===== *)
theory Host
  imports Event_Schema
begin

text \<open>
  What the program uses of the machine it runs on, as a record of operations over a world \<open>'w\<close>: the
  clock, fresh UUIDs, processes, files and sockets. The kernel, the file system and the runtime
  binaries are not part of the repository, so nothing is assumed of these operations. On top of it:
  \<^verbatim>\<open>internal/runtime/socket_probe.go\<close>, the observation type and the three inspectors of
  \<^verbatim>\<open>internal/runtime/inspect\<close>.
\<close>

datatype stat_error = StatNotExist | StatOther go_error

record 'w Host =
  host_Now :: "('w, int) state"
  host_NewUUID :: "('w, string) state"
  host_FindProcess :: "int \<Rightarrow> ('w, go_error option) state"
  host_Signal0 :: "int \<Rightarrow> ('w, go_error option) state"
  host_Kill :: "int \<Rightarrow> ('w, go_error option) state"
  host_StatIsSocket :: "string \<Rightarrow> ('w, stat_error + bool) state"
  host_DialUnix :: "string \<Rightarrow> ('w, go_error option) state"
  host_MkdirAll :: "string \<Rightarrow> ('w, go_error option) state"
  host_Start :: "string \<Rightarrow> string list \<Rightarrow> ('w, go_error + int) state"

text \<open>A host on which time stands still and every operation succeeds, for concrete instances.\<close>

definition still_host :: "int \<Rightarrow> 'w Host" where
  "still_host t =
     \<lparr>host_Now = ret t, host_NewUUID = ret ''00000000-0000-4000-8000-000000000001'',
      host_FindProcess = (\<lambda>_. ret None), host_Signal0 = (\<lambda>_. ret None), host_Kill = (\<lambda>_. ret None),
      host_StatIsSocket = (\<lambda>_. ret (Inr True)), host_DialUnix = (\<lambda>_. ret None),
      host_MkdirAll = (\<lambda>_. ret None), host_Start = (\<lambda>_ _. ret (Inr 4242))\<rparr>"

lemma still_host_simps [simp]:
  "host_Now (still_host t) = ret t"
  "host_NewUUID (still_host t) = ret ''00000000-0000-4000-8000-000000000001''"
  "host_FindProcess (still_host t) = (\<lambda>_. ret None)"
  "host_Signal0 (still_host t) = (\<lambda>_. ret None)"
  "host_Kill (still_host t) = (\<lambda>_. ret None)"
  "host_StatIsSocket (still_host t) = (\<lambda>_. ret (Inr True))"
  "host_DialUnix (still_host t) = (\<lambda>_. ret None)"
  "host_MkdirAll (still_host t) = (\<lambda>_. ret None)"
  "host_Start (still_host t) = (\<lambda>_ _. ret (Inr 4242))"
  by (simp_all add: still_host_def)

section \<open>Socket probes\<close>

definition SocketExists :: "'w Host \<Rightarrow> string \<Rightarrow> ('w, bool) state" where
  "SocketExists host path =
     (if path = '''' then ret False
      else do {
        info \<leftarrow> host_StatIsSocket host path;
        ret (case info of Inl _ \<Rightarrow> False | Inr isSocket \<Rightarrow> isSocket)
      })"

definition UnixSocketDialOK :: "'w Host \<Rightarrow> string \<Rightarrow> ('w, bool) state" where
  "UnixSocketDialOK host path =
     (if path = '''' then ret False
      else do {
        err \<leftarrow> host_DialUnix host path;
        ret (err = None)
      })"

section \<open>Observations\<close>

record RuntimeObservation =
  obs_Backend :: string
  obs_ProcessExists :: bool
  obs_PID :: "int option"
  obs_ExitCode :: "int option"
  obs_ObservedAtSec :: int
  obs_ControlSocketPath :: string
  obs_ControlSocketExists :: bool
  obs_ControlSocketDialOK :: bool
  obs_StartupGraceElapsed :: bool
  obs_BackendReadySignal :: bool
  obs_BackendSignalSource :: string
  obs_BackendSpecificError :: "string option"

definition zero_observation :: RuntimeObservation where
  "zero_observation =
     \<lparr>obs_Backend = '''', obs_ProcessExists = False, obs_PID = None, obs_ExitCode = None,
      obs_ObservedAtSec = 0, obs_ControlSocketPath = '''', obs_ControlSocketExists = False,
      obs_ControlSocketDialOK = False, obs_StartupGraceElapsed = False,
      obs_BackendReadySignal = False, obs_BackendSignalSource = '''', obs_BackendSpecificError = None\<rparr>"

type_synonym 'w Inspector =
  "string \<Rightarrow> int option \<Rightarrow> PreparedLaunch \<Rightarrow> ('w, go_error + RuntimeObservation) state"

section \<open>The inspectors\<close>

text \<open>\<^verbatim>\<open>os.FindProcess\<close> followed by signal 0, the shared process check of the inspectors.\<close>

definition process_alive :: "'w Host \<Rightarrow> int \<Rightarrow> ('w, bool) state" where
  "process_alive host pid = do {
     err \<leftarrow> host_FindProcess host pid;
     (if err \<noteq> None then ret False
      else do {
        err2 \<leftarrow> host_Signal0 host pid;
        ret (err2 = None)
      })
   }"

definition ProcessInspector :: "'w Host \<Rightarrow> 'w Inspector" where
  "ProcessInspector host executionID pid prepared = do {
     now \<leftarrow> host_Now host;
     let obs = zero_observation\<lparr>obs_PID := pid, obs_ObservedAtSec := now\<rparr>;
     (case pid of
        None \<Rightarrow> ret (Inr obs)
      | Some p \<Rightarrow> do {
          alive \<leftarrow> process_alive host p;
          ret (Inr (if alive
                    then obs\<lparr>obs_ProcessExists := True, obs_BackendReadySignal := True,
                             obs_BackendSignalSource := ''process_exists''\<rparr>
                    else obs))
        })
   }"

text \<open>
  The QEMU and Cloud Hypervisor inspectors differ in the backend's name, the prepared state they
  read the socket path from, and the names of the two signals.
\<close>

definition socket_inspector ::
    "string \<Rightarrow> string \<Rightarrow> string \<Rightarrow> 'w Host \<Rightarrow> int option \<Rightarrow> string \<Rightarrow> ('w, go_error + RuntimeObservation) state" where
  "socket_inspector backend dialSource existsSource host pid socketPath = do {
     now \<leftarrow> host_Now host;
     alive \<leftarrow> (case pid of None \<Rightarrow> ret False | Some p \<Rightarrow> process_alive host p);
     exists \<leftarrow> (if socketPath \<noteq> '''' then SocketExists host socketPath else ret False);
     dialOK \<leftarrow> (if exists then UnixSocketDialOK host socketPath else ret False);
     ret (Inr (zero_observation
       \<lparr>obs_Backend := backend, obs_ObservedAtSec := now, obs_PID := pid,
        obs_ControlSocketPath := socketPath, obs_ProcessExists := alive,
        obs_StartupGraceElapsed := True, obs_ControlSocketExists := exists,
        obs_ControlSocketDialOK := dialOK,
        obs_BackendReadySignal := (dialOK \<or> exists),
        obs_BackendSignalSource :=
          (if dialOK then dialSource else if exists then existsSource else '''')\<rparr>))
   }"

definition QemuInspector :: "'w Host \<Rightarrow> 'w Inspector" where
  "QemuInspector host executionID pid prepared =
     socket_inspector ''kvm_qemu'' ''qmp_socket_dial_ok'' ''qmp_socket_exists'' host pid
       (case prep_KvmQemu prepared of None \<Rightarrow> '''' | Some q \<Rightarrow> qemu_ControlSocketPath q)"

definition CloudHypervisorInspector :: "'w Host \<Rightarrow> 'w Inspector" where
  "CloudHypervisorInspector host executionID pid prepared =
     socket_inspector ''cloud_hypervisor'' ''ch_api_socket_dial_ok'' ''ch_api_socket_exists'' host pid
       (case prep_CloudHypervisor prepared of None \<Rightarrow> '''' | Some c \<Rightarrow> ch_ControlSocketPath c)"

definition StaticInspectorResolver :: "'w Host \<Rightarrow> string \<Rightarrow> 'w Inspector" where
  "StaticInspectorResolver host backend =
     (if backend = ''kvm_qemu'' then QemuInspector host
      else if backend = ''cloud_hypervisor'' then CloudHypervisorInspector host
      else ProcessInspector host)"

section \<open>The inspector interface\<close>

text \<open>
  What the reconciler may rely on of the inspectors in the repository: an inspection never fails,
  reports the process it was asked about, and never reports an exit code or a backend error.
\<close>

definition plain_observation :: "int option \<Rightarrow> go_error + RuntimeObservation \<Rightarrow> bool" where
  "plain_observation pid r \<longleftrightarrow>
     (\<exists>obs. r = Inr obs \<and> obs_PID obs = pid \<and> obs_ExitCode obs = None \<and>
        obs_BackendSpecificError obs = None)"

locale plain_inspector =
  fixes inspect :: "'w Inspector"
  assumes inspect_plain: "wp (inspect i pid prep) (\<lambda>r _. plain_observation pid r) w"
begin

lemma inspect_wp:
  assumes "\<And>obs w'. obs_PID obs = pid \<Longrightarrow> obs_ExitCode obs = None \<Longrightarrow>
             obs_BackendSpecificError obs = None \<Longrightarrow> Q (Inr obs) w'"
  shows "wp (inspect i pid prep) Q w"
  by (rule wp_mono [OF inspect_plain]) (auto simp: plain_observation_def intro: assms)

end

lemma plain_zero [simp]:
  "obs_ExitCode zero_observation = None" "obs_BackendSpecificError zero_observation = None"
  by (simp_all add: zero_observation_def)

lemma socket_inspector_plain:
  "wp (socket_inspector b d e host pid path) (\<lambda>r _. plain_observation pid r) w"
  unfolding socket_inspector_def wp_bind wp_return
  by (intro wp_any) (simp add: plain_observation_def)

interpretation qemu_insp: plain_inspector "QemuInspector host" for host
  by unfold_locales (simp add: QemuInspector_def socket_inspector_plain)

interpretation ch_insp: plain_inspector "CloudHypervisorInspector host" for host
  by unfold_locales (simp add: CloudHypervisorInspector_def socket_inspector_plain)

interpretation proc_insp: plain_inspector "ProcessInspector host" for host
proof
  fix i pid prep w
  show "wp (ProcessInspector host i pid prep) (\<lambda>r _. plain_observation pid r) w"
    unfolding ProcessInspector_def wp_bind Let_def
    by (rule wp_any, cases pid) (auto intro!: wp_any simp: plain_observation_def)
qed

interpretation resolved_insp: plain_inspector "StaticInspectorResolver host backend" for host backend
  by unfold_locales
    (simp add: StaticInspectorResolver_def qemu_insp.inspect_plain ch_insp.inspect_plain
      proc_insp.inspect_plain)

end
