(* ===== verification/Lifecycle.thy ===== *)
theory Lifecycle
  imports Host
begin

text \<open>
  \<^verbatim>\<open>internal/domain/lifecycle/state.go\<close>: the transition table of an execution, the guard, the
  append-only trace and \<^verbatim>\<open>TransitionTo\<close>. The record is passed by pointer in the source; here each
  operation returns the updated record.
\<close>

section \<open>The transition table\<close>

fun AllowedTransitions :: "LaunchState \<Rightarrow> LaunchState list option" where
  "AllowedTransitions StatePending = Some [StatePreparing, StateTerminated]"
| "AllowedTransitions StatePreparing = Some [StateValidated, StateFailed, StateTerminating]"
| "AllowedTransitions StateValidated = Some [StateLaunching, StateFailed, StateTerminating]"
| "AllowedTransitions StateLaunching = Some [StateStarting, StateFailed, StateTerminating]"
| "AllowedTransitions StateStarting = Some [StateRunning, StateExited, StateFailed, StateTerminating]"
| "AllowedTransitions StateRunning = Some [StateDegraded, StateExited, StateTerminating]"
| "AllowedTransitions StateDegraded = Some [StateFailed, StateTerminating]"
| "AllowedTransitions StateExited = Some []"
| "AllowedTransitions StateFailed = Some []"
| "AllowedTransitions StateTerminated = Some []"
| "AllowedTransitions StateTerminating = Some [StateTerminated]"
| "AllowedTransitions StateUnknown = None"
| "AllowedTransitions (StateOther s) = None"

definition IsTransitionAllowed :: "LaunchState \<Rightarrow> LaunchState \<Rightarrow> bool" where
  "IsTransitionAllowed current nxt =
     (if nxt = StateUnknown
      then current \<noteq> StateTerminated \<and> current \<noteq> StateFailed \<and> current \<noteq> StateExited
      else if current = StateUnknown
      then nxt = StateRunning \<or> nxt = StateExited \<or> nxt = StateFailed \<or> nxt = StateTerminating
      else case AllowedTransitions current of
          None \<Rightarrow> False
        | Some allowed \<Rightarrow> list_ex (\<lambda>a. a = nxt) allowed)"

section \<open>The trace\<close>

definition AppendTrace ::
    "'w Host \<Rightarrow> LaunchExecutionRecord \<Rightarrow> string \<Rightarrow> string \<Rightarrow> string \<Rightarrow> string
     \<Rightarrow> ('w, LaunchExecutionRecord) state" where
  "AppendTrace host rec stage status code msg = do {
     now \<leftarrow> host_Now host;
     ret (rec\<lparr>rec_Trace := rec_Trace rec @
       [\<lparr>step_Stage = stage, step_Status = status, step_ReasonCode = code, step_Message = msg,
         step_TimestampSec = now\<rparr>]\<rparr>)
   }"

definition TransitionTo ::
    "'w Host \<Rightarrow> LaunchExecutionRecord \<Rightarrow> LaunchState \<Rightarrow> string \<Rightarrow> string
     \<Rightarrow> ('w, LaunchExecutionRecord \<times> go_error option) state" where
  "TransitionTo host rec nxt reasonCode message =
     (if \<not> IsTransitionAllowed (rec_State rec) nxt
      then ret (rec, Some (''ERR_STATE_INVALID_TRANSITION: cannot transition from '' @
             state_name (rec_State rec) @ '' to '' @ state_name nxt))
      else do {
        rec' \<leftarrow> AppendTrace host (rec\<lparr>rec_State := nxt\<rparr>) ''StateTransition'' ''Success''
                  reasonCode message;
        ret (rec', None)
      })"

section \<open>Their weakest preconditions\<close>

definition traced :: "string \<Rightarrow> string \<Rightarrow> string \<Rightarrow> string \<Rightarrow> int \<Rightarrow> LaunchExecutionRecord \<Rightarrow> LaunchExecutionRecord" where
  "traced stage status code msg now rec =
     rec\<lparr>rec_Trace := rec_Trace rec @
       [\<lparr>step_Stage = stage, step_Status = status, step_ReasonCode = code, step_Message = msg,
         step_TimestampSec = now\<rparr>]\<rparr>"

lemma traced_simps [simp]:
  "rec_State (traced st s c m t r) = rec_State r"
  "rec_PID (traced st s c m t r) = rec_PID r"
  "rec_StartedAtSec (traced st s c m t r) = rec_StartedAtSec r"
  "rec_ReadyAtSec (traced st s c m t r) = rec_ReadyAtSec r"
  "rec_TerminatedAtSec (traced st s c m t r) = rec_TerminatedAtSec r"
  "rec_ExecutionID (traced st s c m t r) = rec_ExecutionID r"
  "rec_WorkloadID (traced st s c m t r) = rec_WorkloadID r"
  "rec_NodeID (traced st s c m t r) = rec_NodeID r"
  "rec_Spec (traced st s c m t r) = rec_Spec r"
  "rec_PreparedState (traced st s c m t r) = rec_PreparedState r"
  "rec_RuntimeLiveness (traced st s c m t r) = rec_RuntimeLiveness r"
  "rec_RuntimeReadiness (traced st s c m t r) = rec_RuntimeReadiness r"
  "rec_ExitCode (traced st s c m t r) = rec_ExitCode r"
  "rec_CreatedAtSec (traced st s c m t r) = rec_CreatedAtSec r"
  "rec_UpdatedAtSec (traced st s c m t r) = rec_UpdatedAtSec r"
  "rec_ReadinessSignal (traced st s c m t r) = rec_ReadinessSignal r"
  "rec_LastObservedAtSec (traced st s c m t r) = rec_LastObservedAtSec r"
  "rec_FailureReasonCode (traced st s c m t r) = rec_FailureReasonCode r"
  "rec_Generation (traced st s c m t r) = rec_Generation r"
  "rec_RecoveryEpoch (traced st s c m t r) = rec_RecoveryEpoch r"
  "rec_Trace (traced st s c m t r) = rec_Trace r @
     [\<lparr>step_Stage = st, step_Status = s, step_ReasonCode = c, step_Message = m, step_TimestampSec = t\<rparr>]"
  by (simp_all add: traced_def)

lemma wp_AppendTrace [simp]:
  "wp (AppendTrace host rec st s c m) Q w = wp (host_Now host) (\<lambda>t. Q (traced st s c m t rec)) w"
  by (simp add: AppendTrace_def traced_def)

lemma wp_TransitionTo [simp]:
  "wp (TransitionTo host rec nxt c m) Q w =
   (if IsTransitionAllowed (rec_State rec) nxt
    then wp (host_Now host)
           (\<lambda>t. Q (traced ''StateTransition'' ''Success'' c m t (rec\<lparr>rec_State := nxt\<rparr>), None)) w
    else Q (rec, Some (''ERR_STATE_INVALID_TRANSITION: cannot transition from '' @
             state_name (rec_State rec) @ '' to '' @ state_name nxt)) w)"
  by (simp add: TransitionTo_def)

lemma wp_AppendTraceI [wp_intros]:
  "(\<And>t w'. Q (traced st s c m t rec) w') \<Longrightarrow> wp (AppendTrace host rec st s c m) Q w"
  by (simp add: wp_any)

lemma wp_TransitionToI [wp_intros]:
  "(\<And>t w'. IsTransitionAllowed (rec_State rec) nxt \<Longrightarrow>
     Q (traced ''StateTransition'' ''Success'' c m t (rec\<lparr>rec_State := nxt\<rparr>), None) w') \<Longrightarrow>
   (\<not> IsTransitionAllowed (rec_State rec) nxt \<Longrightarrow>
     Q (rec, Some (''ERR_STATE_INVALID_TRANSITION: cannot transition from '' @
             state_name (rec_State rec) @ '' to '' @ state_name nxt)) w) \<Longrightarrow>
   wp (TransitionTo host rec nxt c m) Q w"
  by (simp add: wp_any)

section \<open>Terminal states and progress\<close>

definition terminal :: "LaunchState \<Rightarrow> bool" where
  "terminal s \<longleftrightarrow> s = StateTerminated \<or> s = StateFailed \<or> s = StateExited"

lemma terminal_simps [simp]:
  "terminal StateTerminated" "terminal StateFailed" "terminal StateExited"
  "\<not> terminal StatePending" "\<not> terminal StatePreparing" "\<not> terminal StateValidated"
  "\<not> terminal StateLaunching" "\<not> terminal StateStarting" "\<not> terminal StateRunning"
  "\<not> terminal StateDegraded" "\<not> terminal StateTerminating" "\<not> terminal StateUnknown"
  "\<not> terminal (StateOther s)"
  by (simp_all add: terminal_def)

lemma terminal_stuck: "terminal s \<Longrightarrow> \<not> IsTransitionAllowed s t"
  by (auto simp: terminal_def IsTransitionAllowed_def)

fun stage_rank :: "LaunchState \<Rightarrow> nat" where
  "stage_rank StatePending = 8"
| "stage_rank StatePreparing = 7"
| "stage_rank StateValidated = 6"
| "stage_rank StateLaunching = 5"
| "stage_rank StateStarting = 4"
| "stage_rank StateRunning = 3"
| "stage_rank StateDegraded = 2"
| "stage_rank StateTerminating = 1"
| "stage_rank _ = 0"

lemma allowed_rank:
  "IsTransitionAllowed s t \<Longrightarrow> s \<noteq> StateUnknown \<Longrightarrow> t \<noteq> StateUnknown \<Longrightarrow> stage_rank t < stage_rank s"
  by (cases s) (auto simp: IsTransitionAllowed_def)

lemma allowed_target_named: "IsTransitionAllowed s t \<Longrightarrow> t \<noteq> StateOther x \<and> t \<noteq> StatePending"
  by (cases s) (auto simp: IsTransitionAllowed_def split: if_splits)

text \<open>A walk through the table: each state follows from the one before it by an allowed transition.\<close>

fun state_walk :: "LaunchState \<Rightarrow> LaunchState list \<Rightarrow> bool" where
  "state_walk s [] \<longleftrightarrow> True"
| "state_walk s (t # ts) \<longleftrightarrow> IsTransitionAllowed s t \<and> state_walk t ts"

lemma walk_rank:
  "state_walk s ts \<Longrightarrow> s \<noteq> StateUnknown \<Longrightarrow> StateUnknown \<notin> set ts \<Longrightarrow> length ts \<le> stage_rank s"
proof (induction ts arbitrary: s)
  case (Cons t ts)
  then have "length ts \<le> stage_rank t" and "stage_rank t < stage_rank s"
    by (auto simp: allowed_rank)
  then show ?case by simp
qed simp

lemma walk_from_terminal: "terminal s \<Longrightarrow> state_walk s ts \<Longrightarrow> ts = []"
  by (cases ts) (auto simp: terminal_stuck)

lemma stage_rank_le: "stage_rank s \<le> 8"
  by (cases s) auto

section \<open>Properties\<close>

text \<open>
  C19: The lifecycle always comes to rest. A walk of allowed transitions that never loses telemetry
  (never enters Unknown) takes at most eight steps; once it has reached Exited, Failed or Terminated
  it takes none; and from every state the table names, one of these three can still be reached.
\<close>
theorem lifecycle_comes_to_rest:
  "(state_walk s ts \<and> s \<noteq> StateUnknown \<and> StateUnknown \<notin> set ts \<longrightarrow> length ts \<le> 8) \<and>
   (terminal s \<and> state_walk s ts \<longrightarrow> ts = []) \<and>
   ((\<forall>x. s \<noteq> StateOther x) \<longrightarrow> (\<exists>us. state_walk s us \<and> terminal (last (s # us))))"
proof (intro conjI impI)
  assume "state_walk s ts \<and> s \<noteq> StateUnknown \<and> StateUnknown \<notin> set ts"
  then have "length ts \<le> stage_rank s" by (simp add: walk_rank)
  also have "\<dots> \<le> 8" by (rule stage_rank_le)
  finally show "length ts \<le> 8" .
next
  assume "terminal s \<and> state_walk s ts"
  then show "ts = []" using walk_from_terminal by blast
next
  assume named: "\<forall>x. s \<noteq> StateOther x"
  have via: "IsTransitionAllowed s StateTerminating \<Longrightarrow>
    state_walk s [StateTerminating, StateTerminated] \<and> terminal (last [s, StateTerminating, StateTerminated])"
    by (simp add: IsTransitionAllowed_def)
  consider "terminal s" | "IsTransitionAllowed s StateTerminating" | "IsTransitionAllowed s StateTerminated"
    using named by (cases s) (auto simp: IsTransitionAllowed_def)
  then show "\<exists>us. state_walk s us \<and> terminal (last (s # us))"
  proof cases
    case 1
    then show ?thesis by (intro exI [of _ "[]"]) simp
  next
    case 2
    then show ?thesis using via by (intro exI [of _ "[StateTerminating, StateTerminated]"]) simp
  next
    case 3
    then show ?thesis by (intro exI [of _ "[StateTerminated]"]) simp
  qed
qed

theorem lifecycle_comes_to_rest_witness:
  "length [StatePreparing, StateFailed] \<le> 8 \<and>
   state_walk StatePending [StatePreparing, StateFailed] \<and> ([]::LaunchState list) = []"
  using lifecycle_comes_to_rest [of StatePending "[StatePreparing, StateFailed]"]
    lifecycle_comes_to_rest [of StateFailed "[]"]
  by (simp add: IsTransitionAllowed_def)

end
