(* ===== verification/Runtime_Exec.thy ===== *)
theory Runtime_Exec
  imports Host
begin

text \<open>
  \<^verbatim>\<open>internal/runtime\<close>: \<^verbatim>\<open>paths.go\<close>, \<^verbatim>\<open>storage.go\<close>, the \<^verbatim>\<open>Executor\<close> interface and its three
  implementations \<^verbatim>\<open>kvm.go\<close>, \<^verbatim>\<open>cloudhypervisor.go\<close> and \<^verbatim>\<open>firecracker_validate.go\<close>. Strings are
  byte strings; \<^verbatim>\<open>filepath.Join\<close>, \<^verbatim>\<open>Clean\<close> and \<^verbatim>\<open>Dir\<close> are the standard library's for Unix paths.
\<close>

section \<open>Slash-separated paths\<close>

fun join_with :: "string \<Rightarrow> string list \<Rightarrow> string" where
  "join_with sep [] = []"
| "join_with sep [x] = x"
| "join_with sep (x # y # ys) = x @ sep @ join_with sep (y # ys)"

fun split_slash :: "string \<Rightarrow> string list" where
  "split_slash [] = [[]]"
| "split_slash (c # cs) =
     (if c = CHR ''/'' then [] # split_slash cs
      else case split_slash cs of [] \<Rightarrow> [[c]] | p # ps \<Rightarrow> (c # p) # ps)"

fun clean_parts :: "bool \<Rightarrow> string list \<Rightarrow> string list \<Rightarrow> string list" where
  "clean_parts rooted acc [] = rev acc"
| "clean_parts rooted acc (p # ps) =
     (if p = '''' \<or> p = ''.'' then clean_parts rooted acc ps
      else if p = ''..''
      then (case acc of
              q # qs \<Rightarrow> if q = ''..'' then clean_parts rooted (p # acc) ps else clean_parts rooted qs ps
            | [] \<Rightarrow> if rooted then clean_parts rooted [] ps else clean_parts rooted [p] ps)
      else clean_parts rooted (p # acc) ps)"

definition Clean :: "string \<Rightarrow> string" where
  "Clean path =
     (let rooted = (path \<noteq> [] \<and> hd path = CHR ''/'');
          out = join_with ''/'' (clean_parts rooted [] (split_slash path))
      in if rooted then CHR ''/'' # out else if out = [] then ''.'' else out)"

definition filepath_Join :: "string list \<Rightarrow> string" where
  "filepath_Join elems =
     (let rest = dropWhile (\<lambda>e. e = []) elems in
      if rest = [] then '''' else Clean (join_with ''/'' rest))"

definition filepath_Dir :: "string \<Rightarrow> string" where
  "filepath_Dir path = Clean (rev (dropWhile (\<lambda>c. c \<noteq> CHR ''/'') (rev path)))"

section \<open>Runtime paths\<close>

definition valid_id_char :: "char \<Rightarrow> bool" where
  "valid_id_char c \<longleftrightarrow>
     (let n = (of_char c :: nat) in
      (97 \<le> n \<and> n \<le> 122) \<or> (65 \<le> n \<and> n \<le> 90) \<or> (48 \<le> n \<and> n \<le> 57) \<or>
      c = CHR ''_'' \<or> c = CHR ''-'')"

definition validIDPattern :: "string \<Rightarrow> bool" where
  "validIDPattern s \<longleftrightarrow> s \<noteq> [] \<and> list_all valid_id_char s"

definition SanitizeWorkloadID :: "string \<Rightarrow> go_error + string" where
  "SanitizeWorkloadID wid =
     (if \<not> validIDPattern wid then Inl (''invalid characters in workload ID: '' @ wid) else Inr wid)"

definition GetRuntimeDir :: "string \<Rightarrow> go_error + string" where
  "GetRuntimeDir workloadID =
     (case SanitizeWorkloadID workloadID of
        Inl err \<Rightarrow> Inl err
      | Inr safeID \<Rightarrow> Inr (filepath_Join [''var'', ''run'', ''schedune'', safeID]))"

definition GetControlSocketPath :: "string \<Rightarrow> string \<Rightarrow> go_error + string" where
  "GetControlSocketPath workloadID backend =
     (case GetRuntimeDir workloadID of
        Inl err \<Rightarrow> Inl err
      | Inr dir \<Rightarrow>
          if \<not> validIDPattern backend
          then Inl (''invalid characters in backend token: '' @ backend)
          else Inr (filepath_Join [dir, backend @ ''.sock'']))"

section \<open>Disks\<close>

definition disk_format :: "StorageAttachmentSpec \<Rightarrow> string" where
  "disk_format s = (if sto_Format s = '''' then ''raw'' else sto_Format s)"

definition resolvePrimaryDisk :: "LaunchSpec \<Rightarrow> string \<times> string" where
  "resolvePrimaryDisk spec =
     (case spec_Storage spec of
        s0 # _ \<Rightarrow>
          (case List.find (\<lambda>s. sto_MountPoint s = ''/'' \<or> sto_MountPoint s = '''') (spec_Storage spec) of
             Some s \<Rightarrow> (sto_HostPath s, disk_format s)
           | None \<Rightarrow> (sto_HostPath s0, disk_format s0))
      | [] \<Rightarrow> if spec_ImageReference spec \<noteq> '''' then (spec_ImageReference spec, ''qcow2'') else ('''', ''''))"

fun firecracker_disks :: "StorageAttachmentSpec list \<Rightarrow> string \<Rightarrow> string \<Rightarrow> string \<times> string" where
  "firecracker_disks [] kern rootfs = (kern, rootfs)"
| "firecracker_disks (s # ss) kern rootfs =
     (if sto_MountPoint s = ''/'' then firecracker_disks ss kern (sto_HostPath s)
      else if sto_MountPoint s = ''/boot/vmlinux'' \<or> (sto_Format s = ''raw'' \<and> sto_ReadOnly s)
      then firecracker_disks ss (sto_HostPath s) rootfs
      else firecracker_disks ss kern rootfs)"

definition resolveFirecrackerDisks :: "LaunchSpec \<Rightarrow> string \<times> string" where
  "resolveFirecrackerDisks spec =
     (let (kern, rootfs) = firecracker_disks (spec_Storage spec) '''' '''' in
      if spec_Storage spec \<noteq> [] \<and> kern \<noteq> '''' \<and> rootfs \<noteq> '''' then (kern, rootfs)
      else (spec_KernelImagePath spec, spec_RootfsPath spec))"

section \<open>Executors\<close>

text \<open>The interface. \<^verbatim>\<open>Prepare\<close> may read the file system; \<^verbatim>\<open>Execute\<close> starts a process.\<close>

record 'w Executor =
  exec_Prepare :: "LaunchSpec \<Rightarrow> ('w, go_error + PreparedLaunch) state"
  exec_Execute :: "PreparedLaunch \<Rightarrow> ('w, go_error + int) state"
  exec_Terminate :: "int \<Rightarrow> ('w, go_error option) state"

definition artifact_missing :: "'w Host \<Rightarrow> string \<Rightarrow> ('w, bool) state" where
  "artifact_missing host path = do {
     info \<leftarrow> host_StatIsSocket host path;
     ret (info = Inl StatNotExist)
   }"

text \<open>Both VM executors start the prepared command, and kill a process, in the same way.\<close>

definition spawn :: "'w Host \<Rightarrow> string \<Rightarrow> string \<Rightarrow> string list \<Rightarrow> ('w, go_error + int) state" where
  "spawn host socketPath binary args = do {
     err \<leftarrow> (if socketPath \<noteq> '''' then host_MkdirAll host (filepath_Dir socketPath) else ret None);
     (case err of
        Some e \<Rightarrow> ret (Inl (''failed to create runtime directory: '' @ e))
      | None \<Rightarrow> do {
          started \<leftarrow> host_Start host binary args;
          ret (case started of
                 Inl e \<Rightarrow> Inl (''executable failed to start: '' @ e)
               | Inr pid \<Rightarrow> Inr pid)
        })
   }"

definition kill_process :: "'w Host \<Rightarrow> int \<Rightarrow> ('w, go_error option) state" where
  "kill_process host pid = do {
     err \<leftarrow> host_FindProcess host pid;
     (if err \<noteq> None then ret err else host_Kill host pid)
   }"

subsection \<open>QEMU\<close>

definition qemu_args :: "LaunchSpec \<Rightarrow> string \<Rightarrow> string \<Rightarrow> string \<Rightarrow> string list" where
  "qemu_args spec artifactPath format controlSocket =
     [''-enable-kvm'',
      ''-m'', itoa (spec_MemoryMB spec),
      ''-smp'', itoa (spec_Vcpu spec),
      ''-drive'', ''file='' @ artifactPath @ '',format='' @ format,
      ''-nographic'',
      ''-qmp'', ''unix:'' @ controlSocket @ '',server,nowait'']"

definition kvm_Prepare :: "'w Host \<Rightarrow> LaunchSpec \<Rightarrow> ('w, go_error + PreparedLaunch) state" where
  "kvm_Prepare host spec =
     (let binPath = ''qemu-system-'' @ spec_Architecture spec;
          (artifactPath, format) = resolvePrimaryDisk spec in
      if artifactPath = '''' then ret (Inl ''artifact missing for execution'')
      else do {
        missing \<leftarrow> artifact_missing host artifactPath;
        ret (if missing then Inl (''artifact missing at host path: '' @ artifactPath)
             else case GetControlSocketPath (spec_WorkloadID spec) ''qemu'' of
                 Inl err \<Rightarrow> Inl (''failed to resolve control socket: '' @ err)
               | Inr controlSocket \<Rightarrow> Inr (zero_PreparedLaunch
                   \<lparr>prep_RuntimeBackend := ''kvm_qemu'', prep_MemoryMB := spec_MemoryMB spec,
                    prep_Vcpu := spec_Vcpu spec, prep_StartupGraceSec := 5,
                    prep_KvmQemu := Some \<lparr>qemu_BinaryPath = binPath, qemu_ArtifactPath = artifactPath,
                      qemu_CommandArgs = qemu_args spec artifactPath format controlSocket,
                      qemu_ControlSocketPath = controlSocket\<rparr>\<rparr>))
      })"

definition kvm_Execute :: "'w Host \<Rightarrow> PreparedLaunch \<Rightarrow> ('w, go_error + int) state" where
  "kvm_Execute host prepared =
     (case prep_KvmQemu prepared of
        None \<Rightarrow> ret (Inl ''missing kvm_qemu prepared state'')
      | Some q \<Rightarrow> spawn host (qemu_ControlSocketPath q) (qemu_BinaryPath q) (qemu_CommandArgs q))"

definition KvmExecutor :: "'w Host \<Rightarrow> 'w Executor" where
  "KvmExecutor host =
     \<lparr>exec_Prepare = kvm_Prepare host, exec_Execute = kvm_Execute host,
      exec_Terminate = kill_process host\<rparr>"

subsection \<open>Cloud Hypervisor\<close>

definition ch_args :: "LaunchSpec \<Rightarrow> string \<Rightarrow> string \<Rightarrow> string list" where
  "ch_args spec artifactPath controlSocket =
     [''--memory'', ''size='' @ itoa (spec_MemoryMB spec) @ ''M'',
      ''--cpus'', ''boot='' @ itoa (spec_Vcpu spec),
      ''--disk'', ''path='' @ artifactPath,
      ''--api-socket'', controlSocket]"

definition ch_Prepare :: "'w Host \<Rightarrow> LaunchSpec \<Rightarrow> ('w, go_error + PreparedLaunch) state" where
  "ch_Prepare host spec =
     (let binPath = ''cloud-hypervisor''; (artifactPath, _) = resolvePrimaryDisk spec in
      if artifactPath = '''' then ret (Inl ''artifact missing for execution'')
      else do {
        missing \<leftarrow> artifact_missing host artifactPath;
        ret (if missing then Inl (''artifact missing at host path: '' @ artifactPath)
             else case GetControlSocketPath (spec_WorkloadID spec) ''cloudhypervisor'' of
                 Inl err \<Rightarrow> Inl (''failed to resolve control socket: '' @ err)
               | Inr controlSocket \<Rightarrow> Inr (zero_PreparedLaunch
                   \<lparr>prep_RuntimeBackend := ''cloud_hypervisor'', prep_MemoryMB := spec_MemoryMB spec,
                    prep_Vcpu := spec_Vcpu spec, prep_StartupGraceSec := 3,
                    prep_CloudHypervisor := Some \<lparr>ch_BinaryPath = binPath, ch_ArtifactPath = artifactPath,
                      ch_CommandArgs = ch_args spec artifactPath controlSocket,
                      ch_ControlSocketPath = controlSocket\<rparr>\<rparr>))
      })"

definition ch_Execute :: "'w Host \<Rightarrow> PreparedLaunch \<Rightarrow> ('w, go_error + int) state" where
  "ch_Execute host prepared =
     (case prep_CloudHypervisor prepared of
        None \<Rightarrow> ret (Inl ''missing cloud_hypervisor prepared state'')
      | Some q \<Rightarrow> spawn host (ch_ControlSocketPath q) (ch_BinaryPath q) (ch_CommandArgs q))"

definition CloudHypervisorExecutor :: "'w Host \<Rightarrow> 'w Executor" where
  "CloudHypervisorExecutor host =
     \<lparr>exec_Prepare = ch_Prepare host, exec_Execute = ch_Execute host,
      exec_Terminate = kill_process host\<rparr>"

subsection \<open>Firecracker\<close>

definition fc_Prepare :: "LaunchSpec \<Rightarrow> ('w, go_error + PreparedLaunch) state" where
  "fc_Prepare spec =
     (let binPath = ''firecracker''; (kern, rootfs) = resolveFirecrackerDisks spec in
      ret (if kern = '''' \<or> rootfs = ''''
           then Inl ''missing kernel or rootfs path for firecracker artifact model''
           else case GetControlSocketPath (spec_WorkloadID spec) ''firecracker'' of
               Inl err \<Rightarrow> Inl (''failed to resolve control socket: '' @ err)
             | Inr controlSocket \<Rightarrow>
                 (let runtimeDir = filepath_Dir controlSocket;
                      args = [''--api-sock'', controlSocket,
                              ''--config-file'', filepath_Join [runtimeDir, ''fc-config.json'']] in
                  Inr (zero_PreparedLaunch
                   \<lparr>prep_RuntimeBackend := ''firecracker'', prep_MemoryMB := spec_MemoryMB spec,
                    prep_Vcpu := spec_Vcpu spec, prep_StartupGraceSec := 2,
                    prep_Firecracker := Some \<lparr>fc_BinaryPath = binPath, fc_KernelImagePath = kern,
                      fc_RootfsPath = rootfs, fc_CommandArgs = args,
                      fc_ControlSocketPath = controlSocket\<rparr>\<rparr>))))"

definition FirecrackerExecutor :: "'w Executor" where
  "FirecrackerExecutor =
     \<lparr>exec_Prepare = fc_Prepare,
      exec_Execute = (\<lambda>_. ret (Inl
        ''firecracker actual execution not implemented in Data Plane V0 - validate/dry-run only'')),
      exec_Terminate = (\<lambda>_. ret (Some ''firecracker termination not implemented''))\<rparr>"

text \<open>\<^verbatim>\<open>StaticExecutorResolver\<close> of \<^verbatim>\<open>internal/api/launch_handlers.go\<close>.\<close>

definition StaticExecutorResolver :: "'w Host \<Rightarrow> string \<Rightarrow> go_error + 'w Executor" where
  "StaticExecutorResolver host backend =
     (if backend = ''kvm_qemu'' then Inr (KvmExecutor host)
      else if backend = ''cloud_hypervisor'' then Inr (CloudHypervisorExecutor host)
      else if backend = ''firecracker'' then Inr FirecrackerExecutor
      else Inl (''backend '' @ backend @ '' not registered''))"

section \<open>Lemmas on paths\<close>

definition plain_part :: "string \<Rightarrow> bool" where
  "plain_part p \<longleftrightarrow> p \<noteq> '''' \<and> p \<noteq> ''.'' \<and> p \<noteq> ''..'' \<and> CHR ''/'' \<notin> set p"

lemma plain_part_hd: "plain_part p \<Longrightarrow> p \<noteq> [] \<and> hd p \<noteq> CHR ''/''"
  by (cases p) (auto simp: plain_part_def)

lemma split_slash_nonempty [simp]: "split_slash s \<noteq> []"
  by (induction s) (auto split: list.splits)

lemma split_slash_plain: "CHR ''/'' \<notin> set p \<Longrightarrow> split_slash p = [p]"
  by (induction p) auto

lemma split_slash_append:
  "CHR ''/'' \<notin> set p \<Longrightarrow> split_slash (p @ CHR ''/'' # s) = p # split_slash s"
  by (induction p) auto

lemma split_slash_join:
  "ps \<noteq> [] \<Longrightarrow> \<forall>p\<in>set ps. CHR ''/'' \<notin> set p \<Longrightarrow> split_slash (join_with ''/'' ps) = ps"
  by (induction "''/''" ps rule: join_with.induct) (auto simp: split_slash_plain split_slash_append)

lemma clean_parts_plain: "\<forall>p\<in>set ps. plain_part p \<Longrightarrow> clean_parts rooted acc ps = rev acc @ ps"
  by (induction ps arbitrary: acc) (auto simp: plain_part_def)

lemma clean_parts_append_empty: "clean_parts r acc (ps @ ['''']) = clean_parts r acc ps"
  by (induction r acc ps rule: clean_parts.induct) (auto split: list.splits)

lemma join_with_snoc: "ps \<noteq> [] \<Longrightarrow> join_with sep (ps @ [p]) = join_with sep ps @ sep @ p"
  by (induction sep ps rule: join_with.induct) auto

lemma Clean_plain:
  assumes "ps \<noteq> []" and "\<forall>p\<in>set ps. plain_part p"
  shows "Clean (join_with ''/'' ps) = join_with ''/'' ps"
proof -
  obtain p ps' where ps: "ps = p # ps'" using assms(1) by (cases ps) auto
  from assms ps have p: "p \<noteq> []" "hd p \<noteq> CHR ''/''" by (simp_all add: plain_part_hd)
  have "join_with ''/'' ps \<noteq> []" and "hd (join_with ''/'' ps) = hd p"
    using p(1) by (cases ps'; simp add: ps)+
  moreover have "split_slash (join_with ''/'' ps) = ps"
    using assms by (intro split_slash_join) (auto simp: plain_part_def)
  ultimately show ?thesis using assms(2) p(2) by (simp add: Clean_def clean_parts_plain)
qed

lemma Clean_plain_slash:
  assumes "ps \<noteq> []" and "\<forall>p\<in>set ps. plain_part p"
  shows "Clean (join_with ''/'' ps @ ''/'') = join_with ''/'' ps"
proof -
  obtain p ps' where ps: "ps = p # ps'" using assms(1) by (cases ps) auto
  from assms ps have p: "p \<noteq> []" "hd p \<noteq> CHR ''/''" by (simp_all add: plain_part_hd)
  have ne: "join_with ''/'' ps \<noteq> []" and "hd (join_with ''/'' ps) = hd p"
    using p(1) by (cases ps'; simp add: ps)+
  moreover have "split_slash (join_with ''/'' ps @ ''/'') = ps @ ['''']"
    using assms split_slash_join [of "ps @ [[]]"]
    by (auto simp: plain_part_def join_with_snoc)
  ultimately show ?thesis
    using assms(2) p(2) by (simp add: Clean_def clean_parts_append_empty clean_parts_plain)
qed

lemma dropWhile_append_stop:
  "\<forall>c\<in>set p. P c \<Longrightarrow> \<not> P d \<Longrightarrow> dropWhile P (p @ d # q) = d # q"
  by (induction p) auto

lemma Dir_plain:
  assumes "ps \<noteq> []" and "\<forall>p\<in>set ps. plain_part p" and "CHR ''/'' \<notin> set f"
  shows "filepath_Dir (join_with ''/'' ps @ ''/'' @ f) = join_with ''/'' ps"
proof -
  have "dropWhile (\<lambda>c. c \<noteq> CHR ''/'') (rev f @ CHR ''/'' # rev (join_with ''/'' ps)) =
      CHR ''/'' # rev (join_with ''/'' ps)"
    by (rule dropWhile_append_stop) (use assms(3) in auto)
  then show ?thesis
    using Clean_plain_slash [OF assms(1,2)] by (simp add: filepath_Dir_def)
qed

lemma valid_id_char_safe: "valid_id_char c \<Longrightarrow> c \<noteq> CHR ''/'' \<and> c \<noteq> CHR ''.''"
  by (auto simp: valid_id_char_def Let_def)

lemma validID_safe: "validIDPattern s \<Longrightarrow> CHR ''/'' \<notin> set s \<and> CHR ''.'' \<notin> set s"
  by (auto simp: validIDPattern_def list_all_iff dest: valid_id_char_safe)

lemma validID_plain: "validIDPattern s \<Longrightarrow> plain_part s"
  using validID_safe [of s] by (auto simp: plain_part_def validIDPattern_def)

lemma validID_sock_plain: "validIDPattern s \<Longrightarrow> plain_part (s @ ''.sock'')"
  using validID_safe [of s] by (auto simp: plain_part_def validIDPattern_def append_eq_Cons_conv)

lemma base_parts_plain [simp]: "plain_part ''var''" "plain_part ''run''" "plain_part ''schedune''"
  by (simp_all add: plain_part_def)

lemma filepath_Join_plain:
  assumes "ps \<noteq> []" and "\<forall>p\<in>set ps. plain_part p"
  shows "filepath_Join ps = join_with ''/'' ps"
proof -
  have "dropWhile (\<lambda>e. e = []) ps = ps"
    using assms by (cases ps) (auto simp: plain_part_def)
  then show ?thesis using assms by (simp add: filepath_Join_def Clean_plain)
qed

definition runtime_dir :: "string \<Rightarrow> string" where
  "runtime_dir wid = ''var/run/schedune/'' @ wid"

lemma GetRuntimeDir_eq:
  "GetRuntimeDir wid =
     (if validIDPattern wid then Inr (runtime_dir wid)
      else Inl (''invalid characters in workload ID: '' @ wid))"
  by (simp add: GetRuntimeDir_def SanitizeWorkloadID_def filepath_Join_plain validID_plain runtime_dir_def)

lemma runtime_dir_join: "runtime_dir wid = join_with ''/'' [''var'', ''run'', ''schedune'', wid]"
  by (simp add: runtime_dir_def)

lemma GetControlSocketPath_valid:
  assumes "validIDPattern wid" and "validIDPattern b"
  shows "GetControlSocketPath wid b = Inr (runtime_dir wid @ ''/'' @ b @ ''.sock'')"
proof -
  let ?ps = "[''var'', ''run'', ''schedune'', wid, b @ ''.sock'']"
  have parts: "\<forall>p\<in>set ?ps. plain_part p" using assms by (simp add: validID_plain validID_sock_plain)
  have "Clean (join_with ''/'' ?ps) = join_with ''/'' ?ps" by (rule Clean_plain) (use parts in auto)
  then have "filepath_Join [runtime_dir wid, b @ ''.sock''] = runtime_dir wid @ ''/'' @ b @ ''.sock''"
    by (simp add: filepath_Join_def runtime_dir_def)
  then show ?thesis using assms by (simp add: GetControlSocketPath_def GetRuntimeDir_eq)
qed

lemma GetControlSocketPath_eq:
  "validIDPattern b \<Longrightarrow> GetControlSocketPath wid b =
     (if validIDPattern wid then Inr (runtime_dir wid @ ''/'' @ b @ ''.sock'')
      else Inl (''invalid characters in workload ID: '' @ wid))"
  by (cases "validIDPattern wid")
    (simp_all add: GetControlSocketPath_valid, simp add: GetControlSocketPath_def GetRuntimeDir_eq)

lemma backend_tokens_valid [simp]:
  "validIDPattern ''qemu''" "validIDPattern ''cloudhypervisor''" "validIDPattern ''firecracker''"
  by (simp_all add: validIDPattern_def valid_id_char_def Let_def)

lemma socket_dir:
  assumes "validIDPattern wid" and "validIDPattern b"
  shows "filepath_Dir (runtime_dir wid @ ''/'' @ b @ ''.sock'') = runtime_dir wid"
  unfolding runtime_dir_join
  by (rule Dir_plain) (use assms in \<open>auto simp: validID_plain validID_safe\<close>)

lemma socket_path_inj:
  assumes "validIDPattern w1" "validIDPattern w2" "validIDPattern b1" "validIDPattern b2"
    and "runtime_dir w1 @ ''/'' @ b1 @ ''.sock'' = runtime_dir w2 @ ''/'' @ b2 @ ''.sock''"
  shows "w1 = w2 \<and> b1 = b2"
proof -
  have "w1 @ CHR ''/'' # b1 = w2 @ CHR ''/'' # b2"
    using assms(5) by (simp add: runtime_dir_def)
  then have "split_slash (w1 @ CHR ''/'' # b1) = split_slash (w2 @ CHR ''/'' # b2)"
    by (rule arg_cong)
  then show ?thesis
    using assms(1-4) by (simp add: split_slash_append split_slash_plain validID_safe)
qed

section \<open>Properties of the paths\<close>

text \<open>
  C30: A control socket path exists exactly for workload ids and backend tokens made of letters,
  digits, underscore and hyphen. It then lies directly in the workload's own directory under
  var/run/schedune, so a workload id can never escape that directory.
\<close>
theorem control_socket_path_safe:
  "GetControlSocketPath wid b =
     (if \<not> validIDPattern wid then Inl (''invalid characters in workload ID: '' @ wid)
      else if \<not> validIDPattern b then Inl (''invalid characters in backend token: '' @ b)
      else Inr (''var/run/schedune/'' @ wid @ ''/'' @ b @ ''.sock'')) \<and>
   (\<forall>path. GetControlSocketPath wid b = Inr path \<longrightarrow>
      split_slash path = [''var'', ''run'', ''schedune'', wid, b @ ''.sock''] \<and>
      Inr (filepath_Dir path) = GetRuntimeDir wid)"
proof (cases "validIDPattern wid \<and> validIDPattern b")
  case True
  then have path: "GetControlSocketPath wid b = Inr (runtime_dir wid @ ''/'' @ b @ ''.sock'')"
    by (simp add: GetControlSocketPath_valid)
  have "split_slash (runtime_dir wid @ ''/'' @ b @ ''.sock'') =
      [''var'', ''run'', ''schedune'', wid, b @ ''.sock'']"
    using True by (simp add: runtime_dir_def split_slash_append split_slash_plain validID_safe)
  moreover have "filepath_Dir (runtime_dir wid @ ''/'' @ b @ ''.sock'') = runtime_dir wid"
    by (rule socket_dir) (use True in auto)
  ultimately show ?thesis using True path
    by (auto simp: GetRuntimeDir_eq) (simp add: runtime_dir_def)
next
  case False
  then show ?thesis by (auto simp: GetControlSocketPath_def GetRuntimeDir_eq)
qed

theorem control_socket_path_safe_witness:
  "GetControlSocketPath ''wl-1'' ''qemu'' = Inr ''var/run/schedune/wl-1/qemu.sock'' \<and>
   Inr (filepath_Dir ''var/run/schedune/wl-1/qemu.sock'') = GetRuntimeDir ''wl-1''"
  using control_socket_path_safe [of "''wl-1''" "''qemu''"]
  by (simp add: validIDPattern_def valid_id_char_def Let_def)

text \<open>
  Two launches share a control socket only when they are the same workload on the same backend.
\<close>
theorem control_sockets_isolated:
  assumes "GetControlSocketPath w1 b1 = Inr path" and "GetControlSocketPath w2 b2 = Inr path"
  shows "w1 = w2 \<and> b1 = b2"
proof -
  have "validIDPattern w" "validIDPattern b" if "GetControlSocketPath w b = Inr path" for w b
    using that by (auto simp: GetControlSocketPath_def GetRuntimeDir_eq split: if_splits)
  note valid = this [OF assms(1)] this [OF assms(2)]
  from valid assms have "runtime_dir w1 @ ''/'' @ b1 @ ''.sock'' = runtime_dir w2 @ ''/'' @ b2 @ ''.sock''"
    by (simp add: GetControlSocketPath_valid)
  then show ?thesis by (rule socket_path_inj [OF valid(1) valid(3) valid(2) valid(4)])
qed

theorem control_sockets_isolated_witness:
  "GetControlSocketPath ''a'' ''qemu'' \<noteq> GetControlSocketPath ''b'' ''qemu'' \<and> ''a'' = ''a''"
proof -
  have ab: "GetControlSocketPath x ''qemu'' = Inr (''var/run/schedune/'' @ x @ ''/qemu.sock'')"
    if "x = ''a'' \<or> x = ''b''" for x
    using that by (auto simp: GetControlSocketPath_valid runtime_dir_def validIDPattern_def
        valid_id_char_def Let_def)
  have "''a'' = ''a''"
    using control_sockets_isolated [OF ab [of "''a''"] ab [of "''a''"]] by simp
  with ab show ?thesis by simp
qed

section \<open>The executor interface\<close>

text \<open>
  What the orchestrator relies on of an executor registered for a backend: the preparation it returns
  carries that backend's name, the sizes of the spec, and the prepared state of that backend with the
  workload's control socket.
\<close>

definition backend_token :: "string \<Rightarrow> string" where
  "backend_token backend =
     (if backend = ''kvm_qemu'' then ''qemu''
      else if backend = ''cloud_hypervisor'' then ''cloudhypervisor'' else backend)"

definition prepared_socket :: "PreparedLaunch \<Rightarrow> string option" where
  "prepared_socket p =
     (case (prep_KvmQemu p, prep_CloudHypervisor p, prep_Firecracker p) of
        (Some q, None, None) \<Rightarrow> Some (qemu_ControlSocketPath q)
      | (None, Some c, None) \<Rightarrow> Some (ch_ControlSocketPath c)
      | (None, None, Some f) \<Rightarrow> Some (fc_ControlSocketPath f)
      | _ \<Rightarrow> None)"

definition prepared_for :: "string \<Rightarrow> LaunchSpec \<Rightarrow> PreparedLaunch \<Rightarrow> bool" where
  "prepared_for backend spec p \<longleftrightarrow>
     prep_RuntimeBackend p = backend \<and> prep_MemoryMB p = spec_MemoryMB spec \<and>
     prep_Vcpu p = spec_Vcpu spec \<and> validIDPattern (spec_WorkloadID spec) \<and>
     prepared_socket p =
       Some (runtime_dir (spec_WorkloadID spec) @ ''/'' @ backend_token backend @ ''.sock'')"

locale executor =
  fixes E :: "'w Executor" and backend :: string
  assumes prepare_own: "wp (exec_Prepare E spec) (\<lambda>r _. \<forall>p. r = Inr p \<longrightarrow> prepared_for backend spec p) w"
begin

lemma prepareI:
  "(\<And>e w'. Q (Inl e) w') \<Longrightarrow> (\<And>p w'. prepared_for backend spec p \<Longrightarrow> Q (Inr p) w') \<Longrightarrow>
   wp (exec_Prepare E spec) Q w"
  by (rule wp_mono [OF prepare_own]) (case_tac a; simp)

end

lemma prepared_simps [simp]:
  "prep_KvmQemu zero_PreparedLaunch = None" "prep_CloudHypervisor zero_PreparedLaunch = None"
  "prep_Firecracker zero_PreparedLaunch = None"
  by (simp_all add: zero_PreparedLaunch_def)

interpretation kvm_exec: executor "KvmExecutor host" "''kvm_qemu''" for host
proof
  fix spec :: LaunchSpec and w
  show "wp (exec_Prepare (KvmExecutor host) spec)
          (\<lambda>r _. \<forall>p. r = Inr p \<longrightarrow> prepared_for ''kvm_qemu'' spec p) w"
    unfolding KvmExecutor_def kvm_Prepare_def Let_def
    by (auto simp: prepared_for_def prepared_socket_def backend_token_def GetControlSocketPath_eq
        wp_cases split: prod.splits if_splits intro!: wp_any)
qed

interpretation ch_exec: executor "CloudHypervisorExecutor host" "''cloud_hypervisor''" for host
proof
  fix spec :: LaunchSpec and w
  show "wp (exec_Prepare (CloudHypervisorExecutor host) spec)
          (\<lambda>r _. \<forall>p. r = Inr p \<longrightarrow> prepared_for ''cloud_hypervisor'' spec p) w"
    unfolding CloudHypervisorExecutor_def ch_Prepare_def Let_def
    by (auto simp: prepared_for_def prepared_socket_def backend_token_def GetControlSocketPath_eq
        wp_cases split: prod.splits if_splits intro!: wp_any)
qed

interpretation fc_exec: executor FirecrackerExecutor "''firecracker''"
proof
  fix spec :: LaunchSpec and w
  show "wp (exec_Prepare FirecrackerExecutor spec)
          (\<lambda>r _. \<forall>p. r = Inr p \<longrightarrow> prepared_for ''firecracker'' spec p) w"
    unfolding FirecrackerExecutor_def fc_Prepare_def Let_def
    by (auto simp: prepared_for_def prepared_socket_def backend_token_def GetControlSocketPath_eq
        wp_cases split: prod.splits if_splits)
qed

lemma resolved_executor: "StaticExecutorResolver host b = Inr E \<Longrightarrow> executor E b"
  by (auto simp: StaticExecutorResolver_def split: if_splits
      intro: kvm_exec.executor_axioms ch_exec.executor_axioms fc_exec.executor_axioms)

section \<open>Properties of the executors\<close>

text \<open>
  C31: Every executor the service registers prepares for its own backend: a successful preparation
  names the backend it was resolved under, takes memory and CPUs from the spec, fills exactly that
  backend's part, and places the control socket in the workload's directory.
\<close>
theorem executors_prepare_own_backend:
  assumes "StaticExecutorResolver host b = Inr E"
  shows "wp (exec_Prepare E spec) (\<lambda>r _. \<forall>p. r = Inr p \<longrightarrow> prepared_for b spec p) w"
  using resolved_executor [OF assms] by (rule executor.prepare_own)

definition sample_spec :: LaunchSpec where
  "sample_spec = zero_LaunchSpec
     \<lparr>spec_WorkloadID := ''wl-1'', spec_NodeID := ''n1'', spec_Architecture := ''x86_64'',
      spec_ImageReference := ''/img/a.qcow2'', spec_Vcpu := 2, spec_MemoryMB := 512\<rparr>"

theorem executors_prepare_own_backend_witness:
  "wp (exec_Prepare (KvmExecutor (still_host 0)) sample_spec)
     (\<lambda>r _. \<forall>p. r = Inr p \<longrightarrow> prepared_for ''kvm_qemu'' sample_spec p) () \<and>
   (\<exists>p. fst (run_state (exec_Prepare (KvmExecutor (still_host 0)) sample_spec) ()) = Inr p)"
proof
  show "wp (exec_Prepare (KvmExecutor (still_host 0)) sample_spec)
     (\<lambda>r _. \<forall>p. r = Inr p \<longrightarrow> prepared_for ''kvm_qemu'' sample_spec p) ()"
    by (rule executors_prepare_own_backend [of "still_host 0"]) (simp add: StaticExecutorResolver_def)
  have "wp (exec_Prepare (KvmExecutor (still_host 0)) sample_spec) (\<lambda>r _. \<exists>p. r = Inr p) ()"
    by (simp add: KvmExecutor_def kvm_Prepare_def sample_spec_def zero_LaunchSpec_def
        resolvePrimaryDisk_def artifact_missing_def GetControlSocketPath_eq validIDPattern_def
        valid_id_char_def Let_def)
  then show "\<exists>p. fst (run_state (exec_Prepare (KvmExecutor (still_host 0)) sample_spec) ()) = Inr p"
    by (simp add: wp_run)
qed

text \<open>
  Executing what the QEMU executor prepared creates the workload's own runtime directory and
  then starts the binary of the spec's architecture with the memory, CPU, disk and control socket
  arguments of the spec; its only failures are those of the directory and of the start.
\<close>
theorem kvm_execute_prepared:
  "wp (exec_Prepare (KvmExecutor host) spec)
     (\<lambda>r _. \<forall>p. r = Inr p \<longrightarrow>
        exec_Execute (KvmExecutor host) p = do {
          err \<leftarrow> host_MkdirAll host (''var/run/schedune/'' @ spec_WorkloadID spec);
          (case err of
             Some e \<Rightarrow> ret (Inl (''failed to create runtime directory: '' @ e))
           | None \<Rightarrow> do {
               started \<leftarrow> host_Start host (''qemu-system-'' @ spec_Architecture spec)
                 (qemu_args spec (fst (resolvePrimaryDisk spec)) (snd (resolvePrimaryDisk spec))
                    (''var/run/schedune/'' @ spec_WorkloadID spec @ ''/qemu.sock''));
               ret (case started of
                      Inl e \<Rightarrow> Inl (''executable failed to start: '' @ e)
                    | Inr pid \<Rightarrow> Inr pid)
             })
        }) w"
proof -
  have dir: "filepath_Dir (runtime_dir wid @ ''/qemu.sock'') = runtime_dir wid" if "validIDPattern wid" for wid
    using socket_dir [OF that, of "''qemu''"] by simp
  show ?thesis
    unfolding KvmExecutor_def kvm_Prepare_def Let_def
    by (auto simp: GetControlSocketPath_eq dir kvm_Execute_def spawn_def wp_cases
        split: prod.splits if_splits intro!: wp_any) (simp_all add: runtime_dir_def)
qed

theorem kvm_execute_prepared_witness:
  "wp (exec_Prepare (KvmExecutor (still_host 0)) sample_spec)
     (\<lambda>r w. \<exists>p. r = Inr p \<and> run_state (exec_Execute (KvmExecutor (still_host 0)) p) w = (Inr 4242, w)) ()"
proof -
  have "wp (exec_Prepare (KvmExecutor (still_host 0)) sample_spec) (\<lambda>r _. \<exists>p. r = Inr p) ()"
    by (simp add: KvmExecutor_def kvm_Prepare_def sample_spec_def zero_LaunchSpec_def
        resolvePrimaryDisk_def artifact_missing_def GetControlSocketPath_eq validIDPattern_def
        valid_id_char_def Let_def)
  from wp_conj [OF this kvm_execute_prepared] show ?thesis
    by (rule wp_mono) auto
qed

text \<open>
  The primary disk is the host path of the first storage entry mounted at the root (or nowhere
  in particular), otherwise of the first entry; only without any storage is the deprecated image
  reference used, as qcow2. A missing format means raw.
\<close>
theorem resolvePrimaryDisk_spec:
  "(spec_Storage spec = [] \<longrightarrow>
      resolvePrimaryDisk spec =
        (if spec_ImageReference spec = '''' then ('''', '''') else (spec_ImageReference spec, ''qcow2''))) \<and>
   (\<forall>pre s post. spec_Storage spec = pre @ s # post \<longrightarrow>
      (\<forall>x\<in>set pre. sto_MountPoint x \<noteq> ''/'' \<and> sto_MountPoint x \<noteq> '''') \<longrightarrow>
      (sto_MountPoint s = ''/'' \<or> sto_MountPoint s = '''' \<or>
         pre = [] \<and> (\<forall>x\<in>set post. sto_MountPoint x \<noteq> ''/'' \<and> sto_MountPoint x \<noteq> '''')) \<longrightarrow>
      resolvePrimaryDisk spec =
        (sto_HostPath s, if sto_Format s = '''' then ''raw'' else sto_Format s))"
proof -
  have skip: "List.find P (pre @ xs) = List.find P xs" if "\<forall>x\<in>set pre. \<not> P x" for P and pre xs :: "'b list"
    using that by (induction pre) auto
  have none: "List.find P xs = None" if "\<forall>x\<in>set xs. \<not> P x" for P and xs :: "'b list"
    using that by (induction xs) auto
  show ?thesis
  proof (intro conjI allI impI)
    fix pre s post
    assume st: "spec_Storage spec = pre @ s # post"
      and pre: "\<forall>x\<in>set pre. sto_MountPoint x \<noteq> ''/'' \<and> sto_MountPoint x \<noteq> ''''"
      and s: "sto_MountPoint s = ''/'' \<or> sto_MountPoint s = '''' \<or>
         pre = [] \<and> (\<forall>x\<in>set post. sto_MountPoint x \<noteq> ''/'' \<and> sto_MountPoint x \<noteq> '''')"
    show "resolvePrimaryDisk spec =
        (sto_HostPath s, if sto_Format s = '''' then ''raw'' else sto_Format s)"
    proof (cases "sto_MountPoint s = ''/'' \<or> sto_MountPoint s = ''''")
      case True
      with pre have "List.find (\<lambda>s. sto_MountPoint s = ''/'' \<or> sto_MountPoint s = '''') (pre @ s # post) = Some s"
        by (subst skip) auto
      then show ?thesis
        by (cases pre) (auto simp: resolvePrimaryDisk_def st disk_format_def split: if_splits option.splits)
    next
      case False
      with s have "pre = []" and "List.find (\<lambda>s. sto_MountPoint s = ''/'' \<or> sto_MountPoint s = '''') (s # post) = None"
        by (auto simp: none)
      then show ?thesis by (simp add: resolvePrimaryDisk_def st disk_format_def)
    qed
  qed (simp add: resolvePrimaryDisk_def)
qed

definition sample_disks :: LaunchSpec where
  "sample_disks = zero_LaunchSpec\<lparr>spec_Storage :=
     [\<lparr>sto_VolumeID = ''d'', sto_HostPath = ''/d.raw'', sto_ReadOnly = False, sto_Format = ''raw'', sto_MountPoint = ''/data''\<rparr>,
      \<lparr>sto_VolumeID = ''r'', sto_HostPath = ''/r.qcow2'', sto_ReadOnly = False, sto_Format = ''qcow2'', sto_MountPoint = ''/''\<rparr>]\<rparr>"

theorem resolvePrimaryDisk_spec_witness: "resolvePrimaryDisk sample_disks = (''/r.qcow2'', ''qcow2'')"
  using resolvePrimaryDisk_spec [THEN conjunct2, rule_format,
      of sample_disks "[hd (spec_Storage sample_disks)]" "hd (tl (spec_Storage sample_disks))" "[]"]
  by (simp add: sample_disks_def)

end
