(* ===== verification/Orchestrator.thy ===== *)
theory Orchestrator
  imports Validate_Launch Lifecycle Runtime_Exec
begin

text \<open>
  \<^verbatim>\<open>internal/domain/orchestrator.go\<close>: the pipeline Validate, Prepare, Execute of a launch, and the
  termination of an execution. The stores, the event stream and the executor resolver are the
  interfaces the source declares; the model keeps them as the fields of \<open>LaunchOrchestrator\<close>, each an
  operation over the world. The Go \<^verbatim>\<open>eventStore\<close> may be nil.
\<close>

section \<open>The orchestrator and its steps\<close>

record 'w LaunchOrchestrator =
  orc_GetNode :: "string \<Rightarrow> ('w, NodeRecord \<times> go_error option) state"
  orc_SaveExecution :: "LaunchExecutionRecord \<Rightarrow> ('w, go_error option) state"
  orc_GetExecution :: "string \<Rightarrow> ('w, LaunchExecutionRecord \<times> bool \<times> go_error option) state"
  orc_AppendEvent :: "(RuntimeEvent \<Rightarrow> ('w, go_error option) state) option"
  orc_Resolve :: "string \<Rightarrow> ('w, go_error + 'w Executor) state"

definition emitEvent ::
    "'w Host \<Rightarrow> 'w LaunchOrchestrator \<Rightarrow> EventType \<Rightarrow> LaunchExecutionRecord \<Rightarrow> string \<Rightarrow> string
     \<Rightarrow> ('w, unit) state" where
  "emitEvent host orc eventType rec reasonCode message =
     (case orc_AppendEvent orc of
        None \<Rightarrow> ret ()
      | Some append_ev \<Rightarrow> do {
          let backend = (case rec_PreparedState rec of None \<Rightarrow> '''' | Some p \<Rightarrow> prep_RuntimeBackend p);
          uid \<leftarrow> host_NewUUID host;
          now \<leftarrow> host_Now host;
          _ \<leftarrow> append_ev
            \<lparr>ev_EventID = uid, ev_ExecutionID = rec_ExecutionID rec, ev_EventType = eventType,
             ev_TimestampSec = now, ev_ReasonCode = reasonCode,
             ev_PayloadJSON = Some (PayloadLifecycle
               \<lparr>pl_ExecutionID = rec_ExecutionID rec, pl_WorkloadID = rec_WorkloadID rec,
                pl_NodeID = rec_NodeID rec, pl_Backend = backend, pl_State = rec_State rec,
                pl_Message = message\<rparr>)\<rparr>;
          ret ()
        })"

definition save :: "'w LaunchOrchestrator \<Rightarrow> LaunchExecutionRecord \<Rightarrow> ('w, unit) state" where
  "save orc rec = do { _ \<leftarrow> orc_SaveExecution orc rec; ret () }"

text \<open>The orchestrator drops the error of \<^verbatim>\<open>TransitionTo\<close>.\<close>

definition transition ::
    "'w Host \<Rightarrow> LaunchExecutionRecord \<Rightarrow> LaunchState \<Rightarrow> string \<Rightarrow> string
     \<Rightarrow> ('w, LaunchExecutionRecord) state" where
  "transition host rec nxt code msg = do { r \<leftarrow> TransitionTo host rec nxt code msg; ret (fst r) }"

definition initializeRecord ::
    "'w Host \<Rightarrow> 'w LaunchOrchestrator \<Rightarrow> LaunchSpec \<Rightarrow> ('w, LaunchExecutionRecord) state" where
  "initializeRecord host orc spec = do {
     now \<leftarrow> host_Now host;
     uid \<leftarrow> host_NewUUID host;
     let rec0 = zero_LaunchExecutionRecord
       \<lparr>rec_ExecutionID := uid, rec_WorkloadID := spec_WorkloadID spec, rec_NodeID := spec_NodeID spec,
        rec_Spec := spec, rec_State := StatePending, rec_RuntimeLiveness := ''Unknown'',
        rec_RuntimeReadiness := ''NotStarted'', rec_CreatedAtSec := now, rec_UpdatedAtSec := now,
        rec_Trace := []\<rparr>;
     rec \<leftarrow> AppendTrace host rec0 ''Init'' ''Success'' '''' ''Execution initialized'';
     _ \<leftarrow> emitEvent host orc EventTypeExecutionCreated rec '''' ''Execution initialized'';
     ret rec
   }"

text \<open>The verb v of \<^verbatim>\<open>fmt\<close> on a slice of strings.\<close>

definition fmt_strings :: "string list \<Rightarrow> string" where
  "fmt_strings xs = ''['' @ join_with '' '' xs @ '']''"

definition fail_validation ::
    "'w Host \<Rightarrow> 'w LaunchOrchestrator \<Rightarrow> LaunchExecutionRecord \<Rightarrow> string \<Rightarrow> string
     \<Rightarrow> ('w, LaunchExecutionRecord \<times> bool) state" where
  "fail_validation host orc rec code msg = do {
     r1 \<leftarrow> transition host rec StatePreparing '''' ''Initializing preparation'';
     r2 \<leftarrow> transition host r1 StateFailed code msg;
     _ \<leftarrow> save orc r2;
     _ \<leftarrow> emitEvent host orc EventTypeValidationFailed r2 code msg;
     ret (r2, False)
   }"

definition validateAndRecord ::
    "'w Host \<Rightarrow> 'w LaunchOrchestrator \<Rightarrow> LaunchSpec \<Rightarrow> LaunchExecutionRecord
     \<Rightarrow> ('w, LaunchExecutionRecord \<times> bool) state" where
  "validateAndRecord host orc spec rec = do {
     nodeRes \<leftarrow> orc_GetNode orc (spec_NodeID spec);
     (if snd nodeRes \<noteq> None
      then fail_validation host orc rec ReasonErrNodeNotFound ''Target node not found in store''
      else do {
        let valRes = ValidateLaunch spec (fst nodeRes);
        (if \<not> val_IsValid valRes
         then fail_validation host orc rec ReasonErrValidationFailed
                (''Node missing prerequisites: '' @ fmt_strings (val_BlockingReasonCodes valRes))
         else do {
           r1 \<leftarrow> transition host rec StatePreparing '''' ''Host capabilities validated successfully'';
           _ \<leftarrow> save orc r1;
           _ \<leftarrow> emitEvent host orc EventTypeValidationPassed r1 '''' ''Host capabilities validated successfully'';
           ret (r1, True)
         })
      })
   }"

definition fail_preparation ::
    "'w Host \<Rightarrow> 'w LaunchOrchestrator \<Rightarrow> LaunchExecutionRecord \<Rightarrow> string
     \<Rightarrow> ('w, LaunchExecutionRecord \<times> 'w Executor option) state" where
  "fail_preparation host orc rec msg = do {
     r1 \<leftarrow> transition host rec StateFailed ReasonErrPreparationFailed msg;
     _ \<leftarrow> save orc r1;
     _ \<leftarrow> emitEvent host orc EventTypePreparationFailed r1 ReasonErrPreparationFailed msg;
     ret (r1, None)
   }"

definition prepareAndRecord ::
    "'w Host \<Rightarrow> 'w LaunchOrchestrator \<Rightarrow> LaunchSpec \<Rightarrow> LaunchExecutionRecord
     \<Rightarrow> ('w, LaunchExecutionRecord \<times> 'w Executor option) state" where
  "prepareAndRecord host orc spec rec = do {
     r1 \<leftarrow> AppendTrace host rec ''ArtifactResolution'' ''Pending'' '''' ''Preparing artifact and command execution'';
     nodeRes \<leftarrow> orc_GetNode orc (spec_NodeID spec);
     let selectedBackend = fst (SelectBackend spec (fst nodeRes));
     resolved \<leftarrow> orc_Resolve orc selectedBackend;
     (case resolved of
        Inl err \<Rightarrow> fail_preparation host orc r1
                    (''Failed to resolve executor for backend '' @ selectedBackend @ '': '' @ err)
      | Inr exec \<Rightarrow> do {
          prepared \<leftarrow> exec_Prepare exec spec;
          (case prepared of
             Inl err \<Rightarrow> fail_preparation host orc r1 err
           | Inr prep \<Rightarrow> do {
               r2 \<leftarrow> AppendTrace host (r1\<lparr>rec_PreparedState := Some prep\<rparr>) ''ArtifactResolution'' ''Success''
                       '''' ''Artifacts resolved and runtime contract generated'';
               r3 \<leftarrow> transition host r2 StateValidated '''' ''Ready for launch'';
               _ \<leftarrow> save orc r3;
               _ \<leftarrow> emitEvent host orc EventTypePreparationPassed r3 '''' ''Ready for launch'';
               ret (r3, Some exec)
             })
        })
   }"

text \<open>
  \<^verbatim>\<open>spawnAndRecord\<close> dereferences the prepared state, which \<^verbatim>\<open>prepareAndRecord\<close> has just set; a record
  without one is outside the calls the source makes, and the model then passes the zero value.
\<close>

definition complete_dry_run ::
    "'w Host \<Rightarrow> 'w LaunchOrchestrator \<Rightarrow> LaunchExecutionRecord \<Rightarrow> ('w, LaunchExecutionRecord) state" where
  "complete_dry_run host orc r1 = do {
     r2 \<leftarrow> transition host r1 StateTerminating '''' ''DryRun/Validate successful. Aborting actual spawn.'';
     r3 \<leftarrow> transition host r2 StateTerminated '''' ''DryRun/Validate successful. Aborting actual spawn.'';
     _ \<leftarrow> save orc r3;
     _ \<leftarrow> emitEvent host orc EventTypeDryRunCompleted r3 '''' ''DryRun/Validate successful. Aborting actual spawn.'';
     ret r3
   }"

definition execute_prepared ::
    "'w Host \<Rightarrow> 'w LaunchOrchestrator \<Rightarrow> LaunchExecutionRecord \<Rightarrow> 'w Executor
     \<Rightarrow> ('w, LaunchExecutionRecord) state" where
  "execute_prepared host orc r1 exec = do {
     started \<leftarrow> exec_Execute exec
                  (case rec_PreparedState r1 of None \<Rightarrow> zero_PreparedLaunch | Some p \<Rightarrow> p);
     (case started of
        Inl err \<Rightarrow> do {
          r2 \<leftarrow> transition host r1 StateFailed ReasonErrExecRuntimeSpawnFailed err;
          _ \<leftarrow> save orc r2;
          _ \<leftarrow> emitEvent host orc EventTypeRuntimeSpawnFailed r2 ReasonErrExecRuntimeSpawnFailed err;
          ret r2
        }
      | Inr pid \<Rightarrow> do {
          startedTime \<leftarrow> host_Now host;
          let msg = ''Process successfully spawned (PID '' @ itoa pid @ '')'';
          r2 \<leftarrow> transition host (r1\<lparr>rec_PID := Some pid, rec_StartedAtSec := Some startedTime\<rparr>)
                  StateStarting '''' msg;
          _ \<leftarrow> save orc r2;
          _ \<leftarrow> emitEvent host orc EventTypeRuntimeSpawned r2 '''' msg;
          ret r2
        })
   }"

definition spawnAndRecord ::
    "'w Host \<Rightarrow> 'w LaunchOrchestrator \<Rightarrow> LaunchSpec \<Rightarrow> LaunchExecutionRecord \<Rightarrow> 'w Executor
     \<Rightarrow> ('w, LaunchExecutionRecord) state" where
  "spawnAndRecord host orc spec rec exec = do {
     r1 \<leftarrow> transition host rec StateLaunching '''' ''Spawning runtime process via executor'';
     _ \<leftarrow> save orc r1;
     (if spec_LaunchMode spec = ''DryRun'' \<or> spec_LaunchMode spec = ''Validate''
      then complete_dry_run host orc r1
      else execute_prepared host orc r1 exec)
   }"

definition StartLaunch ::
    "'w Host \<Rightarrow> 'w LaunchOrchestrator \<Rightarrow> LaunchSpec \<Rightarrow> ('w, LaunchExecutionRecord) state" where
  "StartLaunch host orc spec = do {
     rec \<leftarrow> initializeRecord host orc spec;
     _ \<leftarrow> save orc rec;
     v \<leftarrow> validateAndRecord host orc spec rec;
     (if \<not> snd v then ret (fst v)
      else do {
        p \<leftarrow> prepareAndRecord host orc spec (fst v);
        (case snd p of
           None \<Rightarrow> ret (fst p)
         | Some exec \<Rightarrow> spawnAndRecord host orc spec (fst p) exec)
      })
   }"

section \<open>Termination\<close>

definition kill_process_of ::
    "'w LaunchOrchestrator \<Rightarrow> LaunchExecutionRecord \<Rightarrow> ('w, go_error option) state" where
  "kill_process_of orc r1 =
     (case (rec_PID r1, rec_PreparedState r1) of
        (Some pid, Some prep) \<Rightarrow> do {
          resolved \<leftarrow> orc_Resolve orc (prep_RuntimeBackend prep);
          (case resolved of
             Inl e \<Rightarrow> ret (Some e)
           | Inr exec \<Rightarrow> exec_Terminate exec pid)
        }
      | _ \<Rightarrow> ret None)"

definition report_kill_failure ::
    "'w Host \<Rightarrow> 'w LaunchOrchestrator \<Rightarrow> LaunchExecutionRecord \<Rightarrow> go_error
     \<Rightarrow> ('w, LaunchExecutionRecord \<times> go_error option) state" where
  "report_kill_failure host orc r1 e = do {
     r2 \<leftarrow> AppendTrace host r1 ''Termination'' ''Failed'' ReasonErrTermSignalFailed e;
     _ \<leftarrow> save orc r2;
     _ \<leftarrow> emitEvent host orc EventTypeTerminationFailed r2 ReasonErrTermSignalFailed e;
     ret (r2, Some e)
   }"

definition report_terminated ::
    "'w Host \<Rightarrow> 'w LaunchOrchestrator \<Rightarrow> LaunchExecutionRecord
     \<Rightarrow> ('w, LaunchExecutionRecord \<times> go_error option) state" where
  "report_terminated host orc r1 = do {
     termTime \<leftarrow> host_Now host;
     r2 \<leftarrow> transition host
             (r1\<lparr>rec_TerminatedAtSec := Some termTime, rec_RuntimeLiveness := ''Dead'',
                 rec_RuntimeReadiness := ''NotReady''\<rparr>)
             StateTerminated '''' ''Process terminated successfully'';
     _ \<leftarrow> save orc r2;
     _ \<leftarrow> emitEvent host orc EventTypeTerminated r2 '''' ''Process terminated successfully'';
     ret (r2, None)
   }"

definition TerminateLaunch ::
    "'w Host \<Rightarrow> 'w LaunchOrchestrator \<Rightarrow> string \<Rightarrow> ('w, LaunchExecutionRecord \<times> go_error option) state" where
  "TerminateLaunch host orc executionID = do {
     got \<leftarrow> orc_GetExecution orc executionID;
     (case got of (rec, found, err) \<Rightarrow>
       if err \<noteq> None \<or> \<not> found
       then ret (rec, Some (''execution not found or err: '' @
              (case err of None \<Rightarrow> ''%!w(<nil>)'' | Some e \<Rightarrow> e)))
       else if rec_State rec = StateTerminated \<or> rec_State rec = StateFailed \<or> rec_State rec = StateExited
       then ret (rec, None)
       else do {
         r1 \<leftarrow> transition host rec StateTerminating '''' ''Termination requested by API'';
         _ \<leftarrow> save orc r1;
         _ \<leftarrow> emitEvent host orc EventTypeTerminationRequested r1 '''' ''Termination requested by API'';
         kill_err \<leftarrow> kill_process_of orc r1;
         (case kill_err of
            None \<Rightarrow> report_terminated host orc r1
          | Some e \<Rightarrow> report_kill_failure host orc r1 e)
       })
   }"

end
