(* ===== verification/Service_World.thy ===== *)
theory Service_World
  imports Stores Orchestrator
begin

text \<open>
  The server as \<^verbatim>\<open>cmd/schedune/main.go\<close> wires it: one in-memory node store, one SQL store, and the
  machine. \<open>System\<close> is the state of the three; every operation of a component is lifted to it. Each
  SQL statement asks \<open>driver\<close> whether it fails. The interface the orchestrator needs of its stores
  is the locale \<open>durable_launch\<close>, interpreted on the wiring below.
\<close>

section \<open>The state of the server\<close>

record 'w System =
  sys_mem :: InMemoryStore
  sys_db :: SQLiteStore
  sys_machine :: 'w

type_synonym 'w driver = "('w, go_error option) state"

definition on_machine :: "('w, 'a) state \<Rightarrow> ('w System, 'a) state" where
  "on_machine m =
     State (\<lambda>s. case run_state m (sys_machine s) of (a, w) \<Rightarrow> (a, s\<lparr>sys_machine := w\<rparr>))"

definition on_nodes :: "(InMemoryStore \<Rightarrow> 'a \<times> InMemoryStore) \<Rightarrow> ('w System, 'a) state" where
  "on_nodes f = State (\<lambda>s. case f (sys_mem s) of (a, m) \<Rightarrow> (a, s\<lparr>sys_mem := m\<rparr>))"

definition sql ::
    "'w driver \<Rightarrow> (go_error option \<Rightarrow> SQLiteStore \<Rightarrow> 'a \<times> SQLiteStore) \<Rightarrow> ('w System, 'a) state" where
  "sql driver f = do {
     flt \<leftarrow> on_machine driver;
     State (\<lambda>s. case f flt (sys_db s) of (a, db) \<Rightarrow> (a, s\<lparr>sys_db := db\<rparr>))
   }"

definition sql_read :: "'w driver \<Rightarrow> (go_error option \<Rightarrow> SQLiteStore \<Rightarrow> 'a) \<Rightarrow> ('w System, 'a) state" where
  "sql_read driver f = sql driver (\<lambda>flt db. (f flt db, db))"

definition system_host :: "'w Host \<Rightarrow> 'w System Host" where
  "system_host host =
     \<lparr>host_Now = on_machine (host_Now host), host_NewUUID = on_machine (host_NewUUID host),
      host_FindProcess = (\<lambda>p. on_machine (host_FindProcess host p)),
      host_Signal0 = (\<lambda>p. on_machine (host_Signal0 host p)),
      host_Kill = (\<lambda>p. on_machine (host_Kill host p)),
      host_StatIsSocket = (\<lambda>p. on_machine (host_StatIsSocket host p)),
      host_DialUnix = (\<lambda>p. on_machine (host_DialUnix host p)),
      host_MkdirAll = (\<lambda>p. on_machine (host_MkdirAll host p)),
      host_Start = (\<lambda>b args. on_machine (host_Start host b args))\<rparr>"

text \<open>\<^verbatim>\<open>NewLaunchHandler\<close>: the orchestrator over the node store, the SQL store and the three executors.\<close>

definition NewLaunchHandler :: "'w driver \<Rightarrow> 'w Host \<Rightarrow> 'w System LaunchOrchestrator" where
  "NewLaunchHandler driver host =
     \<lparr>orc_GetNode = (\<lambda>i. on_nodes (\<lambda>m. (GetNode i m, m))),
      orc_SaveExecution = (\<lambda>rec. sql driver (\<lambda>flt. SaveExecution flt rec)),
      orc_GetExecution = (\<lambda>i. sql_read driver (\<lambda>flt. GetExecution flt i)),
      orc_AppendEvent = Some (\<lambda>ev. sql driver (\<lambda>flt. AppendEvent flt ev)),
      orc_Resolve = (\<lambda>backend. ret (StaticExecutorResolver (system_host host) backend))\<rparr>"

lemma system_host_simps [simp]:
  "host_Now (system_host host) = on_machine (host_Now host)"
  "host_NewUUID (system_host host) = on_machine (host_NewUUID host)"
  "host_FindProcess (system_host host) p = on_machine (host_FindProcess host p)"
  "host_Signal0 (system_host host) p = on_machine (host_Signal0 host p)"
  "host_Kill (system_host host) p = on_machine (host_Kill host p)"
  "host_StatIsSocket (system_host host) s = on_machine (host_StatIsSocket host s)"
  "host_DialUnix (system_host host) s = on_machine (host_DialUnix host s)"
  "host_MkdirAll (system_host host) s = on_machine (host_MkdirAll host s)"
  "host_Start (system_host host) b args = on_machine (host_Start host b args)"
  by (simp_all add: system_host_def)

lemma NewLaunchHandler_simps [simp]:
  "orc_GetNode (NewLaunchHandler driver host) i = on_nodes (\<lambda>m. (GetNode i m, m))"
  "orc_SaveExecution (NewLaunchHandler driver host) rec = sql driver (\<lambda>flt. SaveExecution flt rec)"
  "orc_GetExecution (NewLaunchHandler driver host) i = sql_read driver (\<lambda>flt. GetExecution flt i)"
  "orc_AppendEvent (NewLaunchHandler driver host) = Some (\<lambda>ev. sql driver (\<lambda>flt. AppendEvent flt ev))"
  "orc_Resolve (NewLaunchHandler driver host) b = ret (StaticExecutorResolver (system_host host) b)"
  by (simp_all add: NewLaunchHandler_def)

section \<open>Weakest preconditions of the lifted operations\<close>

lemma wp_on_machine:
  "wp (on_machine m) Q s \<longleftrightarrow> wp m (\<lambda>a w. Q a (s\<lparr>sys_machine := w\<rparr>)) (sys_machine s)"
  by (simp add: wp_def on_machine_def split: prod.splits)

lemma wp_on_nodes:
  "wp (on_nodes f) Q s \<longleftrightarrow> Q (fst (f (sys_mem s))) (s\<lparr>sys_mem := snd (f (sys_mem s))\<rparr>)"
  by (simp add: on_nodes_def split: prod.splits)

lemma wp_sql:
  "wp (sql driver f) Q s \<longleftrightarrow>
     wp driver (\<lambda>flt w. Q (fst (f flt (sys_db s))) (s\<lparr>sys_machine := w, sys_db := snd (f flt (sys_db s))\<rparr>))
       (sys_machine s)"
  by (simp add: sql_def wp_on_machine case_prod_unfold)

text \<open>A machine operation leaves both stores alone.\<close>

lemma wp_on_machineI:
  "(\<And>a w. Q a (s\<lparr>sys_machine := w\<rparr>)) \<Longrightarrow> wp (on_machine m) Q s"
  by (simp add: wp_on_machine wp_any)

definition keeps :: "('s \<Rightarrow> 'v) \<Rightarrow> ('s, 'a) state \<Rightarrow> bool" where
  "keeps view m \<longleftrightarrow> (\<forall>s. wp m (\<lambda>_ s'. view s' = view s) s)"

named_theorems keeps_intros "operations that keep a view of the state"

lemma keepsD: "keeps view m \<Longrightarrow> (\<And>a s'. view s' = view s \<Longrightarrow> Q a s') \<Longrightarrow> wp m Q s"
  by (auto simp: keeps_def wp_def split: prod.splits)

lemma keeps_ret [keeps_intros]: "keeps view (ret a)"
  by (simp add: keeps_def)

lemma keeps_bind [keeps_intros]:
  "keeps view m \<Longrightarrow> (\<And>a. keeps view (f a)) \<Longrightarrow> keeps view (State_Monad.bind m f)"
proof (unfold keeps_def [of view "State_Monad.bind m f"], intro allI wp_bindI)
  fix s assume m: "keeps view m" and f: "\<And>a. keeps view (f a)"
  show "wp m (\<lambda>a. wp (f a) (\<lambda>_ s'. view s' = view s)) s"
    by (rule keepsD [OF m], rule keepsD [OF f]) simp
qed

lemma keeps_if [keeps_intros]: "keeps view m \<Longrightarrow> keeps view n \<Longrightarrow> keeps view (if b then m else n)"
  by simp

lemma keeps_option [keeps_intros]:
  "keeps view m \<Longrightarrow> (\<And>a. keeps view (f a)) \<Longrightarrow> keeps view (case x of None \<Rightarrow> m | Some a \<Rightarrow> f a)"
  by (cases x) simp_all

lemma keeps_sum [keeps_intros]:
  "(\<And>a. keeps view (f a)) \<Longrightarrow> (\<And>b. keeps view (g b)) \<Longrightarrow>
   keeps view (case x of Inl a \<Rightarrow> f a | Inr b \<Rightarrow> g b)"
  by (cases x) simp_all

lemma keeps_prod [keeps_intros]:
  "(\<And>a b. keeps view (f a b)) \<Longrightarrow> keeps view (case x of (a, b) \<Rightarrow> f a b)"
  by (cases x) simp

lemma keeps_on_machine [keeps_intros]:
  assumes "\<And>s w. view (s\<lparr>sys_machine := w\<rparr>) = view s"
  shows "keeps view (on_machine m)"
  using assms by (simp add: keeps_def wp_on_machine wp_any)

section \<open>The calls of a launch\<close>

text \<open>
  What the orchestrator needs of its interfaces, for one view of the state: a save of a record
  relates the view before and after by \<open>put\<close>, a later save of the same execution supersedes an
  earlier one, and every other call leaves the view alone.
\<close>

locale launch_calls =
  fixes host :: "'s Host" and orc :: "'s LaunchOrchestrator"
    and view :: "'s \<Rightarrow> 'v" and put :: "LaunchExecutionRecord \<Rightarrow> 'v \<Rightarrow> 'v \<Rightarrow> bool"
  assumes save_law: "wp (orc_SaveExecution orc rec) (\<lambda>_ s'. put rec (view s) (view s')) s"
    and put_again: "put r v v1 \<Longrightarrow> put r' v1 v2 \<Longrightarrow> rec_ExecutionID r' = rec_ExecutionID r \<Longrightarrow> put r' v v2"
    and now_law: "keeps view (host_Now host)" and uuid_law: "keeps view (host_NewUUID host)"
    and node_law: "keeps view (orc_GetNode orc i)"
    and event_law: "orc_AppendEvent orc = Some f \<Longrightarrow> keeps view (f ev)"
    and resolve_law: "wp (orc_Resolve orc b)
      (\<lambda>r s'. view s' = view s \<and>
         (\<forall>E. r = Inr E \<longrightarrow> (\<forall>spec. keeps view (exec_Prepare E spec)) \<and>
            (\<forall>p. keeps view (exec_Execute E p)) \<and> (\<forall>pid. keeps view (exec_Terminate E pid)))) s"
begin

definition good_exec :: "'s Executor \<Rightarrow> bool" where
  "good_exec E \<longleftrightarrow> (\<forall>spec. keeps view (exec_Prepare E spec)) \<and>
     (\<forall>p. keeps view (exec_Execute E p)) \<and> (\<forall>pid. keeps view (exec_Terminate E pid))"

lemma wp_save:
  "(\<And>s'. put rec (view s) (view s') \<Longrightarrow> Q () s') \<Longrightarrow> wp (save orc rec) Q s"
  unfolding save_def by (rule wp_bindI, rule wp_mono [OF save_law]) auto

lemma wp_event:
  assumes "\<And>s'. view s' = view s \<Longrightarrow> Q () s'"
  shows "wp (emitEvent host orc t rec c m) Q s"
proof -
  have "keeps view (emitEvent host orc t rec c m)"
    unfolding emitEvent_def Let_def
    by (cases "orc_AppendEvent orc")
      (auto intro!: keeps_intros now_law uuid_law event_law)
  then show ?thesis by (rule keepsD) (simp add: assms)
qed

lemma wp_resolve:
  assumes "\<And>r s'. view s' = view s \<Longrightarrow> (\<And>E. r = Inr E \<Longrightarrow> good_exec E) \<Longrightarrow> Q r s'"
  shows "wp (orc_Resolve orc b) Q s"
  by (rule wp_mono [OF resolve_law]) (use assms in \<open>auto simp: good_exec_def\<close>)

lemma wp_trace:
  assumes "\<And>t s'. view s' = view s \<Longrightarrow> Q (traced st status c m t rec) s'"
  shows "wp (AppendTrace host rec st status c m) Q s"
  unfolding wp_AppendTrace by (rule keepsD [OF now_law]) (rule assms)

lemma wp_move:
  assumes "\<And>r s'. view s' = view s \<Longrightarrow> rec_ExecutionID r = rec_ExecutionID rec \<Longrightarrow> Q r s'"
  shows "wp (transition host rec n c m) Q s"
  unfolding transition_def wp_bind wp_TransitionTo
  by (auto intro!: keepsD [OF now_law] assms)

lemma wp_keep: "keeps view m \<Longrightarrow> (\<And>a s'. view s' = view s \<Longrightarrow> Q a s') \<Longrightarrow> wp m Q s"
  by (rule keepsD)

lemmas launch_wps = wp_bindI wp_retI wp_save wp_event wp_trace wp_move

text \<open>\<open>filed s i r s'\<close>: from \<open>s\<close> to \<open>s'\<close> the view has changed as by one save of \<open>r\<close>, whose id is \<open>i\<close>.\<close>

definition filed :: "'s \<Rightarrow> string \<Rightarrow> LaunchExecutionRecord \<Rightarrow> 's \<Rightarrow> bool" where
  "filed s i r s' \<longleftrightarrow> rec_ExecutionID r = i \<and> put r (view s) (view s')"

lemma filed_again:
  "filed s i r s1 \<Longrightarrow> view s2 = view s1 \<Longrightarrow> put r' (view s2) (view s3) \<Longrightarrow>
   rec_ExecutionID r' = i \<Longrightarrow> view s4 = view s3 \<Longrightarrow> filed s i r' s4"
  by (auto simp: filed_def intro: put_again)

lemma initialize_files:
  assumes "\<And>s'. wp (host_NewUUID host) (\<lambda>u _. P u) s'"
  shows "wp (do { rec \<leftarrow> initializeRecord host orc spec; _ \<leftarrow> save orc rec; ret rec })
     (\<lambda>rec s'. P (rec_ExecutionID rec) \<and> filed s (rec_ExecutionID rec) rec s') s"
proof -
  have uuid: "wp (host_NewUUID host) (\<lambda>u s'. P u \<and> view s' = view s1) s1" for s1
    by (rule wp_conj [OF assms]) (rule wp_keep [OF uuid_law], simp)
  show ?thesis
    unfolding initializeRecord_def Let_def
    by (intro launch_wps wp_keep [OF now_law] wp_mono [OF uuid]) (simp add: filed_def)
qed

lemma validate_files:
  assumes "filed s i rec s1"
  shows "wp (validateAndRecord host orc spec rec) (\<lambda>r s'. filed s i (fst r) s') s1"
  using assms unfolding validateAndRecord_def fail_validation_def Let_def
  by (intro launch_wps wp_ifI wp_keep [OF node_law]) (auto simp: filed_def intro: put_again)

lemma prepare_files:
  assumes "filed s i rec s1"
  shows "wp (prepareAndRecord host orc spec rec)
    (\<lambda>r s'. filed s i (fst r) s' \<and> (\<forall>E. snd r = Some E \<longrightarrow> good_exec E)) s1"
  unfolding prepareAndRecord_def Let_def
proof (intro launch_wps wp_keep [OF node_law] wp_resolve wp_sumI)
  fix t s2 nodeRes s3 r s4 and e :: go_error
  assume "view s2 = view s1" "view s3 = view s2" "view s4 = view s3" "r = Inl e"
  with assms show "wp (fail_preparation host orc
      (traced ''ArtifactResolution'' ''Pending'' '''' ''Preparing artifact and command execution'' t rec)
      (''Failed to resolve executor for backend '' @ fst (SelectBackend spec (fst nodeRes)) @ '': '' @ e))
     (\<lambda>r s'. filed s i (fst r) s' \<and> (\<forall>E. snd r = Some E \<longrightarrow> good_exec E)) s4"
    unfolding fail_preparation_def by (intro launch_wps) (auto simp: filed_def intro: put_again)
next
  fix t s2 nodeRes s3 r s4 E
  assume st: "view s2 = view s1" "view s3 = view s2" "view s4 = view s3"
    and E: "\<And>E. r = Inr E \<Longrightarrow> good_exec E" and r: "r = Inr E"
  let ?rec = "traced ''ArtifactResolution'' ''Pending'' '''' ''Preparing artifact and command execution'' t rec"
  have "keeps view (exec_Prepare E spec)" using E [OF r] by (simp add: good_exec_def)
  then show "wp (exec_Prepare E spec)
     (\<lambda>a. wp (case a of Inl err \<Rightarrow> fail_preparation host orc ?rec err
        | Inr prep \<Rightarrow> do {
            r2 \<leftarrow> AppendTrace host (?rec\<lparr>rec_PreparedState := Some prep\<rparr>) ''ArtifactResolution'' ''Success''
                    '''' ''Artifacts resolved and runtime contract generated'';
            r3 \<leftarrow> transition host r2 StateValidated '''' ''Ready for launch'';
            _ \<leftarrow> save orc r3;
            _ \<leftarrow> emitEvent host orc EventTypePreparationPassed r3 '''' ''Ready for launch'';
            ret (r3, Some E)
          })
       (\<lambda>r s'. filed s i (fst r) s' \<and> (\<forall>E. snd r = Some E \<longrightarrow> good_exec E))) s4"
    by (rule wp_keep, intro wp_sumI)
      (use assms st E r in \<open>unfold fail_preparation_def, (intro launch_wps; (auto simp: filed_def intro: put_again)?)+\<close>)
qed

lemma spawn_files:
  assumes "filed s i rec s1" and "good_exec E"
  shows "wp (spawnAndRecord host orc spec rec E) (\<lambda>r s'. filed s i r s') s1"
proof -
  have exec: "keeps view (exec_Execute E p)" for p using assms(2) by (simp add: good_exec_def)
  show ?thesis
    using assms(1)
    unfolding spawnAndRecord_def complete_dry_run_def execute_prepared_def Let_def
    by (intro launch_wps wp_ifI wp_keep [OF exec] wp_sumI wp_keep [OF now_law]) (auto simp: filed_def intro: put_again)
qed

text \<open>A launch files its result under a new id, and \<open>P\<close> holds of that id if it holds of every id drawn.\<close>

lemma StartLaunch_files_new:
  assumes "\<And>s'. wp (host_NewUUID host) (\<lambda>u _. P u) s'"
  shows "wp (StartLaunch host orc spec) (\<lambda>r s'. P (rec_ExecutionID r) \<and> filed s (rec_ExecutionID r) r s') s"
proof -
  let ?Q = "\<lambda>r s'. P (rec_ExecutionID r) \<and> filed s (rec_ExecutionID r) r s'"
  have Q: "?Q r s'" "P (rec_ExecutionID r)" "filed s (rec_ExecutionID r) r s'" if "filed s i r s'" "P i" for i r s'
    using that by (simp_all add: filed_def)
  have rest: "wp (do {
      v \<leftarrow> validateAndRecord host orc spec rec;
      (if \<not> snd v then ret (fst v)
       else do {
         p \<leftarrow> prepareAndRecord host orc spec (fst v);
         (case snd p of
            None \<Rightarrow> ret (fst p)
          | Some exec \<Rightarrow> spawnAndRecord host orc spec (fst p) exec)
       }) }) ?Q s1"
    if filed: "P (rec_ExecutionID rec) \<and> filed s (rec_ExecutionID rec) rec s1" for rec s1
    by (rule wp_bindI, rule wp_mono [OF validate_files [OF filed [THEN conjunct2]]], intro wp_ifI wp_retI wp_bindI,
        erule Q(1), rule filed [THEN conjunct1], rule wp_mono, erule prepare_files, intro wp_optionI wp_retI)
      (use filed in \<open>auto intro: Q wp_mono [OF spawn_files]\<close>)
  have "wp (do { rec \<leftarrow> initializeRecord host orc spec; _ \<leftarrow> save orc rec; ret rec })
      (\<lambda>rec s1. wp (do {
        v \<leftarrow> validateAndRecord host orc spec rec;
        (if \<not> snd v then ret (fst v)
         else do {
           p \<leftarrow> prepareAndRecord host orc spec (fst v);
           (case snd p of
              None \<Rightarrow> ret (fst p)
            | Some exec \<Rightarrow> spawnAndRecord host orc spec (fst p) exec)
         }) }) ?Q s1) s"
    by (rule wp_mono [OF initialize_files [OF assms] rest])
  then show ?thesis by (simp add: StartLaunch_def)
qed

lemma StartLaunch_files: "wp (StartLaunch host orc spec) (\<lambda>r s'. filed s (rec_ExecutionID r) r s') s"
  by (rule wp_mono [OF StartLaunch_files_new [where P = "\<lambda>_. True"]]) (simp_all add: wp_any)

lemma report_files:
  assumes "filed s i rec s1"
  shows "wp (report_terminated host orc rec) (\<lambda>(r, err) s'. filed s i r s') s1"
    and "wp (report_kill_failure host orc rec e) (\<lambda>(r, err) s'. filed s i r s') s1"
  using assms unfolding report_terminated_def report_kill_failure_def
  by (intro launch_wps wp_keep [OF now_law]; (auto simp: filed_def intro: put_again)?)+

lemma kill_keeps: "wp (kill_process_of orc r) (\<lambda>_ s'. view s' = view s) s"
  unfolding kill_process_of_def
proof (auto split: option.split intro!: wp_resolve wp_sumI)
  fix pid E and s' assume "good_exec E" and s': "view s' = view s"
  then have "keeps view (exec_Terminate E pid)" by (simp add: good_exec_def)
  then show "wp (exec_Terminate E pid) (\<lambda>_ s''. view s'' = view s) s'"
    by (rule keepsD) (simp add: s')
qed

end

section \<open>The contract of a durable launch\<close>

text \<open>
  \<open>stored\<close> is what the execution store holds: a save puts the record under its id, and a read
  returns what is stored.
\<close>

locale durable_launch =
  launch_calls host orc stored "\<lambda>rec v v'. v' = v(rec_ExecutionID rec \<mapsto> rec)"
  for host :: "'s Host" and orc :: "'s LaunchOrchestrator"
    and stored :: "'s \<Rightarrow> string \<Rightarrow> LaunchExecutionRecord option" +
  assumes get_law: "wp (orc_GetExecution orc i)
      (\<lambda>r s'. stored s' = stored s \<and>
         (case stored s i of None \<Rightarrow> \<not> fst (snd r) | Some rec \<Rightarrow> r = (rec, True, None))) s"
begin

lemma TerminateLaunch_files:
  "wp (TerminateLaunch host orc i)
     (\<lambda>(r, err) s'.
        case stored s i of
          None \<Rightarrow> stored s' = stored s \<and> err \<noteq> None
        | Some rec \<Rightarrow>
            if terminal (rec_State rec) then stored s' = stored s \<and> r = rec \<and> err = None
            else filed s (rec_ExecutionID rec) r s') s"
  (is "wp _ ?Q s")
  unfolding TerminateLaunch_def
proof (rule wp_bindI, rule wp_mono [OF get_law], elim conjE)
  fix got :: "LaunchExecutionRecord \<times> bool \<times> go_error option" and s1
  assume s1: "stored s1 = stored s"
    and got: "case stored s i of None \<Rightarrow> \<not> fst (snd got) | Some rec \<Rightarrow> got = (rec, True, None)"
  show "wp (case got of (rec, found, err) \<Rightarrow>
       if err \<noteq> None \<or> \<not> found
       then ret (rec, Some (''execution not found or err: '' @
              (case err of None \<Rightarrow> ''%!w(<nil>)'' | Some e \<Rightarrow> e)))
       else if rec_State rec = StateTerminated \<or> rec_State rec = StateFailed \<or> rec_State rec = StateExited
       then ret (rec, None)
       else do {
         r1 \<leftarrow> transition host rec StateTerminating '''' ''Termination requested by API'';
         _ \<leftarrow> save orc r1;
         _ \<leftarrow> emitEvent host orc EventTypeTerminationRequested r1 '''' ''Termination requested by API'';
         kill_err \<leftarrow> kill_process_of orc r1;
         (case kill_err of
            None \<Rightarrow> report_terminated host orc r1
          | Some e \<Rightarrow> report_kill_failure host orc r1 e)
       }) ?Q s1"
  proof (cases "stored s i")
    case None
    then show ?thesis using got s1 by (cases got) simp
  next
    case (Some rec)
    show ?thesis
    proof (cases "terminal (rec_State rec)")
      case True
      then show ?thesis using Some got s1 by (auto simp: terminal_def)
    next
      case False
      have reports: "wp (case kill_err of None \<Rightarrow> report_terminated host orc r1
            | Some e \<Rightarrow> report_kill_failure host orc r1 e) (\<lambda>(r, err). filed s (rec_ExecutionID rec) r) s2"
        if "filed s (rec_ExecutionID rec) r1 s2" for kill_err r1 s2
        using report_files [OF that] by (cases kill_err) simp_all
      have "wp (do {
         r1 \<leftarrow> transition host rec StateTerminating '''' ''Termination requested by API'';
         _ \<leftarrow> save orc r1;
         _ \<leftarrow> emitEvent host orc EventTypeTerminationRequested r1 '''' ''Termination requested by API'';
         kill_err \<leftarrow> kill_process_of orc r1;
         (case kill_err of
            None \<Rightarrow> report_terminated host orc r1
          | Some e \<Rightarrow> report_kill_failure host orc r1 e)
         }) (\<lambda>(r, err). filed s (rec_ExecutionID rec) r) s1"
        by (intro wp_bindI wp_move wp_save wp_event wp_mono [OF kill_keeps] reports)
          (simp add: filed_def s1)
      then show ?thesis using Some got False by (simp add: terminal_def)
    qed
  qed
qed

end

section \<open>The wiring keeps the contract\<close>

text \<open>A database that answers every statement, and the executions it holds.\<close>

definition executions_of :: "'w System \<Rightarrow> string \<Rightarrow> LaunchExecutionRecord option" where
  "executions_of s = execution_view (sys_db s)"

lemma executions_of_simps [simp]:
  "executions_of (s\<lparr>sys_machine := w\<rparr>) = executions_of s"
  "executions_of (s\<lparr>sys_mem := m\<rparr>) = executions_of s"
  by (simp_all add: executions_of_def)

lemma keeps_machine [keeps_intros]: "keeps executions_of (on_machine m)"
  by (intro keeps_on_machine) simp

text \<open>The executors work on the machine only.\<close>

lemma machine_executor:
  assumes view: "\<And>s w. view (s\<lparr>sys_machine := w\<rparr>) = view s"
    and "StaticExecutorResolver (system_host host) b = Inr E"
  shows "keeps view (exec_Prepare E spec)" and "keeps view (exec_Execute E p)"
    and "keeps view (exec_Terminate E pid)"
proof -
  let ?h = "system_host host"
  note machine = keeps_on_machine [of view, OF view]
  have missing: "keeps view (artifact_missing ?h path)" for path
    unfolding artifact_missing_def system_host_simps by (intro keeps_intros machine)
  have E: "E = KvmExecutor ?h \<or> E = CloudHypervisorExecutor ?h \<or> E = FirecrackerExecutor"
    using assms(2) by (auto simp: StaticExecutorResolver_def split: if_splits)
  have kill: "keeps view (kill_process ?h pid)"
    unfolding kill_process_def system_host_simps by (intro keeps_intros machine)
  have prep: "keeps view (kvm_Prepare ?h spec)" "keeps view (ch_Prepare ?h spec)"
      "keeps view (fc_Prepare spec)"
    unfolding kvm_Prepare_def ch_Prepare_def fc_Prepare_def Let_def
    by (intro keeps_intros missing)+
  have exec: "keeps view (kvm_Execute ?h p)" "keeps view (ch_Execute ?h p)"
    unfolding kvm_Execute_def ch_Execute_def spawn_def Let_def system_host_simps
    by (intro keeps_intros machine)+
  show "keeps view (exec_Prepare E spec)" "keeps view (exec_Execute E p)" "keeps view (exec_Terminate E pid)"
    using E prep exec kill
    by (auto simp: KvmExecutor_def CloudHypervisorExecutor_def FirecrackerExecutor_def intro: keeps_ret)
qed

lemmas keeps_executor = machine_executor [of executions_of, OF executions_of_simps(1)]

interpretation service: durable_launch "system_host host" "NewLaunchHandler (ret None) host" executions_of
  for host
proof
  fix rec :: LaunchExecutionRecord and s :: "'a System"
  show "wp (orc_SaveExecution (NewLaunchHandler (ret None) host) rec)
      (\<lambda>_ s'. executions_of s' = (executions_of s)(rec_ExecutionID rec \<mapsto> rec)) s"
    by (auto simp: wp_sql executions_of_def SaveExecution_view fun_eq_iff)
next
  fix i and s :: "'a System"
  show "wp (orc_GetExecution (NewLaunchHandler (ret None) host) i)
      (\<lambda>r s'. executions_of s' = executions_of s \<and>
         (case executions_of s i of None \<Rightarrow> \<not> fst (snd r) | Some rec \<Rightarrow> r = (rec, True, None))) s"
    by (simp add: sql_read_def wp_sql GetExecution_view executions_of_def split: option.split)
next
  fix i
  show "keeps executions_of (orc_GetNode (NewLaunchHandler (ret None) host) i)"
    by (simp add: keeps_def wp_on_nodes)
next
  fix f :: "RuntimeEvent \<Rightarrow> ('a System, go_error option) state" and ev
  assume "orc_AppendEvent (NewLaunchHandler (ret None) host) = Some f"
  then show "keeps executions_of (f ev)"
    by (auto simp: keeps_def wp_sql executions_of_def)
next
  fix b and s :: "'a System"
  show "wp (orc_Resolve (NewLaunchHandler (ret None) host) b)
      (\<lambda>r s'. executions_of s' = executions_of s \<and>
         (\<forall>E. r = Inr E \<longrightarrow> (\<forall>spec. keeps executions_of (exec_Prepare E spec)) \<and>
            (\<forall>p. keeps executions_of (exec_Execute E p)) \<and>
            (\<forall>pid. keeps executions_of (exec_Terminate E pid)))) s"
    by (simp add: keeps_executor)
qed (auto intro!: keeps_on_machine)

lemma service_filed:
  "service.filed s i r s' \<longleftrightarrow> rec_ExecutionID r = i \<and> executions_of s' = (executions_of s)(i \<mapsto> r)"
  by (auto simp: service.filed_def)

section \<open>Properties\<close>

text \<open>
  C13: A launch through the wired server is durable: the record it returns is the one a later read of
  its id finds in the database, and no other execution is touched, on every machine and for every
  outcome of the launch.
\<close>
theorem StartLaunch_durable:
  "wp (StartLaunch (system_host host) (NewLaunchHandler (ret None) host) spec)
     (\<lambda>r s'.
        (\<lambda>i. GetExecution None i (sys_db s')) =
        (\<lambda>i. GetExecution None i (sys_db s))(rec_ExecutionID r := (r, True, None))) s"
  by (rule wp_mono [OF service.StartLaunch_files, unfolded service_filed])
    (simp add: GetExecution_view executions_of_def fun_eq_iff)

text \<open>
  C14: A termination through the wired server acts on the stored execution and files its result: an
  unknown id is an error, a settled execution is returned as stored, and otherwise the record it
  returns replaces the stored one and no other execution is touched.
\<close>
theorem TerminateLaunch_durable:
  assumes "db_ok (sys_db s)"
  shows "wp (TerminateLaunch (system_host host) (NewLaunchHandler (ret None) host) i)
     (\<lambda>(r, err) s'.
        case execution_view (sys_db s) i of
          None \<Rightarrow> execution_view (sys_db s') = execution_view (sys_db s) \<and> err \<noteq> None
        | Some rec \<Rightarrow>
            if terminal (rec_State rec)
            then execution_view (sys_db s') = execution_view (sys_db s) \<and> r = rec \<and> err = None
            else execution_view (sys_db s') = (execution_view (sys_db s))(i \<mapsto> r)) s"
proof -
  have own: "rec_ExecutionID rec = i" if "execution_view (sys_db s) i = Some rec" for rec
    using that assms key_view_Some [of row_execution_id "db_executions (sys_db s)" i]
    by (auto simp: execution_view_def db_ok_def row_ok_def list_all_iff)
  show ?thesis
    by (rule wp_mono [OF service.TerminateLaunch_files])
      (auto simp: executions_of_def service_filed own split: option.splits if_splits)
qed

definition sample_running_exec :: LaunchExecutionRecord where
  "sample_running_exec = zero_LaunchExecutionRecord
     \<lparr>rec_ExecutionID := ''e'', rec_State := StateRunning, rec_PID := Some 77,
      rec_PreparedState := Some (zero_PreparedLaunch\<lparr>prep_RuntimeBackend := ''kvm_qemu''\<rparr>)\<rparr>"

definition sample_system :: "unit System" where
  "sample_system =
     \<lparr>sys_mem = NewInMemoryStore,
      sys_db = \<lparr>db_executions = [row_of sample_running_exec], db_events = [], db_orphans = []\<rparr>,
      sys_machine = ()\<rparr>"

theorem TerminateLaunch_durable_witness:
  "wp (TerminateLaunch (system_host (still_host 9)) (NewLaunchHandler (ret None) (still_host 9)) ''e'')
     (\<lambda>(r, err) s'. execution_view (sys_db s') = (execution_view (sys_db sample_system))(''e'' \<mapsto> r))
     sample_system"
proof -
  have ok: "db_ok (sys_db sample_system)"
    by (simp add: db_ok_def sample_system_def)
  have running: "execution_view (sys_db sample_system) ''e'' = Some sample_running_exec"
    "\<not> terminal (rec_State sample_running_exec)"
    by (simp_all add: execution_view_def sample_system_def sample_running_exec_def)
  show ?thesis
    by (rule wp_mono [OF TerminateLaunch_durable [OF ok]]) (simp add: running)
qed

end
