(* ===== verification/Reconcile.thy ===== *)
theory Reconcile
  imports Lifecycle
begin

text \<open>
  \<^verbatim>\<open>internal/domain/lifecycle/reconcile.go\<close>: one reconciliation of an execution record against what
  an inspector observes of its process. The part after the observation is a definition of its own,
  \<open>reconcile_observed\<close>; the observation is the only thing the rest of the function depends on.
\<close>

section \<open>The function\<close>

definition observed_signal :: "RuntimeObservation \<Rightarrow> ReadinessSignalSummary" where
  "observed_signal obs =
     \<lparr>sig_ControlSocketPath = obs_ControlSocketPath obs,
      sig_ControlSocketExists = obs_ControlSocketExists obs,
      sig_ControlSocketDialOK = obs_ControlSocketDialOK obs,
      sig_BackendReadySignal = obs_BackendReadySignal obs,
      sig_BackendSignalSource = obs_BackendSignalSource obs,
      sig_StartupGraceElapsed = obs_StartupGraceElapsed obs,
      sig_LastObservedAtSec = obs_ObservedAtSec obs\<rparr>"

definition readiness_deadline :: "LaunchExecutionRecord \<Rightarrow> int" where
  "readiness_deadline rec =
     (case rec_StartedAtSec rec of None \<Rightarrow> 0 | Some s \<Rightarrow> wrap64 (s + 15))"

definition reconcile_observed ::
    "'w Host \<Rightarrow> int \<Rightarrow> LaunchExecutionRecord \<Rightarrow> RuntimeObservation
     \<Rightarrow> ('w, LaunchExecutionRecord \<times> go_error option) state" where
  "reconcile_observed host now rec0 obs =
     (let rec1 = rec0\<lparr>rec_ReadinessSignal := Some (observed_signal obs)\<rparr> in
      if rec_State rec1 = StateTerminating \<and> \<not> obs_ProcessExists obs
      then TransitionTo host
             (rec1\<lparr>rec_TerminatedAtSec := Some now, rec_RuntimeLiveness := ''Dead'',
                   rec_RuntimeReadiness := ''NotReady''\<rparr>)
             StateTerminated '''' ''Process disappeared after termination requested''
      else
       (let deadline = readiness_deadline rec1;
            rec = rec1\<lparr>rec_RuntimeLiveness := (if obs_ProcessExists obs then ''Alive'' else ''Dead'')\<rparr> in
        if \<not> obs_ProcessExists obs \<and> rec_State rec \<noteq> StateTerminating
        then (if rec_State rec = StateStarting
              then TransitionTo host (rec\<lparr>rec_RuntimeReadiness := ''Failed''\<rparr>) StateFailed
                     ''ERR_EXEC_RUNTIME_EXITED_EARLY'' ''Process died before reaching readiness''
              else TransitionTo host
                     (if obs_ExitCode obs \<noteq> None then rec\<lparr>rec_ExitCode := obs_ExitCode obs\<rparr> else rec)
                     StateExited ''ERR_EXEC_RUNTIME_CRASHED'' ''Process exited unexpectedly'')
        else if rec_State rec = StateStarting \<and> obs_ProcessExists obs \<and> obs_BackendReadySignal obs
        then TransitionTo host (rec\<lparr>rec_RuntimeReadiness := ''Ready'', rec_ReadyAtSec := Some now\<rparr>)
               StateRunning '''' (''Runtime reached readiness criteria via '' @ obs_BackendSignalSource obs)
        else if rec_State rec = StateStarting \<and> obs_ProcessExists obs \<and> deadline > 0 \<and> now > deadline
        then TransitionTo host (rec\<lparr>rec_RuntimeReadiness := ''Failed''\<rparr>) StateFailed
               ''ERR_READY_TIMEOUT'' ''Process is alive but failed readiness checks within timeout''
        else if rec_State rec = StateRunning \<and> obs_BackendSpecificError obs \<noteq> None
        then TransitionTo host (rec\<lparr>rec_RuntimeReadiness := ''Degraded''\<rparr>) StateDegraded
               ''ERR_READY_PROBE_FAILED'' (the (obs_BackendSpecificError obs))
        else if rec_State rec = StateDegraded \<and> obs_BackendSpecificError obs = None \<and>
                obs_BackendReadySignal obs
        then TransitionTo host (rec\<lparr>rec_RuntimeReadiness := ''Ready''\<rparr>) StateRunning ''''
               ''Runtime recovered from degraded state''
        else if rec_State rec = StateUnknown \<and> obs_ProcessExists obs
        then (if obs_BackendReadySignal obs
              then TransitionTo host rec StateRunning ''''
                     ''Telemetry restored, process is alive and ready''
              else TransitionTo host rec StateStarting ''''
                     ''Telemetry restored, process is alive but not ready'')
        else ret (rec\<lparr>rec_UpdatedAtSec := now\<rparr>, None)))"

definition Reconcile ::
    "'w Host \<Rightarrow> 'w Inspector \<Rightarrow> LaunchExecutionRecord
     \<Rightarrow> ('w, LaunchExecutionRecord \<times> go_error option) state" where
  "Reconcile host inspect rec = do {
     now \<leftarrow> host_Now host;
     (if rec_State rec = StateExited \<or> rec_State rec = StateFailed \<or> rec_State rec = StateTerminated
      then ret (rec, None)
      else if rec_State rec \<noteq> StateStarting \<and> rec_State rec \<noteq> StateRunning \<and>
              rec_State rec \<noteq> StateDegraded \<and> rec_State rec \<noteq> StateTerminating \<and>
              rec_State rec \<noteq> StateUnknown
      then ret (rec, None)
      else case rec_PID rec of
          None \<Rightarrow> TransitionTo host rec StateFailed ''ERR_RECONCILE_PROCESS_MISSING''
                    ''Expected PID is missing from record''
        | Some pid \<Rightarrow> do {
            obs \<leftarrow> inspect (rec_ExecutionID rec) (rec_PID rec)
                     (case rec_PreparedState rec of None \<Rightarrow> zero_PreparedLaunch | Some p \<Rightarrow> p);
            (case obs of
               Inl err \<Rightarrow> TransitionTo host rec StateUnknown ''ERR_RECONCILE_STATUS_UNREADABLE'' err
             | Inr ob \<Rightarrow> reconcile_observed host now rec ob)
          })
   }"

section \<open>What one observation leads to\<close>

text \<open>
  The states the reconciler polls, and the outcome of one poll as a table over the state, whether
  the process is alive, whether it signals readiness, whether the readiness deadline has passed, and
  whether the backend reports an error. \<open>Inl\<close> marks the rows where the table of allowed transitions
  refuses the move: the state is kept and an error is returned.
\<close>

definition polled :: "LaunchState \<Rightarrow> bool" where
  "polled s \<longleftrightarrow> s = StateStarting \<or> s = StateRunning \<or> s = StateDegraded \<or> s = StateTerminating \<or>
     s = StateUnknown"

lemma polled_simps [simp]:
  "polled StateStarting" "polled StateRunning" "polled StateDegraded" "polled StateTerminating"
  "polled StateUnknown" "\<not> polled StateExited" "\<not> polled StateFailed" "\<not> polled StateTerminated"
  "\<not> polled StatePending" "\<not> polled StatePreparing" "\<not> polled StateValidated"
  "\<not> polled StateLaunching" "\<not> polled (StateOther s)"
  by (simp_all add: polled_def)

fun poll_outcome ::
    "LaunchState \<Rightarrow> bool \<Rightarrow> bool \<Rightarrow> bool \<Rightarrow> bool \<Rightarrow> LaunchState + LaunchState" where
  "poll_outcome StateStarting alive ready late broken =
     (if \<not> alive then Inr StateFailed
      else if ready then Inr StateRunning
      else if late then Inr StateFailed else Inr StateStarting)"
| "poll_outcome StateRunning alive ready late broken =
     (if \<not> alive then Inr StateExited else if broken then Inr StateDegraded else Inr StateRunning)"
| "poll_outcome StateDegraded alive ready late broken =
     (if \<not> alive then Inl StateExited
      else if \<not> broken \<and> ready then Inl StateRunning else Inr StateDegraded)"
| "poll_outcome StateTerminating alive ready late broken =
     (if \<not> alive then Inr StateTerminated else Inr StateTerminating)"
| "poll_outcome StateUnknown alive ready late broken =
     (if \<not> alive then Inr StateExited else if ready then Inr StateRunning else Inl StateStarting)"
| "poll_outcome s alive ready late broken = Inr s"

definition deadline_passed :: "int \<Rightarrow> LaunchExecutionRecord \<Rightarrow> bool" where
  "deadline_passed now rec \<longleftrightarrow> readiness_deadline rec > 0 \<and> now > readiness_deadline rec"

lemma readiness_deadline_upd [simp]:
  "readiness_deadline (rec\<lparr>rec_ReadinessSignal := x\<rparr>) = readiness_deadline rec"
  by (simp add: readiness_deadline_def)

definition poll_row ::
    "int \<Rightarrow> LaunchExecutionRecord \<Rightarrow> RuntimeObservation \<Rightarrow> LaunchExecutionRecord \<times> go_error option \<Rightarrow> bool" where
  "poll_row now rec obs r \<longleftrightarrow>
     (case poll_outcome (rec_State rec) (obs_ProcessExists obs) (obs_BackendReadySignal obs)
        (deadline_passed now rec) (obs_BackendSpecificError obs \<noteq> None) of
        Inr s \<Rightarrow> rec_State (fst r) = s \<and> snd r = None
      | Inl s \<Rightarrow> rec_State (fst r) = rec_State rec \<and>
          snd r = Some (''ERR_STATE_INVALID_TRANSITION: cannot transition from '' @
            state_name (rec_State rec) @ '' to '' @ state_name s))"

lemma reconcile_observed_row:
  assumes "polled (rec_State rec)"
  shows "wp (reconcile_observed host now rec obs) (\<lambda>r _. poll_row now rec obs r) w"
  using assms unfolding reconcile_observed_def Let_def
  by (intro wp_intros; cases "rec_State rec";
      simp add: poll_row_def deadline_passed_def IsTransitionAllowed_def split: if_splits)

definition same_process :: "LaunchExecutionRecord \<Rightarrow> LaunchExecutionRecord \<Rightarrow> bool" where
  "same_process rec r \<longleftrightarrow>
     rec_PID r = rec_PID rec \<and> rec_ExecutionID r = rec_ExecutionID rec \<and>
     rec_WorkloadID r = rec_WorkloadID rec \<and> rec_NodeID r = rec_NodeID rec \<and>
     rec_Spec r = rec_Spec rec \<and> rec_PreparedState r = rec_PreparedState rec \<and>
     rec_StartedAtSec r = rec_StartedAtSec rec \<and> rec_CreatedAtSec r = rec_CreatedAtSec rec \<and>
     prefix (rec_Trace rec) (rec_Trace r)"

lemma same_process_refl [simp]: "same_process rec rec"
  by (simp add: same_process_def)

lemma same_process_traced [simp]:
  "same_process rec (traced st s c m t (rec\<lparr>rec_State := n\<rparr>))"
  by (simp add: same_process_def)

lemma reconcile_observed_same: "wp (reconcile_observed host now rec obs) (\<lambda>r _. same_process rec (fst r)) w"
  unfolding reconcile_observed_def Let_def
  by (intro wp_intros; simp add: same_process_def split: if_splits)

lemma reconcile_observed_liveness:
  "wp (reconcile_observed host now rec obs)
     (\<lambda>r _. rec_RuntimeLiveness (fst r) = (if obs_ProcessExists obs then ''Alive'' else ''Dead'') \<and>
            rec_ReadinessSignal (fst r) = Some (observed_signal obs)) w"
  unfolding reconcile_observed_def Let_def
  by (intro wp_intros; simp split: if_splits)

lemma reconcile_observed_exit_code:
  "obs_ExitCode obs = None \<Longrightarrow>
   wp (reconcile_observed host now rec obs) (\<lambda>r _. rec_ExitCode (fst r) = rec_ExitCode rec) w"
  unfolding reconcile_observed_def Let_def
  by (intro wp_intros; simp split: if_splits)

lemma reconcile_observed_allowed:
  "wp (reconcile_observed host now rec obs)
     (\<lambda>r _. rec_State (fst r) = rec_State rec \<or> IsTransitionAllowed (rec_State rec) (rec_State (fst r))) w"
  unfolding reconcile_observed_def Let_def
  by (intro wp_intros; simp split: if_splits)

section \<open>The whole function\<close>

definition prepared_or_zero :: "LaunchExecutionRecord \<Rightarrow> PreparedLaunch" where
  "prepared_or_zero rec = (case rec_PreparedState rec of None \<Rightarrow> zero_PreparedLaunch | Some p \<Rightarrow> p)"

text \<open>
  The shape of a reconciliation: nothing happens to a record that is not polled, a missing PID and a
  failing inspection have a transition of their own, and the rest is the observation's.
\<close>

lemma ReconcileI:
  assumes "\<And>w'. \<not> polled (rec_State rec) \<Longrightarrow> Q (rec, None) w'"
    and "\<And>w'. polled (rec_State rec) \<Longrightarrow> rec_PID rec = None \<Longrightarrow>
      wp (TransitionTo host rec StateFailed ''ERR_RECONCILE_PROCESS_MISSING''
            ''Expected PID is missing from record'') Q w'"
    and "\<And>pid now w'. polled (rec_State rec) \<Longrightarrow> rec_PID rec = Some pid \<Longrightarrow>
      wp (inspect (rec_ExecutionID rec) (Some pid) (prepared_or_zero rec))
        (\<lambda>ob w''. case ob of
            Inl err \<Rightarrow> wp (TransitionTo host rec StateUnknown ''ERR_RECONCILE_STATUS_UNREADABLE'' err) Q w''
          | Inr ob \<Rightarrow> wp (reconcile_observed host now rec ob) Q w'') w'"
  shows "wp (Reconcile host inspect rec) Q w"
proof -
  have terminal: "\<not> polled s" if "s = StateExited \<or> s = StateFailed \<or> s = StateTerminated" for s
    using that by auto
  show ?thesis
    unfolding Reconcile_def prepared_or_zero_def [symmetric]
    by (rule wp_bindI, rule wp_any, intro wp_ifI wp_retI wp_optionI wp_bindI)
      (use assms in \<open>auto simp: polled_def wp_sum_case\<close>)
qed

lemma Reconcile_same: "wp (Reconcile host inspect rec) (\<lambda>r _. same_process rec (fst r)) w"
proof (rule ReconcileI)
  fix pid now w'
  show "wp (inspect (rec_ExecutionID rec) (Some pid) (prepared_or_zero rec))
    (\<lambda>ob w''. case ob of
        Inl err \<Rightarrow> wp (TransitionTo host rec StateUnknown ''ERR_RECONCILE_STATUS_UNREADABLE'' err)
                      (\<lambda>r _. same_process rec (fst r)) w''
      | Inr ob \<Rightarrow> wp (reconcile_observed host now rec ob) (\<lambda>r _. same_process rec (fst r)) w'') w'"
    by (rule wp_any)
      (auto simp: reconcile_observed_same split: sum.split intro!: wp_TransitionToI)
qed (auto intro!: wp_TransitionToI)

lemma Reconcile_allowed:
  "wp (Reconcile host inspect rec)
     (\<lambda>r _. rec_State (fst r) = rec_State rec \<or> IsTransitionAllowed (rec_State rec) (rec_State (fst r))) w"
  by (rule ReconcileI) (auto simp: reconcile_observed_allowed intro!: wp_any split: sum.split)

lemma Reconcile_with_observation:
  assumes "polled (rec_State rec)" and "rec_PID rec = Some pid"
    and "run_state (host_Now host) w = (now, w1)"
    and "run_state (inspect (rec_ExecutionID rec) (Some pid) (prepared_or_zero rec)) w1 = (Inr obs, w2)"
    and "wp (reconcile_observed host now rec obs) Q w2"
  shows "wp (Reconcile host inspect rec) Q w"
proof -
  have "rec_State rec \<noteq> StateExited" "rec_State rec \<noteq> StateFailed" "rec_State rec \<noteq> StateTerminated"
    using assms(1) by auto
  with assms show ?thesis
    unfolding Reconcile_def prepared_or_zero_def [symmetric] wp_bind
    by (auto simp: polled_def wp_def split: prod.splits)
qed

section \<open>Properties\<close>

text \<open>
  C8: One reconciliation of a polled record whose inspection succeeds follows the decision table:
  the new state, or the refused move and its error, is the table's row for the state, process
  liveness, readiness signal, readiness deadline (15 seconds after the start) and backend error.
\<close>
theorem Reconcile_follows_table:
  assumes "polled (rec_State rec)" and "rec_PID rec = Some pid"
    and "run_state (host_Now host) w = (now, w1)"
    and "run_state (inspect (rec_ExecutionID rec) (Some pid) (prepared_or_zero rec)) w1 = (Inr obs, w2)"
  shows "poll_row now rec obs (fst (run_state (Reconcile host inspect rec) w))"
proof -
  have "wp (Reconcile host inspect rec) (\<lambda>r _. poll_row now rec obs r) w"
    using assms reconcile_observed_row by (rule Reconcile_with_observation) (rule assms(1))
  then show ?thesis by (simp add: wp_run)
qed

definition sample_observation :: RuntimeObservation where
  "sample_observation = zero_observation\<lparr>obs_ProcessExists := True, obs_PID := Some 77\<rparr>"

definition sample_starting :: LaunchExecutionRecord where
  "sample_starting = zero_LaunchExecutionRecord
     \<lparr>rec_State := StateStarting, rec_PID := Some 77, rec_StartedAtSec := Some 100\<rparr>"

theorem Reconcile_follows_table_witness:
  "poll_row 116 sample_starting sample_observation
     (fst (run_state (Reconcile (still_host 116) (\<lambda>_ _ _. ret (Inr sample_observation)) sample_starting) ())) \<and>
   poll_outcome StateStarting True False True False = Inr StateFailed"
  by (rule conjI, rule Reconcile_follows_table [where pid = 77 and ?w1.0 = "()" and ?w2.0 = "()"])
    (simp_all add: sample_starting_def)

text \<open>
  C33: With the inspectors of the repository, whatever the machine does, a reconciliation never moves
  a record to Degraded or to Unknown and never records an exit code: those branches of the code are
  unreachable, because no inspector reports a backend error, an exit code or a failure.
\<close>
theorem Reconcile_repo_inspectors:
  "wp (Reconcile host (StaticInspectorResolver host backend) rec)
     (\<lambda>(r, err) _.
        (rec_State r = StateDegraded \<longrightarrow> rec_State rec = StateDegraded) \<and>
        (rec_State r = StateUnknown \<longrightarrow> rec_State rec = StateUnknown) \<and>
        rec_ExitCode r = rec_ExitCode rec) w"
  (is "wp _ ?Q w")
proof (rule ReconcileI)
  fix pid now w'
  assume polled: "polled (rec_State rec)"
  show "wp (StaticInspectorResolver host backend (rec_ExecutionID rec) (Some pid) (prepared_or_zero rec))
    (\<lambda>ob w''. case ob of
        Inl err \<Rightarrow> wp (TransitionTo host rec StateUnknown ''ERR_RECONCILE_STATUS_UNREADABLE'' err) ?Q w''
      | Inr ob \<Rightarrow> wp (reconcile_observed host now rec ob) ?Q w'') w'"
  proof (rule resolved_insp.inspect_wp)
    fix obs :: RuntimeObservation and w''
    assume plain: "obs_ExitCode obs = None" "obs_BackendSpecificError obs = None"
    have "wp (reconcile_observed host now rec obs)
        (\<lambda>r _. poll_row now rec obs r \<and> rec_ExitCode (fst r) = rec_ExitCode rec) w''"
      by (intro wp_conj reconcile_observed_row reconcile_observed_exit_code polled plain)
    then have "wp (reconcile_observed host now rec obs) ?Q w''"
      by (rule wp_mono)
        (use plain polled in \<open>cases "rec_State rec"; auto simp: poll_row_def split: if_splits sum.splits\<close>)
    then show "case Inr obs of
        Inl err \<Rightarrow> wp (TransitionTo host rec StateUnknown ''ERR_RECONCILE_STATUS_UNREADABLE'' err) ?Q w''
      | Inr ob \<Rightarrow> wp (reconcile_observed host now rec ob) ?Q w''"
      by simp
  qed
qed (auto intro!: wp_TransitionToI)

theorem Reconcile_repo_inspectors_witness:
  "rec_ExitCode (fst (fst (run_state
     (Reconcile (still_host 0) (StaticInspectorResolver (still_host 0) ''kvm_qemu'') sample_starting) ()))) = None"
  using Reconcile_repo_inspectors [of "still_host 0" "''kvm_qemu''" sample_starting "()"]
  by (simp add: wp_run case_prod_unfold sample_starting_def zero_LaunchExecutionRecord_def)

text \<open>
  C32: Reconciliation keeps the identity of an execution and follows the transition table for every
  inspector: the process, the ids, the spec, the prepared state and the start time are kept, the
  trace only grows, and the state stays or changes by one allowed transition.
\<close>
theorem Reconcile_keeps_identity:
  "wp (Reconcile host inspect rec)
     (\<lambda>(r, err) _.
        same_process rec r \<and>
        (rec_State r = rec_State rec \<or> IsTransitionAllowed (rec_State rec) (rec_State r)) \<and>
        (\<not> polled (rec_State rec) \<longrightarrow> r = rec \<and> err = None)) w"
proof -
  have "wp (Reconcile host inspect rec) (\<lambda>r _. \<not> polled (rec_State rec) \<longrightarrow> r = (rec, None)) w"
    by (rule ReconcileI) (auto intro!: wp_any split: sum.split)
  then have "wp (Reconcile host inspect rec)
      (\<lambda>r _. (same_process rec (fst r) \<and>
          (rec_State (fst r) = rec_State rec \<or> IsTransitionAllowed (rec_State rec) (rec_State (fst r)))) \<and>
        (\<not> polled (rec_State rec) \<longrightarrow> r = (rec, None))) w"
    by (intro wp_conj Reconcile_same Reconcile_allowed)
  then show ?thesis by (rule wp_mono) auto
qed

theorem Reconcile_keeps_identity_witness:
  "same_process sample_starting
     (fst (fst (run_state (Reconcile (still_host 0) (ProcessInspector (still_host 0)) sample_starting) ())))"
  using Reconcile_keeps_identity [of "still_host 0" "ProcessInspector (still_host 0)" sample_starting "()"]
  by (simp add: wp_run split: prod.splits)

text \<open>
  Degraded is a dead end for the reconciler: no inspection result, process death included, moves
  a degraded record anywhere but to Unknown (on a failing inspection) or, when the record has lost
  its PID, to Failed.
\<close>
theorem Reconcile_Degraded_stuck:
  "wp (Reconcile host inspect (rec\<lparr>rec_State := StateDegraded\<rparr>))
     (\<lambda>(r, err) _. rec_State r = StateDegraded \<or>
        rec_State r = StateUnknown \<and> err = None \<or>
        rec_State r = StateFailed \<and> rec_PID rec = None) w"
  (is "wp (Reconcile host inspect ?r) ?Q w")
proof (rule ReconcileI)
  fix pid now w'
  have row: "wp (reconcile_observed host now ?r ob) ?Q w''" for ob w''
    by (rule wp_mono [OF reconcile_observed_row]) (auto simp: poll_row_def split: if_splits)
  show "wp (inspect (rec_ExecutionID ?r) (Some pid) (prepared_or_zero ?r))
    (\<lambda>ob w''. case ob of
        Inl err \<Rightarrow> wp (TransitionTo host ?r StateUnknown ''ERR_RECONCILE_STATUS_UNREADABLE'' err) ?Q w''
      | Inr ob \<Rightarrow> wp (reconcile_observed host now ?r ob) ?Q w'') w'"
    by (rule wp_any) (auto split: sum.split intro!: wp_TransitionToI row)
qed (auto intro!: wp_TransitionToI)

end
