(* ===== verification/Enumerate.thy ===== *)
theory Enumerate
  imports Runtime_Exec
begin

text \<open>
  \<^verbatim>\<open>internal/runtime\<close>: the process types of \<^verbatim>\<open>enumerate.go\<close> and \<^verbatim>\<open>process_identity.go\<close>, the
  fingerprint of \<^verbatim>\<open>fingerprint.go\<close> and the enumerator of \<^verbatim>\<open>enumerate_linux.go\<close>. The files under
  /proc are read through \<open>ProcFS\<close>, about which nothing is assumed; SHA-256 is the argument \<open>sha\<close>, the
  hexadecimal digest of a string. A slice expression out of range panics: its message is the error.
\<close>

section \<open>Processes\<close>

record EnumeratedProcess =
  ep_PID :: int
  ep_PPID :: "int option"
  ep_Backend :: string
  ep_Command :: string
  ep_CommandArgs :: "string list"
  ep_CommandFingerprint :: string
  ep_ExecutionIDHint :: string
  ep_WorkloadIDHint :: string
  ep_ObservedAtSec :: int
  ep_Details :: "(string \<times> json) list"

record ProcessIdentity =
  pi_PID :: int
  pi_Backend :: string
  pi_StartedAtSec :: "int option"
  pi_CommandFingerprint :: string
  pi_ExecutionIDHint :: string

record 'w ProcFS =
  pfs_ReadDir :: "string \<Rightarrow> ('w, go_error + (string \<times> bool) list) state"
  pfs_Readlink :: "string \<Rightarrow> ('w, go_error + string) state"
  pfs_ReadFile :: "string \<Rightarrow> ('w, go_error + string) state"

type_synonym 'w Enumerator = "('w, go_error + EnumeratedProcess list) state"

definition NoopEnumerator :: "'w Enumerator" where
  "NoopEnumerator = ret (Inr [])"

definition FingerprintProcess :: "(string \<Rightarrow> string) \<Rightarrow> string \<Rightarrow> string \<Rightarrow> string list \<Rightarrow> string" where
  "FingerprintProcess sha backend command args =
     sha (''backend='' @ backend @ ''|bin='' @ command @ ''|args='' @ join_with '' '' args)"

section \<open>Strings\<close>

text \<open>\<^verbatim>\<open>filepath.Base\<close>, \<^verbatim>\<open>strings.Split\<close> at a byte, \<^verbatim>\<open>strings.Fields\<close> on ASCII input, \<^verbatim>\<open>bytes.TrimRight\<close>.\<close>

definition filepath_Base :: "string \<Rightarrow> string" where
  "filepath_Base path =
     (if path = '''' then ''.''
      else let p = rev (dropWhile (\<lambda>c. c = CHR ''/'') (rev path)) in
        if p = '''' then ''/'' else rev (takeWhile (\<lambda>c. c \<noteq> CHR ''/'') (rev p)))"

fun split_at :: "(char \<Rightarrow> bool) \<Rightarrow> string \<Rightarrow> string list" where
  "split_at sep [] = [[]]"
| "split_at sep (c # cs) =
     (if sep c then [] # split_at sep cs
      else case split_at sep cs of [] \<Rightarrow> [[c]] | p # ps \<Rightarrow> (c # p) # ps)"

definition go_space :: "char \<Rightarrow> bool" where
  "go_space c \<longleftrightarrow> (let n = (of_char c :: nat) in (9 \<le> n \<and> n \<le> 13) \<or> n = 32)"

definition go_Fields :: "string \<Rightarrow> string list" where
  "go_Fields s = filter (\<lambda>p. p \<noteq> '''') (split_at go_space s)"

definition nul :: char where "nul = char_of (0::nat)"

definition trim_nul :: "string \<Rightarrow> string" where
  "trim_nul s = rev (dropWhile (\<lambda>c. c = nul) (rev s))"

fun last_index :: "char \<Rightarrow> string \<Rightarrow> nat option" where
  "last_index c [] = None"
| "last_index c (x # xs) =
     (case last_index c xs of Some i \<Rightarrow> Some (Suc i) | None \<Rightarrow> if x = c then Some 0 else None)"

section \<open>The enumerator\<close>

definition backend_of_binary :: "string \<Rightarrow> string option" where
  "backend_of_binary basename =
     (if prefix ''qemu-system-'' basename then Some ''kvm_qemu''
      else if basename = ''cloud-hypervisor'' then Some ''cloud_hypervisor''
      else if basename = ''firecracker'' then Some ''firecracker''
      else None)"

definition parse_ppid :: "string \<Rightarrow> go_error + int option" where
  "parse_ppid statData =
     (case last_index (CHR '')'') statData of
        None \<Rightarrow> Inr None
      | Some endParen \<Rightarrow>
          if endParen + 2 > length statData then Inl ''panic: slice bounds out of range''
          else let fields = go_Fields (drop (endParen + 2) statData) in
            Inr (if length fields \<ge> 2 then Atoi (fields ! 1) else None))"

fun after_schedune :: "string list \<Rightarrow> string option" where
  "after_schedune (p # q # ps) = (if p = ''schedune'' then Some q else after_schedune (q # ps))"
| "after_schedune _ = None"

definition hint_step :: "string \<Rightarrow> string \<Rightarrow> string" where
  "hint_step execHint arg =
     (let h = (if contains arg ''/run/schedune/''
               then (case after_schedune (split_slash arg) of Some q \<Rightarrow> q | None \<Rightarrow> execHint)
               else execHint)
      in if prefix ''--exec-id='' arg then drop (length ''--exec-id='') arg else h)"

definition exec_hint :: "string list \<Rightarrow> string" where
  "exec_hint args = foldl hint_step '''' args"

definition enumerate_entry ::
    "(string \<Rightarrow> string) \<Rightarrow> 'w ProcFS \<Rightarrow> int \<Rightarrow> string \<times> bool \<Rightarrow> ('w, go_error + EnumeratedProcess option) state" where
  "enumerate_entry sha pfs now entry =
     (if \<not> snd entry then ret (Inr None)
      else case Atoi (fst entry) of
        None \<Rightarrow> ret (Inr None)
      | Some pid \<Rightarrow> do {
          target \<leftarrow> pfs_Readlink pfs (filepath_Join [''/proc'', fst entry, ''exe'']);
          (case target of
             Inl _ \<Rightarrow> ret (Inr None)
           | Inr exe \<Rightarrow>
               (case backend_of_binary (filepath_Base exe) of
                  None \<Rightarrow> ret (Inr None)
                | Some backend \<Rightarrow> do {
                    cmdline \<leftarrow> pfs_ReadFile pfs (filepath_Join [''/proc'', fst entry, ''cmdline'']);
                    (case cmdline of
                       Inl _ \<Rightarrow> ret (Inr None)
                     | Inr cmdlineData \<Rightarrow> do {
                         let args = split_at (\<lambda>c. c = nul) (trim_nul cmdlineData);
                         st \<leftarrow> pfs_ReadFile pfs (filepath_Join [''/proc'', fst entry, ''stat'']);
                         (case (case st of Inl _ \<Rightarrow> Inr None | Inr statData \<Rightarrow> parse_ppid statData) of
                            Inl panic \<Rightarrow> ret (Inl panic)
                          | Inr ppid \<Rightarrow> ret (Inr (Some
                              \<lparr>ep_PID = pid, ep_PPID = ppid, ep_Backend = backend, ep_Command = hd args,
                               ep_CommandArgs = tl args,
                               ep_CommandFingerprint = FingerprintProcess sha backend (hd args) (tl args),
                               ep_ExecutionIDHint = exec_hint args, ep_WorkloadIDHint = '''',
                               ep_ObservedAtSec = now, ep_Details = []\<rparr>)))
                       })
                  }))
        })"

fun enumerate_entries ::
    "(string \<Rightarrow> string) \<Rightarrow> 'w ProcFS \<Rightarrow> int \<Rightarrow> (string \<times> bool) list \<Rightarrow> EnumeratedProcess list \<Rightarrow> 'w Enumerator" where
  "enumerate_entries sha pfs now [] procs = ret (Inr procs)"
| "enumerate_entries sha pfs now (e # es) procs = do {
     r \<leftarrow> enumerate_entry sha pfs now e;
     (case r of
        Inl panic \<Rightarrow> ret (Inl panic)
      | Inr None \<Rightarrow> enumerate_entries sha pfs now es procs
      | Inr (Some p) \<Rightarrow> enumerate_entries sha pfs now es (procs @ [p]))
   }"

definition LinuxProcEnumerator ::
    "(string \<Rightarrow> string) \<Rightarrow> 'w Host \<Rightarrow> 'w ProcFS \<Rightarrow> 'w Enumerator" where
  "LinuxProcEnumerator sha host pfs = do {
     entries \<leftarrow> pfs_ReadDir pfs ''/proc'';
     (case entries of
        Inl err \<Rightarrow> ret (Inl err)
      | Inr es \<Rightarrow> do {
          now \<leftarrow> host_Now host;
          enumerate_entries sha pfs now es []
        })
   }"

definition NewEnumerator ::
    "string \<Rightarrow> (string \<Rightarrow> string) \<Rightarrow> 'w Host \<Rightarrow> 'w ProcFS \<Rightarrow> 'w Enumerator" where
  "NewEnumerator goos sha host pfs =
     (if goos = ''linux'' then LinuxProcEnumerator sha host pfs else NoopEnumerator)"

section \<open>What an enumerated process looks like\<close>

lemma split_at_nonempty [simp]: "split_at sep s \<noteq> []"
  by (cases s) (auto split: list.split)

text \<open>A process as the enumerator reports it: one of the three backends, and hints from its arguments.\<close>

definition enumerated :: "(string \<Rightarrow> string) \<Rightarrow> int \<Rightarrow> EnumeratedProcess \<Rightarrow> bool" where
  "enumerated sha now p \<longleftrightarrow>
     ep_Backend p \<in> {''kvm_qemu'', ''cloud_hypervisor'', ''firecracker''} \<and>
     ep_CommandFingerprint p = FingerprintProcess sha (ep_Backend p) (ep_Command p) (ep_CommandArgs p) \<and>
     ep_ExecutionIDHint p = exec_hint (ep_Command p # ep_CommandArgs p) \<and>
     ep_WorkloadIDHint p = '''' \<and> ep_ObservedAtSec p = now"

lemma enumerate_entry_ok:
  "wp (enumerate_entry sha pfs now e) (\<lambda>r _. \<forall>p. r = Inr (Some p) \<longrightarrow>
      enumerated sha now p \<and> snd e \<and> Atoi (fst e) = Some (ep_PID p)) w"
  unfolding enumerate_entry_def Let_def
  by (intro wp_intros; (rule wp_any)?; (intro wp_intros)?; (rule wp_any)?; (intro wp_intros)?;
      (rule wp_any)?; (intro wp_intros)?)
    (auto simp: enumerated_def backend_of_binary_def split: if_splits)

lemma enumerate_entries_ok:
  assumes "\<forall>p\<in>set procs. enumerated sha now p" and "map Some (map ep_PID procs) = ys"
    and "\<forall>y\<in>set ys. y \<in> D" and "\<forall>e\<in>set es. snd e \<longrightarrow> Atoi (fst e) \<in> D"
  shows "wp (enumerate_entries sha pfs now es procs)
    (\<lambda>r _. \<forall>ps. r = Inr ps \<longrightarrow> (\<forall>p\<in>set ps. enumerated sha now p \<and> Some (ep_PID p) \<in> D)) w"
  using assms
proof (induction es arbitrary: procs ys w)
  case Nil
  then show ?case by auto
next
  case (Cons e es)
  show ?case
    unfolding enumerate_entries.simps
  proof (rule wp_bindI, rule wp_mono [OF enumerate_entry_ok [where e = e]])
    fix r :: "go_error + EnumeratedProcess option" and w'
    assume r: "\<forall>p. r = Inr (Some p) \<longrightarrow> enumerated sha now p \<and> snd e \<and> Atoi (fst e) = Some (ep_PID p)"
    consider err where "r = Inl err" | "r = Inr None" | p where "r = Inr (Some p)"
      by (metis option.exhaust sum.exhaust)
    then show "wp (case r of
        Inl panic \<Rightarrow> ret (Inl panic)
      | Inr None \<Rightarrow> enumerate_entries sha pfs now es procs
      | Inr (Some p) \<Rightarrow> enumerate_entries sha pfs now es (procs @ [p]))
      (\<lambda>r _. \<forall>ps. r = Inr ps \<longrightarrow> (\<forall>p\<in>set ps. enumerated sha now p \<and> Some (ep_PID p) \<in> D)) w'"
    proof cases
      case 1
      then show ?thesis by simp
    next
      case 2
      then show ?thesis using Cons.IH [OF Cons.prems(1-3)] Cons.prems(4) by simp
    next
      case 3
      then have "wp (enumerate_entries sha pfs now es (procs @ [p]))
        (\<lambda>r _. \<forall>ps. r = Inr ps \<longrightarrow> (\<forall>p\<in>set ps. enumerated sha now p \<and> Some (ep_PID p) \<in> D)) w'"
        by (intro Cons.IH [where ys = "ys @ [Some (ep_PID p)]"]) (use Cons.prems r in auto)
      with 3 show ?thesis by simp
    qed
  qed
qed

section \<open>The hint of a managed process\<close>

lemma hint_step_socket:
  assumes "validIDPattern wid" and "CHR ''/'' \<notin> set pre" and "pre \<noteq> ''schedune''"
    and "\<not> prefix ''--exec-id='' (pre @ ''/run/schedune/'' @ wid @ ''/'' @ post)"
  shows "hint_step h (pre @ ''/run/schedune/'' @ wid @ ''/'' @ post) = wid"
proof -
  let ?arg = "pre @ ''/run/schedune/'' @ wid @ ''/'' @ post"
  have "contains ?arg ''/run/schedune/''"
    unfolding contains_iff_sublist sublist_def
    by (intro exI [of _ pre] exI [of _ "wid @ ''/'' @ post"]) simp
  moreover have "split_slash ?arg = pre # ''run'' # ''schedune'' # wid # split_slash post"
    using assms(1,2) validID_safe [OF assms(1)] split_slash_append [of "pre"]
    by (simp add: split_slash_append split_slash_plain)
  ultimately show ?thesis
    using assms(3,4) by (simp add: hint_step_def)
qed

lemma exec_hint_snoc: "exec_hint (args @ [a]) = hint_step (exec_hint args) a"
  by (simp add: exec_hint_def)

section \<open>Properties\<close>

text \<open>
  What the enumerator reports: every process has one of the three backends and the PID of a
  directory of /proc, its fingerprint and execution hint are those of its arguments, the workload
  hint is always empty, and all processes of one enumeration carry the same time.
\<close>
theorem enumerator_reports:
  "wp (LinuxProcEnumerator sha host pfs)
     (\<lambda>r _. case r of Inl err \<Rightarrow> True | Inr ps \<Rightarrow> \<exists>now. list_all (enumerated sha now) ps) w"
proof -
  let ?Q = "\<lambda>r _. case r of Inl err \<Rightarrow> True | Inr ps \<Rightarrow> \<exists>now. list_all (enumerated sha now) ps"
  have loop: "wp (enumerate_entries sha pfs now es []) ?Q w'" for now es w'
    by (rule wp_mono [OF enumerate_entries_ok [where procs = "[]" and D = UNIV and sha = sha and now = now]])
      (auto simp: list_all_iff split: sum.split)
  show ?thesis
    unfolding LinuxProcEnumerator_def
    by (intro wp_bindI wp_any wp_sumI wp_retI loop) simp
qed

text \<open>
  The execution hint of a process this control plane has started is not its execution id: from
  the arguments the executors build, the enumerator extracts the workload id, which is the directory
  of the control socket.
\<close>
theorem managed_hint_is_workload:
  assumes "validIDPattern wid"
  shows "exec_hint (cmd # qemu_args spec path fmt (''var/run/schedune/'' @ wid @ ''/qemu.sock'')) = wid \<and>
    exec_hint (cmd # ch_args spec path (''var/run/schedune/'' @ wid @ ''/cloudhypervisor.sock'')) = wid"
proof -
  have "hint_step h (''unix:var/run/schedune/'' @ wid @ ''/qemu.sock,server,nowait'') = wid" for h
    using hint_step_socket [OF assms, of "''unix:var''" "''qemu.sock,server,nowait''"] by simp
  then have qemu: "exec_hint (cmd # qemu_args spec path fmt (''var/run/schedune/'' @ wid @ ''/qemu.sock'')) = wid"
    by (simp add: qemu_args_def exec_hint_def)
  have "hint_step h (''var/run/schedune/'' @ wid @ ''/cloudhypervisor.sock'') = wid" for h
    using hint_step_socket [OF assms, of "''var''" "''cloudhypervisor.sock''"] by simp
  then have "exec_hint (cmd # ch_args spec path (''var/run/schedune/'' @ wid @ ''/cloudhypervisor.sock'')) = wid"
    by (simp add: ch_args_def exec_hint_def)
  with qemu show ?thesis ..
qed

theorem managed_hint_is_workload_witness:
  "exec_hint (''qemu-system-x86_64'' # qemu_args sample_spec ''/a'' ''raw''
     (''var/run/schedune/'' @ ''wl-1'' @ ''/qemu.sock'')) = ''wl-1''"
  by (rule conjunct1 [OF managed_hint_is_workload]) (simp add: validIDPattern_def valid_id_char_def Let_def)

end
