(* ===== verification/Recovery.thy ===== *)
theory Recovery
  imports Service_World Reconcile Enumerate
begin

text \<open>
  \<^verbatim>\<open>internal/recovery/bootstrap.go\<close> and \<^verbatim>\<open>reassociate.go\<close>: what the server does at start with the
  executions a previous run has left, and the reassociation of a record with observed processes. The
  interfaces \<^verbatim>\<open>DurableExecutionStore\<close>, \<^verbatim>\<open>DurableEventStore\<close> and \<^verbatim>\<open>Inspector\<close> are the fields of the
  bootstrapper; the locale \<open>recoverable_store\<close> is the contract of the store.
\<close>

section \<open>Reassociation\<close>

record ReassociationResult =
  ra_Matched :: bool
  ra_Ambiguous :: bool
  ra_Missing :: bool
  ra_MatchedPID :: "int option"
  ra_ReasonCode :: string
  ra_Message :: string

definition ReassociateExecution ::
    "LaunchExecutionRecord \<Rightarrow> ProcessIdentity list \<Rightarrow> ReassociationResult" where
  "ReassociateExecution rec observed =
     (case rec_PID rec of
        None \<Rightarrow> \<lparr>ra_Matched = False, ra_Ambiguous = False, ra_Missing = True, ra_MatchedPID = None,
                 ra_ReasonCode = ''ERR_RECOVERY_STALE_HANDLE'',
                 ra_Message = ''Execution has no PID to reassociate''\<rparr>
      | Some pid \<Rightarrow>
          (let matches = filter (\<lambda>p. p = pid) (map pi_PID observed) in
           if length matches = 1
           then \<lparr>ra_Matched = True, ra_Ambiguous = False, ra_Missing = False,
                 ra_MatchedPID = Some (matches ! 0), ra_ReasonCode = ''RECOVERY_CONFIRMED'',
                 ra_Message = ''Exact PID match''\<rparr>
           else if length matches > 1
           then \<lparr>ra_Matched = False, ra_Ambiguous = True, ra_Missing = False, ra_MatchedPID = None,
                 ra_ReasonCode = ''ERR_RECOVERY_REASSOCIATION_AMBIGUOUS'',
                 ra_Message = ''Multiple matches for PID''\<rparr>
           else \<lparr>ra_Matched = False, ra_Ambiguous = False, ra_Missing = True, ra_MatchedPID = None,
                 ra_ReasonCode = ''ERR_RECOVERY_EXECUTION_MISSING'', ra_Message = ''PID not found''\<rparr>))"

section \<open>The bootstrap\<close>

record 'w RecoveryBootstrapper =
  rb_SaveExecution :: "LaunchExecutionRecord \<Rightarrow> ('w, go_error option) state"
  rb_ListRecoverable :: "('w, go_error + LaunchExecutionRecord list) state"
  rb_AppendEvent :: "RuntimeEvent \<Rightarrow> ('w, go_error option) state"
  rb_Inspector :: "'w Inspector"
  rb_Epoch :: string

text \<open>The branches of \<^verbatim>\<open>recoverExecution\<close>: the record, and the event's type, reason and message.\<close>

definition recover_observed ::
    "'w Host \<Rightarrow> LaunchExecutionRecord \<Rightarrow> go_error + RuntimeObservation
     \<Rightarrow> ('w, LaunchExecutionRecord \<times> EventType \<times> string \<times> string) state" where
  "recover_observed host rec observed =
     (case observed of
        Inl err \<Rightarrow> do {
          r \<leftarrow> TransitionTo host rec StateUnknown ''ERR_RECOVERY_REHYDRATE_FAILED''
                 (''Failed to inspect PID: '' @ err);
          ret (fst r, EventExecutionRecoveryUnknown, ''ERR_RECOVERY_REHYDRATE_FAILED'', ''Process inspect failed'')
        }
      | Inr obs \<Rightarrow>
          (if obs_ProcessExists obs
           then do {
             let msg = (if rec_State rec = StateTerminating
                        then ''Process still exists, remaining in Terminating''
                        else ''Process confirmed alive'');
             r \<leftarrow> AppendTrace host (rec\<lparr>rec_RuntimeLiveness := ''Alive''\<rparr>) ''RecoveryBootstrap'' ''Success''
                    ''RECOVERY_CONFIRMED'' msg;
             ret (r, EventExecutionRehydrated, ''RECOVERY_CONFIRMED'', msg)
           }
           else if rec_State rec = StateTerminating
           then do {
             r \<leftarrow> TransitionTo host rec StateTerminated ''ERR_RECOVERY_EXECUTION_MISSING''
                    ''Terminating process missing on restart'';
             ret (fst r, EventExecutionRehydrated, ''RECOVERY_TERMINATED_MISSING'',
                  ''Terminating process converged to Terminated'')
           }
           else do {
             r \<leftarrow> TransitionTo host rec StateUnknown ''ERR_RECOVERY_EXECUTION_MISSING''
                    ''Process missing on restart'';
             ret (fst r, EventExecutionRecoveryUnknown, ''ERR_RECOVERY_EXECUTION_MISSING'', ''Process missing'')
           }))"

definition recover_record ::
    "'w Host \<Rightarrow> 'w Inspector \<Rightarrow> LaunchExecutionRecord
     \<Rightarrow> ('w, LaunchExecutionRecord \<times> EventType \<times> string \<times> string) state" where
  "recover_record host inspect rec =
     (case rec_PID rec of
        Some pid \<Rightarrow> do {
          observed \<leftarrow> inspect (rec_ExecutionID rec) (rec_PID rec)
                        (case rec_PreparedState rec of None \<Rightarrow> zero_PreparedLaunch | Some p \<Rightarrow> p);
          recover_observed host rec observed
        }
      | None \<Rightarrow> do {
          r \<leftarrow> TransitionTo host rec StateUnknown ''ERR_RECOVERY_STALE_HANDLE''
                 ''Mid-flight state without PID recovered as Unknown'';
          ret (fst r, EventExecutionRecoveryUnknown, ''ERR_RECOVERY_STALE_HANDLE'',
               ''No PID assigned before crash'')
        })"

definition recoverExecution ::
    "'w Host \<Rightarrow> 'w RecoveryBootstrapper \<Rightarrow> LaunchExecutionRecord \<Rightarrow> ('w, unit) state" where
  "recoverExecution host b rec = do {
     now \<leftarrow> host_Now host;
     res \<leftarrow> recover_record host (rb_Inspector b)
              (rec\<lparr>rec_RecoveryEpoch := rb_Epoch b, rec_LastObservedAtSec := Some now\<rparr>);
     (case res of (rec', eventType, reasonCode, msg) \<Rightarrow> do {
        _ \<leftarrow> rb_SaveExecution b rec';
        uid \<leftarrow> host_NewUUID host;
        _ \<leftarrow> rb_AppendEvent b
          \<lparr>ev_EventID = uid, ev_ExecutionID = rec_ExecutionID rec', ev_EventType = eventType,
           ev_TimestampSec = now, ev_ReasonCode = reasonCode, ev_PayloadJSON = Some (PayloadMessage msg)\<rparr>;
        ret ()
      })
   }"

fun recover_all ::
    "'w Host \<Rightarrow> 'w RecoveryBootstrapper \<Rightarrow> LaunchExecutionRecord list \<Rightarrow> ('w, unit) state" where
  "recover_all host b [] = ret ()"
| "recover_all host b (rec # recs) = do { _ \<leftarrow> recoverExecution host b rec; recover_all host b recs }"

definition Bootstrap :: "'w Host \<Rightarrow> 'w RecoveryBootstrapper \<Rightarrow> ('w, go_error option) state" where
  "Bootstrap host b = do {
     listed \<leftarrow> rb_ListRecoverable b;
     (case listed of
        Inl err \<Rightarrow> ret (Some (''failed to list recoverable executions: '' @ err))
      | Inr recs \<Rightarrow> do { _ \<leftarrow> recover_all host b recs; ret None })
   }"

text \<open>\<^verbatim>\<open>NewRecoveryBootstrapper\<close> as \<^verbatim>\<open>runServer\<close> calls it: over the SQL store, with the process inspector.\<close>

definition bootstrapper_of ::
    "'w driver \<Rightarrow> 'w Host \<Rightarrow> string \<Rightarrow> 'w System RecoveryBootstrapper" where
  "bootstrapper_of driver host epoch =
     \<lparr>rb_SaveExecution = (\<lambda>rec. sql driver (\<lambda>flt. SaveExecution flt rec)),
      rb_ListRecoverable = sql_read driver ListRecoverableExecutions,
      rb_AppendEvent = (\<lambda>ev. sql driver (\<lambda>flt. AppendEvent flt ev)),
      rb_Inspector = ProcessInspector (system_host host), rb_Epoch = epoch\<rparr>"

definition NewRecoveryBootstrapper ::
    "'w driver \<Rightarrow> 'w Host \<Rightarrow> ('w System, 'w System RecoveryBootstrapper) state" where
  "NewRecoveryBootstrapper driver host = do {
     epoch \<leftarrow> host_NewUUID (system_host host);
     ret (bootstrapper_of driver host epoch)
   }"

definition boot_recovery :: "'w driver \<Rightarrow> 'w Host \<Rightarrow> ('w System, go_error option) state" where
  "boot_recovery driver host = do {
     b \<leftarrow> NewRecoveryBootstrapper driver host;
     Bootstrap (system_host host) b
   }"

section \<open>What recovery makes of one record\<close>

text \<open>
  \<open>answers m a\<close>: the operation \<open>m\<close> of the machine gives the answer \<open>a\<close> in some state of the machine.
  An operation whose answer does not depend on the machine's state has one answer only.

  \<open>recovered_by clock seen epoch rec r\<close>: the recovery table. \<open>r\<close> is \<open>rec\<close> with the epoch, the time
  and one more trace step; its state and liveness follow from whether there is a PID and whether its
  process was seen alive; all other fields are those of \<open>rec\<close>. \<open>clock\<close> and \<open>seen\<close> say which times and
  which liveness of a process could be observed.
\<close>

definition answers :: "('w, 'a) state \<Rightarrow> 'a \<Rightarrow> bool" where
  "answers m a \<longleftrightarrow> (\<exists>w. fst (run_state m w) = a)"

lemma wp_answers: "wp m (\<lambda>a _. answers m a) w"
  by (auto simp: wp_run answers_def)

lemma wp_machine_answers: "wp (on_machine m) (\<lambda>a _. answers m a) s"
  by (simp add: wp_on_machine wp_answers)

definition recovered_by ::
    "(int \<Rightarrow> bool) \<Rightarrow> (int \<Rightarrow> bool \<Rightarrow> bool) \<Rightarrow> string \<Rightarrow> LaunchExecutionRecord \<Rightarrow> LaunchExecutionRecord \<Rightarrow> bool" where
  "recovered_by clock seen epoch rec r \<longleftrightarrow>
     (\<exists>now step. clock now \<and>
        r = rec\<lparr>rec_RecoveryEpoch := epoch, rec_LastObservedAtSec := Some now,
                rec_Trace := rec_Trace rec @ [step], rec_State := rec_State r,
                rec_RuntimeLiveness := rec_RuntimeLiveness r\<rparr>) \<and>
     (case rec_PID rec of
        None \<Rightarrow> rec_State r = StateUnknown \<and> rec_RuntimeLiveness r = rec_RuntimeLiveness rec
      | Some pid \<Rightarrow> \<exists>alive. seen pid alive \<and>
          (if alive then rec_State r = rec_State rec \<and> rec_RuntimeLiveness r = ''Alive''
           else rec_State r = (if rec_State rec = StateTerminating then StateTerminated else StateUnknown) \<and>
             rec_RuntimeLiveness r = rec_RuntimeLiveness rec))"

text \<open>Recovery on a machine: the clock and the liveness of the process are what the machine answers.\<close>

definition recovered :: "'w Host \<Rightarrow> string \<Rightarrow> LaunchExecutionRecord \<Rightarrow> LaunchExecutionRecord \<Rightarrow> bool" where
  "recovered host = recovered_by (answers (host_Now host)) (\<lambda>pid. answers (process_alive host pid))"

lemma recovered_by_same: "recovered_by clock seen epoch rec r \<Longrightarrow> same_process rec r"
  unfolding recovered_by_def same_process_def by (elim conjE exE, erule ssubst) simp

lemma to_unknown: "\<not> terminal s \<Longrightarrow> IsTransitionAllowed s StateUnknown"
  by (simp add: IsTransitionAllowed_def terminal_def)

text \<open>The inspector of the bootstrap: it never fails, and reports what signal 0 said.\<close>

definition inspects :: "(int \<Rightarrow> bool \<Rightarrow> bool) \<Rightarrow> 's Inspector \<Rightarrow> bool" where
  "inspects seen inspect \<longleftrightarrow> (\<forall>i pid prep s. wp (inspect i (Some pid) prep)
     (\<lambda>r _. \<exists>obs. r = Inr obs \<and> seen pid (obs_ProcessExists obs)) s)"

lemma inspectsI:
  "inspects seen inspect \<Longrightarrow>
   (\<And>obs s'. seen pid (obs_ProcessExists obs) \<Longrightarrow> Q (Inr obs) s') \<Longrightarrow> wp (inspect i (Some pid) prep) Q s"
  unfolding inspects_def by (elim allE, erule wp_mono) auto

lemma recovered_byI:
  assumes "clock now"
    and "r = traced st status c m t (rec\<lparr>rec_RecoveryEpoch := epoch, rec_LastObservedAtSec := Some now,
               rec_State := n, rec_RuntimeLiveness := l\<rparr>)"
    and "case rec_PID rec of
        None \<Rightarrow> n = StateUnknown \<and> l = rec_RuntimeLiveness rec
      | Some pid \<Rightarrow> \<exists>alive. seen pid alive \<and>
          (if alive then n = rec_State rec \<and> l = ''Alive''
           else n = (if rec_State rec = StateTerminating then StateTerminated else StateUnknown) \<and>
             l = rec_RuntimeLiveness rec)"
  shows "recovered_by clock seen epoch rec r"
proof -
  have r: "rec_State r = n" "rec_RuntimeLiveness r = l" by (simp_all add: assms(2))
  show ?thesis
    unfolding recovered_by_def r
  proof (intro conjI exI)
    show "clock now" by (rule assms(1))
    show "r = rec\<lparr>rec_RecoveryEpoch := epoch, rec_LastObservedAtSec := Some now,
        rec_Trace := rec_Trace rec @ [\<lparr>step_Stage = st, step_Status = status, step_ReasonCode = c,
          step_Message = m, step_TimestampSec = t\<rparr>],
        rec_State := n, rec_RuntimeLiveness := l\<rparr>"
      by (simp add: assms(2) traced_def)
  qed (rule assms(3))
qed

lemma recover_observed_row:
  assumes "\<not> terminal (rec_State rec)" and "rec_PID rec = Some pid" and "seen pid (obs_ProcessExists obs)" and "clock now"
  shows "wp (recover_observed host (rec\<lparr>rec_RecoveryEpoch := epoch, rec_LastObservedAtSec := Some now\<rparr>) (Inr obs))
    (\<lambda>r _. recovered_by clock seen epoch rec (fst r)) w"
proof -
  let ?rec = "rec\<lparr>rec_RecoveryEpoch := epoch, rec_LastObservedAtSec := Some now\<rparr>"
  have found: "recovered_by clock seen epoch rec (traced ''RecoveryBootstrap'' ''Success'' c m t
      (?rec\<lparr>rec_RuntimeLiveness := ''Alive''\<rparr>))" if "obs_ProcessExists obs" for c m t
    by (rule recovered_byI [where clock = clock, OF assms(4), where n = "rec_State rec" and l = "''Alive''"])
      (use that assms(2,3) in auto)
  have missing: "recovered_by clock seen epoch rec (traced ''StateTransition'' ''Success'' c m t (?rec\<lparr>rec_State := n\<rparr>))"
    if "\<not> obs_ProcessExists obs" "n = (if rec_State rec = StateTerminating then StateTerminated else StateUnknown)"
    for c m t n
    by (rule recovered_byI [where clock = clock, OF assms(4), where n = n and l = "rec_RuntimeLiveness rec"])
      (use that assms(2,3) in auto)
  have allowed: "IsTransitionAllowed (rec_State rec) StateUnknown"
    "rec_State rec = StateTerminating \<Longrightarrow> IsTransitionAllowed (rec_State rec) StateTerminated"
    using to_unknown [OF assms(1)] by (simp_all add: IsTransitionAllowed_def)
  show ?thesis
    unfolding recover_observed_def Let_def sum.case
    by (intro wp_intros) (use allowed in \<open>simp_all add: found missing\<close>)
qed

lemma recover_record_row:
  assumes "\<not> terminal (rec_State rec)" and "inspects seen inspect" and "clock now"
  shows "wp (recover_record host inspect (rec\<lparr>rec_RecoveryEpoch := epoch, rec_LastObservedAtSec := Some now\<rparr>))
    (\<lambda>r _. recovered_by clock seen epoch rec (fst r)) w"
proof (cases "rec_PID rec")
  case None
  have "recovered_by clock seen epoch rec (traced ''StateTransition'' ''Success'' c m t
      (rec\<lparr>rec_RecoveryEpoch := epoch, rec_LastObservedAtSec := Some now, rec_State := StateUnknown\<rparr>))" for c m t
    by (rule recovered_byI [where clock = clock, OF assms(3), where n = StateUnknown and l = "rec_RuntimeLiveness rec"])
      (use None in auto)
  then show ?thesis
    using None to_unknown [OF assms(1)] unfolding recover_record_def
    by (auto intro!: wp_TransitionToI wp_bindI)
next
  case (Some pid)
  then show ?thesis
    unfolding recover_record_def
    by (simp, intro inspectsI [OF assms(2)] recover_observed_row [OF assms(1) Some]) (simp_all add: assms(3))
qed

section \<open>The contract of the store\<close>

definition settled :: "LaunchExecutionRecord \<Rightarrow> bool" where
  "settled rec \<longleftrightarrow> state_name (rec_State rec) \<in> {''Failed'', ''Terminated'', ''Exited''}"

lemma settled_terminal: "\<not> settled rec \<Longrightarrow> \<not> terminal (rec_State rec)"
  by (auto simp: settled_def terminal_def)

locale recoverable_store =
  fixes host :: "'s Host" and b :: "'s RecoveryBootstrapper"
    and stored :: "'s \<Rightarrow> string \<Rightarrow> LaunchExecutionRecord option" and ok :: "'s \<Rightarrow> bool"
    and clock :: "int \<Rightarrow> bool" and seen :: "int \<Rightarrow> bool \<Rightarrow> bool"
  assumes save_law: "ok s \<Longrightarrow> wp (rb_SaveExecution b rec)
      (\<lambda>_ s'. ok s' \<and> stored s' = (stored s)(rec_ExecutionID rec \<mapsto> rec)) s"
    and list_law: "ok s \<Longrightarrow> wp (rb_ListRecoverable b)
      (\<lambda>r s'. ok s' \<and> stored s' = stored s \<and> (\<exists>recs. r = Inr recs \<and>
         distinct (map rec_ExecutionID recs) \<and>
         (\<forall>rec. rec \<in> set recs \<longleftrightarrow> stored s (rec_ExecutionID rec) = Some rec \<and> \<not> settled rec))) s"
    and own_law: "ok s \<Longrightarrow> stored s i = Some rec \<Longrightarrow> rec_ExecutionID rec = i"
    and event_law: "ok s \<Longrightarrow> wp (rb_AppendEvent b ev) (\<lambda>_ s'. ok s' \<and> stored s' = stored s) s"
    and now_law: "keeps (\<lambda>s. (ok s, stored s)) (host_Now host)"
    and uuid_law: "keeps (\<lambda>s. (ok s, stored s)) (host_NewUUID host)"
    and inspect_law: "keeps (\<lambda>s. (ok s, stored s)) (rb_Inspector b i pid prep)"
    and clock_law: "wp (host_Now host) (\<lambda>t _. clock t) s"
    and seen_law: "inspects seen (rb_Inspector b)"
begin

abbreviation "recovers \<equiv> recovered_by clock seen (rb_Epoch b)"

lemma wp_now:
  assumes "\<And>t s'. ok s' = ok s \<Longrightarrow> stored s' = stored s \<Longrightarrow> clock t \<Longrightarrow> Q t s'"
  shows "wp (host_Now host) Q s"
proof -
  have "wp (host_Now host) (\<lambda>_ s'. ok s' = ok s \<and> stored s' = stored s) s"
    by (rule keepsD [OF now_law]) simp
  from wp_conj [OF this clock_law] show ?thesis by (rule wp_mono) (simp add: assms)
qed

lemma recover_observed_keeps: "keeps (\<lambda>s. (ok s, stored s)) (recover_observed host rec observed)"
  unfolding recover_observed_def TransitionTo_def AppendTrace_def Let_def
  by (intro keeps_intros now_law)

lemma recover_record_ok:
  assumes "\<not> terminal (rec_State rec)" and "clock now"
  shows "wp (recover_record host (rb_Inspector b)
            (rec\<lparr>rec_RecoveryEpoch := rb_Epoch b, rec_LastObservedAtSec := Some now\<rparr>))
    (\<lambda>r s'. recovers rec (fst r) \<and> ok s' = ok s \<and> stored s' = stored s) s"
proof -
  let ?rec = "rec\<lparr>rec_RecoveryEpoch := rb_Epoch b, rec_LastObservedAtSec := Some now\<rparr>"
  have "keeps (\<lambda>s. (ok s, stored s)) (recover_record host (rb_Inspector b) ?rec)"
    unfolding recover_record_def TransitionTo_def AppendTrace_def
    by (intro keeps_intros now_law inspect_law recover_observed_keeps)
  then have keep: "wp (recover_record host (rb_Inspector b) ?rec)
      (\<lambda>_ s'. ok s' = ok s \<and> stored s' = stored s) s"
    by (rule keepsD) simp
  from wp_conj [OF recover_record_row [where clock = clock and seen = seen, OF assms(1) seen_law assms(2)] keep] show ?thesis by (rule wp_mono) simp
qed

lemma recoverExecution_ok:
  assumes "ok s" and "\<not> terminal (rec_State rec)"
  shows "wp (recoverExecution host b rec)
    (\<lambda>_ s'. ok s' \<and> (\<exists>r. recovers rec r \<and>
       stored s' = (stored s)(rec_ExecutionID rec \<mapsto> r))) s"
  unfolding recoverExecution_def
proof (rule wp_bindI, rule wp_now, rule wp_bindI, rule wp_mono [OF recover_record_ok [OF assms(2)]], assumption, elim conjE)
  fix now s1 and res :: "LaunchExecutionRecord \<times> EventType \<times> string \<times> string" and s2
  assume s: "ok s1 = ok s" "stored s1 = stored s" "ok s2 = ok s1" "stored s2 = stored s1"
    and r: "recovers rec (fst res)"
  obtain r' et rc msg where res: "res = (r', et, rc, msg)" by (cases res)
  have id: "rec_ExecutionID r' = rec_ExecutionID rec" using recovered_by_same [OF r] by (simp add: res same_process_def)
  have event: "wp (rb_AppendEvent b ev) (\<lambda>_ s'. ok s' \<and> (\<exists>r. recovers rec r \<and>
       stored s' = (stored s)(rec_ExecutionID rec \<mapsto> r))) s4"
    if "ok s4" "stored s4 = (stored s)(rec_ExecutionID rec \<mapsto> r')" for ev s4
    using that r by (intro wp_mono [OF event_law]) (auto simp: res)
  show "wp (case res of (rec', eventType, reasonCode, msg) \<Rightarrow> do {
        _ \<leftarrow> rb_SaveExecution b rec';
        uid \<leftarrow> host_NewUUID host;
        _ \<leftarrow> rb_AppendEvent b
          \<lparr>ev_EventID = uid, ev_ExecutionID = rec_ExecutionID rec', ev_EventType = eventType,
           ev_TimestampSec = now, ev_ReasonCode = reasonCode, ev_PayloadJSON = Some (PayloadMessage msg)\<rparr>;
        ret ()
      }) (\<lambda>_ s'. ok s' \<and> (\<exists>r. recovers rec r \<and>
       stored s' = (stored s)(rec_ExecutionID rec \<mapsto> r))) s2"
    unfolding res prod.case
    by (rule wp_bindI, rule wp_mono [OF save_law])
      (use s assms(1) id in \<open>auto intro!: keepsD [OF uuid_law] event\<close>)
qed

lemma recover_all_ok:
  assumes "ok s" and "distinct (map rec_ExecutionID recs)" and "\<forall>rec\<in>set recs. \<not> terminal (rec_State rec)"
  shows "wp (recover_all host b recs)
    (\<lambda>_ s'. ok s' \<and>
       (\<forall>rec\<in>set recs. \<exists>r. stored s' (rec_ExecutionID rec) = Some r \<and> recovers rec r) \<and>
       (\<forall>i. i \<notin> rec_ExecutionID ` set recs \<longrightarrow> stored s' i = stored s i)) s"
  using assms
proof (induction recs arbitrary: s)
  case (Cons rec recs)
  show ?case
    unfolding recover_all.simps
  proof (rule wp_bindI, rule wp_mono [OF recoverExecution_ok], rule Cons.prems, use Cons.prems in simp, elim conjE exE)
    fix u :: unit and s1 r
    assume s1: "ok s1" "recovers rec r" "stored s1 = (stored s)(rec_ExecutionID rec \<mapsto> r)"
    have "wp (recover_all host b recs)
      (\<lambda>_ s'. ok s' \<and>
       (\<forall>rec\<in>set recs. \<exists>r. stored s' (rec_ExecutionID rec) = Some r \<and> recovers rec r) \<and>
       (\<forall>i. i \<notin> rec_ExecutionID ` set recs \<longrightarrow> stored s' i = stored s1 i)) s1"
      using Cons.prems s1 by (intro Cons.IH) auto
    then show "wp (recover_all host b recs)
      (\<lambda>_ s'. ok s' \<and>
       (\<forall>rec\<in>set (rec # recs). \<exists>r. stored s' (rec_ExecutionID rec) = Some r \<and> recovers rec r) \<and>
       (\<forall>i. i \<notin> rec_ExecutionID ` set (rec # recs) \<longrightarrow> stored s' i = stored s i)) s1"
      by (rule wp_mono) (use Cons.prems(2) s1 in auto)
  qed
qed simp

lemma Bootstrap_ok:
  assumes "ok s"
  shows "wp (Bootstrap host b)
    (\<lambda>err s'. err = None \<and> ok s' \<and>
       (\<forall>i. case stored s i of
          None \<Rightarrow> stored s' i = None
        | Some rec \<Rightarrow> if settled rec then stored s' i = Some rec
            else \<exists>r. stored s' i = Some r \<and> recovers rec r)) s"
  unfolding Bootstrap_def
proof (rule wp_bindI, rule wp_mono [OF list_law [OF assms]], elim conjE exE)
  fix listed :: "go_error + LaunchExecutionRecord list" and s1 recs
  assume s1: "ok s1" "stored s1 = stored s" and listed: "listed = Inr recs"
    and dist: "distinct (map rec_ExecutionID recs)"
    and recs: "\<forall>rec. rec \<in> set recs \<longleftrightarrow> stored s (rec_ExecutionID rec) = Some rec \<and> \<not> settled rec"
  have "wp (recover_all host b recs)
    (\<lambda>_ s'. ok s' \<and>
       (\<forall>rec\<in>set recs. \<exists>r. stored s' (rec_ExecutionID rec) = Some r \<and> recovers rec r) \<and>
       (\<forall>i. i \<notin> rec_ExecutionID ` set recs \<longrightarrow> stored s' i = stored s1 i)) s1"
    using dist s1 recs settled_terminal by (intro recover_all_ok) auto
  then have "wp (recover_all host b recs) (\<lambda>_ s'. ok s' \<and> (\<forall>i. case stored s i of
          None \<Rightarrow> stored s' i = None
        | Some rec \<Rightarrow> if settled rec then stored s' i = Some rec
            else \<exists>r. stored s' i = Some r \<and> recovers rec r)) s1"
  proof (rule wp_mono, elim conjE, intro conjI allI)
    fix i and u :: unit and s'
    assume rows: "\<forall>rec\<in>set recs. \<exists>r. stored s' (rec_ExecutionID rec) = Some r \<and> recovers rec r"
      and rest: "\<forall>i. i \<notin> rec_ExecutionID ` set recs \<longrightarrow> stored s' i = stored s1 i"
    show "case stored s i of
          None \<Rightarrow> stored s' i = None
        | Some rec \<Rightarrow> if settled rec then stored s' i = Some rec
            else \<exists>r. stored s' i = Some r \<and> recovers rec r"
    proof (cases "i \<in> rec_ExecutionID ` set recs")
      case True
      then obtain rec where "rec \<in> set recs" "i = rec_ExecutionID rec" by blast
      with recs rows show ?thesis by auto
    next
      case False
      have "settled rec" if "stored s i = Some rec" for rec
        using False that own_law [OF assms that] recs by (metis image_eqI)
      with False rest s1(2) show ?thesis by (simp split: option.split)
    qed
  qed
  then show "wp (case listed of
        Inl err \<Rightarrow> ret (Some (''failed to list recoverable executions: '' @ err))
      | Inr recs \<Rightarrow> do { _ \<leftarrow> recover_all host b recs; ret None })
    (\<lambda>err s'. err = None \<and> ok s' \<and> (\<forall>i. case stored s i of
          None \<Rightarrow> stored s' i = None
        | Some rec \<Rightarrow> if settled rec then stored s' i = Some rec
            else \<exists>r. stored s' i = Some r \<and> recovers rec r)) s1"
    by (simp add: listed)
qed

end

section \<open>The SQL store keeps the contract\<close>

lemma bootstrapper_of_simps [simp]:
  "rb_SaveExecution (bootstrapper_of driver host epoch) rec = sql driver (\<lambda>flt. SaveExecution flt rec)"
  "rb_ListRecoverable (bootstrapper_of driver host epoch) = sql_read driver ListRecoverableExecutions"
  "rb_AppendEvent (bootstrapper_of driver host epoch) ev = sql driver (\<lambda>flt. AppendEvent flt ev)"
  "rb_Inspector (bootstrapper_of driver host epoch) = ProcessInspector (system_host host)"
  "rb_Epoch (bootstrapper_of driver host epoch) = epoch"
  by (simp_all add: bootstrapper_of_def)

abbreviation sound_db :: "'w System \<Rightarrow> bool" where
  "sound_db s \<equiv> db_ok (sys_db s)"

lemma keeps_db_machine [keeps_intros]: "keeps (\<lambda>s. (sound_db s, executions_of s)) (on_machine m)"
  by (intro keeps_on_machine) simp

lemma keeps_process_inspector:
  "keeps (\<lambda>s. (sound_db s, executions_of s)) (ProcessInspector (system_host host) i pid prep)"
  unfolding ProcessInspector_def process_alive_def system_host_simps Let_def
  by (intro keeps_intros)

lemma execution_view_own: "db_ok db \<Longrightarrow> execution_view db i = Some rec \<Longrightarrow> rec_ExecutionID rec = i"
  using key_view_Some [of row_execution_id "db_executions db" i]
  by (auto simp: execution_view_def db_ok_def row_ok_def list_all_iff)

lemma on_machine_bind:
  "on_machine (State_Monad.bind m f) = State_Monad.bind (on_machine m) (\<lambda>a. on_machine (f a))"
  by (auto simp: on_machine_def State_Monad.bind_def split: prod.splits intro!: ext)

lemma process_alive_machine: "process_alive (system_host host) pid = on_machine (process_alive host pid)"
proof -
  have unit: "on_machine (ret a) = ret a" for a :: bool
    by (simp add: on_machine_def State_Monad.return_def)
  show ?thesis
    by (simp add: process_alive_def on_machine_bind unit if_distrib [of on_machine] cong: if_cong)
qed

lemma process_inspector_seen:
  "inspects (\<lambda>pid. answers (process_alive host pid)) (ProcessInspector (system_host host))"
  unfolding inspects_def ProcessInspector_def process_alive_machine Let_def option.case wp_bind
  by (intro allI, rule wp_any, rule wp_mono [OF wp_machine_answers]) (auto simp: zero_observation_def)

interpretation booted: recoverable_store "system_host host" "bootstrapper_of (ret None) host epoch"
    executions_of sound_db "answers (host_Now host)" "\<lambda>pid. answers (process_alive host pid)"
  for host epoch
proof
  fix rec and s :: "'a System"
  assume "sound_db s"
  then show "wp (rb_SaveExecution (bootstrapper_of (ret None) host epoch) rec)
      (\<lambda>_ s'. sound_db s' \<and> executions_of s' = (executions_of s)(rec_ExecutionID rec \<mapsto> rec)) s"
    by (auto simp: wp_sql SaveExecution_ok executions_of_def SaveExecution_view fun_eq_iff)
next
  fix s :: "'a System"
  assume ok: "sound_db s"
  obtain recs where recs: "ListRecoverableExecutions None (sys_db s) = Inr recs"
    by (simp add: ListRecoverableExecutions_def listByStateCondition_def)
  show "wp (rb_ListRecoverable (bootstrapper_of (ret None) host epoch))
      (\<lambda>r s'. sound_db s' \<and> executions_of s' = executions_of s \<and> (\<exists>recs. r = Inr recs \<and>
         distinct (map rec_ExecutionID recs) \<and>
         (\<forall>rec. rec \<in> set recs \<longleftrightarrow> executions_of s (rec_ExecutionID rec) = Some rec \<and> \<not> settled rec))) s"
    using ListRecoverable_view [OF ok recs] ok
    by (simp add: sql_read_def wp_sql recs executions_of_def settled_def)
next
  fix i rec and s :: "'a System"
  assume "sound_db s" and "executions_of s i = Some rec"
  then show "rec_ExecutionID rec = i" by (simp add: executions_of_def execution_view_own)
next
  fix ev and s :: "'a System"
  assume "sound_db s"
  then show "wp (rb_AppendEvent (bootstrapper_of (ret None) host epoch) ev)
      (\<lambda>_ s'. sound_db s' \<and> executions_of s' = executions_of s) s"
    by (simp add: wp_sql AppendEvent_ok executions_of_def)
next
  show "wp (host_Now (system_host host)) (\<lambda>t _. answers (host_Now host) t) s" for s :: "'a System"
    by (simp add: wp_machine_answers)
next
  show "inspects (\<lambda>pid. answers (process_alive host pid)) (rb_Inspector (bootstrapper_of (ret None) host epoch))"
    by (simp add: process_inspector_seen)
qed (auto intro!: keeps_db_machine keeps_process_inspector)

abbreviation boot_epoch :: "'w Host \<Rightarrow> 'w \<Rightarrow> string" where
  "boot_epoch host w \<equiv> fst (run_state (host_NewUUID host) w)"

lemma boot_recovery_ok:
  assumes "db_ok (sys_db s)"
  shows "wp (boot_recovery (ret None) host)
     (\<lambda>err s'. err = None \<and> db_ok (sys_db s') \<and>
        (\<forall>i. case execution_view (sys_db s) i of
           None \<Rightarrow> execution_view (sys_db s') i = None
         | Some rec \<Rightarrow> if settled rec then execution_view (sys_db s') i = Some rec
             else \<exists>r. execution_view (sys_db s') i = Some r \<and> recovered host (boot_epoch host (sys_machine s)) rec r)) s"
proof -
  let ?epoch = "boot_epoch host (sys_machine s)"
  have "wp (Bootstrap (system_host host) (bootstrapper_of (ret None) host ?epoch))
     (\<lambda>err s'. err = None \<and> db_ok (sys_db s') \<and>
        (\<forall>i. case execution_view (sys_db s) i of
           None \<Rightarrow> execution_view (sys_db s') i = None
         | Some rec \<Rightarrow> if settled rec then execution_view (sys_db s') i = Some rec
             else \<exists>r. execution_view (sys_db s') i = Some r \<and> recovered host ?epoch rec r)) (s\<lparr>sys_machine := w\<rparr>)" for w
    using booted.Bootstrap_ok [of "s\<lparr>sys_machine := w\<rparr>" host ?epoch] assms
    unfolding executions_of_def bootstrapper_of_simps recovered_def by simp
  then show ?thesis
    by (simp add: boot_recovery_def NewRecoveryBootstrapper_def wp_on_machine wp_run [of "host_NewUUID host"])
qed

section \<open>Properties\<close>

text \<open>
  C9: Recovery at the start of the server accounts for every execution. A settled execution is kept
  as stored. Every other one is stamped with the epoch this start has drawn and with a time the
  clock gave, gets one more trace step, and follows the table: without a PID it becomes Unknown; when
  the machine answered that its process is alive, it keeps its state and is marked alive; when it
  answered that it is not, a terminating execution becomes Terminated and any other one Unknown. No
  other field changes. Recovery neither starts nor kills a process: its run does not depend on what
  these two operations of the machine do.
\<close>
theorem boot_recovery_accounts:
  assumes "db_ok (sys_db s)"
  shows "wp (boot_recovery (ret None) host)
     (\<lambda>err s'. err = None \<and> db_ok (sys_db s') \<and>
        (\<forall>i. case execution_view (sys_db s) i of
           None \<Rightarrow> execution_view (sys_db s') i = None
         | Some rec \<Rightarrow> if settled rec then execution_view (sys_db s') i = Some rec
             else \<exists>r. execution_view (sys_db s') i = Some r \<and>
               recovered host (fst (run_state (host_NewUUID host) (sys_machine s))) rec r)) s \<and>
   boot_recovery driver (host\<lparr>host_Kill := k, host_Start := st\<rparr>) = boot_recovery driver host"
  (is "wp _ ?Q s \<and> boot_recovery driver ?h = _")
proof
  show "wp (boot_recovery (ret None) host) ?Q s"
    by (rule boot_recovery_ok [OF assms])
next
  have alive: "process_alive (system_host ?h) = process_alive (system_host host)"
    by (simp add: fun_eq_iff process_alive_def cong: if_cong)
  have trace: "AppendTrace (system_host ?h) = AppendTrace (system_host host)"
    "TransitionTo (system_host ?h) = TransitionTo (system_host host)"
    "ProcessInspector (system_host ?h) = ProcessInspector (system_host host)"
    by (simp_all add: fun_eq_iff AppendTrace_def TransitionTo_def ProcessInspector_def alive Let_def
        cong: option.case_cong if_cong)
  have "recoverExecution (system_host ?h) b rec = recoverExecution (system_host host) b rec" for b rec
    by (simp add: recoverExecution_def recover_record_def recover_observed_def trace Let_def
        cong: option.case_cong sum.case_cong if_cong)
  then have "recover_all (system_host ?h) b recs = recover_all (system_host host) b recs" for b recs
    by (induction recs) simp_all
  moreover have "bootstrapper_of driver ?h = bootstrapper_of driver host"
    by (simp add: bootstrapper_of_def fun_eq_iff trace)
  ultimately show "boot_recovery driver ?h = boot_recovery driver host"
    by (simp add: boot_recovery_def NewRecoveryBootstrapper_def Bootstrap_def)
qed

theorem boot_recovery_accounts_witness:
  "wp (boot_recovery (ret None) (still_host 5\<lparr>host_Signal0 := \<lambda>_. ret (Some ''no such process'')\<rparr>))
     (\<lambda>err s'. \<exists>r. execution_view (sys_db s') ''e'' = Some r \<and> rec_State r = StateUnknown \<and>
        rec_RecoveryEpoch r = ''00000000-0000-4000-8000-000000000001'' \<and> rec_LastObservedAtSec r = Some 5)
     sample_system"
proof -
  let ?host = "still_host 5\<lparr>host_Signal0 := \<lambda>_. ret (Some ''no such process'')\<rparr> :: unit Host"
  have ok: "db_ok (sys_db sample_system)"
    by (simp add: db_ok_def sample_system_def)
  have running: "execution_view (sys_db sample_system) ''e'' = Some sample_running_exec"
    "\<not> settled sample_running_exec" "rec_PID sample_running_exec = Some 77" "rec_State sample_running_exec = StateRunning"
    by (simp_all add: execution_view_def sample_system_def sample_running_exec_def settled_def)
  have only: "answers (process_alive ?host 77) alive \<Longrightarrow> \<not> alive" "answers (host_Now ?host) t \<Longrightarrow> t = 5" for alive t
    by (auto simp: answers_def process_alive_def still_host_def)
  have outcome: "rec_State r = StateUnknown \<and> rec_RecoveryEpoch r = epoch \<and> rec_LastObservedAtSec r = Some 5"
    if "recovered ?host epoch sample_running_exec r" for epoch r
  proof -
    from that obtain now step where "answers (host_Now ?host) now" and
      r: "r = sample_running_exec\<lparr>rec_RecoveryEpoch := epoch, rec_LastObservedAtSec := Some now,
            rec_Trace := rec_Trace sample_running_exec @ [step], rec_State := rec_State r,
            rec_RuntimeLiveness := rec_RuntimeLiveness r\<rparr>"
      unfolding recovered_def recovered_by_def by blast
    then have "now = 5" using only(2) by blast
    then have "rec_RecoveryEpoch r = epoch \<and> rec_LastObservedAtSec r = Some 5" by (subst (1 2) r) simp
    moreover have "rec_State r = StateUnknown"
      using that only(1) running(3,4) by (auto simp: recovered_def recovered_by_def split: if_splits)
    ultimately show ?thesis by simp
  qed
  have epoch: "fst (run_state (host_NewUUID ?host) w) = ''00000000-0000-4000-8000-000000000001''" for w
    by (simp add: still_host_def)
  show ?thesis
  proof (rule wp_mono [OF conjunct1 [OF boot_recovery_accounts [OF ok]]], elim conjE)
    fix err and s' :: "unit System"
    assume all: "\<forall>i. case execution_view (sys_db sample_system) i of
           None \<Rightarrow> execution_view (sys_db s') i = None
         | Some rec \<Rightarrow> if settled rec then execution_view (sys_db s') i = Some rec
             else \<exists>r. execution_view (sys_db s') i = Some r \<and>
               recovered ?host (fst (run_state (host_NewUUID ?host) (sys_machine sample_system))) rec r"
    from all [THEN spec, of "''e''"] running(1,2) outcome
    show "\<exists>r. execution_view (sys_db s') ''e'' = Some r \<and> rec_State r = StateUnknown \<and>
        rec_RecoveryEpoch r = ''00000000-0000-4000-8000-000000000001'' \<and> rec_LastObservedAtSec r = Some 5"
      unfolding epoch by auto
  qed
qed

text \<open>
  Reassociation confirms a process exactly when one observed process has the recorded PID, calls
  several of them ambiguous, and otherwise reports the execution missing; exactly one of the three
  verdicts is given.
\<close>
theorem ReassociateExecution_verdict:
  "(ra_Matched (ReassociateExecution rec observed) \<longleftrightarrow>
      (\<exists>pid. rec_PID rec = Some pid \<and> count (mset (map pi_PID observed)) pid = 1)) \<and>
   (ra_Ambiguous (ReassociateExecution rec observed) \<longleftrightarrow>
      (\<exists>pid. rec_PID rec = Some pid \<and> 1 < count (mset (map pi_PID observed)) pid)) \<and>
   (ra_Missing (ReassociateExecution rec observed) \<longleftrightarrow>
      \<not> ra_Matched (ReassociateExecution rec observed) \<and> \<not> ra_Ambiguous (ReassociateExecution rec observed)) \<and>
   ra_MatchedPID (ReassociateExecution rec observed) =
     (if ra_Matched (ReassociateExecution rec observed) then rec_PID rec else None)"
proof (cases "rec_PID rec")
  case None
  then show ?thesis by (simp add: ReassociateExecution_def)
next
  case (Some pid)
  let ?m = "filter (\<lambda>p. p = pid) (map pi_PID observed)"
  have "length (filter (\<lambda>p. p = pid) xs) = count (mset xs) pid" for xs :: "int list"
    by (induction xs) auto
  then have "length ?m = count (mset (map pi_PID observed)) pid" .
  moreover have "filter (\<lambda>p. p = pid) xs ! 0 = pid" if "length (filter (\<lambda>p. p = pid) xs) = 1"
    for xs :: "int list"
    using nth_mem [of 0 "filter (\<lambda>p. p = pid) xs"] that by auto
  ultimately show ?thesis
    using Some by (simp add: ReassociateExecution_def Let_def)
qed

end
