(* ===== verification/Orphan_Sweep.thy ===== *)
theory Orphan_Sweep
  imports Recovery
begin

text \<open>
  \<^verbatim>\<open>internal/recovery/orphan_classify.go\<close> and \<^verbatim>\<open>orphan_sweep.go\<close>: matching the enumerated processes
  with the recoverable executions, classifying the unmatched ones as orphans, and keeping the orphan
  table up to date. The locale \<open>orphan_store\<close> is the contract of the stores a sweep uses.
\<close>

section \<open>Matching and classification\<close>

record MatchResult =
  mr_Matched :: bool
  mr_Ambiguous :: bool
  mr_ExecutionID :: string
  mr_Reason :: string

definition exact_match :: "EnumeratedProcess \<Rightarrow> LaunchExecutionRecord \<Rightarrow> bool" where
  "exact_match p ex \<longleftrightarrow> ep_ExecutionIDHint p \<noteq> '''' \<and> ep_ExecutionIDHint p = rec_ExecutionID ex"

definition weak_match :: "EnumeratedProcess \<Rightarrow> LaunchExecutionRecord \<Rightarrow> bool" where
  "weak_match p ex \<longleftrightarrow>
     (case rec_PreparedState ex of
        None \<Rightarrow> False
      | Some prep \<Rightarrow> prep_RuntimeBackend prep = ep_Backend p \<and> rec_PID ex = Some (ep_PID p))"

fun match_loop ::
    "EnumeratedProcess \<Rightarrow> LaunchExecutionRecord list \<Rightarrow> string list \<times> string list \<Rightarrow> string list \<times> string list" where
  "match_loop p [] ms = ms"
| "match_loop p (ex # exs) (exactMatches, weakMatches) =
     match_loop p exs
       (if exact_match p ex then (exactMatches @ [rec_ExecutionID ex], weakMatches)
        else if weak_match p ex then (exactMatches, weakMatches @ [rec_ExecutionID ex])
        else (exactMatches, weakMatches))"

definition MatchEnumeratedProcessToExecution ::
    "EnumeratedProcess \<Rightarrow> LaunchExecutionRecord list \<Rightarrow> MatchResult" where
  "MatchEnumeratedProcessToExecution p execs =
     (case match_loop p execs ([], []) of (exactMatches, weakMatches) \<Rightarrow>
        if length exactMatches = 1
        then \<lparr>mr_Matched = True, mr_Ambiguous = False, mr_ExecutionID = exactMatches ! 0,
              mr_Reason = ''Exact execution marker match''\<rparr>
        else if length exactMatches > 1
        then \<lparr>mr_Matched = False, mr_Ambiguous = True, mr_ExecutionID = '''',
              mr_Reason = ''Multiple exact marker matches''\<rparr>
        else if length weakMatches = 1
        then \<lparr>mr_Matched = True, mr_Ambiguous = False, mr_ExecutionID = weakMatches ! 0,
              mr_Reason = ''Weak PID/Backend match''\<rparr>
        else if length weakMatches > 1
        then \<lparr>mr_Matched = False, mr_Ambiguous = True, mr_ExecutionID = '''',
              mr_Reason = ''Multiple weak PID/Backend matches''\<rparr>
        else \<lparr>mr_Matched = False, mr_Ambiguous = False, mr_ExecutionID = '''',
              mr_Reason = ''No matching execution record''\<rparr>)"

definition ClassifyOrphan :: "EnumeratedProcess \<Rightarrow> MatchResult \<Rightarrow> OrphanRecord" where
  "ClassifyOrphan p m =
     (let (classification, reasonCode) =
        (if mr_Ambiguous m
         then (OrphanPossiblyManagedButUnlinked, ''ERR_ORPHAN_POSSIBLE_SCHEDUNE_PROCESS'')
         else if ep_ExecutionIDHint p \<noteq> ''''
         then (OrphanStaleExecutionArtifact, ''ERR_ORPHAN_STALE_ARTIFACT_STATE'')
         else (OrphanUnmanagedBackendProcess, ''ERR_ORPHAN_UNMANAGED_BACKEND_PROCESS'')) in
      \<lparr>orph_OrphanID = ''orph-'' @ ep_CommandFingerprint p, orph_Backend = ep_Backend p,
       orph_PID = ep_PID p, orph_PPID = ep_PPID p, orph_Command = ep_Command p,
       orph_CommandArgs = ep_CommandArgs p, orph_CommandFingerprint = ep_CommandFingerprint p,
       orph_ExecutionIDHint = ep_ExecutionIDHint p, orph_WorkloadIDHint = ep_WorkloadIDHint p,
       orph_Classification = classification, orph_Status = OrphanStatusActive,
       orph_ReasonCode = reasonCode, orph_FirstSeenAtSec = ep_ObservedAtSec p,
       orph_LastSeenAtSec = ep_ObservedAtSec p, orph_NodeID = '''', orph_RecoveryEpoch = '''',
       orph_Details = ep_Details p\<rparr>)"

section \<open>The sweep\<close>

record 'w OrphanSweepService =
  os_Enumerate :: "'w Enumerator"
  os_ListRecoverable :: "('w, go_error + LaunchExecutionRecord list) state"
  os_UpsertOrphan :: "OrphanRecord \<Rightarrow> ('w, go_error option) state"
  os_GetOrphan :: "string \<Rightarrow> ('w, go_error + OrphanRecord option) state"
  os_MarkMissing :: "string list \<Rightarrow> int \<Rightarrow> ('w, go_error option) state"
  os_AppendEvent :: "RuntimeEvent \<Rightarrow> ('w, go_error option) state"
  os_NodeID :: string

definition emitOrphanEvent ::
    "'w Host \<Rightarrow> 'w OrphanSweepService \<Rightarrow> EventType \<Rightarrow> OrphanRecord \<Rightarrow> ('w, unit) state" where
  "emitOrphanEvent host s eventType orphan = do {
     uid \<leftarrow> host_NewUUID host;
     _ \<leftarrow> os_AppendEvent s
       \<lparr>ev_EventID = uid, ev_ExecutionID = orph_ExecutionIDHint orphan, ev_EventType = eventType,
        ev_TimestampSec = orph_LastSeenAtSec orphan, ev_ReasonCode = orph_ReasonCode orphan,
        ev_PayloadJSON = Some (PayloadOrphan orphan)\<rparr>;
     ret ()
   }"

text \<open>One process that matched no execution; the result is the observed orphan id, if it was stored.\<close>

definition sweep_orphan ::
    "'w Host \<Rightarrow> 'w OrphanSweepService \<Rightarrow> OrphanRecord \<Rightarrow> ('w, string option) state" where
  "sweep_orphan host s orphan = do {
     got \<leftarrow> os_GetOrphan s (orph_OrphanID orphan);
     orphan' \<leftarrow> (case got of
        Inr (Some existing) \<Rightarrow> do {
          let o1 = orphan\<lparr>orph_FirstSeenAtSec := orph_FirstSeenAtSec existing\<rparr>;
          _ \<leftarrow> (if orph_Classification existing \<noteq> orph_Classification o1 \<or> orph_Status existing \<noteq> orph_Status o1
                then emitOrphanEvent host s EventOrphanReclassified o1 else ret ());
          ret o1
        }
      | _ \<Rightarrow> do { _ \<leftarrow> emitOrphanEvent host s EventOrphanDetected orphan; ret orphan });
     err \<leftarrow> os_UpsertOrphan s orphan';
     ret (case err of None \<Rightarrow> Some (orph_OrphanID orphan') | Some _ \<Rightarrow> None)
   }"

fun sweep_processes ::
    "'w Host \<Rightarrow> 'w OrphanSweepService \<Rightarrow> LaunchExecutionRecord list \<Rightarrow> EnumeratedProcess list \<Rightarrow> string list
     \<Rightarrow> ('w, string list) state" where
  "sweep_processes host s execs [] observed = ret observed"
| "sweep_processes host s execs (p # ps) observed =
     (let m = MatchEnumeratedProcessToExecution p execs in
      if mr_Matched m then sweep_processes host s execs ps observed
      else do {
        seen \<leftarrow> sweep_orphan host s ((ClassifyOrphan p m)\<lparr>orph_NodeID := os_NodeID s\<rparr>);
        sweep_processes host s execs ps (case seen of None \<Rightarrow> observed | Some i \<Rightarrow> observed @ [i])
      })"

definition SweepOnce :: "'w Host \<Rightarrow> 'w OrphanSweepService \<Rightarrow> ('w, go_error option) state" where
  "SweepOnce host s = do {
     nowSec \<leftarrow> host_Now host;
     processes \<leftarrow> os_Enumerate s;
     (case processes of
        Inl err \<Rightarrow> ret (Some err)
      | Inr procs \<Rightarrow> do {
          listed \<leftarrow> os_ListRecoverable s;
          (case listed of
             Inl err \<Rightarrow> ret (Some err)
           | Inr execs \<Rightarrow> do {
               observed \<leftarrow> sweep_processes host s execs procs [];
               _ \<leftarrow> os_MarkMissing s observed nowSec;
               ret None
             })
        })
   }"

text \<open>\<^verbatim>\<open>NewOrphanSweepService\<close> as \<^verbatim>\<open>runServer\<close> calls it.\<close>

definition NewOrphanSweepService :: "'w driver \<Rightarrow> 'w Enumerator \<Rightarrow> 'w System OrphanSweepService" where
  "NewOrphanSweepService driver enumerator =
     \<lparr>os_Enumerate = on_machine enumerator,
      os_ListRecoverable = sql_read driver ListRecoverableExecutions,
      os_UpsertOrphan = (\<lambda>rec. sql driver (\<lambda>flt. UpsertOrphan flt rec)),
      os_GetOrphan = (\<lambda>i. sql_read driver (\<lambda>flt. GetOrphan flt i)),
      os_MarkMissing = (\<lambda>ids now. sql driver (\<lambda>flt. MarkMissingAsDisappeared flt ids now)),
      os_AppendEvent = (\<lambda>ev. sql driver (\<lambda>flt. AppendEvent flt ev)), os_NodeID = ''local-node''\<rparr>"

section \<open>Matching, described\<close>

lemma match_loop_filter:
  "match_loop p execs (a, b) =
     (a @ map rec_ExecutionID (filter (exact_match p) execs),
      b @ map rec_ExecutionID (filter (\<lambda>ex. \<not> exact_match p ex \<and> weak_match p ex) execs))"
  by (induction execs arbitrary: a b) auto

lemma exact_unique:
  assumes "distinct (map rec_ExecutionID execs)"
  shows "length (filter (exact_match p) execs) \<le> 1"
proof -
  have "set (map rec_ExecutionID (filter (exact_match p) execs)) \<subseteq> {ep_ExecutionIDHint p}"
    by (auto simp: exact_match_def)
  then have "card (set (map rec_ExecutionID (filter (exact_match p) execs))) \<le> card {ep_ExecutionIDHint p}"
    by (intro card_mono) auto
  moreover have "distinct (map rec_ExecutionID (filter (exact_match p) execs))"
    using assms by (rule distinct_map_filter)
  ultimately show ?thesis by (simp only: distinct_card) simp
qed

section \<open>The contract of the stores of a sweep\<close>

definition orphan_id :: "EnumeratedProcess \<Rightarrow> string" where
  "orphan_id p = ''orph-'' @ ep_CommandFingerprint p"

definition unmatched :: "LaunchExecutionRecord list \<Rightarrow> EnumeratedProcess list \<Rightarrow> EnumeratedProcess list" where
  "unmatched execs procs = filter (\<lambda>p. \<not> mr_Matched (MatchEnumeratedProcessToExecution p execs)) procs"

definition disappear :: "int \<Rightarrow> OrphanRecord \<Rightarrow> OrphanRecord" where
  "disappear now r =
     (if orph_Status r = OrphanStatusActive
      then r\<lparr>orph_Status := OrphanStatusDisappeared, orph_LastSeenAtSec := now\<rparr> else r)"

text \<open>
  \<open>seen_as t execs ps now r\<close>: the orphan entry \<open>r\<close> after the processes \<open>ps\<close>, all with the same
  fingerprint, were seen and \<open>t\<close> was there before: active, first seen when it was first seen, and
  otherwise as the last of the processes.
\<close>

definition seen_as ::
    "OrphanRecord option \<Rightarrow> LaunchExecutionRecord list \<Rightarrow> EnumeratedProcess list \<Rightarrow> OrphanRecord \<Rightarrow> bool" where
  "seen_as t execs ps r \<longleftrightarrow>
     orph_Status r = OrphanStatusActive \<and>
     orph_FirstSeenAtSec r =
       (case t of None \<Rightarrow> ep_ObservedAtSec (hd ps) | Some old \<Rightarrow> orph_FirstSeenAtSec old) \<and>
     orph_LastSeenAtSec r = ep_ObservedAtSec (last ps) \<and> orph_PID r = ep_PID (last ps) \<and>
     orph_Classification r =
       orph_Classification (ClassifyOrphan (last ps) (MatchEnumeratedProcessToExecution (last ps) execs))"

text \<open>The orphan table after the processes \<open>procs\<close>, from the table \<open>t\<close> before them.\<close>

definition swept ::
    "LaunchExecutionRecord list \<Rightarrow> EnumeratedProcess list \<Rightarrow> (string \<Rightarrow> OrphanRecord option)
     \<Rightarrow> (string \<Rightarrow> OrphanRecord option) \<Rightarrow> bool" where
  "swept execs procs t t' \<longleftrightarrow>
     (\<forall>i. let ps = filter (\<lambda>p. orphan_id p = i) (unmatched execs procs) in
        if ps = [] then t' i = t i else \<exists>e. t' i = Some e \<and> seen_as (t i) execs ps e)"

lemma swept_matched: "mr_Matched (MatchEnumeratedProcessToExecution p execs) \<Longrightarrow>
    swept execs (p # ps) t t' = swept execs ps t t'"
  by (simp add: swept_def unmatched_def)

lemma swept_step:
  assumes un: "\<not> mr_Matched (MatchEnumeratedProcessToExecution p execs)"
    and e: "seen_as (t (orphan_id p)) execs [p] e" and t1: "t1 = t(orphan_id p \<mapsto> e)"
    and t': "swept execs ps t1 t'"
  shows "swept execs (p # ps) t t'"
  unfolding swept_def
proof
  fix i
  let ?ps = "filter (\<lambda>p. orphan_id p = i) (unmatched execs ps)"
  have all: "filter (\<lambda>p. orphan_id p = i) (unmatched execs (p # ps)) =
      (if orphan_id p = i then p # ?ps else ?ps)"
    using un by (simp add: unmatched_def)
  have rest: "if ?ps = [] then t' i = (t(orphan_id p \<mapsto> e)) i
      else \<exists>e'. t' i = Some e' \<and> seen_as ((t(orphan_id p \<mapsto> e)) i) execs ?ps e'"
    using t' [unfolded swept_def Let_def t1, THEN spec, of i] .
  show "let qs = filter (\<lambda>p. orphan_id p = i) (unmatched execs (p # ps)) in
        if qs = [] then t' i = t i else \<exists>e. t' i = Some e \<and> seen_as (t i) execs qs e"
    unfolding all Let_def using rest e by (auto simp: seen_as_def split: if_splits option.splits)
qed

text \<open>After a sweep: the unmatched processes are entered, all other active orphans have disappeared.\<close>

definition sweep_result ::
    "LaunchExecutionRecord list \<Rightarrow> EnumeratedProcess list \<Rightarrow> int \<Rightarrow> (string \<Rightarrow> OrphanRecord option)
     \<Rightarrow> (string \<Rightarrow> OrphanRecord option) \<Rightarrow> bool" where
  "sweep_result execs procs now t t' \<longleftrightarrow>
     (\<forall>i. case filter (\<lambda>p. orphan_id p = i) (unmatched execs procs) of
          [] \<Rightarrow> t' i = map_option (disappear now) (t i)
        | p # ps \<Rightarrow> \<exists>e. t' i = Some e \<and> seen_as (t i) execs (p # ps) e)"

lemma sweep_result_of:
  assumes "swept execs procs t t1"
    and "t' = (\<lambda>i. if i \<in> set (map orphan_id (unmatched execs procs)) then t1 i
                  else map_option (disappear now) (t1 i))"
  shows "sweep_result execs procs now t t'"
  unfolding sweep_result_def
proof
  fix i
  let ?ps = "filter (\<lambda>p. orphan_id p = i) (unmatched execs procs)"
  have mem: "i \<in> set (map orphan_id (unmatched execs procs)) \<longleftrightarrow> ?ps \<noteq> []"
    by (auto simp: filter_empty_conv)
  have "if ?ps = [] then t1 i = t i else \<exists>e. t1 i = Some e \<and> seen_as (t i) execs ?ps e"
    using assms(1) by (simp add: swept_def Let_def)
  then show "case ?ps of [] \<Rightarrow> t' i = map_option (disappear now) (t i)
        | p # ps \<Rightarrow> \<exists>e. t' i = Some e \<and> seen_as (t i) execs (p # ps) e"
    unfolding assms(2) mem by (cases ?ps) simp_all
qed

locale orphan_store =
  fixes host :: "'s Host" and svc :: "'s OrphanSweepService"
    and orphans :: "'s \<Rightarrow> string \<Rightarrow> OrphanRecord option"
    and recoverable :: "'s \<Rightarrow> LaunchExecutionRecord list"
  assumes upsert_law: "wp (os_UpsertOrphan svc r)
      (\<lambda>err s'. err = None \<and> recoverable s' = recoverable s \<and>
         orphans s' = (orphans s)(orph_OrphanID r \<mapsto>
           (case orphans s (orph_OrphanID r) of None \<Rightarrow> r | Some old \<Rightarrow> merge_orphan old r))) s"
    and get_law: "wp (os_GetOrphan svc i)
      (\<lambda>r s'. r = Inr (orphans s i) \<and> orphans s' = orphans s \<and> recoverable s' = recoverable s) s"
    and mark_law: "wp (os_MarkMissing svc ids now)
      (\<lambda>err s'. recoverable s' = recoverable s \<and>
         orphans s' = (\<lambda>i. if i \<in> set ids then orphans s i else map_option (disappear now) (orphans s i))) s"
    and list_law: "wp (os_ListRecoverable svc)
      (\<lambda>r s'. r = Inr (recoverable s) \<and> orphans s' = orphans s \<and> recoverable s' = recoverable s) s"
    and event_law: "keeps (\<lambda>s. (orphans s, recoverable s)) (os_AppendEvent svc ev)"
    and uuid_law: "keeps (\<lambda>s. (orphans s, recoverable s)) (host_NewUUID host)"
begin

lemma emit_keeps: "keeps (\<lambda>s. (orphans s, recoverable s)) (emitOrphanEvent host svc et r)"
  unfolding emitOrphanEvent_def by (intro keeps_intros uuid_law event_law)

lemma sweep_orphan_ok:
  assumes o: "orphan = (ClassifyOrphan p (MatchEnumeratedProcessToExecution p execs))\<lparr>orph_NodeID := n\<rparr>"
  shows "wp (sweep_orphan host svc orphan)
    (\<lambda>r s'. r = Some (orphan_id p) \<and> recoverable s' = recoverable s \<and>
       (\<exists>e. seen_as (orphans s (orphan_id p)) execs [p] e \<and> orphans s' = (orphans s)(orphan_id p \<mapsto> e))) s"
    (is "wp _ ?Q s")
proof -
  have id: "orph_OrphanID orphan = orphan_id p"
    by (simp add: o ClassifyOrphan_def orphan_id_def Let_def)
  have store: "wp (os_UpsertOrphan svc orphan')
      (\<lambda>err s'. ?Q (case err of None \<Rightarrow> Some (orph_OrphanID orphan') | Some _ \<Rightarrow> None) s') s1"
    if "orphans s1 = orphans s" "recoverable s1 = recoverable s"
      "orphan' = (case orphans s (orphan_id p) of None \<Rightarrow> orphan
         | Some old \<Rightarrow> orphan\<lparr>orph_FirstSeenAtSec := orph_FirstSeenAtSec old\<rparr>)" for orphan' s1
  proof (rule wp_mono [OF upsert_law])
    have id': "orph_OrphanID orphan' = orphan_id p" by (simp add: that id split: option.split)
    fix err and s2
    assume up: "err = None \<and> recoverable s2 = recoverable s1 \<and>
         orphans s2 = (orphans s1)(orph_OrphanID orphan' \<mapsto>
           (case orphans s1 (orph_OrphanID orphan') of None \<Rightarrow> orphan' | Some old \<Rightarrow> merge_orphan old orphan'))"
    have "seen_as (orphans s (orphan_id p)) execs [p]
        (case orphans s (orphan_id p) of None \<Rightarrow> orphan' | Some old \<Rightarrow> merge_orphan old orphan')"
      by (simp add: that o seen_as_def ClassifyOrphan_def Let_def merge_orphan_def split: option.split)
    with up that id' show "?Q (case err of None \<Rightarrow> Some (orph_OrphanID orphan') | Some _ \<Rightarrow> None) s2"
      by auto
  qed
  show ?thesis
    unfolding sweep_orphan_def id
  proof (rule wp_bindI, rule wp_mono [OF get_law], elim conjE)
    fix got s1
    assume got: "got = Inr (orphans s (orphan_id p))" and s1: "orphans s1 = orphans s" "recoverable s1 = recoverable s"
    show "wp (do {
       orphan' \<leftarrow> (case got of
          Inr (Some existing) \<Rightarrow> do {
            let o1 = orphan\<lparr>orph_FirstSeenAtSec := orph_FirstSeenAtSec existing\<rparr>;
            _ \<leftarrow> (if orph_Classification existing \<noteq> orph_Classification o1 \<or> orph_Status existing \<noteq> orph_Status o1
                  then emitOrphanEvent host svc EventOrphanReclassified o1 else ret ());
            ret o1
          }
        | _ \<Rightarrow> do { _ \<leftarrow> emitOrphanEvent host svc EventOrphanDetected orphan; ret orphan });
       err \<leftarrow> os_UpsertOrphan svc orphan';
       ret (case err of None \<Rightarrow> Some (orph_OrphanID orphan') | Some _ \<Rightarrow> None) }) ?Q s1"
    proof (cases "orphans s (orphan_id p)")
      case None
      show ?thesis
        unfolding got None sum.case option.case
        by (intro wp_bindI wp_retI keepsD [OF emit_keeps] wp_mono [OF store]) (auto simp: s1 None)
    next
      case (Some old)
      show ?thesis
        unfolding got Some sum.case option.case Let_def
        by (intro wp_bindI wp_ifI wp_retI keepsD [OF emit_keeps] wp_mono [OF store]) (auto simp: s1 Some)
    qed
  qed
qed

lemma sweep_processes_ok:
  "wp (sweep_processes host svc execs procs observed)
     (\<lambda>r s'. r = observed @ map orphan_id (unmatched execs procs) \<and> recoverable s' = recoverable s \<and>
        swept execs procs (orphans s) (orphans s')) s"
proof (induction procs arbitrary: observed s)
  case Nil
  show ?case by (simp add: unmatched_def swept_def)
next
  case (Cons p ps)
  let ?m = "MatchEnumeratedProcessToExecution p execs"
  show ?case
  proof (cases "mr_Matched ?m")
    case True
    then show ?thesis
      unfolding sweep_processes.simps Let_def if_P [OF True] swept_matched [OF True]
      using Cons.IH [of observed s] by (simp add: unmatched_def)
  next
    case False
    let ?Q = "\<lambda>r s'. r = observed @ map orphan_id (unmatched execs (p # ps)) \<and>
        recoverable s' = recoverable s \<and> swept execs (p # ps) (orphans s) (orphans s')"
    have "wp (sweep_orphan host svc ((ClassifyOrphan p ?m)\<lparr>orph_NodeID := os_NodeID svc\<rparr>))
        (\<lambda>seen s1. wp (sweep_processes host svc execs ps
           (case seen of None \<Rightarrow> observed | Some i \<Rightarrow> observed @ [i])) ?Q s1) s"
    proof (rule wp_mono [OF sweep_orphan_ok [OF refl, where p = p and execs = execs]], elim conjE exE)
      fix seen s1 e
      assume s1: "seen = Some (orphan_id p)" "recoverable s1 = recoverable s"
        "seen_as (orphans s (orphan_id p)) execs [p] e" "orphans s1 = (orphans s)(orphan_id p \<mapsto> e)"
      have step: "swept execs (p # ps) (orphans s) t'" if "swept execs ps (orphans s1) t'" for t'
        by (rule swept_step [OF False s1(3,4) that])
      show "wp (sweep_processes host svc execs ps
           (case seen of None \<Rightarrow> observed | Some i \<Rightarrow> observed @ [i])) ?Q s1"
        unfolding s1(1) option.case
        by (rule wp_mono [OF Cons.IH]) (use s1(2) False step in \<open>auto simp: unmatched_def\<close>)
    qed
    then show ?thesis using False by (simp add: Let_def)
  qed
qed

lemma SweepOnce_ok:
  assumes now: "run_state (host_Now host) s = (now, s1)"
    and procs: "run_state (os_Enumerate svc) s1 = (Inr procs, s2)"
    and same: "orphans s2 = orphans s" "recoverable s2 = recoverable s"
  shows "wp (SweepOnce host svc)
    (\<lambda>err s'. err = None \<and> recoverable s' = recoverable s \<and>
       sweep_result (recoverable s) procs now (orphans s) (orphans s')) s"
proof -
  let ?Q = "\<lambda>err s'. err = None \<and> recoverable s' = recoverable s \<and>
       sweep_result (recoverable s) procs now (orphans s) (orphans s')"
  have mark: "wp (do { _ \<leftarrow> os_MarkMissing svc (map orphan_id (unmatched (recoverable s) procs)) now; ret None }) ?Q s4"
    if "recoverable s4 = recoverable s" "swept (recoverable s) procs (orphans s) (orphans s4)" for s4
    by (rule wp_bindI, rule wp_mono [OF mark_law]) (use that in \<open>auto intro: sweep_result_of\<close>)
  have loop: "wp (do { observed \<leftarrow> sweep_processes host svc (recoverable s) procs [];
        _ \<leftarrow> os_MarkMissing svc observed now; ret None }) ?Q s3"
    if "recoverable s3 = recoverable s" "orphans s3 = orphans s" for s3
    by (rule wp_bindI, rule wp_mono [OF sweep_processes_ok])
      (use that in \<open>auto simp del: wp_bind intro!: mark\<close>)
  have list: "wp (os_ListRecoverable svc)
     (\<lambda>listed. wp (case listed of
             Inl err \<Rightarrow> ret (Some err)
           | Inr execs \<Rightarrow> do {
               observed \<leftarrow> sweep_processes host svc execs procs [];
               _ \<leftarrow> os_MarkMissing svc observed now;
               ret None
             }) ?Q) s2"
    by (rule wp_mono [OF list_law]) (use same in \<open>auto simp del: wp_bind intro!: loop\<close>)
  show ?thesis
    unfolding SweepOnce_def
    by (rule wp_bindI, subst wp_def, subst now, unfold prod.case, rule wp_bindI,
        subst wp_def, subst procs, unfold prod.case sum.case, rule wp_bindI, rule list)
qed

end

section \<open>The SQL store keeps the contract\<close>

definition orphans_of :: "'w System \<Rightarrow> string \<Rightarrow> OrphanRecord option" where
  "orphans_of s = orphan_view (sys_db s)"

definition recoverable_of :: "'w System \<Rightarrow> LaunchExecutionRecord list" where
  "recoverable_of s = map row_payload (filter state_not_terminal (db_executions (sys_db s)))"

lemma sweep_views_simps [simp]:
  "orphans_of (s\<lparr>sys_machine := w\<rparr>) = orphans_of s" "recoverable_of (s\<lparr>sys_machine := w\<rparr>) = recoverable_of s"
  by (simp_all add: orphans_of_def recoverable_of_def)

lemma ListRecoverable_of: "ListRecoverableExecutions None (sys_db s) = Inr (recoverable_of s)"
  by (simp add: ListRecoverableExecutions_def listByStateCondition_def recoverable_of_def)

lemma UpsertOrphan_view:
  "orphan_view (snd (UpsertOrphan None r db)) = (orphan_view db)(orph_OrphanID r \<mapsto>
     (case orphan_view db (orph_OrphanID r) of None \<Rightarrow> r | Some old \<Rightarrow> merge_orphan old r))"
  by (simp add: UpsertOrphan_def orphan_view_def fun_eq_iff key_view_upsert)

lemma UpsertOrphan_err [simp]: "fst (UpsertOrphan flt r db) = flt"
  by (simp add: UpsertOrphan_def split: option.split)

lemma MarkMissing_view:
  "orphan_view (snd (MarkMissingAsDisappeared None ids now db)) i =
     (if i \<in> set ids then orphan_view db i else map_option (disappear now) (orphan_view db i))"
proof -
  let ?f = "\<lambda>r. if orph_Status r = OrphanStatusActive \<and> (ids = [] \<or> orph_OrphanID r \<notin> set ids)
            then r\<lparr>orph_Status := OrphanStatusDisappeared, orph_LastSeenAtSec := now\<rparr> else r"
  have "orphan_view (snd (MarkMissingAsDisappeared None ids now db)) i = map_option ?f (orphan_view db i)"
    unfolding MarkMissingAsDisappeared_def orphan_view_def by (simp add: key_view_map)
  also have "\<dots> = (if i \<in> set ids then orphan_view db i else map_option (disappear now) (orphan_view db i))"
    by (cases "orphan_view db i") (auto simp: orphan_view_def disappear_def dest: key_view_Some)
  finally show ?thesis .
qed

lemma sweep_executions [simp]:
  "db_executions (snd (UpsertOrphan flt r db)) = db_executions db"
  "db_executions (snd (MarkMissingAsDisappeared flt ids now db)) = db_executions db"
  "db_executions (snd (AppendEvent flt ev db)) = db_executions db"
  by (simp_all add: UpsertOrphan_def MarkMissingAsDisappeared_def AppendEvent_def split: option.split)

interpretation swept_store: orphan_store "system_host host" "NewOrphanSweepService (ret None) enum"
    orphans_of recoverable_of
  for host enum
proof
  fix r and s :: "'a System"
  show "wp (os_UpsertOrphan (NewOrphanSweepService (ret None) enum) r)
      (\<lambda>err s'. err = None \<and> recoverable_of s' = recoverable_of s \<and>
         orphans_of s' = (orphans_of s)(orph_OrphanID r \<mapsto>
           (case orphans_of s (orph_OrphanID r) of None \<Rightarrow> r | Some old \<Rightarrow> merge_orphan old r))) s"
    by (simp add: NewOrphanSweepService_def wp_sql orphans_of_def recoverable_of_def UpsertOrphan_view)
next
  fix i and s :: "'a System"
  show "wp (os_GetOrphan (NewOrphanSweepService (ret None) enum) i)
      (\<lambda>r s'. r = Inr (orphans_of s i) \<and> orphans_of s' = orphans_of s \<and> recoverable_of s' = recoverable_of s) s"
    by (simp add: NewOrphanSweepService_def sql_read_def wp_sql orphans_of_def recoverable_of_def
        GetOrphan_def orphan_view_def key_view_def)
next
  fix ids now and s :: "'a System"
  show "wp (os_MarkMissing (NewOrphanSweepService (ret None) enum) ids now)
      (\<lambda>err s'. recoverable_of s' = recoverable_of s \<and>
         orphans_of s' = (\<lambda>i. if i \<in> set ids then orphans_of s i
            else map_option (disappear now) (orphans_of s i))) s"
    by (simp add: NewOrphanSweepService_def wp_sql orphans_of_def recoverable_of_def MarkMissing_view fun_eq_iff)
next
  fix s :: "'a System"
  show "wp (os_ListRecoverable (NewOrphanSweepService (ret None) enum))
      (\<lambda>r s'. r = Inr (recoverable_of s) \<and> orphans_of s' = orphans_of s \<and> recoverable_of s' = recoverable_of s) s"
    by (simp add: NewOrphanSweepService_def sql_read_def wp_sql ListRecoverable_of)
next
  fix ev
  show "keeps (\<lambda>s. (orphans_of s, recoverable_of s)) (os_AppendEvent (NewOrphanSweepService (ret None) enum) ev)"
    by (simp add: NewOrphanSweepService_def keeps_def wp_sql orphans_of_def recoverable_of_def)
next
  show "keeps (\<lambda>s. (orphans_of s, recoverable_of s)) (host_NewUUID (system_host host))"
    by (simp add: keeps_on_machine)
qed

section \<open>Properties\<close>

text \<open>
  C20: A sweep brings the orphan table in line with the machine. Each process that matches no
  recoverable execution is an active orphan under its fingerprint, first seen when it was first
  seen and last seen now; every other active orphan is marked as disappeared; the rest of the table
  and the recoverable executions are untouched.
\<close>
theorem SweepOnce_tracks_machine:
  assumes "run_state (host_Now host) (sys_machine s) = (now, w)"
    and "run_state enum w = (Inr procs, w')"
    and "ListRecoverableExecutions None (sys_db s) = Inr execs"
  shows "wp (SweepOnce (system_host host) (NewOrphanSweepService (ret None) enum))
     (\<lambda>err s'. err = None \<and> ListRecoverableExecutions None (sys_db s') = Inr execs \<and>
        (\<forall>i. case filter (\<lambda>p. orphan_id p = i) (unmatched execs procs) of
           [] \<Rightarrow> orphan_view (sys_db s') i = map_option (disappear now) (orphan_view (sys_db s) i)
         | p # ps \<Rightarrow> \<exists>e. orphan_view (sys_db s') i = Some e \<and>
             seen_as (orphan_view (sys_db s) i) execs (p # ps) e)) s"
proof -
  have rec: "recoverable_of s = execs" using assms(3) by (simp add: ListRecoverable_of)
  have now: "run_state (host_Now (system_host host)) s = (now, s\<lparr>sys_machine := w\<rparr>)"
    using assms(1) by (simp add: on_machine_def)
  have procs: "run_state (os_Enumerate (NewOrphanSweepService (ret None) enum)) (s\<lparr>sys_machine := w\<rparr>) =
      (Inr procs, s\<lparr>sys_machine := w'\<rparr>)"
    using assms(2) by (simp add: NewOrphanSweepService_def on_machine_def)
  show ?thesis
    by (rule wp_mono [OF swept_store.SweepOnce_ok [OF now procs]])
      (simp_all add: sweep_result_def rec ListRecoverable_of orphans_of_def)
qed

definition sample_process :: EnumeratedProcess where
  "sample_process =
     \<lparr>ep_PID = 99, ep_PPID = None, ep_Backend = ''firecracker'', ep_Command = ''firecracker'',
      ep_CommandArgs = [], ep_CommandFingerprint = ''f1'', ep_ExecutionIDHint = '''',
      ep_WorkloadIDHint = '''', ep_ObservedAtSec = 5, ep_Details = []\<rparr>"

theorem SweepOnce_tracks_machine_witness:
  "wp (SweepOnce (system_host (still_host 5)) (NewOrphanSweepService (ret None) (ret (Inr [sample_process]))))
     (\<lambda>err s'. \<exists>e. orphan_view (sys_db s') ''orph-f1'' = Some e \<and> orph_PID e = 99 \<and>
        orph_Classification e = OrphanUnmanagedBackendProcess) sample_system"
proof -
  have execs: "ListRecoverableExecutions None (sys_db sample_system) = Inr [sample_running_exec]"
    by (simp add: ListRecoverable_of) (simp add: recoverable_of_def sample_system_def
        state_not_terminal_def sample_running_exec_def)
  have un: "unmatched [sample_running_exec] [sample_process] = [sample_process]"
    by (simp add: unmatched_def MatchEnumeratedProcessToExecution_def match_loop_filter exact_match_def
        weak_match_def sample_process_def sample_running_exec_def)
  have p: "orphan_id sample_process = ''orph-f1''" "ep_PID sample_process = 99" "ep_ExecutionIDHint sample_process = ''''"
    by (simp_all add: sample_process_def orphan_id_def)
  have m: "\<not> mr_Ambiguous (MatchEnumeratedProcessToExecution sample_process [sample_running_exec])"
    by (simp add: MatchEnumeratedProcessToExecution_def match_loop_filter exact_match_def
        weak_match_def sample_process_def sample_running_exec_def)
  show ?thesis
    by (rule wp_mono [OF SweepOnce_tracks_machine [where now = 5 and w = "()" and procs = "[sample_process]", OF _ _ execs]])
      (auto simp: un p seen_as_def ClassifyOrphan_def Let_def m dest!: spec [of _ "''orph-f1''"])
qed

text \<open>
  C21: A running process of the control plane is never taken for an orphan: when exactly one
  recoverable execution has its PID and backend, and the hint in its arguments is no execution id,
  it matches that execution. With distinct execution ids a hint that is one matches its execution
  whatever the PID, and no match is ever ambiguous by its hint.
\<close>
theorem managed_process_not_orphan:
  assumes "filter (weak_match p) execs = [ex]" and "distinct (map rec_ExecutionID execs)"
  shows "if list_ex (exact_match p) execs
     then MatchEnumeratedProcessToExecution p execs =
       \<lparr>mr_Matched = True, mr_Ambiguous = False, mr_ExecutionID = ep_ExecutionIDHint p,
        mr_Reason = ''Exact execution marker match''\<rparr>
     else MatchEnumeratedProcessToExecution p execs =
       \<lparr>mr_Matched = True, mr_Ambiguous = False, mr_ExecutionID = rec_ExecutionID ex,
        mr_Reason = ''Weak PID/Backend match''\<rparr>"
proof (cases "list_ex (exact_match p) execs")
  case True
  then have "filter (exact_match p) execs \<noteq> []" by (auto simp: list_ex_iff filter_empty_conv)
  with exact_unique [OF assms(2), of p] obtain e where e: "filter (exact_match p) execs = [e]"
    by (cases "filter (exact_match p) execs") (auto simp: Suc_le_eq)
  then have "exact_match p e" by (metis Cons_eq_filterD)
  with e True show ?thesis
    by (simp add: MatchEnumeratedProcessToExecution_def match_loop_filter exact_match_def)
next
  case False
  then have no: "filter (exact_match p) execs = []" and
    "filter (\<lambda>ex. \<not> exact_match p ex \<and> weak_match p ex) execs = filter (weak_match p) execs"
    by (auto simp: list_ex_iff filter_empty_conv intro!: filter_cong)
  with False assms(1) show ?thesis
    by (simp add: MatchEnumeratedProcessToExecution_def match_loop_filter)
qed

theorem managed_process_not_orphan_witness:
  "mr_Matched (MatchEnumeratedProcessToExecution
     (sample_process\<lparr>ep_PID := 77, ep_Backend := ''kvm_qemu'', ep_ExecutionIDHint := ''wl-1''\<rparr>) [sample_running_exec])"
  using managed_process_not_orphan [of "sample_process\<lparr>ep_PID := 77, ep_Backend := ''kvm_qemu'',
      ep_ExecutionIDHint := ''wl-1''\<rparr>" "[sample_running_exec]" sample_running_exec]
  by (simp add: weak_match_def exact_match_def sample_running_exec_def sample_process_def)

end
