(* ===== verification/Scheduler.thy ===== *)
theory Scheduler
  imports Eligibility
begin

text \<open>
  \<^verbatim>\<open>internal/domain/scheduler.go\<close>. The scheduler reads the clock once itself and once in each call of
  \<^verbatim>\<open>Evaluate\<close>; \<open>clk\<close> gives these readings in order, the scheduler's first.
\<close>

record ScoredCandidate =
  sc_NodeID :: string
  sc_Score :: int
  sc_Eligibility :: EligibilityResult

record ScheduleDecision =
  sd_WorkloadID :: string
  sd_SelectedNode :: "string option"
  sd_RankedNodes :: "ScoredCandidate list"
  sd_RejectedNodes :: "EligibilityResult list"

definition candidate_score :: "int \<Rightarrow> NodeRecord \<Rightarrow> EligibilityResult \<Rightarrow> int" where
  "candidate_score now node result =
     (let s0 = (0::int);
          s1 = (if wrap64 (now - fresh_LastCollectionTime (node_Freshness node)) < 30 then s0 + 30 else s0);
          s2 = (if health_ActiveAlarms (node_Health node) = [] then s1 + 20 else s1)
      in s2 + int (length (er_MatchedFeatures result)) * 10)"

fun schedule_loop ::
    "(nat \<Rightarrow> int) \<Rightarrow> nat \<Rightarrow> WorkloadIntent \<Rightarrow> NodeRecord list \<Rightarrow> ScheduleDecision \<Rightarrow> ScheduleDecision" where
  "schedule_loop clk k intent [] d = d"
| "schedule_loop clk k intent (node # nodes) d =
     (let result = Evaluate (clk k) intent node in
      schedule_loop clk (Suc k) intent nodes
        (if \<not> er_IsEligible result
         then d\<lparr>sd_RejectedNodes := sd_RejectedNodes d @ [result]\<rparr>
         else d\<lparr>sd_RankedNodes := sd_RankedNodes d @
                 [\<lparr>sc_NodeID = node_ID node, sc_Score = candidate_score (clk 0) node result,
                   sc_Eligibility = result\<rparr>]\<rparr>))"

definition candidate_less :: "ScoredCandidate \<Rightarrow> ScoredCandidate \<Rightarrow> bool" where
  "candidate_less a b \<longleftrightarrow>
     (if sc_Score a = sc_Score b then sc_NodeID a < sc_NodeID b else sc_Score a > sc_Score b)"

definition ScheduleV0 :: "(nat \<Rightarrow> int) \<Rightarrow> WorkloadIntent \<Rightarrow> NodeRecord list \<Rightarrow> ScheduleDecision" where
  "ScheduleV0 clk intent candidateNodes =
     (let d0 = \<lparr>sd_WorkloadID = intent_WorkloadID intent, sd_SelectedNode = None,
                sd_RankedNodes = [], sd_RejectedNodes = []\<rparr>;
          d1 = schedule_loop clk 1 intent candidateNodes d0;
          d2 = d1\<lparr>sd_RankedNodes := sort_less candidate_less (sd_RankedNodes d1)\<rparr>
      in case sd_RankedNodes d2 of
           [] \<Rightarrow> d2
         | c # _ \<Rightarrow> d2\<lparr>sd_SelectedNode := Some (sc_NodeID c)\<rparr>)"

section \<open>What the loop collects\<close>

text \<open>The evaluations of the candidates, each at its own reading of the clock.\<close>

fun evaluations :: "(nat \<Rightarrow> int) \<Rightarrow> nat \<Rightarrow> WorkloadIntent \<Rightarrow> NodeRecord list \<Rightarrow> (NodeRecord \<times> EligibilityResult) list" where
  "evaluations clk k intent [] = []"
| "evaluations clk k intent (n # ns) = (n, Evaluate (clk k) intent n) # evaluations clk (Suc k) intent ns"

definition scored :: "int \<Rightarrow> NodeRecord \<times> EligibilityResult \<Rightarrow> ScoredCandidate" where
  "scored now = (\<lambda>(n, r).
     \<lparr>sc_NodeID = node_ID n, sc_Score = candidate_score now n r, sc_Eligibility = r\<rparr>)"

definition eligible_candidates :: "(nat \<Rightarrow> int) \<Rightarrow> WorkloadIntent \<Rightarrow> NodeRecord list \<Rightarrow> ScoredCandidate list" where
  "eligible_candidates clk intent nodes =
     map (scored (clk 0)) (filter (\<lambda>(n, r). er_IsEligible r) (evaluations clk 1 intent nodes))"

definition rejected_candidates :: "(nat \<Rightarrow> int) \<Rightarrow> WorkloadIntent \<Rightarrow> NodeRecord list \<Rightarrow> EligibilityResult list" where
  "rejected_candidates clk intent nodes =
     map snd (filter (\<lambda>(n, r). \<not> er_IsEligible r) (evaluations clk 1 intent nodes))"

lemma schedule_loop_eq:
  "schedule_loop clk k intent nodes d =
   d\<lparr>sd_RankedNodes := sd_RankedNodes d @
        map (scored (clk 0)) (filter (\<lambda>(n, r). er_IsEligible r) (evaluations clk k intent nodes)),
     sd_RejectedNodes := sd_RejectedNodes d @
        map snd (filter (\<lambda>(n, r). \<not> er_IsEligible r) (evaluations clk k intent nodes))\<rparr>"
  by (induction nodes arbitrary: k d) (auto simp: scored_def Let_def)

lemma ScheduleV0_eq:
  "ScheduleV0 clk intent nodes =
   (let ranked = sort_less candidate_less (eligible_candidates clk intent nodes) in
    \<lparr>sd_WorkloadID = intent_WorkloadID intent,
     sd_SelectedNode = (case ranked of [] \<Rightarrow> None | c # _ \<Rightarrow> Some (sc_NodeID c)),
     sd_RankedNodes = ranked,
     sd_RejectedNodes = rejected_candidates clk intent nodes\<rparr>)"
  by (simp add: ScheduleV0_def schedule_loop_eq eligible_candidates_def rejected_candidates_def Let_def
      split: list.splits)

lemma evaluations_fst [simp]: "map fst (evaluations clk k intent nodes) = nodes"
  by (induction nodes arbitrary: k) auto

lemma evaluations_mem:
  "(n, r) \<in> set (evaluations clk k intent nodes) \<Longrightarrow> n \<in> set nodes \<and> (\<exists>j. r = Evaluate (clk j) intent n)"
  by (induction nodes arbitrary: k) auto

lemma evaluations_complete:
  "n \<in> set nodes \<Longrightarrow> \<exists>j. (n, Evaluate (clk j) intent n) \<in> set (evaluations clk k intent nodes)"
  by (induction nodes arbitrary: k) auto

section \<open>The order of the ranking\<close>

lemma candidate_less_asym: "candidate_less a b \<Longrightarrow> \<not> candidate_less b a"
  by (auto simp: candidate_less_def split: if_splits)

lemma candidate_less_trans:
  "\<not> candidate_less b a \<Longrightarrow> \<not> candidate_less c b \<Longrightarrow> \<not> candidate_less c a"
  by (auto simp: candidate_less_def split: if_splits)

lemma ranking_sorted: "no_inversion candidate_less (sort_less candidate_less cs)"
  by (rule no_inversion_sort_less) (fact candidate_less_asym candidate_less_trans)+

lemma candidate_less_total:
  assumes "distinct (map sc_NodeID cs)" and "a \<in> set cs" and "b \<in> set cs"
    and "\<not> candidate_less a b" and "\<not> candidate_less b a"
  shows "a = b"
proof -
  have "sc_NodeID a = sc_NodeID b"
    using assms(4,5) by (auto simp: candidate_less_def split: if_splits)
  with assms(1-3) show ?thesis by (auto simp: distinct_map dest: inj_onD)
qed

lemma ranking_unique:
  assumes "distinct (map sc_NodeID cs)" and "mset cs' = mset cs"
    and "no_inversion candidate_less cs'"
  shows "cs' = sort_less candidate_less cs"
proof (rule sort_less_unique [where lt = candidate_less])
  show "\<And>x y. x \<in> set (sort_less candidate_less cs) \<Longrightarrow> y \<in> set (sort_less candidate_less cs) \<Longrightarrow>
      \<not> candidate_less x y \<Longrightarrow> \<not> candidate_less y x \<Longrightarrow> x = y"
    using assms(1) by (auto intro: candidate_less_total)
qed (use assms ranking_sorted in auto)

lemma sc_NodeID_scored [simp]: "sc_NodeID (scored now (n, r)) = node_ID n"
  by (simp add: scored_def)

lemma map_NodeID_scored: "map sc_NodeID (map (scored now) xs) = map (node_ID \<circ> fst) xs"
  by (induction xs) auto

lemma eligible_distinct:
  assumes "distinct (map node_ID nodes)"
  shows "distinct (map sc_NodeID (eligible_candidates clk intent nodes))"
proof -
  have "distinct (map (node_ID \<circ> fst) (evaluations clk 1 intent nodes))"
    using assms by (metis evaluations_fst map_map)
  then show ?thesis
    by (simp only: eligible_candidates_def map_NodeID_scored distinct_map_filter)
qed

lemma head_of_ranking:
  assumes "sort_less candidate_less cs = c # rest" and "c' \<in> set cs"
  shows "c' = c \<or> \<not> candidate_less c' c"
proof -
  have "set (c # rest) = set cs" by (metis assms(1) set_sort_less)
  with assms ranking_sorted [of cs] show ?thesis by (auto simp: no_inversion_def)
qed

section \<open>A clock that stands still\<close>

text \<open>
  Where all readings agree, the decision is a function of the nodes alone, and permuting the
  candidates permutes what is collected.
\<close>

lemma evaluations_const:
  "evaluations (\<lambda>_. t) k intent nodes = map (\<lambda>n. (n, Evaluate t intent n)) nodes"
  by (induction nodes arbitrary: k) auto

lemma eligible_candidates_perm:
  "mset nodes = mset nodes' \<Longrightarrow>
   mset (eligible_candidates (\<lambda>_. t) intent nodes) = mset (eligible_candidates (\<lambda>_. t) intent nodes')"
  by (simp add: eligible_candidates_def evaluations_const)

lemma rejected_candidates_perm:
  "mset nodes = mset nodes' \<Longrightarrow>
   mset (rejected_candidates (\<lambda>_. t) intent nodes) = mset (rejected_candidates (\<lambda>_. t) intent nodes')"
  by (simp add: rejected_candidates_def evaluations_const)

section \<open>Properties\<close>

text \<open>
  C24: The scheduler selects the best eligible node: the selected node is a candidate that evaluated
  as eligible, and no other ranked node has a higher score, or the same score and a smaller id.
  Nothing is selected exactly when no candidate evaluated as eligible.
\<close>
theorem scheduler_selects_best:
  "case sd_SelectedNode (ScheduleV0 clk intent nodes) of
     None \<Rightarrow> \<forall>(n, r)\<in>set (evaluations clk 1 intent nodes). \<not> er_IsEligible r
   | Some i \<Rightarrow>
       (\<exists>n\<in>set nodes. \<exists>j. node_ID n = i \<and> er_IsEligible (Evaluate (clk j) intent n)) \<and>
       (\<exists>c\<in>set (sd_RankedNodes (ScheduleV0 clk intent nodes)). sc_NodeID c = i \<and>
          (\<forall>c'\<in>set (sd_RankedNodes (ScheduleV0 clk intent nodes)).
             sc_Score c' < sc_Score c \<or> sc_Score c' = sc_Score c \<and> i \<le> sc_NodeID c'))"
proof -
  let ?cs = "eligible_candidates clk intent nodes"
  show ?thesis
  proof (cases "sort_less candidate_less ?cs")
    case Nil
    then have "?cs = []" by simp
    then have "\<forall>(n, r)\<in>set (evaluations clk 1 intent nodes). \<not> er_IsEligible r"
      by (auto simp: eligible_candidates_def filter_empty_conv)
    with Nil show ?thesis by (simp add: ScheduleV0_eq Let_def)
  next
    case (Cons c rest)
    have set_eq: "set (c # rest) = set ?cs" by (metis Cons set_sort_less)
    then have "c \<in> set ?cs" by auto
    then obtain n r where nr: "(n, r) \<in> set (evaluations clk 1 intent nodes)" "er_IsEligible r"
        "c = scored (clk 0) (n, r)"
      by (auto simp: eligible_candidates_def)
    then have "\<exists>n\<in>set nodes. \<exists>j. node_ID n = sc_NodeID c \<and> er_IsEligible (Evaluate (clk j) intent n)"
      using evaluations_mem [OF nr(1)] by auto
    moreover have "sc_Score c' < sc_Score c \<or> sc_Score c' = sc_Score c \<and> sc_NodeID c \<le> sc_NodeID c'"
      if "c' \<in> set (c # rest)" for c'
    proof -
      have "c' \<in> set ?cs" using that unfolding set_eq .
      then have "c' = c \<or> \<not> candidate_less c' c" by (rule head_of_ranking [OF Cons])
      then show ?thesis by (auto simp: candidate_less_def split: if_splits)
    qed
    ultimately show ?thesis using Cons by (auto simp: ScheduleV0_eq Let_def)
  qed
qed

theorem scheduler_selects_best_witness:
  "sd_SelectedNode (ScheduleV0 (\<lambda>_. 1100) sample_intent [sample_node]) = None"
proof -
  have "\<not> er_IsEligible (Evaluate 1100 sample_intent sample_node)"
    by (simp add: Evaluate_eligible hard_codes_Nil telemetry_fresh_def sample_intent_def wrap64_def)
  then show ?thesis
    using scheduler_selects_best [of "\<lambda>_. 1100" sample_intent "[sample_node]"]
    by (auto split: option.splits)
qed

text \<open>
  C25: Every candidate is either ranked or rejected, never both and never lost: the ids of the ranked
  and the rejected nodes together are a permutation of the candidates' ids. The ranking has no
  inversion, each ranked node is eligible, and each rejected one carries a rejection code.
\<close>
theorem scheduler_partitions:
  assumes "\<forall>n\<in>set nodes. node_ok n"
  shows "mset (map sc_NodeID (sd_RankedNodes (ScheduleV0 clk intent nodes))) +
           mset (map er_NodeID (sd_RejectedNodes (ScheduleV0 clk intent nodes))) = mset (map node_ID nodes) \<and>
         sorted_wrt (\<lambda>a b. \<not> candidate_less b a) (sd_RankedNodes (ScheduleV0 clk intent nodes)) \<and>
         (\<forall>c\<in>set (sd_RankedNodes (ScheduleV0 clk intent nodes)). er_IsEligible (sc_Eligibility c)) \<and>
         (\<forall>r\<in>set (sd_RejectedNodes (ScheduleV0 clk intent nodes)). er_HardRejectionCodes r \<noteq> [])"
proof -
  define evs where "evs = evaluations clk 1 intent nodes"
  have ids: "er_NodeID r = node_ID n" and codes: "er_IsEligible r \<longleftrightarrow> er_HardRejectionCodes r = []"
    if "(n, r) \<in> set evs" for n r
    using evaluations_mem [OF that [unfolded evs_def]] assms by (auto simp: Evaluate_eq)
  have split: "mset (map sc_NodeID (map (scored t) (filter (\<lambda>(n, r). er_IsEligible r) xs))) +
      mset (map er_NodeID (map snd (filter (\<lambda>(n, r). \<not> er_IsEligible r) xs))) = mset (map (node_ID \<circ> fst) xs)"
    if "\<forall>(n, r)\<in>set xs. er_NodeID r = node_ID n" for t and xs :: "(NodeRecord \<times> EligibilityResult) list"
    using that by (induction xs) auto
  have "mset (map (node_ID \<circ> fst) evs) = mset (map node_ID nodes)"
    by (simp add: evs_def flip: map_map)
  then have "mset (map sc_NodeID (eligible_candidates clk intent nodes)) +
      mset (map er_NodeID (rejected_candidates clk intent nodes)) = mset (map node_ID nodes)"
    using split [of evs "clk 0"] ids
    unfolding eligible_candidates_def rejected_candidates_def evs_def [symmetric] by auto
  moreover have "\<forall>c\<in>set (eligible_candidates clk intent nodes). er_IsEligible (sc_Eligibility c)"
    by (auto simp: eligible_candidates_def scored_def)
  moreover have "\<forall>r\<in>set (rejected_candidates clk intent nodes). er_HardRejectionCodes r \<noteq> []"
    using codes by (auto simp: rejected_candidates_def evs_def)
  ultimately show ?thesis
    using ranking_sorted [of "eligible_candidates clk intent nodes"]
    by (simp add: ScheduleV0_eq Let_def no_inversion_def)
qed

theorem scheduler_partitions_witness:
  "mset (map sc_NodeID (sd_RankedNodes (ScheduleV0 (\<lambda>_. 1030) sample_intent [sample_node]))) +
     mset (map er_NodeID (sd_RejectedNodes (ScheduleV0 (\<lambda>_. 1030) sample_intent [sample_node]))) = {#''n1''#}"
  using scheduler_partitions [of "[sample_node]" "\<lambda>_. 1030" sample_intent] by simp

text \<open>
  C26: The decision does not depend on the order in which the candidates arrive. For candidates with
  distinct ids and a clock that stands still during the call, permuting them leaves the selection and
  the whole ranking unchanged, whatever sorting algorithm sort.Slice uses.
\<close>
theorem scheduler_order_independent:
  assumes "mset nodes = mset nodes'" and "distinct (map node_ID nodes)"
  shows "sd_SelectedNode (ScheduleV0 (\<lambda>_. t) intent nodes) = sd_SelectedNode (ScheduleV0 (\<lambda>_. t) intent nodes') \<and>
         sd_RankedNodes (ScheduleV0 (\<lambda>_. t) intent nodes) = sd_RankedNodes (ScheduleV0 (\<lambda>_. t) intent nodes') \<and>
         mset (sd_RejectedNodes (ScheduleV0 (\<lambda>_. t) intent nodes)) =
           mset (sd_RejectedNodes (ScheduleV0 (\<lambda>_. t) intent nodes')) \<and>
         (\<forall>ranked. mset ranked = mset (eligible_candidates (\<lambda>_. t) intent nodes) \<and>
            no_inversion candidate_less ranked \<longrightarrow> ranked = sd_RankedNodes (ScheduleV0 (\<lambda>_. t) intent nodes))"
proof -
  let ?cs = "eligible_candidates (\<lambda>_. t) intent nodes" and ?cs' = "eligible_candidates (\<lambda>_. t) intent nodes'"
  have "distinct (map sc_NodeID ?cs)" by (rule eligible_distinct [OF assms(2)])
  note unique = ranking_unique [OF this]
  have "sort_less candidate_less ?cs' = sort_less candidate_less ?cs"
    by (rule unique) (simp_all add: ranking_sorted eligible_candidates_perm [OF assms(1)])
  with unique show ?thesis
    by (auto simp: ScheduleV0_eq Let_def rejected_candidates_perm [OF assms(1)])
qed

theorem scheduler_order_independent_witness:
  "let other = sample_node\<lparr>node_ID := ''n0''\<rparr> in
   sd_SelectedNode (ScheduleV0 (\<lambda>_. 1030) sample_intent [sample_node, other]) =
   sd_SelectedNode (ScheduleV0 (\<lambda>_. 1030) sample_intent [other, sample_node])"
  using scheduler_order_independent
    [of "[sample_node, sample_node\<lparr>node_ID := ''n0''\<rparr>]" "[sample_node\<lparr>node_ID := ''n0''\<rparr>, sample_node]" 1030 sample_intent]
  by (simp add: Let_def add_mset_commute)

end
