(* ===== verification/Plan_Launch.thy ===== *)
theory Plan_Launch
  imports Scheduler Validate_Launch
begin

text \<open>
  \<^verbatim>\<open>pkg/schema/plan\<close>, \<^verbatim>\<open>internal/domain/plan_launch.go\<close> and the planning step of
  \<^verbatim>\<open>internal/api/plan_handlers.go\<close>: from a workload intent and a launch template to a launch spec on
  the scheduled node, without executing anything. Prefixes: \<open>tpl_\<close> LaunchTemplateSpec, \<open>lreq_\<close>
  LaunchPlanRequest, \<open>ee_\<close> EligibilityEvidence, \<open>lpr_\<close> LaunchPreparationResult, \<open>plan_\<close>
  LaunchPlanResult.
\<close>

section \<open>The schema\<close>

record LaunchTemplateSpec =
  tpl_SchemaVersion :: string
  tpl_WorkloadID :: string
  tpl_TenantID :: string
  tpl_NodeID :: string
  tpl_RuntimeClass :: string
  tpl_Architecture :: string
  tpl_ImageReference :: string
  tpl_KernelImagePath :: string
  tpl_RootfsPath :: string
  tpl_NetworkAttachments :: "string list"
  tpl_Storage :: "StorageAttachmentSpec list"
  tpl_Networks :: "NetworkAttachmentSpec list"
  tpl_Security :: "SecurityContextSpec option"
  tpl_Vcpu :: int
  tpl_MemoryMB :: int
  tpl_LaunchMode :: string
  tpl_RuntimeBackendPreference :: string
  tpl_AllowBackendFallback :: bool
  tpl_RuntimeVersion :: "RuntimeVersionRequirement option"

record LaunchPlanRequest =
  lreq_SchemaVersion :: string
  lreq_WorkloadIntent :: WorkloadIntent
  lreq_LaunchTemplate :: LaunchTemplateSpec
  lreq_Mode :: string
  lreq_TargetNodeID :: string

record EligibilityEvidence =
  ee_NodeID :: string
  ee_IsEligible :: bool
  ee_HardRejectionCodes :: "string list"
  ee_FreshnessOK :: bool
  ee_CompatibilityOK :: bool
  ee_HealthOK :: bool
  ee_MatchedFeatures :: "string list"
  ee_Warnings :: "string list"

datatype LaunchPlanStatus = PlanStatusReady | PlanStatusRejected | PlanStatusValidationFail | PlanStatusConflict

datatype LaunchPlanNextAction =
    ActionSubmitLaunch
  | ActionPrepareOnNode
  | ActionRetryLater
  | ActionFixValidation
  | ActionNone

datatype LaunchPreparationStatus =
  PreparationStatusPendingNodeAgent | PreparationStatusFailed | PreparationStatusSuccess

record LaunchPreparationResult =
  lpr_SchemaVersion :: string
  lpr_Status :: LaunchPreparationStatus
  lpr_NodeID :: string
  lpr_Backend :: string
  lpr_IsPreparable :: bool
  lpr_BlockingReasonCodes :: "string list"
  lpr_Warnings :: "string list"
  lpr_PreparedLaunch :: "PreparedLaunch option"

record LaunchPlanResult =
  plan_SchemaVersion :: string
  plan_Status :: LaunchPlanStatus
  plan_SelectedNode :: "string option"
  plan_RejectedNodes :: "EligibilityEvidence list"
  plan_PlannedLaunchSpec :: "LaunchSpec option"
  plan_ValidationResult :: "LaunchValidationResult option"
  plan_PreparationResult :: "LaunchPreparationResult option"
  plan_DryRunPrepared :: bool
  plan_Warnings :: "string list"
  plan_NextActions :: "LaunchPlanNextAction list"

section \<open>BuildLaunchPlan\<close>

text \<open>The three assignments of every early return.\<close>

definition stop_plan ::
    "LaunchPlanStatus \<Rightarrow> string \<Rightarrow> LaunchPlanNextAction \<Rightarrow> LaunchPlanResult \<Rightarrow> LaunchPlanResult" where
  "stop_plan st warning action r =
     r\<lparr>plan_Status := st, plan_Warnings := plan_Warnings r @ [warning],
       plan_NextActions := plan_NextActions r @ [action]\<rparr>"

definition evidence_of :: "EligibilityResult \<Rightarrow> EligibilityEvidence" where
  "evidence_of r =
     \<lparr>ee_NodeID = er_NodeID r, ee_IsEligible = er_IsEligible r,
      ee_HardRejectionCodes = er_HardRejectionCodes r, ee_FreshnessOK = er_FreshnessOK r,
      ee_CompatibilityOK = er_CompatibilityOK r, ee_HealthOK = er_HealthOK r,
      ee_MatchedFeatures = er_MatchedFeatures r, ee_Warnings = er_Warnings r\<rparr>"

definition hydrate :: "WorkloadIntent \<Rightarrow> LaunchTemplateSpec \<Rightarrow> string \<Rightarrow> string \<Rightarrow> LaunchSpec" where
  "hydrate intent template mode selectedNode =
     \<lparr>spec_SchemaVersion = tpl_SchemaVersion template, spec_WorkloadID = intent_WorkloadID intent,
      spec_TenantID = intent_TenantID intent, spec_NodeID = selectedNode,
      spec_RuntimeClass = tpl_RuntimeClass template, spec_Architecture = tpl_Architecture template,
      spec_ImageReference = tpl_ImageReference template,
      spec_KernelImagePath = tpl_KernelImagePath template, spec_RootfsPath = tpl_RootfsPath template,
      spec_NetworkAttachments = tpl_NetworkAttachments template, spec_Storage = tpl_Storage template,
      spec_Networks = tpl_Networks template, spec_Security = tpl_Security template,
      spec_Vcpu = tpl_Vcpu template, spec_MemoryMB = tpl_MemoryMB template,
      spec_LaunchMode = (if mode = ''dry_run'' then ''DryRun'' else ''Validate''),
      spec_RuntimeBackendPreference = tpl_RuntimeBackendPreference template,
      spec_AllowBackendFallback = tpl_AllowBackendFallback template,
      spec_RuntimeVersion = tpl_RuntimeVersion template\<rparr>"

definition initial_plan :: LaunchPlanResult where
  "initial_plan =
     \<lparr>plan_SchemaVersion = ''v1alpha1'', plan_Status = PlanStatusReady, plan_SelectedNode = None,
      plan_RejectedNodes = [], plan_PlannedLaunchSpec = None, plan_ValidationResult = None,
      plan_PreparationResult = None, plan_DryRunPrepared = False, plan_Warnings = [],
      plan_NextActions = []\<rparr>"

definition BuildLaunchPlan ::
    "(nat \<Rightarrow> int) \<Rightarrow> WorkloadIntent \<Rightarrow> LaunchTemplateSpec \<Rightarrow> string \<Rightarrow> string \<Rightarrow> NodeRecord list
     \<Rightarrow> LaunchPlanResult" where
  "BuildLaunchPlan clk intent template mode targetNodeID candidateNodes =
     (if intent_WorkloadID intent \<noteq> tpl_WorkloadID template
      then stop_plan PlanStatusConflict ''Intent and Template WorkloadID mismatch'' ActionNone initial_plan
      else if intent_TenantID intent \<noteq> tpl_TenantID template
      then stop_plan PlanStatusConflict ''Intent and Template TenantID mismatch'' ActionNone initial_plan
      else if intent_RuntimeClass intent \<noteq> tpl_RuntimeClass template
      then stop_plan PlanStatusConflict ''Intent and Template RuntimeClass mismatch'' ActionNone initial_plan
      else if intent_RequiredArchitecture intent \<noteq> ''any'' \<and>
              intent_RequiredArchitecture intent \<noteq> tpl_Architecture template
      then stop_plan PlanStatusConflict ''Intent RequiredArchitecture and Template Architecture mismatch''
             ActionNone initial_plan
      else
       (let decision = ScheduleV0 clk intent candidateNodes;
            r1 = initial_plan\<lparr>plan_RejectedNodes := map evidence_of (sd_RejectedNodes decision)\<rparr> in
        case sd_SelectedNode decision of
          None \<Rightarrow> stop_plan PlanStatusRejected ''No eligible nodes found for workload intent'' ActionRetryLater r1
        | Some selectedNode \<Rightarrow>
            if targetNodeID \<noteq> '''' \<and> targetNodeID \<noteq> selectedNode
            then stop_plan PlanStatusConflict ''Target node ID conflicts with scheduler decision'' ActionNone r1
            else if tpl_NodeID template \<noteq> '''' \<and> tpl_NodeID template \<noteq> selectedNode
            then stop_plan PlanStatusConflict ''Launch template node ID conflicts with scheduler decision''
                   ActionNone r1
            else r1\<lparr>plan_SelectedNode := Some selectedNode,
                    plan_PlannedLaunchSpec := Some (hydrate intent template mode selectedNode),
                    plan_NextActions := [ActionSubmitLaunch]\<rparr>))"

section \<open>The planning handler\<close>

text \<open>
  \<^verbatim>\<open>PlanLaunch\<close> reads the node store twice: \<open>allNodes\<close> is what the first read lists, \<open>lookup\<close> is the
  second read, which may see a later state of the store.
\<close>

definition PlanLaunch ::
    "(nat \<Rightarrow> int) \<Rightarrow> NodeRecord list \<Rightarrow> (string \<Rightarrow> NodeRecord \<times> go_error option) \<Rightarrow> LaunchPlanRequest
     \<Rightarrow> LaunchPlanResult" where
  "PlanLaunch clk allNodes lookup req =
     (let planResult = BuildLaunchPlan clk (lreq_WorkloadIntent req) (lreq_LaunchTemplate req)
            (lreq_Mode req) (lreq_TargetNodeID req) allNodes in
      case (plan_Status planResult, plan_PlannedLaunchSpec planResult) of
        (PlanStatusReady, Some spec) \<Rightarrow>
          (let selectedNodeID = the (plan_SelectedNode planResult); (node, err) = lookup selectedNodeID in
           if err \<noteq> None
           then planResult\<lparr>plan_Status := PlanStatusRejected,
                  plan_Warnings := plan_Warnings planResult @
                    [''Selected node disappeared from store before validation''],
                  plan_NextActions := [ActionRetryLater]\<rparr>
           else
            (let validationResult = ValidateLaunch spec node;
                 p1 = planResult\<lparr>plan_ValidationResult := Some validationResult\<rparr> in
             if \<not> val_IsValid validationResult
             then p1\<lparr>plan_Status := PlanStatusValidationFail, plan_NextActions := [ActionFixValidation]\<rparr>
             else if lreq_Mode req = ''dry_run''
             then p1\<lparr>plan_PreparationResult := Some
                       \<lparr>lpr_SchemaVersion = ''v1alpha1'', lpr_Status = PreparationStatusPendingNodeAgent,
                        lpr_NodeID = selectedNodeID, lpr_Backend = val_SelectedBackend validationResult,
                        lpr_IsPreparable = False,
                        lpr_BlockingReasonCodes = [ReasonErrPreparationRequiresNodeAgent],
                        lpr_Warnings = [''Node-scoped preparation requires an active node agent path''],
                        lpr_PreparedLaunch = None\<rparr>,
                     plan_DryRunPrepared := False, plan_NextActions := [ActionPrepareOnNode]\<rparr>
             else p1))
      | _ \<Rightarrow> planResult)"

section \<open>When a plan is ready\<close>

text \<open>The intent and the template describe the same workload.\<close>

definition consistent :: "WorkloadIntent \<Rightarrow> LaunchTemplateSpec \<Rightarrow> bool" where
  "consistent intent template \<longleftrightarrow>
     intent_WorkloadID intent = tpl_WorkloadID template \<and> intent_TenantID intent = tpl_TenantID template \<and>
     intent_RuntimeClass intent = tpl_RuntimeClass template \<and>
     (intent_RequiredArchitecture intent = ''any'' \<or>
      intent_RequiredArchitecture intent = tpl_Architecture template)"

text \<open>The scheduled node is the one the caller asked for, if any was.\<close>

definition node_admitted :: "LaunchTemplateSpec \<Rightarrow> string \<Rightarrow> string \<Rightarrow> bool" where
  "node_admitted template target i \<longleftrightarrow>
     (target = '''' \<or> target = i) \<and> (tpl_NodeID template = '''' \<or> tpl_NodeID template = i)"

lemma stop_plan_fields [simp]:
  "plan_Status (stop_plan st w a r) = st" "plan_SelectedNode (stop_plan st w a r) = plan_SelectedNode r"
  "plan_PlannedLaunchSpec (stop_plan st w a r) = plan_PlannedLaunchSpec r"
  "plan_NextActions (stop_plan st w a r) = plan_NextActions r @ [a]"
  "plan_ValidationResult (stop_plan st w a r) = plan_ValidationResult r"
  "plan_DryRunPrepared (stop_plan st w a r) = plan_DryRunPrepared r"
  "plan_PreparationResult (stop_plan st w a r) = plan_PreparationResult r"
  by (simp_all add: stop_plan_def)

lemma initial_plan_fields [simp]:
  "plan_Status initial_plan = PlanStatusReady" "plan_SelectedNode initial_plan = None"
  "plan_PlannedLaunchSpec initial_plan = None" "plan_NextActions initial_plan = []"
  "plan_ValidationResult initial_plan = None" "plan_DryRunPrepared initial_plan = False"
  "plan_PreparationResult initial_plan = None"
  by (simp_all add: initial_plan_def)

lemma hydrate_fields [simp]:
  "spec_NodeID (hydrate intent template mode i) = i"
  "spec_LaunchMode (hydrate intent template mode i) = (if mode = ''dry_run'' then ''DryRun'' else ''Validate'')"
  by (simp_all add: hydrate_def)

text \<open>The outcome of planning in one equation: the status, the node and the spec.\<close>

lemma BuildLaunchPlan_outcome:
  "(plan_Status (BuildLaunchPlan clk intent tpl mode target nodes),
    plan_PlannedLaunchSpec (BuildLaunchPlan clk intent tpl mode target nodes),
    plan_SelectedNode (BuildLaunchPlan clk intent tpl mode target nodes)) =
   (if \<not> consistent intent tpl then (PlanStatusConflict, None, None)
    else case sd_SelectedNode (ScheduleV0 clk intent nodes) of
        None \<Rightarrow> (PlanStatusRejected, None, None)
      | Some i \<Rightarrow> if node_admitted tpl target i
          then (PlanStatusReady, Some (hydrate intent tpl mode i), Some i)
          else (PlanStatusConflict, None, None))"
  by (auto simp: BuildLaunchPlan_def consistent_def node_admitted_def Let_def split: option.split)

lemma selected_is_candidate:
  assumes "sd_SelectedNode (ScheduleV0 clk intent nodes) = Some i"
  shows "\<exists>n\<in>set nodes. \<exists>j. node_ID n = i \<and> er_IsEligible (Evaluate (clk j) intent n)"
proof -
  let ?cs = "eligible_candidates clk intent nodes"
  obtain c rest where c: "sort_less candidate_less ?cs = c # rest" "sc_NodeID c = i"
    using assms by (auto simp: ScheduleV0_eq Let_def split: list.splits)
  then have "c \<in> set ?cs" by (metis list.set_intros(1) set_sort_less)
  with c(2) show ?thesis
    by (auto simp: eligible_candidates_def dest!: evaluations_mem)
qed

section \<open>Properties\<close>

text \<open>
  C27: A plan is ready exactly when intent and template agree, the scheduler selects a node, and that
  node is the one the request and the template name, if they name one. It then carries the template
  hydrated for that node, which is a candidate that evaluated as eligible; in every other case it
  carries neither a node nor a spec. A planned spec never asks for execution.
\<close>
theorem BuildLaunchPlan_ready_iff:
  "(plan_Status (BuildLaunchPlan clk intent tpl mode target nodes) = PlanStatusReady \<longleftrightarrow>
      consistent intent tpl \<and>
      (\<exists>i. sd_SelectedNode (ScheduleV0 clk intent nodes) = Some i \<and> node_admitted tpl target i)) \<and>
   (case plan_PlannedLaunchSpec (BuildLaunchPlan clk intent tpl mode target nodes) of
      None \<Rightarrow> plan_Status (BuildLaunchPlan clk intent tpl mode target nodes) \<noteq> PlanStatusReady \<and>
        plan_SelectedNode (BuildLaunchPlan clk intent tpl mode target nodes) = None
    | Some spec \<Rightarrow>
        plan_Status (BuildLaunchPlan clk intent tpl mode target nodes) = PlanStatusReady \<and>
        plan_SelectedNode (BuildLaunchPlan clk intent tpl mode target nodes) = Some (spec_NodeID spec) \<and>
        spec = hydrate intent tpl mode (spec_NodeID spec) \<and>
        (\<exists>n\<in>set nodes. \<exists>j. node_ID n = spec_NodeID spec \<and> er_IsEligible (Evaluate (clk j) intent n)) \<and>
        spec_LaunchMode spec \<noteq> ''Execute'')"
  using BuildLaunchPlan_outcome [of clk intent tpl mode target nodes] selected_is_candidate [of clk intent nodes]
  by (auto split: if_splits option.splits)

text \<open>
  C28: The planning endpoint answers Ready only with a validated plan: the planned spec is valid on the
  node that was read back, the selected backend is ready there, and the next action is to submit the
  launch, or to prepare it on the node when a dry run was asked for. It never claims that anything
  was prepared.
\<close>
theorem PlanLaunch_validated:
  "let r = PlanLaunch clk nodes lookup req in
   \<not> plan_DryRunPrepared r \<and>
   (case (plan_Status r, plan_PlannedLaunchSpec r) of
      (PlanStatusReady, Some spec) \<Rightarrow>
        (\<exists>node val. lookup (spec_NodeID spec) = (node, None) \<and> plan_ValidationResult r = Some val \<and>
           val = ValidateLaunch spec node \<and> val_IsValid val \<and>
           backend_ready spec node (val_SelectedBackend val)) \<and>
        plan_NextActions r = (if lreq_Mode req = ''dry_run'' then [ActionPrepareOnNode] else [ActionSubmitLaunch])
    | (PlanStatusReady, None) \<Rightarrow> False
    | (PlanStatusValidationFail, _) \<Rightarrow> plan_NextActions r = [ActionFixValidation]
    | (PlanStatusRejected, _) \<Rightarrow> plan_NextActions r = [ActionRetryLater]
    | (PlanStatusConflict, _) \<Rightarrow> plan_NextActions r = [ActionNone])"
proof -
  define b where "b = BuildLaunchPlan clk (lreq_WorkloadIntent req) (lreq_LaunchTemplate req) (lreq_Mode req)
    (lreq_TargetNodeID req) nodes"
  have actions: "plan_NextActions b = (case plan_Status b of PlanStatusReady \<Rightarrow> [ActionSubmitLaunch]
      | PlanStatusRejected \<Rightarrow> [ActionRetryLater] | _ \<Rightarrow> [ActionNone])"
    and dry: "\<not> plan_DryRunPrepared b"
    by (auto simp: b_def BuildLaunchPlan_def Let_def split: option.split)
  have no_fail: "plan_Status b \<noteq> PlanStatusValidationFail"
    and ready: "plan_Status b = PlanStatusReady \<longleftrightarrow> plan_PlannedLaunchSpec b \<noteq> None"
    and node: "\<And>spec. plan_PlannedLaunchSpec b = Some spec \<Longrightarrow> plan_SelectedNode b = Some (spec_NodeID spec)"
    using BuildLaunchPlan_outcome [of clk "lreq_WorkloadIntent req" "lreq_LaunchTemplate req" "lreq_Mode req"
      "lreq_TargetNodeID req" nodes]
    by (auto simp: b_def split: if_splits option.splits)
  show ?thesis
  proof (cases "plan_PlannedLaunchSpec b")
    case None
    with ready have "plan_Status b \<noteq> PlanStatusReady" by simp
    with None no_fail actions dry show ?thesis
      by (cases "plan_Status b") (simp_all add: PlanLaunch_def Let_def flip: b_def)
  next
    case (Some spec)
    have st: "plan_Status b = PlanStatusReady" using ready Some by simp
    obtain n err where l: "lookup (spec_NodeID spec) = (n, err)" by (cases "lookup (spec_NodeID spec)")
    have sel: "val_SelectedBackend (ValidateLaunch spec n) = fst (SelectBackend spec n) \<and>
        backend_ready spec n (val_SelectedBackend (ValidateLaunch spec n))"
      if "val_IsValid (ValidateLaunch spec n)"
      using that ValidateLaunch_valid_backend [OF that] ValidateLaunch_selected [of spec n]
      by (auto simp: ValidateLaunch_codes)
    show ?thesis
      using node [OF Some] st Some dry actions l sel
      unfolding PlanLaunch_def b_def [symmetric] Let_def by (auto split: if_splits)
  qed
qed

end
