(* ===== verification/Api.thy ===== *)
theory Api
  imports Orphan_Sweep Plan_Launch
begin

text \<open>
  The HTTP handlers of \<^verbatim>\<open>internal/api\<close>. A request body arrives as the result \<open>bound\<close> of gin's JSON
  binding, which is not part of the repository. A handler answers with a status and a body, or with
  an error message; gin turns a panic into status 500. Handlers that only use the node store are
  functions of it; the others are operations over the server's state.
\<close>

section \<open>Replies\<close>

datatype 'a Reply = Reply nat 'a | ErrorReply nat string "string option" | PanicReply

section \<open>Nodes: handlers.go and system_handlers.go\<close>

definition Ingest ::
    "int \<Rightarrow> go_error + SchedulerEnvelope \<Rightarrow> InMemoryStore \<Rightarrow> (string \<times> string) Reply \<times> InMemoryStore" where
  "Ingest now bound store =
     (case bound of
        Inl err \<Rightarrow> (ErrorReply 400 ''Schema validation failed'' (Some err), store)
      | Inr env \<Rightarrow>
          (case ProjectEnvelope now env of
             Inl panic \<Rightarrow> (PanicReply, store)
           | Inr record \<Rightarrow> (Reply 200 (''accepted'', env_CollectionID env), SaveNodeState env record store)))"

record NodeExplanation =
  ex_NodeID :: string
  ex_Hostname :: string
  ex_Architecture :: string
  ex_OverallHealth :: string
  ex_IsStale :: bool
  ex_Reasons :: "string list"
  ex_CanRunKVM :: bool
  ex_CanRunFirecracker :: bool
  ex_CanJoinArmProductionPool :: bool
  ex_IsOnlyEligibleForHolding :: bool
  ex_IsHealthyButPolicyIneligible :: bool
  ex_Capabilities :: "(string, NodeCapabilityRecord) gomap"
  ex_BlockingConstraints :: "(string, NodeConstraintRecord) gomap"
  ex_StaleCollectors :: "string list"
  ex_Alarms :: "ActiveAlarm list"

definition ExplainNodeDecision :: "string \<Rightarrow> InMemoryStore \<Rightarrow> NodeExplanation Reply" where
  "ExplainNodeDecision nodeID store =
     (let (record, err) = GetNode nodeID store in
      if err \<noteq> None then ErrorReply 404 ''Node not found'' None
      else Reply 200
        \<lparr>ex_NodeID = node_ID record, ex_Hostname = id_Hostname (node_Identity record),
         ex_Architecture = id_Architecture (node_Identity record),
         ex_OverallHealth = health_State (node_Health record),
         ex_IsStale = fresh_IsStale (node_Freshness record),
         ex_Reasons = compat_ReasonCodes (node_Compatibility record),
         ex_CanRunKVM = CanRunKVMVMs record, ex_CanRunFirecracker = CanRunFirecrackerMicroVMs record,
         ex_CanJoinArmProductionPool = CanJoinArmProductionPool record,
         ex_IsOnlyEligibleForHolding = IsOnlyEligibleForHoldingPool record,
         ex_IsHealthyButPolicyIneligible = IsHealthyButPolicyIneligible record,
         ex_Capabilities = node_Capabilities record, ex_BlockingConstraints = node_Constraints record,
         ex_StaleCollectors = fresh_StaleCollectors (node_Freshness record),
         ex_Alarms = health_ActiveAlarms (node_Health record)\<rparr>)"

record NodeSummary =
  ns_ID :: string
  ns_Hostname :: string
  ns_Architecture :: string
  ns_Health :: string
  ns_Class :: string

definition ListNodes :: "InMemoryStore \<Rightarrow> NodeSummary list Reply" where
  "ListNodes store =
     Reply 200 (map (\<lambda>n. \<lparr>ns_ID = node_ID n, ns_Hostname = id_Hostname (node_Identity n),
       ns_Architecture = id_Architecture (node_Identity n), ns_Health = health_State (node_Health n),
       ns_Class = compat_Class (node_Compatibility n)\<rparr>) (ListAllNodes store))"

definition GetNode_handler :: "string \<Rightarrow> InMemoryStore \<Rightarrow> NodeRecord Reply" where
  "GetNode_handler nodeID store =
     (let (record, err) = GetNode nodeID store in
      if err \<noteq> None then ErrorReply 404 ''Node not found'' None else Reply 200 record)"

record Health =
  hz_Status :: string
  hz_ApiVersion :: string
  hz_Storage :: string
  hz_ProcessEnumerationEnabled :: bool

definition Healthz :: "string \<Rightarrow> Health Reply" where
  "Healthz goos = Reply 200
     \<lparr>hz_Status = ''ok'', hz_ApiVersion = ''v1alpha1'', hz_Storage = ''sqlite'',
      hz_ProcessEnumerationEnabled = (goos = ''linux'')\<rparr>"

section \<open>Scheduling and planning: schedule_handlers.go and plan_handlers.go\<close>

definition ExplainSchedule ::
    "(nat \<Rightarrow> int) \<Rightarrow> go_error + WorkloadIntent \<Rightarrow> InMemoryStore \<Rightarrow> ScheduleDecision Reply" where
  "ExplainSchedule clk bound store =
     (case bound of
        Inl err \<Rightarrow> ErrorReply 400 ''Invalid WorkloadIntent'' (Some err)
      | Inr intent \<Rightarrow> Reply 200 (ScheduleV0 clk intent (ListAllNodes store)))"

datatype SelectBody = Scheduled string string | NoEligibleNode ScheduleDecision

definition SelectNode ::
    "(nat \<Rightarrow> int) \<Rightarrow> go_error + WorkloadIntent \<Rightarrow> InMemoryStore \<Rightarrow> SelectBody Reply" where
  "SelectNode clk bound store =
     (case bound of
        Inl err \<Rightarrow> ErrorReply 400 ''Invalid WorkloadIntent'' (Some err)
      | Inr intent \<Rightarrow>
          (let decision = ScheduleV0 clk intent (ListAllNodes store) in
           case sd_SelectedNode decision of
             None \<Rightarrow> Reply 409 (NoEligibleNode decision)
           | Some i \<Rightarrow> Reply 200 (Scheduled i (intent_WorkloadID intent))))"

definition PlanLaunch_handler ::
    "(nat \<Rightarrow> int) \<Rightarrow> go_error + LaunchPlanRequest \<Rightarrow> InMemoryStore \<Rightarrow> LaunchPlanResult Reply" where
  "PlanLaunch_handler clk bound store =
     (case bound of
        Inl err \<Rightarrow> ErrorReply 400 ''Invalid LaunchPlanRequest'' (Some err)
      | Inr req \<Rightarrow> Reply 200 (PlanLaunch clk (ListAllNodes store) (\<lambda>i. GetNode i store) req))"

section \<open>Launches: launch_handlers.go\<close>

definition ValidateLaunch_handler ::
    "go_error + LaunchSpec \<Rightarrow> InMemoryStore \<Rightarrow> LaunchValidationResult Reply" where
  "ValidateLaunch_handler bound store =
     (case bound of
        Inl err \<Rightarrow> ErrorReply 400 ''Invalid LaunchSpec'' (Some err)
      | Inr spec \<Rightarrow>
          (let (node, err) = GetNode (spec_NodeID spec) store in
           if err \<noteq> None then ErrorReply 404 ''Target node not found'' None
           else Reply 200 (ValidateLaunch spec node)))"

definition failed_preparation :: "LaunchDryRunResult \<Rightarrow> go_error \<Rightarrow> LaunchDryRunResult" where
  "failed_preparation res err =
     res\<lparr>dry_PreparationError := Some err, dry_PreparationReasonCode := Some ReasonErrPreparationFailed\<rparr>"

definition DryRunLaunch ::
    "'w Host \<Rightarrow> go_error + LaunchSpec \<Rightarrow> ('w System, LaunchDryRunResult Reply) state" where
  "DryRunLaunch host bound =
     (case bound of
        Inl err \<Rightarrow> ret (ErrorReply 400 ''Invalid LaunchSpec'' (Some err))
      | Inr spec0 \<Rightarrow> do {
          let spec = spec0\<lparr>spec_LaunchMode := ''DryRun''\<rparr>;
          got \<leftarrow> on_nodes (\<lambda>m. (GetNode (spec_NodeID spec) m, m));
          (if snd got \<noteq> None then ret (ErrorReply 404 ''Target node not found'' None)
           else do {
             let validationResult = ValidateLaunch spec (fst got);
             let res = \<lparr>dry_Validation = validationResult, dry_PreparedLaunch = None,
                        dry_PreparationReasonCode = None, dry_PreparationError = None\<rparr>;
             (if \<not> val_IsValid validationResult then ret (Reply 200 res)
              else case StaticExecutorResolver (system_host host) (val_SelectedBackend validationResult) of
                  Inl err \<Rightarrow> ret (Reply 200 (failed_preparation res err))
                | Inr exec \<Rightarrow> do {
                    prepared \<leftarrow> exec_Prepare exec spec;
                    ret (Reply 200 (case prepared of
                        Inl err \<Rightarrow> failed_preparation res err
                      | Inr prep \<Rightarrow> res\<lparr>dry_PreparedLaunch := Some prep\<rparr>))
                  })
           })
        })"

definition ExecuteLaunch ::
    "'w driver \<Rightarrow> 'w Host \<Rightarrow> go_error + LaunchSpec \<Rightarrow> ('w System, LaunchExecutionRecord Reply) state" where
  "ExecuteLaunch driver host bound =
     (case bound of
        Inl err \<Rightarrow> ret (ErrorReply 400 ''Invalid LaunchSpec'' (Some err))
      | Inr spec \<Rightarrow> do {
          record \<leftarrow> StartLaunch (system_host host) (NewLaunchHandler driver host)
                     (spec\<lparr>spec_LaunchMode := ''Execute''\<rparr>);
          ret (Reply (if rec_State record = StateFailed then 409 else 202) record)
        })"

fun materialSignalChanged :: "ReadinessSignalSummary option \<Rightarrow> ReadinessSignalSummary option \<Rightarrow> bool" where
  "materialSignalChanged None None \<longleftrightarrow> False"
| "materialSignalChanged (Some a) (Some b) \<longleftrightarrow>
     sig_ControlSocketExists a \<noteq> sig_ControlSocketExists b \<or>
     sig_ControlSocketDialOK a \<noteq> sig_ControlSocketDialOK b \<or>
     sig_BackendReadySignal a \<noteq> sig_BackendReadySignal b \<or>
     sig_BackendSignalSource a \<noteq> sig_BackendSignalSource b \<or>
     sig_StartupGraceElapsed a \<noteq> sig_StartupGraceElapsed b"
| "materialSignalChanged _ _ \<longleftrightarrow> True"

definition exit_code_changed :: "int option \<Rightarrow> int option \<Rightarrow> bool" where
  "exit_code_changed before after \<longleftrightarrow>
     (before = None \<and> after \<noteq> None) \<or> (before \<noteq> None \<and> after \<noteq> None \<and> the before \<noteq> the after)"

definition material_change :: "LaunchExecutionRecord \<Rightarrow> LaunchExecutionRecord \<Rightarrow> bool" where
  "material_change before rec \<longleftrightarrow>
     rec_State before \<noteq> rec_State rec \<or> rec_RuntimeLiveness before \<noteq> rec_RuntimeLiveness rec \<or>
     rec_RuntimeReadiness before \<noteq> rec_RuntimeReadiness rec \<or>
     exit_code_changed (rec_ExitCode before) (rec_ExitCode rec) \<or>
     materialSignalChanged (rec_ReadinessSignal before) (rec_ReadinessSignal rec)"

text \<open>The event of a material change, and the part of \<^verbatim>\<open>reconcileExecution\<close> that files the result.\<close>

definition record_change ::
    "'w driver \<Rightarrow> 'w Host \<Rightarrow> LaunchExecutionRecord \<Rightarrow> LaunchExecutionRecord \<Rightarrow> ('w System, go_error option) state" where
  "record_change driver host before rec =
     (if material_change before rec
      then do {
        uid \<leftarrow> host_NewUUID (system_host host);
        now \<leftarrow> host_Now (system_host host);
        sql driver (\<lambda>flt. AppendEvent flt
          \<lparr>ev_EventID = uid, ev_ExecutionID = rec_ExecutionID rec,
           ev_EventType = EventTypeReconcileStateChanged, ev_TimestampSec = now,
           ev_ReasonCode = '''',
           ev_PayloadJSON = Some (PayloadReconcile
             \<lparr>pr_ExecutionID = rec_ExecutionID rec, pr_NodeID = rec_NodeID rec,
              pr_BeforeState = rec_State before, pr_AfterState = rec_State rec,
              pr_BeforeLiveness = rec_RuntimeLiveness before,
              pr_AfterLiveness = rec_RuntimeLiveness rec,
              pr_BeforeReadiness = rec_RuntimeReadiness before,
              pr_AfterReadiness = rec_RuntimeReadiness rec,
              pr_ExitCode = rec_ExitCode rec, pr_Signal = rec_ReadinessSignal rec\<rparr>)\<rparr>)
      }
      else ret None)"

definition reconcileExecution ::
    "'w driver \<Rightarrow> 'w Host \<Rightarrow> LaunchExecutionRecord
     \<Rightarrow> ('w System, LaunchExecutionRecord \<times> go_error option) state" where
  "reconcileExecution driver host before =
     (if rec_State before = StateExited \<or> rec_State before = StateFailed \<or> rec_State before = StateTerminated
      then ret (before, None)
      else do {
        let backend = (case rec_PreparedState before of None \<Rightarrow> '''' | Some p \<Rightarrow> prep_RuntimeBackend p);
        res \<leftarrow> Reconcile (system_host host) (StaticInspectorResolver (system_host host) backend) before;
        (if snd res \<noteq> None then ret res
         else do {
           _ \<leftarrow> record_change driver host before (fst res);
           err \<leftarrow> sql driver (\<lambda>flt. SaveExecution flt (fst res));
           ret (fst res, err)
         })
      })"

text \<open>The four handlers that look an execution up, reconcile it and answer with a view of it.\<close>

definition reconciled_view ::
    "'w driver \<Rightarrow> 'w Host \<Rightarrow> string \<Rightarrow> (LaunchExecutionRecord \<Rightarrow> ('w System, 'b Reply) state)
     \<Rightarrow> ('w System, 'b Reply) state" where
  "reconciled_view driver host i answer = do {
     got \<leftarrow> sql_read driver (\<lambda>flt. GetExecution flt i);
     (case got of (rec, found, err) \<Rightarrow>
        if err \<noteq> None \<or> \<not> found then ret (ErrorReply 404 ''Execution not found'' None)
        else do {
          res \<leftarrow> reconcileExecution driver host rec;
          answer (fst res)
        })
   }"

definition InspectLaunch ::
    "'w driver \<Rightarrow> 'w Host \<Rightarrow> string \<Rightarrow> ('w System, LaunchExecutionRecord Reply) state" where
  "InspectLaunch driver host i = reconciled_view driver host i (\<lambda>rec. ret (Reply 200 rec))"

definition summary_of :: "LaunchExecutionRecord \<Rightarrow> ExecutionSummary" where
  "summary_of rec =
     \<lparr>sum_ExecutionID = rec_ExecutionID rec, sum_WorkloadID = rec_WorkloadID rec,
      sum_NodeID = rec_NodeID rec, sum_State = rec_State rec,
      sum_RuntimeLiveness = rec_RuntimeLiveness rec, sum_RuntimeReadiness = rec_RuntimeReadiness rec,
      sum_CreatedAtSec = rec_CreatedAtSec rec\<rparr>"

fun reconcile_list ::
    "'w driver \<Rightarrow> 'w Host \<Rightarrow> LaunchExecutionRecord list \<Rightarrow> ExecutionSummary list
     \<Rightarrow> ('w System, ExecutionSummary list) state" where
  "reconcile_list driver host [] summaries = ret summaries"
| "reconcile_list driver host (rec # recs) summaries = do {
     res \<leftarrow> reconcileExecution driver host rec;
     reconcile_list driver host recs (summaries @ [summary_of (fst res)])
   }"

definition ListLaunches :: "'w driver \<Rightarrow> 'w Host \<Rightarrow> ('w System, ExecutionSummary list Reply) state" where
  "ListLaunches driver host = do {
     listed \<leftarrow> sql_read driver ListExecutions;
     (case listed of
        Inl err \<Rightarrow> ret (ErrorReply 500 ''Failed to list executions'' None)
      | Inr records \<Rightarrow> do {
          summaries \<leftarrow> reconcile_list driver host records [];
          ret (Reply 200 summaries)
        })
   }"

definition buildReadinessResponse :: "LaunchExecutionRecord \<Rightarrow> LaunchReadinessResponse" where
  "buildReadinessResponse rec =
     \<lparr>lrr_ExecutionID = rec_ExecutionID rec, lrr_WorkloadID = rec_WorkloadID rec,
      lrr_NodeID = rec_NodeID rec,
      lrr_Backend = (case rec_PreparedState rec of None \<Rightarrow> '''' | Some p \<Rightarrow> prep_RuntimeBackend p),
      lrr_State = rec_State rec, lrr_RuntimeLiveness = rec_RuntimeLiveness rec,
      lrr_RuntimeReadiness = rec_RuntimeReadiness rec,
      lrr_ReasonCode = (case rec_FailureReasonCode rec of None \<Rightarrow> '''' | Some c \<Rightarrow> c),
      lrr_Message =
        (if rec_State rec = StateStarting then ''process alive but readiness signal not yet observed''
         else if rec_RuntimeReadiness rec = ''Ready'' then ''readiness signal observed''
         else if rec_RuntimeReadiness rec = ''Failed'' then ''readiness failed or timed out''
         else if rec_RuntimeReadiness rec = ''Unknown'' then ''process missing during readiness evaluation''
         else ''''),
      lrr_Signal =
        (case rec_ReadinessSignal rec of
           None \<Rightarrow> \<lparr>sv_ControlSocketPath = '''', sv_ControlSocketExists = False,
                    sv_ControlSocketDialOK = False, sv_BackendReadySignal = False,
                    sv_BackendSignalSource = ''''\<rparr>
         | Some s \<Rightarrow> \<lparr>sv_ControlSocketPath = sig_ControlSocketPath s,
                      sv_ControlSocketExists = sig_ControlSocketExists s,
                      sv_ControlSocketDialOK = sig_ControlSocketDialOK s,
                      sv_BackendReadySignal = sig_BackendReadySignal s,
                      sv_BackendSignalSource = sig_BackendSignalSource s\<rparr>),
      lrr_Timing =
        \<lparr>tv_StartupGraceSec = (case rec_PreparedState rec of None \<Rightarrow> 0 | Some p \<Rightarrow> prep_StartupGraceSec p),
         tv_StartupGraceElapsed =
           (case rec_ReadinessSignal rec of None \<Rightarrow> False | Some s \<Rightarrow> sig_StartupGraceElapsed s),
         tv_ReadinessTimeoutSec = 15,
         tv_ReadinessDeadlineSec = (case rec_StartedAtSec rec of None \<Rightarrow> 0 | Some s \<Rightarrow> wrap64 (s + 15)),
         tv_LastObservedAtSec =
           (case rec_ReadinessSignal rec of None \<Rightarrow> 0 | Some s \<Rightarrow> sig_LastObservedAtSec s)\<rparr>\<rparr>"

definition ObserveLaunch ::
    "'w driver \<Rightarrow> 'w Host \<Rightarrow> string \<Rightarrow> ('w System, ExecutionObservation Reply) state" where
  "ObserveLaunch driver host i = reconciled_view driver host i (\<lambda>rec. do {
     listed \<leftarrow> sql_read driver (\<lambda>flt. ListEvents flt i);
     let events = (case listed of Inl err \<Rightarrow> [] | Inr es \<Rightarrow> es);
     ret (Reply 200
       \<lparr>eo_Summary = summary_of rec, eo_PreparedWith = rec_PreparedState rec,
        eo_Readiness = buildReadinessResponse rec, eo_Trace = rec_Trace rec,
        eo_RecentEvents = drop (length events - 20) events\<rparr>)
   })"

datatype TerminateBody = TerminatedRecord LaunchExecutionRecord | TerminateError go_error "ExecutionTraceStep list"

definition TerminateLaunch_handler ::
    "'w driver \<Rightarrow> 'w Host \<Rightarrow> string \<Rightarrow> ('w System, TerminateBody Reply) state" where
  "TerminateLaunch_handler driver host i = do {
     res \<leftarrow> TerminateLaunch (system_host host) (NewLaunchHandler driver host) i;
     (case res of
        (rec, Some err) \<Rightarrow> ret (Reply 500 (TerminateError err (rec_Trace rec)))
      | (rec, None) \<Rightarrow> ret (Reply 200 (TerminatedRecord rec)))
   }"

definition InspectReadiness ::
    "'w driver \<Rightarrow> 'w Host \<Rightarrow> string \<Rightarrow> ('w System, LaunchReadinessResponse Reply) state" where
  "InspectReadiness driver host i =
     reconciled_view driver host i (\<lambda>rec. ret (Reply 200 (buildReadinessResponse rec)))"

definition InspectTrace :: "'w driver \<Rightarrow> string \<Rightarrow> ('w System, ExecutionTraceStep list Reply) state" where
  "InspectTrace driver i = do {
     got \<leftarrow> sql_read driver (\<lambda>flt. GetExecution flt i);
     (case got of (rec, found, err) \<Rightarrow>
        if err \<noteq> None \<or> \<not> found then ret (ErrorReply 404 ''Execution not found'' None)
        else ret (Reply 200 (rec_Trace rec)))
   }"

definition InspectEvents :: "'w driver \<Rightarrow> string \<Rightarrow> ('w System, RuntimeEvent list Reply) state" where
  "InspectEvents driver i = do {
     listed \<leftarrow> sql_read driver (\<lambda>flt. ListEvents flt i);
     ret (case listed of Inl err \<Rightarrow> ErrorReply 500 err None | Inr events \<Rightarrow> Reply 200 events)
   }"

section \<open>Orphans: orphan_handlers.go\<close>

definition ListOrphans_handler ::
    "'w driver \<Rightarrow> OrphanFilter \<Rightarrow> ('w System, OrphanRecord list Reply) state" where
  "ListOrphans_handler driver flter = do {
     listed \<leftarrow> sql_read driver (\<lambda>flt. ListOrphans flt flter);
     ret (case listed of Inl err \<Rightarrow> ErrorReply 500 err None | Inr orphans \<Rightarrow> Reply 200 orphans)
   }"

definition GetOrphan_handler :: "'w driver \<Rightarrow> string \<Rightarrow> ('w System, OrphanRecord Reply) state" where
  "GetOrphan_handler driver i = do {
     got \<leftarrow> sql_read driver (\<lambda>flt. GetOrphan flt i);
     ret (case got of
            Inl err \<Rightarrow> ErrorReply 500 err None
          | Inr None \<Rightarrow> ErrorReply 404 ''Orphan not found'' None
          | Inr (Some orphan) \<Rightarrow> Reply 200 orphan)
   }"

section \<open>Reconciling handlers keep the database in step\<close>

lemma keeps_TransitionTo [keeps_intros]: "keeps executions_of (TransitionTo (system_host host) rec n c m)"
  unfolding TransitionTo_def AppendTrace_def system_host_simps by (intro keeps_intros)

lemma keeps_inspector:
  "keeps executions_of (StaticInspectorResolver (system_host host) backend i pid prep)"
proof -
  have alive: "keeps executions_of (process_alive (system_host host) p)" for p
    unfolding process_alive_def system_host_simps by (intro keeps_intros)
  have sock: "keeps executions_of (SocketExists (system_host host) path)"
    "keeps executions_of (UnixSocketDialOK (system_host host) path)" for path
    unfolding SocketExists_def UnixSocketDialOK_def system_host_simps by (intro keeps_intros)+
  have socket: "keeps executions_of (socket_inspector b d e (system_host host) pid path)" for b d e path
    unfolding socket_inspector_def system_host_simps by (intro keeps_intros alive sock)
  have "keeps executions_of (ProcessInspector (system_host host) i pid prep)"
    unfolding ProcessInspector_def system_host_simps Let_def by (intro keeps_intros alive)
  with socket show ?thesis
    by (simp add: StaticInspectorResolver_def QemuInspector_def CloudHypervisorInspector_def)
qed

lemma keeps_Reconcile:
  "keeps executions_of (Reconcile (system_host host) (StaticInspectorResolver (system_host host) backend) rec)"
proof -
  have "keeps executions_of (reconcile_observed (system_host host) now r obs)" for now r obs
    unfolding reconcile_observed_def Let_def by (intro keeps_intros)
  then show ?thesis
    unfolding Reconcile_def system_host_simps by (intro keeps_intros keeps_inspector)
qed

lemma Reconcile_error_keeps_state:
  "wp (Reconcile host inspect rec) (\<lambda>r _. snd r \<noteq> None \<longrightarrow> rec_State (fst r) = rec_State rec) w"
proof (rule ReconcileI)
  have row: "wp (reconcile_observed host now rec ob) (\<lambda>r _. snd r \<noteq> None \<longrightarrow> rec_State (fst r) = rec_State rec) w''"
    if "polled (rec_State rec)" for now ob w''
    by (rule wp_mono [OF reconcile_observed_row [OF that]]) (auto simp: poll_row_def split: sum.splits)
  fix pid now w' assume "polled (rec_State rec)"
  then show "wp (inspect (rec_ExecutionID rec) (Some pid) (prepared_or_zero rec))
      (\<lambda>ob w''. case ob of
          Inl err \<Rightarrow> wp (TransitionTo host rec StateUnknown ''ERR_RECONCILE_STATUS_UNREADABLE'' err)
             (\<lambda>r _. snd r \<noteq> None \<longrightarrow> rec_State (fst r) = rec_State rec) w''
        | Inr ob \<Rightarrow> wp (reconcile_observed host now rec ob)
             (\<lambda>r _. snd r \<noteq> None \<longrightarrow> rec_State (fst r) = rec_State rec) w'') w'"
    by (intro wp_any) (auto split: sum.split intro!: wp_TransitionToI row simp del: not_None_eq)
qed (auto intro!: wp_TransitionToI)

text \<open>
  A poll that the transition table refused: to Failed for a lost PID, or out of Degraded or Unknown on
  what was observed. The record keeps its state.
\<close>

definition refused_poll :: "LaunchExecutionRecord \<Rightarrow> LaunchExecutionRecord \<Rightarrow> bool" where
  "refused_poll rec r \<longleftrightarrow> rec_State r = rec_State rec \<and>
     (case rec_PID rec of
        None \<Rightarrow> (rec_State rec = StateRunning \<or> rec_State rec = StateTerminating) \<and> r = rec
      | Some _ \<Rightarrow> \<exists>sig. rec_ReadinessSignal r = Some sig \<and>
          (rec_State rec = StateDegraded \<and> (rec_RuntimeLiveness r = ''Dead'' \<or> sig_BackendReadySignal sig) \<or>
           rec_State rec = StateUnknown \<and> rec_RuntimeLiveness r = ''Alive'' \<and> \<not> sig_BackendReadySignal sig))"

lemma Reconcile_error_refused:
  "wp (Reconcile host inspect rec) (\<lambda>r _. snd r \<noteq> None \<longrightarrow> refused_poll rec (fst r)) w"
proof (rule ReconcileI)
  fix pid now w' assume polled: "polled (rec_State rec)" and pid: "rec_PID rec = Some pid"
  have "wp (reconcile_observed host now rec ob) (\<lambda>r _. snd r \<noteq> None \<longrightarrow> refused_poll rec (fst r)) w''" for ob w''
    by (rule wp_mono [OF wp_conj [OF reconcile_observed_row [OF polled] reconcile_observed_liveness]])
      (use polled pid in \<open>auto simp: polled_def poll_row_def refused_poll_def observed_signal_def split: if_splits\<close>)
  moreover have "IsTransitionAllowed (rec_State rec) StateUnknown"
    using polled by (auto simp: polled_def IsTransitionAllowed_def)
  ultimately show "wp (inspect (rec_ExecutionID rec) (Some pid) (prepared_or_zero rec))
      (\<lambda>ob w''. case ob of
          Inl err \<Rightarrow> wp (TransitionTo host rec StateUnknown ''ERR_RECONCILE_STATUS_UNREADABLE'' err)
             (\<lambda>r _. snd r \<noteq> None \<longrightarrow> refused_poll rec (fst r)) w''
        | Inr ob \<Rightarrow> wp (reconcile_observed host now rec ob)
             (\<lambda>r _. snd r \<noteq> None \<longrightarrow> refused_poll rec (fst r)) w'') w'"
    by (intro wp_any) (auto split: sum.split intro!: wp_TransitionToI simp del: not_None_eq)
qed (auto simp: refused_poll_def polled_def IsTransitionAllowed_def intro!: wp_TransitionToI)

text \<open>One reconciliation by a handler: what it returns is filed, unless the poll was refused.\<close>

definition in_step ::
    "LaunchExecutionRecord \<Rightarrow> 'w System \<Rightarrow> LaunchExecutionRecord \<Rightarrow> 'w System \<Rightarrow> bool" where
  "in_step rec s r s' \<longleftrightarrow>
     same_process rec r \<and>
     (rec_State r = rec_State rec \<or> IsTransitionAllowed (rec_State rec) (rec_State r)) \<and>
     (executions_of s' = (executions_of s)(rec_ExecutionID rec \<mapsto> r) \<or>
      executions_of s' = executions_of s \<and> rec_State r = rec_State rec) \<and>
     (if terminal (rec_State rec) then r = rec \<and> executions_of s' = executions_of s
      else \<not> refused_poll rec r \<longrightarrow> executions_of s' = (executions_of s)(rec_ExecutionID rec \<mapsto> r))"

lemma reconcileExecution_in_step:
  "wp (reconcileExecution (ret None) host rec) (\<lambda>r s'. in_step rec s (fst r) s') s"
proof (cases "terminal (rec_State rec)")
  case True
  then show ?thesis by (auto simp: reconcileExecution_def in_step_def terminal_def)
next
  case False
  define b where "b = (case rec_PreparedState rec of None \<Rightarrow> '''' | Some p \<Rightarrow> prep_RuntimeBackend p)"
  let ?R = "Reconcile (system_host host) (StaticInspectorResolver (system_host host) b) rec"
  have keep: "wp ?R (\<lambda>_ s'. executions_of s' = executions_of s) s"
    by (rule keepsD [OF keeps_Reconcile])
  have event: "keeps executions_of (record_change (ret None) host rec r)" for r
    unfolding record_change_def system_host_simps
    by (intro keeps_intros) (simp add: keeps_def wp_sql executions_of_def)
  have save: "wp (sql (ret None) (\<lambda>flt. SaveExecution flt r))
      (\<lambda>err s2. executions_of s2 = (executions_of s1)(rec_ExecutionID r \<mapsto> r)) s1" for r s1
    by (auto simp: wp_sql executions_of_def SaveExecution_view fun_eq_iff)
  have filed: "wp (do { _ \<leftarrow> record_change (ret None) host rec r;
        err \<leftarrow> sql (ret None) (\<lambda>flt. SaveExecution flt r); ret (r, err) })
      (\<lambda>res s2. fst res = r \<and> executions_of s2 = (executions_of s1)(rec_ExecutionID r \<mapsto> r)) s1" for r s1
    by (intro wp_bindI keepsD [OF event] wp_mono [OF save] wp_retI) simp
  have facts: "wp ?R (\<lambda>r s'. same_process rec (fst r) \<and>
       (rec_State (fst r) = rec_State rec \<or> IsTransitionAllowed (rec_State rec) (rec_State (fst r))) \<and>
       (snd r \<noteq> None \<longrightarrow> rec_State (fst r) = rec_State rec) \<and> (snd r \<noteq> None \<longrightarrow> refused_poll rec (fst r)) \<and>
       executions_of s' = executions_of s) s"
    by (intro wp_conj Reconcile_same Reconcile_allowed Reconcile_error_keeps_state Reconcile_error_refused keep)
  have "\<not> (rec_State rec = StateExited \<or> rec_State rec = StateFailed \<or> rec_State rec = StateTerminated)"
    using False by (auto simp: terminal_def)
  then show ?thesis
    unfolding reconcileExecution_def Let_def b_def [symmetric] if_not_P
    by (intro wp_bindI wp_mono [OF facts] wp_ifI wp_retI wp_mono [OF filed])
      (auto simp: in_step_def False same_process_def)
qed

section \<open>Properties\<close>



text \<open>
  \<open>blind m\<close>: what \<open>m\<close> does and answers does not depend on the database, which it leaves alone.
\<close>

definition with_db :: "SQLiteStore \<Rightarrow> 'a \<times> 'w System \<Rightarrow> 'a \<times> 'w System" where
  "with_db db r = (fst r, snd r\<lparr>sys_db := db\<rparr>)"

definition blind :: "('w System, 'a) state \<Rightarrow> bool" where
  "blind m \<longleftrightarrow> (\<forall>s db. run_state m (s\<lparr>sys_db := db\<rparr>) = with_db db (run_state m s))"

named_theorems blind_intros "operations that do not see the database"

lemma blind_ret [blind_intros]: "blind (ret a)"
  by (simp add: blind_def with_db_def)

lemma blind_bind [blind_intros]:
  assumes "blind m" and "\<And>a. blind (f a)"
  shows "blind (State_Monad.bind m f)"
  unfolding blind_def
proof (intro allI)
  fix s db
  have m: "run_state m (s\<lparr>sys_db := db\<rparr>) = with_db db (run_state m s)"
    using assms(1) by (simp add: blind_def)
  have f: "run_state (f a) (t\<lparr>sys_db := db\<rparr>) = with_db db (run_state (f a) t)" for a t
    using assms(2) by (simp add: blind_def)
  show "run_state (State_Monad.bind m f) (s\<lparr>sys_db := db\<rparr>) = with_db db (run_state (State_Monad.bind m f) s)"
    by (cases "run_state m s") (simp add: m f with_db_def [of db "(x, y)" for x y])
qed

lemma blind_if [blind_intros]: "blind m \<Longrightarrow> blind n \<Longrightarrow> blind (if b then m else n)"
  by simp

lemma blind_sum [blind_intros]:
  "(\<And>e. x = Inl e \<Longrightarrow> blind (f e)) \<Longrightarrow> (\<And>a. x = Inr a \<Longrightarrow> blind (g a)) \<Longrightarrow> blind (case x of Inl e \<Rightarrow> f e | Inr a \<Rightarrow> g a)"
  by (cases x) simp_all

lemma blind_machine [blind_intros]: "blind (on_machine m)"
  by (simp add: blind_def with_db_def on_machine_def case_prod_unfold)

lemma blind_nodes [blind_intros]: "blind (on_nodes f)"
  by (simp add: blind_def with_db_def on_nodes_def case_prod_unfold)

lemma blind_prepare:
  assumes "StaticExecutorResolver (system_host host) b = Inr E"
  shows "blind (exec_Prepare E spec)"
proof -
  have missing: "blind (artifact_missing (system_host host) p)" for p
    unfolding artifact_missing_def system_host_simps by (intro blind_intros)
  have "blind (kvm_Prepare (system_host host) spec)" "blind (ch_Prepare (system_host host) spec)"
    "blind (fc_Prepare spec :: ('a System, _) state)"
    unfolding kvm_Prepare_def ch_Prepare_def fc_Prepare_def Let_def case_prod_unfold
    by (intro blind_intros missing)+
  then show ?thesis
    using assms
    by (auto simp: StaticExecutorResolver_def KvmExecutor_def CloudHypervisorExecutor_def FirecrackerExecutor_def
        split: if_splits)
qed

lemma prepare_changes_nothing:
  assumes "StaticExecutorResolver (system_host host) b = Inr E"
  shows "wp (exec_Prepare E spec) (\<lambda>r s'. sys_mem s' = sys_mem s \<and> sys_db s' = sys_db s \<and>
     (\<forall>p. r = Inr p \<longrightarrow> prep_RuntimeBackend p = b)) s"
proof -
  have "wp (exec_Prepare E spec) (\<lambda>_ s'. (sys_mem s', sys_db s') = (sys_mem s, sys_db s)) s"
    by (rule keepsD [OF machine_executor(1) [where view = "\<lambda>s. (sys_mem s, sys_db s)", OF _ assms]]) simp_all
  moreover have "wp (exec_Prepare E spec) (\<lambda>r _. \<forall>p. r = Inr p \<longrightarrow> prep_RuntimeBackend p = b) s"
    by (rule wp_mono [OF executor.prepare_own [OF resolved_executor [OF assms]]]) (simp add: prepared_for_def)
  ultimately show ?thesis by (rule wp_mono [OF wp_conj]) simp
qed

text \<open>Preparing does not depend on what starting, killing or creating a directory would do.\<close>

lemma prepare_ignores:
  assumes "h = host\<lparr>host_Start := st, host_Kill := k, host_MkdirAll := mk\<rparr>"
  shows "(case StaticExecutorResolver (system_host h) b of
      Inl e \<Rightarrow> f e | Inr E \<Rightarrow> State_Monad.bind (exec_Prepare E spec) c) =
    (case StaticExecutorResolver (system_host host) b of
      Inl e \<Rightarrow> f e | Inr E \<Rightarrow> State_Monad.bind (exec_Prepare E spec) c)"
proof -
  have missing: "artifact_missing (system_host h) = artifact_missing (system_host host)"
    by (simp add: fun_eq_iff artifact_missing_def assms)
  have "kvm_Prepare (system_host h) = kvm_Prepare (system_host host)"
    "ch_Prepare (system_host h) = ch_Prepare (system_host host)"
    unfolding fun_eq_iff kvm_Prepare_def ch_Prepare_def missing by (rule allI, rule refl)+
  then show ?thesis
    by (simp add: StaticExecutorResolver_def KvmExecutor_def CloudHypervisorExecutor_def)
qed

text \<open>
  C34: A dry run leaves no trace: it changes neither store, its answer is the same for every content
  of the database, and its run does not depend on what starting or killing a process or creating a
  directory would do. A prepared launch is in the answer
  only when the spec is valid on the node, and then it is for the backend the validation selected.
\<close>
theorem DryRunLaunch_no_effect:
  "wp (DryRunLaunch host bound)
     (\<lambda>reply s'. sys_mem s' = sys_mem s \<and> sys_db s' = sys_db s \<and>
        (case reply of
           Reply code res \<Rightarrow> code = 200 \<and>
             (case dry_PreparedLaunch res of None \<Rightarrow> True
              | Some p \<Rightarrow> val_IsValid (dry_Validation res) \<and>
                  prep_RuntimeBackend p = val_SelectedBackend (dry_Validation res))
         | ErrorReply code msg details \<Rightarrow> code = (case bound of Inl _ \<Rightarrow> 400 | Inr _ \<Rightarrow> 404)
         | PanicReply \<Rightarrow> False)) s \<and>
   fst (run_state (DryRunLaunch host bound) (s\<lparr>sys_db := db\<rparr>)) = fst (run_state (DryRunLaunch host bound) s) \<and>
   DryRunLaunch (host\<lparr>host_Start := st, host_Kill := k, host_MkdirAll := mk\<rparr>) bound = DryRunLaunch host bound"
  (is "wp _ ?Q s \<and> _")
proof (intro conjI)
  have "blind (DryRunLaunch host bound)"
    unfolding DryRunLaunch_def Let_def by (intro blind_intros blind_prepare; assumption)
  then show "fst (run_state (DryRunLaunch host bound) (s\<lparr>sys_db := db\<rparr>)) = fst (run_state (DryRunLaunch host bound) s)"
    by (simp add: blind_def with_db_def)
  show "wp (DryRunLaunch host bound) ?Q s"
    unfolding DryRunLaunch_def Let_def
    by (intro wp_sumI wp_retI wp_bindI, simp, subst wp_on_nodes, intro wp_ifI wp_sumI wp_retI wp_bindI,
        simp, simp, simp add: failed_preparation_def, rule wp_mono [OF prepare_changes_nothing], assumption)
      (auto simp: failed_preparation_def split: sum.split)
  show "DryRunLaunch (host\<lparr>host_Start := st, host_Kill := k, host_MkdirAll := mk\<rparr>) bound = DryRunLaunch host bound"
    unfolding DryRunLaunch_def Let_def by (simp only: prepare_ignores [OF refl])
qed

text \<open>
  C35: An accepted envelope is what the control plane then believes of its node: the projected record
  replaces the node's old one, every other node is kept, and the store stays well formed. A malformed
  body is refused with 400 and an envelope the projection panics on with 500; neither changes
  anything.
\<close>
theorem Ingest_updates_node:
  assumes "mem_ok store"
  shows "case Ingest now bound store of (reply, store') \<Rightarrow> mem_ok store' \<and>
     (case bound of
        Inl err \<Rightarrow> reply = ErrorReply 400 ''Schema validation failed'' (Some err) \<and> store' = store
      | Inr env \<Rightarrow>
          if ProjectEnvelope now env = Inr (projected now env)
          then reply = Reply 200 (''accepted'', env_CollectionID env) \<and>
            (\<forall>i. GetNode i store' = (if i = env_NodeID env then (projected now env, None) else GetNode i store))
          else reply = PanicReply \<and> store' = store)"
proof (cases bound)
  case (Inl err)
  then show ?thesis using assms by (simp add: Ingest_def)
next
  case (Inr env)
  have id: "node_ID (projected now env) = env_NodeID env" by simp
  show ?thesis
  proof (cases "ProjectEnvelope now env")
    case (Inl panic)
    then show ?thesis using Inr assms by (simp add: Ingest_def)
  next
    case (Inr rec)
    then have "rec = projected now env" by (simp add: ProjectEnvelope_eq split: if_splits)
    with Inr \<open>bound = Inr env\<close> assms id show ?thesis
      by (simp add: Ingest_def mem_ok_SaveNodeState projected_ok)
        (simp add: SaveNodeState_def GetNode_def mget_mput)
  qed
qed

theorem Ingest_updates_node_witness:
  "GetNode ''n1'' (snd (Ingest 1010 (Inr sample_envelope) NewInMemoryStore)) = (sample_node, None)"
  using Ingest_updates_node [OF mem_ok_new, of 1010 "Inr sample_envelope"]
  by (simp add: sample_projects sample_node_def case_prod_unfold)

end
