(* ===== verification/Launch_Log.thy ===== *)
theory Launch_Log
  imports Orchestrator
begin

text \<open>
  A recording world for the orchestrator: the interface calls are logged in the order they happen,
  with their arguments and results, and nothing else changes (\<open>erases_StartLaunch\<close>). The protocol of
  a launch, \<open>launch_protocol\<close>, is the abstract specification of \<^verbatim>\<open>StartLaunch\<close>: which calls a launch
  makes, in which order, and what it has saved after each.
\<close>

section \<open>Recording interface calls\<close>

datatype Effect =
    NodeRead string "NodeRecord \<times> go_error option"
  | Saved LaunchExecutionRecord
  | Loaded string "LaunchExecutionRecord \<times> bool \<times> go_error option"
  | Emitted RuntimeEvent
  | Resolved string
  | PrepareCall LaunchSpec "go_error + PreparedLaunch"
  | ExecuteCall PreparedLaunch "go_error + int"
  | TerminateCall int "go_error option"

definition unlogged :: "('w, 'a) state \<Rightarrow> ('w \<times> Effect list, 'a) state" where
  "unlogged m = State (\<lambda>(w, l). case run_state m w of (a, w') \<Rightarrow> (a, (w', l)))"

definition logged :: "('a \<Rightarrow> Effect) \<Rightarrow> ('w, 'a) state \<Rightarrow> ('w \<times> Effect list, 'a) state" where
  "logged e m = State (\<lambda>(w, l). case run_state m w of (a, w') \<Rightarrow> (a, (w', l @ [e a])))"

definition recording_host :: "'w Host \<Rightarrow> ('w \<times> Effect list) Host" where
  "recording_host host =
     \<lparr>host_Now = unlogged (host_Now host), host_NewUUID = unlogged (host_NewUUID host),
      host_FindProcess = (\<lambda>p. unlogged (host_FindProcess host p)),
      host_Signal0 = (\<lambda>p. unlogged (host_Signal0 host p)),
      host_Kill = (\<lambda>p. unlogged (host_Kill host p)),
      host_StatIsSocket = (\<lambda>p. unlogged (host_StatIsSocket host p)),
      host_DialUnix = (\<lambda>p. unlogged (host_DialUnix host p)),
      host_MkdirAll = (\<lambda>p. unlogged (host_MkdirAll host p)),
      host_Start = (\<lambda>b args. unlogged (host_Start host b args))\<rparr>"

definition recording_exec :: "'w Executor \<Rightarrow> ('w \<times> Effect list) Executor" where
  "recording_exec E =
     \<lparr>exec_Prepare = (\<lambda>spec. logged (PrepareCall spec) (exec_Prepare E spec)),
      exec_Execute = (\<lambda>p. logged (ExecuteCall p) (exec_Execute E p)),
      exec_Terminate = (\<lambda>pid. logged (TerminateCall pid) (exec_Terminate E pid))\<rparr>"

definition mapped :: "('a \<Rightarrow> 'b) \<Rightarrow> ('w, 'a) state \<Rightarrow> ('w, 'b) state" where
  "mapped f m = do { a \<leftarrow> m; ret (f a) }"

definition recording :: "'w LaunchOrchestrator \<Rightarrow> ('w \<times> Effect list) LaunchOrchestrator" where
  "recording orc =
     \<lparr>orc_GetNode = (\<lambda>i. logged (NodeRead i) (orc_GetNode orc i)),
      orc_SaveExecution = (\<lambda>r. logged (\<lambda>_. Saved r) (orc_SaveExecution orc r)),
      orc_GetExecution = (\<lambda>i. logged (Loaded i) (orc_GetExecution orc i)),
      orc_AppendEvent = map_option (\<lambda>f ev. logged (\<lambda>_. Emitted ev) (f ev)) (orc_AppendEvent orc),
      orc_Resolve = (\<lambda>b. mapped (map_sum id recording_exec) (logged (\<lambda>_. Resolved b) (orc_Resolve orc b)))\<rparr>"

lemma recording_simps [simp]:
  "host_Now (recording_host host) = unlogged (host_Now host)"
  "host_NewUUID (recording_host host) = unlogged (host_NewUUID host)"
  "exec_Prepare (recording_exec E) spec = logged (PrepareCall spec) (exec_Prepare E spec)"
  "exec_Execute (recording_exec E) p = logged (ExecuteCall p) (exec_Execute E p)"
  "exec_Terminate (recording_exec E) pid = logged (TerminateCall pid) (exec_Terminate E pid)"
  "orc_GetNode (recording orc) i = logged (NodeRead i) (orc_GetNode orc i)"
  "orc_SaveExecution (recording orc) r = logged (\<lambda>_. Saved r) (orc_SaveExecution orc r)"
  "orc_GetExecution (recording orc) i = logged (Loaded i) (orc_GetExecution orc i)"
  "orc_AppendEvent (recording orc) =
     map_option (\<lambda>f ev. logged (\<lambda>_. Emitted ev) (f ev)) (orc_AppendEvent orc)"
  "orc_Resolve (recording orc) b =
     mapped (map_sum id recording_exec) (logged (\<lambda>_. Resolved b) (orc_Resolve orc b))"
  by (simp_all add: recording_host_def recording_exec_def recording_def)

section \<open>Recording changes nothing else\<close>

text \<open>
  \<open>erases_by f m m'\<close>: run on a recording world, \<open>m'\<close> does to the world what \<open>m\<close> does and returns the
  image of its result under \<open>f\<close>.
\<close>

definition erases_by :: "('a \<Rightarrow> 'b) \<Rightarrow> ('w, 'a) state \<Rightarrow> ('w \<times> Effect list, 'b) state \<Rightarrow> bool" where
  "erases_by f m m' \<longleftrightarrow>
     (\<forall>w l. \<exists>l'. run_state m' (w, l) = (f (fst (run_state m w)), (snd (run_state m w), l')))"

abbreviation erases :: "('w, 'a) state \<Rightarrow> ('w \<times> Effect list, 'a) state \<Rightarrow> bool" where
  "erases \<equiv> erases_by (\<lambda>a. a)"

named_theorems erases_intros "rules for the erasure of the log"

lemma erases_by_ret: "b = f a \<Longrightarrow> erases_by f (ret a) (ret b)"
  by (simp add: erases_by_def)

lemma erases_ret [erases_intros]: "erases (ret a) (ret a)"
  by (simp add: erases_by_def)

lemma erases_by_bind:
  assumes "erases_by f m m'" and "\<And>a. erases_by g (k a) (k' (f a))"
  shows "erases_by g (State_Monad.bind m k) (State_Monad.bind m' k')"
  unfolding erases_by_def
proof (intro allI)
  fix w l
  obtain a w1 where m: "run_state m w = (a, w1)" by (cases "run_state m w")
  then obtain l1 where m': "run_state m' (w, l) = (f a, (w1, l1))"
    using assms(1) [unfolded erases_by_def, rule_format, of w l] by auto
  show "\<exists>l'. run_state (State_Monad.bind m' k') (w, l) =
      (g (fst (run_state (State_Monad.bind m k) w)), (snd (run_state (State_Monad.bind m k) w), l'))"
    using assms(2) [of a] m m' by (simp add: erases_by_def)
qed

lemma erases_bind [erases_intros]:
  "erases m m' \<Longrightarrow> (\<And>a. erases_by g (k a) (k' a)) \<Longrightarrow>
   erases_by g (State_Monad.bind m k) (State_Monad.bind m' k')"
  by (rule erases_by_bind)

lemma erases_unlogged [erases_intros]: "erases m (unlogged m)"
  by (simp add: erases_by_def unlogged_def split: prod.splits)

lemma erases_logged [erases_intros]: "erases m (logged e m)"
  by (simp add: erases_by_def logged_def split: prod.splits)

lemma erases_mapped_logged: "erases_by f m (mapped f (logged e m))"
  by (simp add: erases_by_def logged_def mapped_def split: prod.splits)

lemma erases_if [erases_intros]:
  "(b \<Longrightarrow> erases_by f m m') \<Longrightarrow> (\<not> b \<Longrightarrow> erases_by f n n') \<Longrightarrow>
   erases_by f (if b then m else n) (if b then m' else n')"
  by simp

lemma erases_option [erases_intros]:
  "(x = None \<Longrightarrow> erases_by f m m') \<Longrightarrow> (\<And>y. x = Some y \<Longrightarrow> erases_by f (k y) (k' y)) \<Longrightarrow>
   erases_by f (case x of None \<Rightarrow> m | Some y \<Rightarrow> k y) (case x of None \<Rightarrow> m' | Some y \<Rightarrow> k' y)"
  by (cases x) simp_all

lemma erases_sum [erases_intros]:
  "(\<And>y. x = Inl y \<Longrightarrow> erases_by f (m y) (m' y)) \<Longrightarrow> (\<And>y. x = Inr y \<Longrightarrow> erases_by f (k y) (k' y)) \<Longrightarrow>
   erases_by f (case x of Inl y \<Rightarrow> m y | Inr y \<Rightarrow> k y) (case x of Inl y \<Rightarrow> m' y | Inr y \<Rightarrow> k' y)"
  by (cases x) simp_all

lemma erases_AppendTrace [erases_intros]:
  "erases (AppendTrace host rec st s c m) (AppendTrace (recording_host host) rec st s c m)"
  unfolding AppendTrace_def recording_simps by (intro erases_intros)

lemma erases_transition [erases_intros]:
  "erases (transition host rec n c m) (transition (recording_host host) rec n c m)"
  unfolding transition_def TransitionTo_def by (intro erases_intros)

lemma erases_save [erases_intros]: "erases (save orc rec) (save (recording orc) rec)"
  unfolding save_def recording_simps by (intro erases_intros)

lemma erases_emitEvent [erases_intros]:
  "erases (emitEvent host orc t rec c m) (emitEvent (recording_host host) (recording orc) t rec c m)"
  by (cases "orc_AppendEvent orc")
    (simp_all only: emitEvent_def Let_def recording_simps option.case option.map, (intro erases_intros)+)

lemma erases_initializeRecord [erases_intros]:
  "erases (initializeRecord host orc spec)
     (initializeRecord (recording_host host) (recording orc) spec)"
  unfolding initializeRecord_def recording_simps Let_def by (intro erases_intros)

lemma erases_validateAndRecord [erases_intros]:
  "erases (validateAndRecord host orc spec rec)
     (validateAndRecord (recording_host host) (recording orc) spec rec)"
  unfolding validateAndRecord_def fail_validation_def recording_simps Let_def
  by (intro erases_intros)

lemma erases_spawnAndRecord [erases_intros]:
  "erases (spawnAndRecord host orc spec rec E)
     (spawnAndRecord (recording_host host) (recording orc) spec rec (recording_exec E))"
  unfolding spawnAndRecord_def complete_dry_run_def execute_prepared_def recording_simps Let_def
  by (intro erases_intros)

lemma erases_resolve:
  "erases_by (map_sum id recording_exec) (orc_Resolve orc b) (orc_Resolve (recording orc) b)"
  by (simp add: erases_mapped_logged)

abbreviation recording_result ::
    "LaunchExecutionRecord \<times> 'w Executor option \<Rightarrow> LaunchExecutionRecord \<times> ('w \<times> Effect list) Executor option" where
  "recording_result \<equiv> map_prod (\<lambda>r. r) (map_option recording_exec)"

lemma erases_fail_preparation:
  "erases_by recording_result (fail_preparation host orc rec msg)
     (fail_preparation (recording_host host) (recording orc) rec msg)"
  unfolding fail_preparation_def by (intro erases_intros erases_by_ret) simp

lemma erases_prepareAndRecord:
  "erases_by recording_result (prepareAndRecord host orc spec rec)
     (prepareAndRecord (recording_host host) (recording orc) spec rec)"
  unfolding prepareAndRecord_def recording_simps(6) Let_def
proof (intro erases_bind erases_AppendTrace erases_logged erases_by_bind [OF erases_resolve])
  fix r1 nodeRes and resolved :: "go_error + 'a Executor"
  show "erases_by recording_result
     (case resolved of
        Inl err \<Rightarrow> fail_preparation host orc r1
            (''Failed to resolve executor for backend '' @ fst (SelectBackend spec (fst nodeRes)) @ '': '' @ err)
      | Inr exec \<Rightarrow> do {
          prepared \<leftarrow> exec_Prepare exec spec;
          (case prepared of
             Inl err \<Rightarrow> fail_preparation host orc r1 err
           | Inr prep \<Rightarrow> do {
               r2 \<leftarrow> AppendTrace host (r1\<lparr>rec_PreparedState := Some prep\<rparr>) ''ArtifactResolution'' ''Success''
                       '''' ''Artifacts resolved and runtime contract generated'';
               r3 \<leftarrow> transition host r2 StateValidated '''' ''Ready for launch'';
               _ \<leftarrow> save orc r3;
               _ \<leftarrow> emitEvent host orc EventTypePreparationPassed r3 '''' ''Ready for launch'';
               ret (r3, Some exec)
             })
        })
     (case map_sum id recording_exec resolved of
        Inl err \<Rightarrow> fail_preparation (recording_host host) (recording orc) r1
            (''Failed to resolve executor for backend '' @ fst (SelectBackend spec (fst nodeRes)) @ '': '' @ err)
      | Inr exec \<Rightarrow> do {
          prepared \<leftarrow> exec_Prepare exec spec;
          (case prepared of
             Inl err \<Rightarrow> fail_preparation (recording_host host) (recording orc) r1 err
           | Inr prep \<Rightarrow> do {
               r2 \<leftarrow> AppendTrace (recording_host host) (r1\<lparr>rec_PreparedState := Some prep\<rparr>)
                       ''ArtifactResolution'' ''Success'' '''' ''Artifacts resolved and runtime contract generated'';
               r3 \<leftarrow> transition (recording_host host) r2 StateValidated '''' ''Ready for launch'';
               _ \<leftarrow> save (recording orc) r3;
               _ \<leftarrow> emitEvent (recording_host host) (recording orc) EventTypePreparationPassed r3 ''''
                      ''Ready for launch'';
               ret (r3, Some exec)
             })
        })"
  proof (cases resolved)
    case (Inl e)
    then show ?thesis by (simp add: erases_fail_preparation)
  next
    case (Inr E)
    then show ?thesis
      by (simp, intro erases_intros erases_fail_preparation) (simp add: erases_by_ret)
  qed
qed

text \<open>Logging the interface calls of a launch does not change the launch.\<close>

lemma erases_StartLaunch:
  "erases (StartLaunch host orc spec) (StartLaunch (recording_host host) (recording orc) spec)"
  unfolding StartLaunch_def
  apply (intro erases_intros)
  apply (rule erases_by_bind [OF erases_prepareAndRecord])
  subgoal for r0 u v p by (cases "snd p") (auto intro: erases_intros)
  done

section \<open>Weakest preconditions over the log\<close>

text \<open>
  The rules below run a recorded operation forward: what the host and the interfaces return is
  arbitrary, what is appended to the log is known. Events are left out of the core of the log.
\<close>

fun is_event :: "Effect \<Rightarrow> bool" where
  "is_event (Emitted ev) = True"
| "is_event _ = False"

definition core :: "Effect list \<Rightarrow> Effect list" where
  "core l = filter (\<lambda>e. \<not> is_event e) l"

lemma core_simps [simp]:
  "core [] = []" "core (xs @ ys) = core xs @ core ys"
  "core (e # xs) = (if is_event e then core xs else e # core xs)"
  by (simp_all add: core_def)

named_theorems log_intros "forward rules over the log"

lemma log_unlogged [log_intros]: "(\<And>a w'. Q a (w', l)) \<Longrightarrow> wp (unlogged m) Q (w, l)"
  by (simp add: wp_def unlogged_def split: prod.splits)

lemma log_logged [log_intros]: "(\<And>a w'. Q a (w', l @ [e a])) \<Longrightarrow> wp (logged e m) Q (w, l)"
  by (simp add: wp_def logged_def split: prod.splits)

lemma log_mapped [log_intros]: "wp m (\<lambda>a. Q (f a)) w \<Longrightarrow> wp (mapped f m) Q w"
  by (simp add: mapped_def)

lemma log_AppendTrace [log_intros]:
  "(\<And>t w'. Q (traced st s c m t rec) (w', l)) \<Longrightarrow>
   wp (AppendTrace (recording_host host) rec st s c m) Q (w, l)"
  by (simp add: log_unlogged)

lemma log_transition [log_intros]:
  "(\<And>t w'. IsTransitionAllowed (rec_State rec) n \<Longrightarrow>
     Q (traced ''StateTransition'' ''Success'' c m t (rec\<lparr>rec_State := n\<rparr>)) (w', l)) \<Longrightarrow>
   (\<not> IsTransitionAllowed (rec_State rec) n \<Longrightarrow> Q rec (w, l)) \<Longrightarrow>
   wp (transition (recording_host host) rec n c m) Q (w, l)"
  by (simp add: transition_def log_unlogged)

lemma log_save [log_intros]: "(\<And>w'. Q () (w', l @ [Saved rec])) \<Longrightarrow> wp (save (recording orc) rec) Q (w, l)"
  by (simp add: save_def log_logged)

lemma log_emitEvent [log_intros]:
  assumes "\<And>w' l'. core l' = core l \<Longrightarrow> Q () (w', l')"
  shows "wp (emitEvent (recording_host host) (recording orc) t rec c m) Q (w, l)"
proof (cases "orc_AppendEvent orc")
  case None
  then show ?thesis using assms [of l] by (simp add: emitEvent_def)
next
  case (Some f)
  have one: "Q () (w', l @ [Emitted ev])" for w' ev
    by (rule assms) simp
  show ?thesis
    unfolding emitEvent_def recording_simps Some option.map option.case Let_def
    by (intro wp_bindI log_intros wp_retI one)
qed

section \<open>The protocol of a launch\<close>

text \<open>
  \<open>continues s r r'\<close>: the record \<open>r'\<close> is a later version of \<open>r\<close>, now in state \<open>s\<close>. It belongs to the
  same execution and its trace extends that of \<open>r\<close>.
\<close>

definition continues :: "LaunchState \<Rightarrow> LaunchExecutionRecord \<Rightarrow> LaunchExecutionRecord \<Rightarrow> bool" where
  "continues s r r' \<longleftrightarrow>
     rec_State r' = s \<and> rec_ExecutionID r' = rec_ExecutionID r \<and> rec_WorkloadID r' = rec_WorkloadID r \<and>
     rec_NodeID r' = rec_NodeID r \<and> rec_Spec r' = rec_Spec r \<and> rec_CreatedAtSec r' = rec_CreatedAtSec r \<and>
     strict_prefix (rec_Trace r) (rec_Trace r')"

definition continues_from :: "LaunchExecutionRecord \<Rightarrow> LaunchExecutionRecord \<Rightarrow> bool" where
  "continues_from r r' \<longleftrightarrow>
     rec_ExecutionID r' = rec_ExecutionID r \<and> rec_WorkloadID r' = rec_WorkloadID r \<and>
     rec_NodeID r' = rec_NodeID r \<and> rec_Spec r' = rec_Spec r \<and> rec_CreatedAtSec r' = rec_CreatedAtSec r \<and>
     prefix (rec_Trace r) (rec_Trace r')"

definition begun :: "LaunchSpec \<Rightarrow> LaunchExecutionRecord \<Rightarrow> bool" where
  "begun spec r \<longleftrightarrow>
     rec_State r = StatePending \<and> rec_Spec r = spec \<and> rec_WorkloadID r = spec_WorkloadID spec \<and>
     rec_NodeID r = spec_NodeID spec \<and> rec_PID r = None \<and> rec_PreparedState r = None \<and>
     rec_StartedAtSec r = None \<and> length (rec_Trace r) = 1"

definition dry_mode :: "LaunchSpec \<Rightarrow> bool" where
  "dry_mode spec \<longleftrightarrow> spec_LaunchMode spec = ''DryRun'' \<or> spec_LaunchMode spec = ''Validate''"

inductive launch_protocol :: "LaunchSpec \<Rightarrow> Effect list \<Rightarrow> LaunchExecutionRecord \<Rightarrow> bool"
  for spec where
  rejected:
    "begun spec r0 \<Longrightarrow> err \<noteq> None \<or> \<not> val_IsValid (ValidateLaunch spec node) \<Longrightarrow>
     continues StateFailed r0 r \<Longrightarrow> rec_PID r = None \<Longrightarrow> rec_PreparedState r = None \<Longrightarrow>
     launch_protocol spec [Saved r0, NodeRead (spec_NodeID spec) (node, err), Saved r] r"
| unresolved:
    "begun spec r0 \<Longrightarrow> val_IsValid (ValidateLaunch spec node) \<Longrightarrow>
     continues StatePreparing r0 r1 \<Longrightarrow> b = fst (SelectBackend spec (fst node2)) \<Longrightarrow>
     continues StateFailed r1 r \<Longrightarrow> rec_PID r = None \<Longrightarrow> rec_PreparedState r = None \<Longrightarrow>
     launch_protocol spec [Saved r0, NodeRead (spec_NodeID spec) (node, None), Saved r1,
       NodeRead (spec_NodeID spec) node2, Resolved b, Saved r] r"
| unprepared:
    "begun spec r0 \<Longrightarrow> val_IsValid (ValidateLaunch spec node) \<Longrightarrow>
     continues StatePreparing r0 r1 \<Longrightarrow> b = fst (SelectBackend spec (fst node2)) \<Longrightarrow>
     continues StateFailed r1 r \<Longrightarrow> rec_PID r = None \<Longrightarrow> rec_PreparedState r = None \<Longrightarrow>
     launch_protocol spec [Saved r0, NodeRead (spec_NodeID spec) (node, None), Saved r1,
       NodeRead (spec_NodeID spec) node2, Resolved b, PrepareCall spec (Inl e), Saved r] r"
| dry_run:
    "begun spec r0 \<Longrightarrow> val_IsValid (ValidateLaunch spec node) \<Longrightarrow>
     continues StatePreparing r0 r1 \<Longrightarrow> b = fst (SelectBackend spec (fst node2)) \<Longrightarrow>
     continues StateValidated r1 r2 \<Longrightarrow> continues StateLaunching r2 r3 \<Longrightarrow>
     rec_PreparedState r2 = Some p \<Longrightarrow> dry_mode spec \<Longrightarrow>
     continues StateTerminated r3 r \<Longrightarrow> rec_PID r = None \<Longrightarrow> rec_PreparedState r = Some p \<Longrightarrow>
     launch_protocol spec [Saved r0, NodeRead (spec_NodeID spec) (node, None), Saved r1,
       NodeRead (spec_NodeID spec) node2, Resolved b, PrepareCall spec (Inr p), Saved r2, Saved r3,
       Saved r] r"
| spawn_failed:
    "begun spec r0 \<Longrightarrow> val_IsValid (ValidateLaunch spec node) \<Longrightarrow>
     continues StatePreparing r0 r1 \<Longrightarrow> b = fst (SelectBackend spec (fst node2)) \<Longrightarrow>
     continues StateValidated r1 r2 \<Longrightarrow> continues StateLaunching r2 r3 \<Longrightarrow>
     rec_PreparedState r2 = Some p \<Longrightarrow> \<not> dry_mode spec \<Longrightarrow>
     continues StateFailed r3 r \<Longrightarrow> rec_PID r = None \<Longrightarrow> rec_PreparedState r = Some p \<Longrightarrow>
     launch_protocol spec [Saved r0, NodeRead (spec_NodeID spec) (node, None), Saved r1,
       NodeRead (spec_NodeID spec) node2, Resolved b, PrepareCall spec (Inr p), Saved r2, Saved r3,
       ExecuteCall p (Inl e), Saved r] r"
| started:
    "begun spec r0 \<Longrightarrow> val_IsValid (ValidateLaunch spec node) \<Longrightarrow>
     continues StatePreparing r0 r1 \<Longrightarrow> b = fst (SelectBackend spec (fst node2)) \<Longrightarrow>
     continues StateValidated r1 r2 \<Longrightarrow> continues StateLaunching r2 r3 \<Longrightarrow>
     rec_PreparedState r2 = Some p \<Longrightarrow> \<not> dry_mode spec \<Longrightarrow>
     continues StateStarting r3 r \<Longrightarrow> rec_PID r = Some pid \<Longrightarrow> rec_StartedAtSec r \<noteq> None \<Longrightarrow>
     rec_PreparedState r = Some p \<Longrightarrow>
     launch_protocol spec [Saved r0, NodeRead (spec_NodeID spec) (node, None), Saved r1,
       NodeRead (spec_NodeID spec) node2, Resolved b, PrepareCall spec (Inr p), Saved r2, Saved r3,
       ExecuteCall p (Inr pid), Saved r] r"

section \<open>StartLaunch follows the protocol\<close>

lemma prefix_snoc_strict: "prefix xs ys \<Longrightarrow> strict_prefix xs (ys @ [z])"
  by (auto simp: strict_prefix_def dest: prefix_length_le)

lemma continues_traced [intro]:
  "rec_State r' = s \<Longrightarrow> rec_ExecutionID r' = rec_ExecutionID r \<Longrightarrow> rec_WorkloadID r' = rec_WorkloadID r \<Longrightarrow>
   rec_NodeID r' = rec_NodeID r \<Longrightarrow> rec_Spec r' = rec_Spec r \<Longrightarrow> rec_CreatedAtSec r' = rec_CreatedAtSec r \<Longrightarrow>
   prefix (rec_Trace r) (rec_Trace r') \<Longrightarrow> continues s r (traced st a c m t r')"
  by (simp add: continues_def prefix_snoc_strict)

lemma allowed_steps [simp]:
  "IsTransitionAllowed StatePending StatePreparing"
  "IsTransitionAllowed StatePreparing StateFailed"
  "IsTransitionAllowed StatePreparing StateValidated"
  "IsTransitionAllowed StateValidated StateLaunching"
  "IsTransitionAllowed StateLaunching StateTerminating"
  "IsTransitionAllowed StateTerminating StateTerminated"
  "IsTransitionAllowed StateLaunching StateFailed"
  "IsTransitionAllowed StateLaunching StateStarting"
  by (simp_all add: IsTransitionAllowed_def)

lemma log_allowed_transition [log_intros]:
  assumes "IsTransitionAllowed (rec_State rec) n"
    and "\<And>t w'. Q (traced ''StateTransition'' ''Success'' c m t (rec\<lparr>rec_State := n\<rparr>)) (w', l)"
  shows "wp (transition (recording_host host) rec n c m) Q (w, l)"
  using assms by (intro log_transition) simp_all

lemma zero_record_simps [simp]:
  "rec_PID zero_LaunchExecutionRecord = None" "rec_PreparedState zero_LaunchExecutionRecord = None"
  "rec_StartedAtSec zero_LaunchExecutionRecord = None"
  by (simp_all add: zero_LaunchExecutionRecord_def)

lemma initializeRecord_log:
  assumes "\<And>r w' l'. begun spec r \<Longrightarrow> core l' = core l \<Longrightarrow> Q r (w', l')"
  shows "wp (initializeRecord (recording_host host) (recording orc) spec) Q (w, l)"
  unfolding initializeRecord_def recording_simps Let_def
  by (intro wp_bindI log_unlogged log_AppendTrace log_emitEvent wp_retI assms)
    (simp_all add: begun_def)

lemma fail_validation_log:
  assumes "rec_State r0 = StatePending"
    and "\<And>r w' l'. continues StateFailed r0 r \<Longrightarrow> rec_PID r = rec_PID r0 \<Longrightarrow>
      rec_PreparedState r = rec_PreparedState r0 \<Longrightarrow> core l' = core l @ [Saved r] \<Longrightarrow> Q (r, False) (w', l')"
  shows "wp (fail_validation (recording_host host) (recording orc) r0 code msg) Q (w, l)"
  unfolding fail_validation_def
  by (intro wp_bindI log_allowed_transition log_save log_emitEvent wp_retI assms(2))
    (auto simp: assms(1))

lemma validateAndRecord_log:
  assumes "begun spec r0"
    and "\<And>node err r w' l'. err \<noteq> None \<or> \<not> val_IsValid (ValidateLaunch spec node) \<Longrightarrow>
      continues StateFailed r0 r \<Longrightarrow> rec_PID r = None \<Longrightarrow> rec_PreparedState r = None \<Longrightarrow>
      core l' = core l @ [NodeRead (spec_NodeID spec) (node, err), Saved r] \<Longrightarrow> Q (r, False) (w', l')"
    and "\<And>node r w' l'. val_IsValid (ValidateLaunch spec node) \<Longrightarrow>
      continues StatePreparing r0 r \<Longrightarrow> rec_PID r = None \<Longrightarrow> rec_PreparedState r = None \<Longrightarrow>
      core l' = core l @ [NodeRead (spec_NodeID spec) (node, None), Saved r] \<Longrightarrow> Q (r, True) (w', l')"
  shows "wp (validateAndRecord (recording_host host) (recording orc) spec r0) Q (w, l)"
proof -
  have r0: "rec_State r0 = StatePending" "rec_PID r0 = None" "rec_PreparedState r0 = None"
    using assms(1) by (simp_all add: begun_def)
  have fail: "wp (fail_validation (recording_host host) (recording orc) r0 code msg) Q
      (w', l @ [NodeRead (spec_NodeID spec) nodeRes])"
    if "snd nodeRes \<noteq> None \<or> \<not> val_IsValid (ValidateLaunch spec (fst nodeRes))" for code msg w' nodeRes
    by (rule fail_validation_log [OF r0(1)], rule assms(2) [where node = "fst nodeRes" and err = "snd nodeRes"])
      (use that in \<open>simp_all add: r0\<close>)
  show ?thesis
    unfolding validateAndRecord_def recording_simps Let_def
    by (intro wp_bindI log_logged wp_ifI fail log_allowed_transition log_save log_emitEvent wp_retI)
      (auto simp: r0 intro!: assms(3))
qed

lemma fail_preparation_log:
  assumes "rec_State r1 = StatePreparing" and "continues_from r0 r1"
    and "\<And>r w' l'. continues StateFailed r0 r \<Longrightarrow> rec_PID r = rec_PID r1 \<Longrightarrow>
      rec_PreparedState r = rec_PreparedState r1 \<Longrightarrow> core l' = core l @ [Saved r] \<Longrightarrow> Q (r, None) (w', l')"
  shows "wp (fail_preparation (recording_host host) (recording orc) r1 msg) Q (w, l)"
  unfolding fail_preparation_def
  by (intro wp_bindI log_allowed_transition log_save log_emitEvent wp_retI assms(3))
    (use assms(2) in \<open>auto simp: assms(1) continues_from_def\<close>)

lemma prepareAndRecord_log:
  assumes r1: "rec_State r1 = StatePreparing" "rec_PID r1 = None" "rec_PreparedState r1 = None"
    and "\<And>node b r w' l'. b = fst (SelectBackend spec (fst node)) \<Longrightarrow>
      continues StateFailed r1 r \<Longrightarrow> rec_PID r = None \<Longrightarrow> rec_PreparedState r = None \<Longrightarrow>
      core l' = core l @ [NodeRead (spec_NodeID spec) node, Resolved b, Saved r] \<Longrightarrow> Q (r, None) (w', l')"
    and "\<And>node b e r w' l'. b = fst (SelectBackend spec (fst node)) \<Longrightarrow>
      continues StateFailed r1 r \<Longrightarrow> rec_PID r = None \<Longrightarrow> rec_PreparedState r = None \<Longrightarrow>
      core l' = core l @ [NodeRead (spec_NodeID spec) node, Resolved b, PrepareCall spec (Inl e), Saved r] \<Longrightarrow>
      Q (r, None) (w', l')"
    and "\<And>node b p E r w' l'. b = fst (SelectBackend spec (fst node)) \<Longrightarrow>
      continues StateValidated r1 r \<Longrightarrow> rec_PID r = None \<Longrightarrow> rec_PreparedState r = Some p \<Longrightarrow>
      core l' = core l @ [NodeRead (spec_NodeID spec) node, Resolved b, PrepareCall spec (Inr p), Saved r] \<Longrightarrow>
      Q (r, Some (recording_exec E)) (w', l')"
  shows "wp (prepareAndRecord (recording_host host) (recording orc) spec r1) Q (w, l)"
  unfolding prepareAndRecord_def recording_simps(6,10) Let_def
proof (intro wp_bindI log_AppendTrace log_logged log_mapped)
  fix t and w0 :: 'a and node :: "NodeRecord \<times> go_error option" and w1 :: 'a
    and resolved :: "go_error + 'a Executor" and w2 :: 'a
  let ?r = "traced ''ArtifactResolution'' ''Pending'' '''' ''Preparing artifact and command execution'' t r1"
  let ?b = "fst (SelectBackend spec (fst node))"
  let ?l = "(l @ [NodeRead (spec_NodeID spec) node]) @ [Resolved ?b]"
  have later: "continues_from r1 ?r" by (simp add: continues_from_def)
  show "wp (case map_sum id recording_exec resolved of
        Inl err \<Rightarrow> fail_preparation (recording_host host) (recording orc) ?r
                    (''Failed to resolve executor for backend '' @ ?b @ '': '' @ err)
      | Inr exec \<Rightarrow> do {
          prepared \<leftarrow> exec_Prepare exec spec;
          (case prepared of
             Inl err \<Rightarrow> fail_preparation (recording_host host) (recording orc) ?r err
           | Inr prep \<Rightarrow> do {
               r2 \<leftarrow> AppendTrace (recording_host host) (?r\<lparr>rec_PreparedState := Some prep\<rparr>)
                       ''ArtifactResolution'' ''Success'' '''' ''Artifacts resolved and runtime contract generated'';
               r3 \<leftarrow> transition (recording_host host) r2 StateValidated '''' ''Ready for launch'';
               _ \<leftarrow> save (recording orc) r3;
               _ \<leftarrow> emitEvent (recording_host host) (recording orc) EventTypePreparationPassed r3 ''''
                      ''Ready for launch'';
               ret (r3, Some exec)
             })
        }) Q (w2, ?l)"
  proof (cases resolved)
    case (Inl e)
    then show ?thesis
      by (simp, intro fail_preparation_log [OF _ later] assms(4) [where b = ?b and node = node])
        (simp_all add: r1)
  next
    case (Inr E)
    show ?thesis
      unfolding Inr map_sum.simps sum.case recording_simps
    proof (rule wp_bindI, intro log_logged wp_sumI)
      fix prepared :: "go_error + PreparedLaunch" and w3 e
      assume "prepared = Inl e"
      then show "wp (fail_preparation (recording_host host) (recording orc) ?r e) Q
          (w3, ?l @ [PrepareCall spec prepared])"
        by (intro fail_preparation_log [OF _ later] assms(5) [where b = ?b and node = node and e = e])
          (simp_all add: r1)
    next
      fix prepared :: "go_error + PreparedLaunch" and w3 p
      assume "prepared = Inr p"
      then show "wp (do {
           r2 \<leftarrow> AppendTrace (recording_host host) (?r\<lparr>rec_PreparedState := Some p\<rparr>)
                   ''ArtifactResolution'' ''Success'' '''' ''Artifacts resolved and runtime contract generated'';
           r3 \<leftarrow> transition (recording_host host) r2 StateValidated '''' ''Ready for launch'';
           _ \<leftarrow> save (recording orc) r3;
           _ \<leftarrow> emitEvent (recording_host host) (recording orc) EventTypePreparationPassed r3 ''''
                  ''Ready for launch'';
           ret (r3, Some (recording_exec E))
         }) Q (w3, ?l @ [PrepareCall spec prepared])"
        by (intro wp_bindI log_AppendTrace log_allowed_transition log_save log_emitEvent wp_retI
            assms(6) [where b = ?b and node = node and p = p])
          (auto simp: r1)
    qed
  qed
qed

lemma complete_dry_run_log:
  assumes r3: "rec_State r3 = StateLaunching"
    and "\<And>r w' l'. continues StateTerminated r3 r \<Longrightarrow> rec_PID r = rec_PID r3 \<Longrightarrow>
      rec_PreparedState r = rec_PreparedState r3 \<Longrightarrow> core l' = core l @ [Saved r] \<Longrightarrow> Q r (w', l')"
  shows "wp (complete_dry_run (recording_host host) (recording orc) r3) Q (w, l)"
  unfolding complete_dry_run_def
  by (intro wp_bindI log_allowed_transition log_save log_emitEvent wp_retI assms(2))
    (auto simp: r3)

lemma execute_prepared_log:
  assumes r3: "rec_State r3 = StateLaunching" "rec_PreparedState r3 = Some p"
    and "\<And>r e w' l'. continues StateFailed r3 r \<Longrightarrow> rec_PID r = rec_PID r3 \<Longrightarrow>
      rec_PreparedState r = Some p \<Longrightarrow>
      core l' = core l @ [ExecuteCall p (Inl e), Saved r] \<Longrightarrow> Q r (w', l')"
    and "\<And>r pid w' l'. continues StateStarting r3 r \<Longrightarrow> rec_PID r = Some pid \<Longrightarrow>
      rec_StartedAtSec r \<noteq> None \<Longrightarrow> rec_PreparedState r = Some p \<Longrightarrow>
      core l' = core l @ [ExecuteCall p (Inr pid), Saved r] \<Longrightarrow> Q r (w', l')"
  shows "wp (execute_prepared (recording_host host) (recording orc) r3 (recording_exec E)) Q (w, l)"
  unfolding execute_prepared_def recording_simps Let_def r3(2) option.case
proof (rule wp_bindI, intro log_logged wp_sumI)
  fix started :: "go_error + int" and w1 e
  assume "started = Inl e"
  then show "wp (do {
       r2 \<leftarrow> transition (recording_host host) r3 StateFailed ReasonErrExecRuntimeSpawnFailed e;
       _ \<leftarrow> save (recording orc) r2;
       _ \<leftarrow> emitEvent (recording_host host) (recording orc) EventTypeRuntimeSpawnFailed r2
              ReasonErrExecRuntimeSpawnFailed e;
       ret r2
     }) Q (w1, l @ [ExecuteCall p started])"
    by (intro wp_bindI log_allowed_transition log_save log_emitEvent wp_retI assms(3)) (auto simp: r3)
next
  fix started :: "go_error + int" and w1 pid
  assume "started = Inr pid"
  then show "wp (do {
       startedTime \<leftarrow> unlogged (host_Now host);
       r2 \<leftarrow> transition (recording_host host)
               (r3\<lparr>rec_PID := Some pid, rec_StartedAtSec := Some startedTime\<rparr>) StateStarting ''''
               (''Process successfully spawned (PID '' @ itoa pid @ '')'');
       _ \<leftarrow> save (recording orc) r2;
       _ \<leftarrow> emitEvent (recording_host host) (recording orc) EventTypeRuntimeSpawned r2 ''''
              (''Process successfully spawned (PID '' @ itoa pid @ '')'');
       ret r2
     }) Q (w1, l @ [ExecuteCall p started])"
    by (intro wp_bindI log_unlogged log_allowed_transition log_save log_emitEvent wp_retI assms(4))
      (auto simp: r3)
qed

lemma spawnAndRecord_log:
  assumes r2: "rec_State r2 = StateValidated" "rec_PID r2 = None" "rec_PreparedState r2 = Some p"
    and dry: "\<And>r3 r w' l'. dry_mode spec \<Longrightarrow> continues StateLaunching r2 r3 \<Longrightarrow>
      continues StateTerminated r3 r \<Longrightarrow> rec_PID r = None \<Longrightarrow> rec_PreparedState r = Some p \<Longrightarrow>
      core l' = core l @ [Saved r3, Saved r] \<Longrightarrow> Q r (w', l')"
    and failed: "\<And>r3 r e w' l'. \<not> dry_mode spec \<Longrightarrow> continues StateLaunching r2 r3 \<Longrightarrow>
      continues StateFailed r3 r \<Longrightarrow> rec_PID r = None \<Longrightarrow> rec_PreparedState r = Some p \<Longrightarrow>
      core l' = core l @ [Saved r3, ExecuteCall p (Inl e), Saved r] \<Longrightarrow> Q r (w', l')"
    and spawned: "\<And>r3 r pid w' l'. \<not> dry_mode spec \<Longrightarrow> continues StateLaunching r2 r3 \<Longrightarrow>
      continues StateStarting r3 r \<Longrightarrow> rec_PID r = Some pid \<Longrightarrow> rec_StartedAtSec r \<noteq> None \<Longrightarrow>
      rec_PreparedState r = Some p \<Longrightarrow>
      core l' = core l @ [Saved r3, ExecuteCall p (Inr pid), Saved r] \<Longrightarrow> Q r (w', l')"
  shows "wp (spawnAndRecord (recording_host host) (recording orc) spec r2 (recording_exec E)) Q (w, l)"
  unfolding spawnAndRecord_def dry_mode_def [symmetric]
proof (intro wp_bindI log_allowed_transition log_save)
  fix t w0 w1
  define r3 where "r3 = traced ''StateTransition'' ''Success'' ''''
    ''Spawning runtime process via executor'' t (r2\<lparr>rec_State := StateLaunching\<rparr>)"
  have r3: "continues StateLaunching r2 r3" "rec_State r3 = StateLaunching" "rec_PID r3 = None"
      "rec_PreparedState r3 = Some p"
    by (auto simp: r3_def r2)
  have "wp (if dry_mode spec then complete_dry_run (recording_host host) (recording orc) r3
      else execute_prepared (recording_host host) (recording orc) r3 (recording_exec E)) Q (w1, l @ [Saved r3])"
    by (intro wp_ifI complete_dry_run_log execute_prepared_log)
      (use r3 in \<open>auto intro: dry failed spawned\<close>)
  then show "wp (if dry_mode spec
      then complete_dry_run (recording_host host) (recording orc)
        (traced ''StateTransition'' ''Success'' '''' ''Spawning runtime process via executor'' t
          (r2\<lparr>rec_State := StateLaunching\<rparr>))
      else execute_prepared (recording_host host) (recording orc)
        (traced ''StateTransition'' ''Success'' '''' ''Spawning runtime process via executor'' t
          (r2\<lparr>rec_State := StateLaunching\<rparr>)) (recording_exec E)) Q
      (w1, l @ [Saved (traced ''StateTransition'' ''Success'' '''' ''Spawning runtime process via executor'' t
          (r2\<lparr>rec_State := StateLaunching\<rparr>))])"
    by (simp only: r3_def)
qed (simp add: r2)

text \<open>Every launch, in any world and with any interfaces, follows the protocol.\<close>

lemma StartLaunch_follows:
  "wp (StartLaunch (recording_host host) (recording orc) spec)
     (\<lambda>r (w', l). launch_protocol spec (core l) r) (w, [])"
  unfolding StartLaunch_def
proof (intro wp_bindI initializeRecord_log log_save)
  fix r0 w1 l1 w2
  assume r0: "begun spec r0" and l1: "core l1 = core []"
  let ?Q = "\<lambda>r (w', l). launch_protocol spec (core l) r"
  show "wp (validateAndRecord (recording_host host) (recording orc) spec r0)
     (\<lambda>v w'. wp (if \<not> snd v then ret (fst v)
        else do {
          p \<leftarrow> prepareAndRecord (recording_host host) (recording orc) spec (fst v);
          (case snd p of
             None \<Rightarrow> ret (fst p)
           | Some exec \<Rightarrow> spawnAndRecord (recording_host host) (recording orc) spec (fst p) exec)
        }) ?Q w') (w2, l1 @ [Saved r0])"
    apply (rule validateAndRecord_log [OF r0])
    subgoal using r0 l1 by (auto intro: launch_protocol.rejected)
    subgoal for node r1 w3 l3
      apply (simp only: snd_conv fst_conv not_True_eq_False if_False)
      apply (rule wp_bindI, rule prepareAndRecord_log)
      subgoal by (simp add: continues_def)
      subgoal by simp
      subgoal by simp
      subgoal using r0 l1 by (auto intro: launch_protocol.unresolved)
      subgoal using r0 l1 by (auto intro: launch_protocol.unprepared)
      subgoal for node2 b p E r2 w4 l4
        apply (simp only: snd_conv fst_conv option.case)
        apply (rule spawnAndRecord_log [where p = p])
        subgoal by (simp add: continues_def)
        subgoal by simp
        subgoal by simp
        subgoal using r0 l1 by (auto intro: launch_protocol.dry_run)
        subgoal using r0 l1 by (auto intro: launch_protocol.spawn_failed)
        subgoal using r0 l1 by (auto intro: launch_protocol.started)
        done
      done
    done
qed

section \<open>TerminateLaunch over the log\<close>

text \<open>
  What a termination reads, saves and calls: \<open>rec\<close> is the record loaded, \<open>r1\<close> the record saved when
  the termination was requested, \<open>calls\<close> what happened in between, and \<open>r\<close> the record returned.
\<close>

definition requested :: "LaunchExecutionRecord \<Rightarrow> LaunchExecutionRecord \<Rightarrow> bool" where
  "requested rec r1 \<longleftrightarrow>
     continues_from rec r1 \<and> rec_PID r1 = rec_PID rec \<and> rec_PreparedState r1 = rec_PreparedState rec \<and>
     rec_TerminatedAtSec r1 = rec_TerminatedAtSec rec \<and>
     rec_State r1 = (if IsTransitionAllowed (rec_State rec) StateTerminating
                     then StateTerminating else rec_State rec)"

text \<open>The calls that kill the process, with the error they end in.\<close>

inductive kill_calls :: "LaunchExecutionRecord \<Rightarrow> Effect list \<Rightarrow> go_error option \<Rightarrow> bool" where
  no_process: "rec_PID r1 = None \<or> rec_PreparedState r1 = None \<Longrightarrow> kill_calls r1 [] None"
| no_executor: "rec_PID r1 = Some pid \<Longrightarrow> rec_PreparedState r1 = Some p \<Longrightarrow>
    kill_calls r1 [Resolved (prep_RuntimeBackend p)] (Some e)"
| killed: "rec_PID r1 = Some pid \<Longrightarrow> rec_PreparedState r1 = Some p \<Longrightarrow>
    kill_calls r1 [Resolved (prep_RuntimeBackend p), TerminateCall pid err] err"

inductive terminate_protocol ::
    "string \<Rightarrow> Effect list \<Rightarrow> LaunchExecutionRecord \<Rightarrow> go_error option \<Rightarrow> bool" for i where
  not_found: "gerr \<noteq> None \<or> \<not> found \<Longrightarrow> terminate_protocol i [Loaded i (rec, found, gerr)] rec (Some e)"
| already_terminal: "terminal (rec_State rec) \<Longrightarrow>
    terminate_protocol i [Loaded i (rec, True, None)] rec None"
| kill_failed: "\<not> terminal (rec_State rec) \<Longrightarrow> requested rec r1 \<Longrightarrow> kill_calls r1 calls (Some e) \<Longrightarrow>
    requested rec r \<Longrightarrow>
    terminate_protocol i ([Loaded i (rec, True, None), Saved r1] @ calls @ [Saved r]) r (Some e)"
| terminated: "\<not> terminal (rec_State rec) \<Longrightarrow> requested rec r1 \<Longrightarrow> kill_calls r1 calls None \<Longrightarrow>
    continues_from r1 r \<Longrightarrow> rec_TerminatedAtSec r \<noteq> None \<Longrightarrow> rec_RuntimeLiveness r = ''Dead'' \<Longrightarrow>
    rec_RuntimeReadiness r = ''NotReady'' \<Longrightarrow> rec_PID r = rec_PID rec \<Longrightarrow>
    rec_State r = (if IsTransitionAllowed (rec_State r1) StateTerminated
                   then StateTerminated else rec_State r1) \<Longrightarrow>
    terminate_protocol i ([Loaded i (rec, True, None), Saved r1] @ calls @ [Saved r]) r None"

lemma kill_process_log:
  assumes "\<And>err calls w' l'. kill_calls r1 calls err \<Longrightarrow> core l' = core l @ calls \<Longrightarrow> Q err (w', l')"
  shows "wp (kill_process_of (recording orc) r1) Q (w, l)"
proof (cases "rec_PID r1 = None \<or> rec_PreparedState r1 = None")
  case True
  then have "kill_process_of (recording orc) r1 = ret None"
    by (auto simp: kill_process_of_def split: option.splits)
  then show ?thesis using assms [of "[]" None l] True by (simp add: kill_calls.no_process)
next
  case False
  then obtain pid p where r1: "rec_PID r1 = Some pid" "rec_PreparedState r1 = Some p" by auto
  have unresolved: "Q (Some e) (w1, l @ [Resolved (prep_RuntimeBackend p)])" for e w1
    by (rule assms [OF kill_calls.no_executor [OF r1]]) simp
  have resolved: "wp (exec_Terminate (recording_exec E) pid) Q (w1, l @ [Resolved (prep_RuntimeBackend p)])"
    for E w1
    unfolding recording_simps
    by (intro log_logged assms [OF kill_calls.killed [OF r1]]) simp
  show ?thesis
    unfolding kill_process_of_def r1 prod.case option.case recording_simps(10)
  proof (intro wp_bindI log_mapped log_logged)
    fix res :: "go_error + 'a Executor" and w1
    show "wp (case map_sum id recording_exec res of Inl e \<Rightarrow> ret (Some e)
          | Inr exec \<Rightarrow> exec_Terminate exec pid) Q (w1, l @ [Resolved (prep_RuntimeBackend p)])"
      by (cases res) (simp_all add: unresolved resolved [unfolded recording_simps])
  qed
qed

lemma continues_from_refl [simp]: "continues_from r r"
  by (simp add: continues_from_def)

lemma continues_from_traced [simp]:
  "continues_from r (traced st s c m t r') \<longleftrightarrow>
     rec_ExecutionID r' = rec_ExecutionID r \<and> rec_WorkloadID r' = rec_WorkloadID r \<and>
     rec_NodeID r' = rec_NodeID r \<and> rec_Spec r' = rec_Spec r \<and> rec_CreatedAtSec r' = rec_CreatedAtSec r \<and>
     prefix (rec_Trace r) (rec_Trace (traced st s c m t r'))"
  by (simp add: continues_from_def)

lemma transition_log_any:
  assumes "\<And>r w'. continues_from rec r \<Longrightarrow> rec_PID r = rec_PID rec \<Longrightarrow>
      rec_PreparedState r = rec_PreparedState rec \<Longrightarrow> rec_TerminatedAtSec r = rec_TerminatedAtSec rec \<Longrightarrow>
      rec_RuntimeLiveness r = rec_RuntimeLiveness rec \<Longrightarrow>
      rec_RuntimeReadiness r = rec_RuntimeReadiness rec \<Longrightarrow>
      rec_State r = (if IsTransitionAllowed (rec_State rec) n then n else rec_State rec) \<Longrightarrow> Q r (w', l)"
  shows "wp (transition (recording_host host) rec n c m) Q (w, l)"
  by (intro log_transition assms) simp_all

lemma kill_failed_log:
  assumes "requested rec r1"
    and "\<And>r w' l'. requested rec r \<Longrightarrow> core l' = core l @ [Saved r] \<Longrightarrow> Q (r, Some e) (w', l')"
  shows "wp (report_kill_failure (recording_host host) (recording orc) r1 e) Q (w, l)"
  unfolding report_kill_failure_def
  by (intro wp_bindI log_AppendTrace log_save log_emitEvent wp_retI assms(2))
    (use assms(1) in \<open>auto simp: requested_def continues_from_def\<close>)

lemma terminated_log:
  assumes "\<And>r w' l'. continues_from r1 r \<Longrightarrow> rec_TerminatedAtSec r \<noteq> None \<Longrightarrow>
      rec_RuntimeLiveness r = ''Dead'' \<Longrightarrow> rec_RuntimeReadiness r = ''NotReady'' \<Longrightarrow> rec_PID r = rec_PID r1 \<Longrightarrow>
      rec_State r = (if IsTransitionAllowed (rec_State r1) StateTerminated
                     then StateTerminated else rec_State r1) \<Longrightarrow>
      core l' = core l @ [Saved r] \<Longrightarrow> Q (r, None) (w', l')"
  shows "wp (report_terminated (recording_host host) (recording orc) r1) Q (w, l)"
  unfolding report_terminated_def recording_simps
  by (intro wp_bindI log_unlogged transition_log_any log_save log_emitEvent wp_retI assms)
    (simp_all add: continues_from_def)

lemma TerminateLaunch_follows:
  "wp (TerminateLaunch (recording_host host) (recording orc) i)
     (\<lambda>(r, err) (w', l). terminate_protocol i (core l) r err) (w, [])"
  (is "wp _ ?Q _")
  unfolding TerminateLaunch_def recording_simps
proof (rule wp_bindI, intro log_logged wp_prodI wp_ifI wp_retI, goal_cases)
  case (1 got w1 rec x2 found err)
  then show ?case by (auto intro: terminate_protocol.not_found)
next
  case (2 got w1 rec x2 found err)
  then show ?case by (auto simp: terminal_def intro!: terminate_protocol.already_terminal)
next
  case (3 got w1 rec x2 found err)
  then have got: "got = (rec, True, None)" and live: "\<not> terminal (rec_State rec)"
    by (auto simp: terminal_def)
  show ?case
    unfolding got append_Nil
  proof (intro wp_bindI transition_log_any log_save log_emitEvent kill_process_log)
    fix r1 w2 w3 w4 and l4 l5 calls :: "Effect list" and kill_err w5
    assume r1: "continues_from rec r1" "rec_PID r1 = rec_PID rec" "rec_PreparedState r1 = rec_PreparedState rec"
        "rec_TerminatedAtSec r1 = rec_TerminatedAtSec rec"
        "rec_State r1 = (if IsTransitionAllowed (rec_State rec) StateTerminating then StateTerminating
                         else rec_State rec)"
      and l4: "core l4 = core ([Loaded i (rec, True, None)] @ [Saved r1])"
      and calls: "kill_calls r1 calls kill_err" and l5: "core l5 = core l4 @ calls"
    have req: "requested rec r1" using r1 by (simp add: requested_def)
    show "wp (case kill_err of
          None \<Rightarrow> report_terminated (recording_host host) (recording orc) r1
        | Some e \<Rightarrow> report_kill_failure (recording_host host) (recording orc) r1 e) ?Q (w5, l5)"
    proof (cases kill_err)
      case None
      have "wp (report_terminated (recording_host host) (recording orc) r1) ?Q (w5, l5)"
        by (rule terminated_log)
          (use live req calls None l4 l5 r1 terminate_protocol.terminated [of rec r1 calls]
            in \<open>auto\<close>)
      with None show ?thesis by simp
    next
      case (Some e)
      have "wp (report_kill_failure (recording_host host) (recording orc) r1 e) ?Q (w5, l5)"
        by (rule kill_failed_log [OF req])
          (use live req calls Some l4 l5 terminate_protocol.kill_failed [of rec r1 calls e] in \<open>auto\<close>)
      with Some show ?thesis by simp
    qed
  qed
qed

lemma erases_kill_process [erases_intros]:
  "erases (kill_process_of orc r) (kill_process_of (recording orc) r)"
proof (cases "rec_PID r = None \<or> rec_PreparedState r = None")
  case True
  then show ?thesis by (auto simp: kill_process_of_def erases_ret split: option.splits)
next
  case False
  then obtain pid p where r: "rec_PID r = Some pid" "rec_PreparedState r = Some p" by auto
  show ?thesis
    unfolding kill_process_of_def r prod.case option.case
  proof (rule erases_by_bind [OF erases_resolve])
    fix res :: "go_error + 'a Executor"
    show "erases (case res of Inl e \<Rightarrow> ret (Some e) | Inr exec \<Rightarrow> exec_Terminate exec pid)
        (case map_sum id recording_exec res of Inl e \<Rightarrow> ret (Some e) | Inr exec \<Rightarrow> exec_Terminate exec pid)"
      by (cases res) (auto intro: erases_intros)
  qed
qed

lemma erases_prod [erases_intros]:
  "(\<And>a b. x = (a, b) \<Longrightarrow> erases_by f (k a b) (k' a b)) \<Longrightarrow>
   erases_by f (case x of (a, b) \<Rightarrow> k a b) (case x of (a, b) \<Rightarrow> k' a b)"
  by (cases x) simp

lemma erases_TerminateLaunch:
  "erases (TerminateLaunch host orc i) (TerminateLaunch (recording_host host) (recording orc) i)"
  unfolding TerminateLaunch_def report_kill_failure_def report_terminated_def recording_simps
  by (intro erases_intros)

lemma wp_erase:
  assumes "erases m m'" and "wp m' (\<lambda>r (w', l). P r w') (w, l)"
  shows "wp m P w"
  using assms(1) [unfolded erases_by_def, rule_format, of w l] assms(2) by (auto simp: wp_run)

section \<open>Properties of a launch\<close>

text \<open>
  C4: Every launch, for any node store, execution store, event store, executors and host, follows
  the launch protocol: it saves the pending record before it reads the node, executes nothing unless
  validation and preparation succeeded, saves the Launching record before it executes, and its last
  save is the record it returns. Logging the calls leaves the launch itself unchanged.
\<close>
theorem launch_follows_protocol:
  "wp (StartLaunch (recording_host host) (recording orc) spec)
     (\<lambda>r (w', l). launch_protocol spec (core l) r) (w, []) \<and>
   erases (StartLaunch host orc spec) (StartLaunch (recording_host host) (recording orc) spec)"
  by (intro conjI StartLaunch_follows erases_StartLaunch)

text \<open>
  C11: A launch ends in one of three states. It is Starting exactly when a process was spawned, and
  the record then holds the PID, the start time and the prepared state; it is Terminated only for a
  dry run; in every other case it is Failed. The spec, workload and node of the record are the request's.
\<close>
theorem launch_outcome:
  "wp (StartLaunch host orc spec)
     (\<lambda>r _. rec_State r \<in> {StateStarting, StateTerminated, StateFailed} \<and>
        (rec_State r = StateStarting) = (rec_PID r \<noteq> None) \<and>
        (rec_State r = StateStarting \<longrightarrow>
           rec_StartedAtSec r \<noteq> None \<and> rec_PreparedState r \<noteq> None \<and> \<not> dry_mode spec) \<and>
        (rec_State r = StateTerminated \<longrightarrow> dry_mode spec \<and> rec_PreparedState r \<noteq> None) \<and>
        rec_Spec r = spec \<and> rec_WorkloadID r = spec_WorkloadID spec \<and> rec_NodeID r = spec_NodeID spec) w"
  (is "wp _ ?Q w")
proof (rule wp_erase [OF erases_StartLaunch], rule wp_mono [OF StartLaunch_follows])
  fix r and wl :: "'a \<times> Effect list"
  assume "case wl of (w', l) \<Rightarrow> launch_protocol spec (core l) r"
  then obtain w' l where wl: "wl = (w', l)" and "launch_protocol spec (core l) r" by (cases wl) auto
  from this(2) have "?Q r w'"
    by cases (simp_all add: continues_def begun_def)
  then show "case wl of (w', l) \<Rightarrow> ?Q r w'" unfolding wl prod.case .
qed

definition refusing_orc :: "'w LaunchOrchestrator" where
  "refusing_orc =
     \<lparr>orc_GetNode = (\<lambda>_. ret (undefined, Some ''node not found'')),
      orc_SaveExecution = (\<lambda>_. ret None), orc_GetExecution = (\<lambda>_. ret (zero_LaunchExecutionRecord, False, None)),
      orc_AppendEvent = None, orc_Resolve = (\<lambda>b. ret (Inl b))\<rparr>"

theorem launch_outcome_witness:
  "rec_State (fst (run_state (StartLaunch (still_host 7) refusing_orc sample_spec) ()))
     \<in> {StateStarting, StateTerminated, StateFailed}"
  using launch_outcome [of "still_host 7" refusing_orc sample_spec "()"]
  unfolding wp_run by (rule conjunct1)

text \<open>
  C3: The validation gate. Whenever a launch calls Execute, it is not a dry run, the node it read
  was present and passed validation for this spec, the executor prepared exactly what is executed,
  and a record in state Launching had been saved before. Execute is called at most once.
\<close>
theorem launch_execute_gate:
  "wp (StartLaunch (recording_host host) (recording orc) spec)
     (\<lambda>r (w', l). \<forall>before p res after. core l = before @ ExecuteCall p res # after \<longrightarrow>
        \<not> dry_mode spec \<and>
        (\<exists>node. NodeRead (spec_NodeID spec) (node, None) \<in> set before \<and>
           val_IsValid (ValidateLaunch spec node)) \<and>
        PrepareCall spec (Inr p) \<in> set before \<and>
        (\<exists>r3. last before = Saved r3 \<and> rec_State r3 = StateLaunching) \<and>
        after = [Saved r]) (w, [])"
proof (rule wp_mono [OF StartLaunch_follows])
  fix r and wl :: "'a \<times> Effect list"
  assume "case wl of (w', l) \<Rightarrow> launch_protocol spec (core l) r"
  then obtain w' l where wl: "wl = (w', l)" and "launch_protocol spec (core l) r" by (cases wl) auto
  from this(2) show "case wl of (w', l) \<Rightarrow> \<forall>before p res after.
      core l = before @ ExecuteCall p res # after \<longrightarrow> \<not> dry_mode spec \<and>
        (\<exists>node. NodeRead (spec_NodeID spec) (node, None) \<in> set before \<and>
           val_IsValid (ValidateLaunch spec node)) \<and>
        PrepareCall spec (Inr p) \<in> set before \<and>
        (\<exists>r3. last before = Saved r3 \<and> rec_State r3 = StateLaunching) \<and> after = [Saved r]"
    unfolding wl by cases (auto simp: continues_def Cons_eq_append_conv)
qed

theorem launch_execute_gate_witness:
  "ExecuteCall zero_PreparedLaunch (Inr 0) \<notin>
     set (core (snd (snd (run_state (StartLaunch (recording_host (still_host 7)) (recording refusing_orc)
       (sample_spec\<lparr>spec_LaunchMode := ''DryRun''\<rparr>)) ((), [])))))"
proof
  let ?run = "run_state (StartLaunch (recording_host (still_host 7)) (recording refusing_orc)
       (sample_spec\<lparr>spec_LaunchMode := ''DryRun''\<rparr>)) ((), [])"
  assume "ExecuteCall zero_PreparedLaunch (Inr 0) \<in> set (core (snd (snd ?run)))"
  then obtain bef aft where "core (snd (snd ?run)) = bef @ ExecuteCall zero_PreparedLaunch (Inr 0) # aft"
    by (meson split_list)
  then have "\<not> dry_mode (sample_spec\<lparr>spec_LaunchMode := ''DryRun''\<rparr>)"
    using launch_execute_gate [of "still_host 7" refusing_orc "sample_spec\<lparr>spec_LaunchMode := ''DryRun''\<rparr>" "()"]
    by (auto simp: wp_run case_prod_unfold)
  then show False by (simp add: dry_mode_def)
qed

text \<open>
  C17: What a launch persists: the record it returns is the last one it saved, every record it saved
  belongs to the same execution, and the saved traces only grow.
\<close>
theorem launch_persists_result:
  "wp (StartLaunch (recording_host host) (recording orc) spec)
     (\<lambda>r (w', l).
        let saved = [r'. Saved r' \<leftarrow> core l] in
        saved \<noteq> [] \<and> last saved = r \<and> last (core l) = Saved r \<and>
        (\<forall>r'\<in>set saved. rec_ExecutionID r' = rec_ExecutionID r) \<and>
        sorted_wrt (\<lambda>a b. strict_prefix (rec_Trace a) (rec_Trace b)) saved \<and>
        rec_State (hd saved) = StatePending) (w, [])"
proof (rule wp_mono [OF StartLaunch_follows])
  fix r and wl :: "'a \<times> Effect list"
  assume "case wl of (w', l) \<Rightarrow> launch_protocol spec (core l) r"
  then obtain w' l where wl: "wl = (w', l)" and "launch_protocol spec (core l) r" by (cases wl) auto
  from this(2) show "case wl of (w', l) \<Rightarrow>
        let saved = [r'. Saved r' \<leftarrow> core l] in
        saved \<noteq> [] \<and> last saved = r \<and> last (core l) = Saved r \<and>
        (\<forall>r'\<in>set saved. rec_ExecutionID r' = rec_ExecutionID r) \<and>
        sorted_wrt (\<lambda>a b. strict_prefix (rec_Trace a) (rec_Trace b)) saved \<and>
        rec_State (hd saved) = StatePending"
    unfolding wl Let_def
    by cases (simp_all add: continues_def begun_def,
        (blast intro: prefix_order.less_trans)+)
qed

theorem launch_persists_result_witness:
  "last (core (snd (snd (run_state (StartLaunch (recording_host (still_host 7)) (recording refusing_orc)
       sample_spec) ((), []))))) =
   Saved (fst (run_state (StartLaunch (recording_host (still_host 7)) (recording refusing_orc) sample_spec) ((), [])))"
  using launch_persists_result [of "still_host 7" refusing_orc sample_spec "()"]
  by (auto simp: wp_run Let_def case_prod_unfold)

section \<open>Properties of a termination\<close>

text \<open>
  C12: Every termination follows the termination protocol: an unknown execution is an error and a
  terminal one a no-op; otherwise the request is saved before anything is killed, the recorded PID
  is killed through the executor of the prepared backend, and the result is saved.
\<close>
theorem terminate_follows_protocol:
  "wp (TerminateLaunch (recording_host host) (recording orc) i)
     (\<lambda>(r, err) (w', l). terminate_protocol i (core l) r err) (w, []) \<and>
   erases (TerminateLaunch host orc i) (TerminateLaunch (recording_host host) (recording orc) i)"
  by (intro conjI TerminateLaunch_follows erases_TerminateLaunch)

lemma kill_calls_load_free: "kill_calls r1 calls e \<Longrightarrow> Loaded i z \<notin> set calls"
  by (cases rule: kill_calls.cases) auto

lemma terminate_protocol_settled:
  assumes "terminate_protocol i L r err"
    and "Loaded i (rec, True, None) \<in> set L" and "terminal (rec_State rec)"
  shows "L = [Loaded i (rec, True, None)] \<and> r = rec \<and> err = None"
  using assms(1)
  by cases (use assms(2,3) in \<open>auto dest: kill_calls_load_free\<close>)

lemma terminate_protocol_kills:
  assumes "terminate_protocol i L r err"
    and "Loaded i (rec, True, None) \<in> set L" and "\<not> terminal (rec_State rec)"
  shows "rec_PID r = rec_PID rec \<and>
    (err = None \<longrightarrow> rec_TerminatedAtSec r \<noteq> None \<and> rec_RuntimeLiveness r = ''Dead'' \<and>
       ((\<forall>x. rec_State rec \<noteq> StateOther x) \<longrightarrow> rec_State r = StateTerminated) \<and>
       (\<forall>pid. rec_PID rec = Some pid \<and> rec_PreparedState rec \<noteq> None \<longrightarrow>
          TerminateCall pid None \<in> set L)) \<and>
    (err \<noteq> None \<longrightarrow> rec_TerminatedAtSec r = rec_TerminatedAtSec rec \<and> rec_PID rec \<noteq> None \<and>
       \<not> terminal (rec_State r))"
proof -
  note no_load = kill_calls_load_free
  show ?thesis
    using assms(1)
  proof cases
    case (kill_failed rec' r1 calls e)
    from kill_failed(5) have "rec_PID r1 \<noteq> None" by cases auto
    moreover have "rec' = rec" using assms(2) kill_failed no_load by auto
    ultimately show ?thesis using kill_failed by (auto simp: requested_def)
  next
    case (terminated rec' r1 calls)
    have rec': "rec' = rec" using assms(2) terminated no_load by auto
    have "TerminateCall pid None \<in> set calls" if "rec_PID r1 = Some pid" "rec_PreparedState r1 \<noteq> None" for pid
      using terminated(5) that by cases auto
    moreover have "rec_State r = StateTerminated" if "\<forall>x. rec_State rec \<noteq> StateOther x"
      using terminated that rec' by (cases "rec_State rec") (auto simp: requested_def IsTransitionAllowed_def)
    ultimately show ?thesis using terminated rec' by (auto simp: requested_def)
  qed (use assms in auto)
qed

text \<open>
  C6: A termination that reports success on a stored, prepared and unsettled execution with a process
  has killed that process: the executor's Terminate was called with the recorded PID and returned no
  error. One that reports failure leaves the PID and the termination time of the record alone, so
  that the reconciler or a later request can finish the work. A settled execution is returned as it
  was loaded, with success, and nothing is resolved, killed or saved.
\<close>
theorem terminate_kills_process:
  "wp (TerminateLaunch (recording_host host) (recording orc) i)
     (\<lambda>(r, err) (w', l). \<forall>rec. Loaded i (rec, True, None) \<in> set (core l) \<longrightarrow>
        (if terminal (rec_State rec)
         then core l = [Loaded i (rec, True, None)] \<and> r = rec \<and> err = None
         else rec_PID r = rec_PID rec \<and>
        (err = None \<longrightarrow> rec_TerminatedAtSec r \<noteq> None \<and> rec_RuntimeLiveness r = ''Dead'' \<and>
           ((\<forall>x. rec_State rec \<noteq> StateOther x) \<longrightarrow> rec_State r = StateTerminated) \<and>
           (\<forall>pid. rec_PID rec = Some pid \<and> rec_PreparedState rec \<noteq> None \<longrightarrow>
              TerminateCall pid None \<in> set (core l))) \<and>
        (err \<noteq> None \<longrightarrow> rec_TerminatedAtSec r = rec_TerminatedAtSec rec \<and> rec_PID rec \<noteq> None \<and>
           \<not> terminal (rec_State r)))) (w, [])"
proof (rule wp_mono [OF TerminateLaunch_follows], clarify, goal_cases)
  case (1 r err w' l rec)
  show ?case
  proof (cases "terminal (rec_State rec)")
    case True
    show ?thesis
      unfolding if_P [OF True] by (rule terminate_protocol_settled [OF 1 True])
  next
    case False
    show ?thesis
      unfolding if_not_P [OF False] by (rule terminate_protocol_kills [OF 1 False])
  qed
qed

definition storing_orc :: "'w Host \<Rightarrow> LaunchExecutionRecord \<Rightarrow> 'w LaunchOrchestrator" where
  "storing_orc host rec =
     \<lparr>orc_GetNode = (\<lambda>_. ret (undefined, Some ''node not found'')), orc_SaveExecution = (\<lambda>_. ret None),
      orc_GetExecution = (\<lambda>_. ret (rec, True, None)), orc_AppendEvent = None,
      orc_Resolve = (\<lambda>b. ret (StaticExecutorResolver host b))\<rparr>"

definition sample_running :: LaunchExecutionRecord where
  "sample_running = zero_LaunchExecutionRecord
     \<lparr>rec_State := StateRunning, rec_PID := Some 77, rec_StartedAtSec := Some 100, rec_PreparedState := Some (zero_PreparedLaunch\<lparr>prep_RuntimeBackend := ''kvm_qemu''\<rparr>)\<rparr>"

theorem terminate_kills_process_witness:
  "wp (TerminateLaunch (recording_host (still_host 9)) (recording (storing_orc (still_host 9) sample_running)) ''e'')
     (\<lambda>(r, err) (w', l). rec_PID r = Some 77 \<and> err = None \<and> TerminateCall 77 None \<in> set (core l)) ((), [])"
proof -
  let ?m = "TerminateLaunch (recording_host (still_host 9)) (recording (storing_orc (still_host 9) sample_running)) ''e''"
  have run: "wp ?m (\<lambda>(r, err) (w', l). err = None \<and> Loaded ''e'' (sample_running, True, None) \<in> set (core l)) ((), [])"
    by (simp add: TerminateLaunch_def storing_orc_def sample_running_def transition_def TransitionTo_def
        AppendTrace_def IsTransitionAllowed_def unlogged_def logged_def mapped_def save_def emitEvent_def
        kill_process_of_def StaticExecutorResolver_def KvmExecutor_def kill_process_def
        report_terminated_def)
  have rec: "rec_State sample_running = StateRunning" "rec_PID sample_running = Some 77"
      "\<exists>p. rec_PreparedState sample_running = Some p"
    by (simp_all add: sample_running_def)
  show ?thesis
    by (rule wp_mono [OF wp_conj [OF run terminate_kills_process]])
      (auto simp: rec dest!: spec [of _ sample_running])
qed

end
