(* ===== verification/Server.thy ===== *)
theory Server
  imports Api Launch_Log
begin

text \<open>
  The whole server of \<^verbatim>\<open>cmd/schedune/main.go\<close>: \<^verbatim>\<open>runServer\<close> opens the database, runs the recovery
  bootstrap, and then serves the routes of the API while a background loop sweeps for orphans.
  \<open>server_step\<close> has one rule for each route that touches the server's state and one for the sweep,
  and \<open>reachable\<close> adds the start and the restart of the server. A handler is one step. The service
  takes no lock across the SQL statements of a handler, so two requests on the same execution can
  overlap there; theory Race shows what that can do, and the runs here are those where they do not.
\<close>

section \<open>Operations that preserve an invariant\<close>

definition preserves :: "('s \<Rightarrow> bool) \<Rightarrow> ('s, 'a) state \<Rightarrow> bool" where
  "preserves I m \<longleftrightarrow> (\<forall>s. I s \<longrightarrow> wp m (\<lambda>_ s'. I s') s)"

named_theorems preserves_intros "operations that preserve an invariant"

lemma preservesD: "preserves I m \<Longrightarrow> I s \<Longrightarrow> run_state m s = (a, s') \<Longrightarrow> I s'"
  by (auto simp: preserves_def wp_def)

lemma preserves_ret [preserves_intros]: "preserves I (ret a)"
  by (simp add: preserves_def)

lemma preserves_bind [preserves_intros]:
  assumes "preserves I m" and "\<And>a. preserves I (f a)"
  shows "preserves I (State_Monad.bind m f)"
  unfolding preserves_def
proof (intro allI impI wp_bindI)
  fix s assume "I s"
  with assms(1) have "wp m (\<lambda>_. I) s" by (simp add: preserves_def)
  then show "wp m (\<lambda>a. wp (f a) (\<lambda>_. I)) s"
    by (rule wp_mono) (use assms(2) in \<open>simp add: preserves_def\<close>)
qed

lemma bind_ret: "State_Monad.bind (ret a) f = f a"
  by simp

lemma preserves_if [preserves_intros]:
  "preserves I m \<Longrightarrow> preserves I n \<Longrightarrow> preserves I (if b then m else n)"
  by simp

lemma preserves_option [preserves_intros]:
  "preserves I m \<Longrightarrow> (\<And>a. x = Some a \<Longrightarrow> preserves I (f a)) \<Longrightarrow>
   preserves I (case x of None \<Rightarrow> m | Some a \<Rightarrow> f a)"
  by (cases x) simp_all

lemma preserves_sum [preserves_intros]:
  "(\<And>a. x = Inl a \<Longrightarrow> preserves I (f a)) \<Longrightarrow> (\<And>b. x = Inr b \<Longrightarrow> preserves I (g b)) \<Longrightarrow>
   preserves I (case x of Inl a \<Rightarrow> f a | Inr b \<Rightarrow> g b)"
  by (cases x) simp_all

lemma preserves_prod [preserves_intros]:
  "(\<And>a b. preserves I (f a b)) \<Longrightarrow> preserves I (case x of (a, b) \<Rightarrow> f a b)"
  by (cases x) simp

lemma keeps_preserves: "keeps view m \<Longrightarrow> preserves (\<lambda>s. P (view s)) m"
  unfolding preserves_def by (intro allI impI, erule keepsD) simp

section \<open>The stores and the bootstrap\<close>

lemma UpsertOrphan_ok: "db_ok db \<Longrightarrow> db_ok (snd (UpsertOrphan flt r db))"
  by (cases flt) (simp_all add: UpsertOrphan_def db_ok_def upsert_distinct)

lemma MarkMissing_ok: "db_ok db \<Longrightarrow> db_ok (snd (MarkMissingAsDisappeared flt ids now db))"
proof -
  assume ok: "db_ok db"
  have "map orph_OrphanID (map (\<lambda>r. if c r then r\<lparr>orph_Status := st, orph_LastSeenAtSec := now\<rparr> else r) rows) =
      map orph_OrphanID rows" for c st and rows :: "OrphanRecord list"
    by (induction rows) auto
  with ok show ?thesis
    by (cases flt) (simp_all add: MarkMissingAsDisappeared_def db_ok_def del: map_map)
qed

lemma prepare_executor:
  "wp (prepareAndRecord (system_host host) (NewLaunchHandler driver host) spec rec)
     (\<lambda>r _. \<forall>E. snd r = Some E \<longrightarrow> (\<exists>b. StaticExecutorResolver (system_host host) b = Inr E)) s"
  unfolding prepareAndRecord_def fail_preparation_def NewLaunchHandler_simps Let_def bind_ret
  by (intro wp_bindI wp_any wp_sumI wp_retI) auto

lemma NewOrphanSweepService_simps [simp]:
  "os_Enumerate (NewOrphanSweepService driver enum) = on_machine enum"
  "os_ListRecoverable (NewOrphanSweepService driver enum) = sql_read driver ListRecoverableExecutions"
  "os_UpsertOrphan (NewOrphanSweepService driver enum) r = sql driver (\<lambda>flt. UpsertOrphan flt r)"
  "os_GetOrphan (NewOrphanSweepService driver enum) i = sql_read driver (\<lambda>flt. GetOrphan flt i)"
  "os_MarkMissing (NewOrphanSweepService driver enum) ids now =
     sql driver (\<lambda>flt. MarkMissingAsDisappeared flt ids now)"
  "os_AppendEvent (NewOrphanSweepService driver enum) ev = sql driver (\<lambda>flt. AppendEvent flt ev)"
  by (simp_all add: NewOrphanSweepService_def)

text \<open>The bootstrap does not touch the node store.\<close>

lemma keeps_nodes [keeps_intros]:
  "keeps sys_mem (on_machine m)" "keeps sys_mem (sql driver f)" "keeps sys_mem (sql_read driver g)"
  by (simp_all add: keeps_def sql_read_def wp_sql wp_on_machine wp_any)

lemma boot_keeps_nodes: "keeps sys_mem (boot_recovery driver host)"
proof -
  have "keeps sys_mem (ProcessInspector (system_host host) i pid prep)" for i pid prep
    unfolding ProcessInspector_def process_alive_def system_host_simps Let_def by (intro keeps_intros)
  then have "keeps sys_mem (recoverExecution (system_host host) (bootstrapper_of driver host epoch) rec)" for epoch rec
    unfolding recoverExecution_def recover_record_def recover_observed_def TransitionTo_def AppendTrace_def
      bootstrapper_of_simps system_host_simps Let_def
    by (intro keeps_intros)
  then have "keeps sys_mem (recover_all (system_host host) (bootstrapper_of driver host epoch) recs)" for epoch recs
    by (induction recs) (auto intro!: keeps_intros)
  then show ?thesis
    unfolding boot_recovery_def NewRecoveryBootstrapper_def Bootstrap_def system_host_simps
      State_Monad.bind_assoc bind_ret bootstrapper_of_simps
    by (intro keeps_intros)
qed

lemma recovered_same: "recovered host epoch rec r \<Longrightarrow> same_process rec r"
  by (simp add: recovered_def recovered_by_same)

lemma recovered_epoch: "recovered host epoch rec r \<Longrightarrow> rec_RecoveryEpoch r = epoch"
  unfolding recovered_def recovered_by_def by (elim conjE exE, erule ssubst) simp

section \<open>The server as a state machine\<close>

inductive server_step ::
    "'w driver \<Rightarrow> 'w Host \<Rightarrow> 'w Enumerator \<Rightarrow> 'w System \<Rightarrow> 'w System \<Rightarrow> bool"
  for driver host enum where
  machine: "server_step driver host enum s (s\<lparr>sys_machine := w\<rparr>)"
| ingest: "server_step driver host enum s (s\<lparr>sys_mem := snd (Ingest now bound (sys_mem s))\<rparr>)"
| execute: "run_state (ExecuteLaunch driver host bound) s = (a, s') \<Longrightarrow> server_step driver host enum s s'"
| dry_run: "run_state (DryRunLaunch host bound) s = (b, s') \<Longrightarrow> server_step driver host enum s s'"
| terminate: "run_state (TerminateLaunch_handler driver host i) s = (c, s') \<Longrightarrow> server_step driver host enum s s'"
| list: "run_state (ListLaunches driver host) s = (d, s') \<Longrightarrow> server_step driver host enum s s'"
| inspect: "run_state (InspectLaunch driver host i) s = (e, s') \<Longrightarrow> server_step driver host enum s s'"
| observe: "run_state (ObserveLaunch driver host i) s = (f, s') \<Longrightarrow> server_step driver host enum s s'"
| readiness: "run_state (InspectReadiness driver host i) s = (g, s') \<Longrightarrow> server_step driver host enum s s'"
| trace: "run_state (InspectTrace driver i) s = (h, s') \<Longrightarrow> server_step driver host enum s s'"
| events: "run_state (InspectEvents driver i) s = (j, s') \<Longrightarrow> server_step driver host enum s s'"
| orphans: "run_state (ListOrphans_handler driver flter) s = (k, s') \<Longrightarrow> server_step driver host enum s s'"
| orphan: "run_state (GetOrphan_handler driver i) s = (l, s') \<Longrightarrow> server_step driver host enum s s'"
| sweep: "run_state (SweepOnce (system_host host) (NewOrphanSweepService driver enum)) s = (m, s') \<Longrightarrow>
    server_step driver host enum s s'"

text \<open>
  \<open>restart\<close> is what a crash and the next start of the server make of its state: the node store is
  empty again, the database is what was written, and the bootstrap has run.
\<close>

definition restart :: "'w driver \<Rightarrow> 'w Host \<Rightarrow> ('w System, go_error option) state" where
  "restart driver host = do { _ \<leftarrow> on_nodes (\<lambda>_. ((), NewInMemoryStore)); boot_recovery driver host }"

text \<open>The server serves only after a bootstrap without an error; otherwise it exits.\<close>

inductive reachable :: "'w driver \<Rightarrow> 'w Host \<Rightarrow> 'w Enumerator \<Rightarrow> 'w System \<Rightarrow> bool"
  for driver host enum where
  first_start: "reachable driver host enum
    \<lparr>sys_mem = NewInMemoryStore, sys_db = \<lparr>db_executions = [], db_events = [], db_orphans = []\<rparr>,
     sys_machine = w\<rparr>"
| step: "reachable driver host enum s \<Longrightarrow> server_step driver host enum s s' \<Longrightarrow> reachable driver host enum s'"
| restarted: "reachable driver host enum s \<Longrightarrow> run_state (restart driver host) s = (None, s') \<Longrightarrow>
    reachable driver host enum s'"

section \<open>Invariants of the server's state\<close>

text \<open>
  \<open>sound_with D M\<close>: the database satisfies \<open>D\<close> and the node store \<open>M\<close>. The locale \<open>server_invariant\<close>
  is what makes it an invariant of the whole server: \<open>D\<close> holds of the empty database and is kept by the
  four statements that write, \<open>M\<close> holds of the empty node store and is kept by the intake. It is
  interpreted with the well-formedness of the tables, and with the agreement of what is stored twice.
\<close>

definition sound_with :: "(SQLiteStore \<Rightarrow> bool) \<Rightarrow> (InMemoryStore \<Rightarrow> bool) \<Rightarrow> 'w System \<Rightarrow> bool" where
  "sound_with D M s \<longleftrightarrow> D (sys_db s) \<and> M (sys_mem s)"

locale server_invariant =
  fixes D :: "SQLiteStore \<Rightarrow> bool" and M :: "InMemoryStore \<Rightarrow> bool"
  assumes save_law: "D db \<Longrightarrow> D (snd (SaveExecution flt rec db))"
    and event_law: "D db \<Longrightarrow> D (snd (AppendEvent flt ev db))"
    and upsert_law: "D db \<Longrightarrow> D (snd (UpsertOrphan flt orphan db))"
    and missing_law: "D db \<Longrightarrow> D (snd (MarkMissingAsDisappeared flt ids now db))"
    and empty_law: "D \<lparr>db_executions = [], db_events = [], db_orphans = []\<rparr>"
    and ingest_law: "M m \<Longrightarrow> M (snd (Ingest now bound m))"
    and new_law: "M NewInMemoryStore"
begin

abbreviation "holds \<equiv> sound_with D M"

lemma sound_machine [preserves_intros]: "preserves holds (on_machine m)"
  by (simp add: preserves_def sound_with_def wp_on_machine)

lemma sound_node_read [preserves_intros]: "preserves holds (on_nodes (\<lambda>m. (f m, m)))"
  by (simp add: preserves_def sound_with_def wp_on_nodes)

lemma sound_sql_read [preserves_intros]: "preserves holds (sql_read driver f)"
  by (simp add: preserves_def sound_with_def sql_read_def wp_sql)

lemma sound_writes [preserves_intros]:
  "preserves holds (sql driver (\<lambda>flt. SaveExecution flt rec))"
  "preserves holds (sql driver (\<lambda>flt. AppendEvent flt ev))"
  "preserves holds (sql driver (\<lambda>flt. UpsertOrphan flt r))"
  "preserves holds (sql driver (\<lambda>flt. MarkMissingAsDisappeared flt ids now))"
  by (simp_all add: preserves_def sound_with_def wp_sql wp_any save_law event_law upsert_law missing_law)

lemma sound_trace [preserves_intros]:
  "preserves holds (AppendTrace (system_host host) rec st status c m)"
  "preserves holds (TransitionTo (system_host host) rec n c m)"
  "preserves holds (transition (system_host host) rec n c m)"
  unfolding AppendTrace_def TransitionTo_def transition_def system_host_simps
  by (intro preserves_intros)+

subsection \<open>The launch pipeline\<close>

lemma sound_save [preserves_intros]: "preserves holds (save (NewLaunchHandler driver host) rec)"
  unfolding save_def NewLaunchHandler_simps by (intro preserves_intros)

lemma sound_event [preserves_intros]:
  "preserves holds (emitEvent (system_host host) (NewLaunchHandler driver host) t rec c m)"
  unfolding emitEvent_def NewLaunchHandler_simps system_host_simps Let_def option.case
  by (intro preserves_intros)

lemma sound_executor:
  assumes "StaticExecutorResolver (system_host host) b = Inr E"
  shows "preserves holds (exec_Prepare E spec)" "preserves holds (exec_Execute E p)"
    "preserves holds (exec_Terminate E pid)"
proof -
  let ?view = "\<lambda>s. (sys_db s, sys_mem s)"
  have sound: "holds = (\<lambda>s. (\<lambda>(d, m). D d \<and> M m) (?view s))"
    by (simp add: sound_with_def fun_eq_iff)
  note machine = machine_executor [where view = ?view, OF _ assms]
  show "preserves holds (exec_Prepare E spec)" "preserves holds (exec_Execute E p)"
    "preserves holds (exec_Terminate E pid)"
    unfolding sound by (rule keeps_preserves, rule machine, simp)+
qed

lemma sound_prepareAndRecord:
  "preserves holds (prepareAndRecord (system_host host) (NewLaunchHandler driver host) spec rec)"
  unfolding prepareAndRecord_def fail_preparation_def NewLaunchHandler_simps Let_def bind_ret
  by (intro preserves_intros sound_executor)

lemma sound_StartLaunch [preserves_intros]:
  "preserves holds (StartLaunch (system_host host) (NewLaunchHandler driver host) spec)"
proof -
  have init: "preserves holds (initializeRecord (system_host host) (NewLaunchHandler driver host) spec)"
    unfolding initializeRecord_def system_host_simps Let_def by (intro preserves_intros)
  have valid: "preserves holds (validateAndRecord (system_host host) (NewLaunchHandler driver host) spec rec)" for rec
    unfolding validateAndRecord_def fail_validation_def NewLaunchHandler_simps Let_def
    by (intro preserves_intros)
  have spawn: "preserves holds (spawnAndRecord (system_host host) (NewLaunchHandler driver host) spec rec E)"
    if "StaticExecutorResolver (system_host host) b = Inr E" for rec E b
    unfolding spawnAndRecord_def complete_dry_run_def execute_prepared_def system_host_simps Let_def
    by (intro preserves_intros sound_executor [OF that])
  have rest: "preserves holds (do {
        p \<leftarrow> prepareAndRecord (system_host host) (NewLaunchHandler driver host) spec rec;
        (case snd p of
           None \<Rightarrow> ret (fst p)
         | Some exec \<Rightarrow> spawnAndRecord (system_host host) (NewLaunchHandler driver host) spec (fst p) exec) })" for rec
    unfolding preserves_def
  proof (intro allI impI wp_bindI)
    fix s :: "'a System" assume "holds s"
    then have "wp (prepareAndRecord (system_host host) (NewLaunchHandler driver host) spec rec) (\<lambda>_. holds) s"
      using sound_prepareAndRecord [of host driver spec rec] unfolding preserves_def by blast
    from wp_conj [OF this prepare_executor]
    show "wp (prepareAndRecord (system_host host) (NewLaunchHandler driver host) spec rec)
       (\<lambda>p. wp (case snd p of
           None \<Rightarrow> ret (fst p)
         | Some exec \<Rightarrow> spawnAndRecord (system_host host) (NewLaunchHandler driver host) spec (fst p) exec)
         (\<lambda>_. holds)) s"
      by (rule wp_mono) (use spawn in \<open>auto simp: preserves_def split: option.split\<close>)
  qed
  show ?thesis
    unfolding StartLaunch_def by (intro preserves_intros init valid rest)
qed

lemma sound_TerminateLaunch [preserves_intros]:
  "preserves holds (TerminateLaunch (system_host host) (NewLaunchHandler driver host) i)"
proof -
  have kill: "preserves holds (kill_process_of (NewLaunchHandler driver host) r)" for r
    unfolding kill_process_of_def NewLaunchHandler_simps bind_ret
    by (intro preserves_intros sound_executor)
  show ?thesis
    unfolding TerminateLaunch_def report_terminated_def report_kill_failure_def NewLaunchHandler_simps
      system_host_simps
    by (intro preserves_intros kill)
qed

subsection \<open>The other handlers, the recovery and the sweep\<close>

lemma sound_view: "keeps (\<lambda>s. (sys_db s, sys_mem s)) m \<Longrightarrow> preserves holds m"
  using keeps_preserves [where P = "\<lambda>(d, m). D d \<and> M m" and view = "\<lambda>s. (sys_db s, sys_mem s)"]
  by (simp add: sound_with_def [abs_def])

lemma sound_reconcileExecution [preserves_intros]: "preserves holds (reconcileExecution driver host rec)"
proof -
  have alive: "preserves holds (process_alive (system_host host) p)" for p
    unfolding process_alive_def system_host_simps by (intro preserves_intros)
  have sock: "preserves holds (SocketExists (system_host host) path)"
    "preserves holds (UnixSocketDialOK (system_host host) path)" for path
    unfolding SocketExists_def UnixSocketDialOK_def system_host_simps by (intro preserves_intros)+
  have socket: "preserves holds (socket_inspector b d e (system_host host) pid path)" for b d e pid path
    unfolding socket_inspector_def system_host_simps by (intro preserves_intros alive sock)
  have "preserves holds (ProcessInspector (system_host host) i pid prep)" for i pid prep
    unfolding ProcessInspector_def system_host_simps Let_def by (intro preserves_intros alive)
  with socket have insp: "preserves holds (StaticInspectorResolver (system_host host) backend i pid prep)"
    for backend i pid prep
    by (simp add: StaticInspectorResolver_def QemuInspector_def CloudHypervisorInspector_def)
  have "preserves holds (reconcile_observed (system_host host) now r obs)" for now r obs
    unfolding reconcile_observed_def Let_def by (intro preserves_intros)
  then show ?thesis
    unfolding reconcileExecution_def record_change_def Reconcile_def system_host_simps Let_def
    by (intro preserves_intros insp)
qed

lemma sound_reconcile_list [preserves_intros]: "preserves holds (reconcile_list driver host recs sums)"
  by (induction recs arbitrary: sums) (auto intro!: preserves_intros)

lemma sound_handlers [preserves_intros]:
  "preserves holds (ExecuteLaunch driver host bound)" "preserves holds (DryRunLaunch host bound)"
  "preserves holds (TerminateLaunch_handler driver host i)" "preserves holds (ListLaunches driver host)"
  "preserves holds (InspectLaunch driver host i)" "preserves holds (ObserveLaunch driver host i)"
  "preserves holds (InspectReadiness driver host i)"
  unfolding ExecuteLaunch_def DryRunLaunch_def TerminateLaunch_handler_def ListLaunches_def InspectLaunch_def
    ObserveLaunch_def InspectReadiness_def reconciled_view_def Let_def
  by (intro preserves_intros sound_executor; assumption?)+

lemma sound_boot [preserves_intros]: "preserves holds (boot_recovery driver host)"
proof -
  have "preserves holds (ProcessInspector (system_host host) i pid prep)" for i pid prep
    unfolding ProcessInspector_def process_alive_def system_host_simps Let_def by (intro preserves_intros)
  then have "preserves holds (recoverExecution (system_host host) (bootstrapper_of driver host epoch) rec)" for epoch rec
    unfolding recoverExecution_def recover_record_def recover_observed_def bootstrapper_of_simps
      system_host_simps Let_def
    by (intro preserves_intros)
  then have "preserves holds (recover_all (system_host host) (bootstrapper_of driver host epoch) recs)" for epoch recs
    by (induction recs) (auto intro!: preserves_intros)
  then show ?thesis
    unfolding boot_recovery_def NewRecoveryBootstrapper_def Bootstrap_def system_host_simps
      State_Monad.bind_assoc bind_ret bootstrapper_of_simps
    by (intro preserves_intros)
qed

lemma sound_sweep [preserves_intros]:
  "preserves holds (SweepOnce (system_host host) (NewOrphanSweepService driver enum))"
proof -
  have "preserves holds (sweep_orphan (system_host host) (NewOrphanSweepService driver enum) r)" for r
    unfolding sweep_orphan_def emitOrphanEvent_def NewOrphanSweepService_simps system_host_simps Let_def
    by (intro preserves_intros)
  then have "preserves holds (sweep_processes (system_host host) (NewOrphanSweepService driver enum) execs procs obs)"
    for execs procs obs
    by (induction procs arbitrary: obs) (auto simp: Let_def intro!: preserves_intros)
  then show ?thesis
    unfolding SweepOnce_def NewOrphanSweepService_simps system_host_simps by (intro preserves_intros)
qed

lemma sound_reads [preserves_intros]:
  "preserves holds (InspectTrace driver i)" "preserves holds (InspectEvents driver i)"
  "preserves holds (ListOrphans_handler driver flter)" "preserves holds (GetOrphan_handler driver i)"
  unfolding InspectTrace_def InspectEvents_def ListOrphans_handler_def GetOrphan_handler_def
  by (intro preserves_intros)+

lemma sound_restart: "preserves holds (restart driver host)"
proof -
  have "preserves holds (on_nodes (\<lambda>_. ((), NewInMemoryStore)))"
    by (simp add: preserves_def sound_with_def wp_on_nodes new_law)
  then show ?thesis unfolding restart_def by (intro preserves_intros)
qed

lemma step_sound: "server_step driver host enum s s' \<Longrightarrow> holds s \<Longrightarrow> holds s'"
proof (induction rule: server_step.induct)
  case (machine s w)
  then show ?case by (simp add: sound_with_def)
next
  case (ingest s now bound)
  then show ?case by (simp add: sound_with_def ingest_law)
qed (auto elim!: preservesD [rotated 2] intro: preserves_intros)

lemma reachable_sound: "reachable driver host enum s \<Longrightarrow> holds s"
proof (induction rule: reachable.induct)
  case (first_start w)
  then show ?case by (simp add: sound_with_def empty_law new_law)
next
  case (step s s')
  then show ?case by (blast intro: step_sound)
next
  case (restarted s s')
  then show ?case by (blast intro: preservesD [OF sound_restart])
qed

end

section \<open>The two invariants\<close>

text \<open>The tables are well formed, and so is the node store.\<close>

abbreviation sound :: "'w System \<Rightarrow> bool" where
  "sound \<equiv> sound_with db_ok mem_ok"

lemma sound_def: "sound s \<longleftrightarrow> db_ok (sys_db s) \<and> mem_ok (sys_mem s)"
  by (rule sound_with_def)

lemma Ingest_cases:
  obtains (refused) "snd (Ingest now bound m) = m"
  | (stored) env where "ProjectEnvelope now env = Inr (projected now env)"
      "snd (Ingest now bound m) = SaveNodeState env (projected now env) m"
proof (cases bound)
  case (Inl e)
  then show ?thesis by (intro refused) (simp add: Ingest_def)
next
  case (Inr env)
  show ?thesis
  proof (cases "list_ex provenance_panics (env_Capabilities env)")
    case True
    with Inr show ?thesis by (intro refused) (simp add: Ingest_def ProjectEnvelope_eq)
  next
    case False
    with Inr show ?thesis by (intro stored [of env]) (simp_all add: Ingest_def ProjectEnvelope_eq)
  qed
qed

lemma ingest_ok: "mem_ok m \<Longrightarrow> mem_ok (snd (Ingest now bound m))"
  by (rule Ingest_cases [of now bound m]) (simp_all add: mem_ok_SaveNodeState projected_ok)

interpretation plain: server_invariant db_ok mem_ok
proof
  show "db_ok \<lparr>db_executions = [], db_events = [], db_orphans = []\<rparr>"
    by (simp add: db_ok_def)
qed (simp_all add: SaveExecution_ok AppendEvent_ok UpsertOrphan_ok MarkMissing_ok ingest_ok)

text \<open>
  What is stored twice agrees: the time of the last update is a column and in the payload of a row, and
  a node record is what the projection made, at some time, of the raw envelope stored beside it.
\<close>

definition times_agree :: "SQLiteStore \<Rightarrow> bool" where
  "times_agree db \<longleftrightarrow> (\<forall>row\<in>set (db_executions db). row_updated_at_sec row = rec_UpdatedAtSec (row_payload row))"

definition nodes_projected :: "InMemoryStore \<Rightarrow> bool" where
  "nodes_projected m \<longleftrightarrow> mem_ok m \<and>
     (\<forall>i n. mget (mem_nodes m) i = Some n \<longrightarrow>
        (\<exists>env now. mget (mem_rawEnvelopes m) i = Some env \<and> env_NodeID env = i \<and> ProjectEnvelope now env = Inr n))"

lemma upsert_times:
  "\<forall>row\<in>set rows. row_updated_at_sec row = rec_UpdatedAtSec (row_payload row) \<Longrightarrow>
   \<forall>row\<in>set (upsert row_execution_id merge_execution (row_of rec) rows).
     row_updated_at_sec row = rec_UpdatedAtSec (row_payload row)"
  by (induction rows) (auto simp: merge_execution_def row_of_def)

lemma nodes_projected_save:
  assumes "nodes_projected m" and "ProjectEnvelope now env = Inr (projected now env)"
  shows "nodes_projected (SaveNodeState env (projected now env) m)"
proof -
  have "mem_ok (SaveNodeState env (projected now env) m)"
    using assms(1) by (simp add: nodes_projected_def mem_ok_SaveNodeState projected_ok)
  then show ?thesis
    using assms by (auto simp: nodes_projected_def SaveNodeState_def mget_mput)
qed

interpretation twice: server_invariant times_agree nodes_projected
proof
  show "times_agree (snd (SaveExecution flt rec db))" if "times_agree db" for flt rec db
    using that upsert_times [of "db_executions db" rec]
    by (cases flt) (simp_all add: times_agree_def SaveExecution_def)
next
  show "nodes_projected (snd (Ingest now bound m))" if "nodes_projected m" for now bound m
    by (rule Ingest_cases [of now bound m]) (use that in \<open>simp_all add: nodes_projected_save\<close>)
qed (auto simp: times_agree_def nodes_projected_def NewInMemoryStore_def AppendEvent_def UpsertOrphan_def
    MarkMissingAsDisappeared_def mem_ok_def gomap_ok_def split: option.splits)

end
