(* ===== verification/History.thy ===== *)
theory History
  imports Server
begin

text \<open>
  The history of one execution across everything the server does: requests, sweeps, crashes,
  restarts, and SQL statements that fail. \<open>evolves rec r\<close> says that \<open>r\<close> is a later version of
  \<open>rec\<close>; it is a preorder, so one watches a stored record through every operation by the invariant
  that what is stored has evolved from what was stored first. The locale \<open>watched_store\<close> is the
  contract of the write that makes this possible, also when the write may fail.
\<close>

section \<open>Later versions of a record\<close>

definition evolves :: "LaunchExecutionRecord \<Rightarrow> LaunchExecutionRecord \<Rightarrow> bool" where
  "evolves rec r \<longleftrightarrow>
     continues_from rec r \<and> IsTransitionAllowed\<^sup>*\<^sup>* (rec_State rec) (rec_State r) \<and>
     (terminal (rec_State rec) \<longrightarrow> r = rec)"

lemma evolves_refl [simp]: "evolves r r"
  by (simp add: evolves_def)

lemma evolves_trans: "evolves a b \<Longrightarrow> evolves b c \<Longrightarrow> evolves a c"
  unfolding evolves_def continues_from_def by (auto intro: rtranclp_trans prefix_order.trans)

lemma evolves_id: "evolves a b \<Longrightarrow> rec_ExecutionID b = rec_ExecutionID a"
  by (simp add: evolves_def continues_from_def)

lemma evolves_same:
  assumes "\<not> terminal (rec_State rec)" and "same_process rec r"
    and "rec_State r = rec_State rec \<or> IsTransitionAllowed (rec_State rec) (rec_State r)"
  shows "evolves rec r"
  using assms by (auto simp: evolves_def continues_from_def same_process_def)

lemma evolves_traced:
  assumes "\<not> terminal (rec_State rec)" and "evolves rec r"
  shows "evolves rec (traced st a c m t r)"
  using assms by (auto simp: evolves_def continues_from_def)

lemma evolves_moved:
  assumes "evolves rec r" and "IsTransitionAllowed (rec_State r) n"
  shows "evolves rec (traced st a c m t (r\<lparr>rec_State := n\<rparr>))"
proof -
  have "\<not> terminal (rec_State r)" using assms(2) terminal_stuck by blast
  moreover from this assms(1) have "\<not> terminal (rec_State rec)" by (auto simp: evolves_def)
  ultimately show ?thesis
    using assms by (auto simp: evolves_def continues_from_def intro: rtranclp.rtrancl_into_rtrancl)
qed

section \<open>Watching one stored record\<close>

text \<open>
  \<open>stored\<close> is the record under the watched id \<open>i\<close>. A write either leaves it alone (it failed, or
  wrote another id) or replaces it.
\<close>

locale watched_store =
  fixes store_rec :: "LaunchExecutionRecord \<Rightarrow> ('s, go_error option) state"
    and stored :: "'s \<Rightarrow> LaunchExecutionRecord option" and i :: string
  assumes write_law: "wp (store_rec rec)
      (\<lambda>_ s'. stored s' = stored s \<or> rec_ExecutionID rec = i \<and> stored s' = Some rec) s"
begin

text \<open>
  \<open>live rec0 r s\<close>: the stored record has evolved from \<open>rec0\<close>, and \<open>r\<close>, if it is a version of the
  watched execution, from the stored record.
\<close>

definition live :: "LaunchExecutionRecord \<Rightarrow> LaunchExecutionRecord \<Rightarrow> 's \<Rightarrow> bool" where
  "live rec0 r s \<longleftrightarrow>
     (\<exists>cur. stored s = Some cur \<and> evolves rec0 cur \<and> (rec_ExecutionID r = i \<longrightarrow> evolves cur r))"

definition past :: "LaunchExecutionRecord \<Rightarrow> 's \<Rightarrow> bool" where
  "past rec0 s \<longleftrightarrow> (\<exists>cur. stored s = Some cur \<and> evolves rec0 cur)"

lemma live_past: "live rec0 r s \<Longrightarrow> past rec0 s"
  by (auto simp: live_def past_def)

lemma live_keep: "live rec0 r s \<Longrightarrow> stored s' = stored s \<Longrightarrow> live rec0 r s'"
  by (simp add: live_def)

lemma live_evolves: "live rec0 r s \<Longrightarrow> evolves r r' \<Longrightarrow> live rec0 r' s"
  using evolves_id [of r r'] by (auto simp: live_def intro: evolves_trans)

lemma live_loaded: "past rec0 s \<Longrightarrow> (rec_ExecutionID r = i \<Longrightarrow> stored s = Some r) \<Longrightarrow> live rec0 r s"
  by (auto simp: live_def past_def)

lemma wp_write:
  assumes "live rec0 r s" and "\<And>err s'. live rec0 r s' \<Longrightarrow> Q err s'"
  shows "wp (store_rec r) Q s"
proof (rule wp_mono [OF write_law])
  fix err and s'
  assume "stored s' = stored s \<or> rec_ExecutionID r = i \<and> stored s' = Some r"
  then have "live rec0 r s'" using assms(1) by (auto simp: live_def intro: evolves_trans)
  then show "Q err s'" by (rule assms(2))
qed

lemma wp_write_other:
  assumes "rec_ExecutionID r \<noteq> i" and "\<And>err s'. stored s' = stored s \<Longrightarrow> Q err s'"
  shows "wp (store_rec r) Q s"
  by (rule wp_mono [OF write_law]) (use assms in auto)

end

text \<open>The SQL store is watched at every id, also when its statements may fail.\<close>

definition execution_at :: "string \<Rightarrow> 'w System \<Rightarrow> LaunchExecutionRecord option" where
  "execution_at i s = execution_view (sys_db s) i"

interpretation table: watched_store "\<lambda>rec. sql driver (\<lambda>flt. SaveExecution flt rec)" "execution_at i" i
  for driver i
proof
  fix rec and s :: "'a System"
  show "wp (sql driver (\<lambda>flt. SaveExecution flt rec))
      (\<lambda>_ s'. execution_at i s' = execution_at i s \<or> rec_ExecutionID rec = i \<and> execution_at i s' = Some rec) s"
    by (simp add: wp_sql wp_any execution_at_def SaveExecution_view)
qed

abbreviation since :: "string \<Rightarrow> LaunchExecutionRecord \<Rightarrow> 'w System \<Rightarrow> bool" where
  "since i rec0 \<equiv> table.past i rec0"

lemma since_iff: "since i rec0 s \<longleftrightarrow> (\<exists>cur. execution_view (sys_db s) i = Some cur \<and> evolves rec0 cur)"
  by (simp add: table.past_def) (simp add: execution_at_def)

section \<open>Operations that leave the executions alone\<close>

lemma keeps_at: "keeps executions_of m \<Longrightarrow> keeps (execution_at i) m"
  unfolding keeps_def executions_of_def execution_at_def by (blast intro: wp_mono arg_cong [where f = "\<lambda>v. v i"])

lemma keeps_since: "keeps (execution_at i) m \<Longrightarrow> preserves (since i rec0) m"
  unfolding preserves_def by (auto intro: keepsD simp: table.past_def)

lemma at_machine [keeps_intros]: "keeps (execution_at i) (on_machine m)"
  by (intro keeps_on_machine) (simp add: execution_at_def)

lemma at_nodes [keeps_intros]: "keeps (execution_at i) (on_nodes f)"
  by (simp add: keeps_def wp_on_nodes execution_at_def)

lemma at_read [keeps_intros]: "keeps (execution_at i) (sql_read driver f)"
  by (simp add: keeps_def sql_read_def wp_sql wp_any execution_at_def)

lemma other_tables:
  "db_executions (snd (UpsertOrphan flt r db)) = db_executions db"
  "db_executions (snd (MarkMissingAsDisappeared flt ids now db)) = db_executions db"
  by (cases flt; simp add: UpsertOrphan_def MarkMissingAsDisappeared_def)+

lemma at_other_tables [keeps_intros]:
  "keeps (execution_at i) (sql driver (\<lambda>flt. AppendEvent flt ev))"
  "keeps (execution_at i) (sql driver (\<lambda>flt. UpsertOrphan flt r))"
  "keeps (execution_at i) (sql driver (\<lambda>flt. MarkMissingAsDisappeared flt ids now))"
  by (simp_all add: keeps_def wp_sql wp_any execution_at_def execution_view_def [of "snd (UpsertOrphan flt r db)" for flt r db]
      execution_view_def [of "snd (MarkMissingAsDisappeared flt ids now db)" for flt ids now db] other_tables
      flip: execution_view_def)

lemma at_Reconcile [keeps_intros]:
  "keeps (execution_at i) (Reconcile (system_host host) (StaticInspectorResolver (system_host host) backend) rec)"
  by (rule keeps_at [OF keeps_Reconcile])

lemma at_change [keeps_intros]: "keeps (execution_at i) (record_change driver host before rec)"
  unfolding record_change_def system_host_simps by (intro keeps_intros)

lemma at_sweep: "keeps (execution_at i) (SweepOnce (system_host host) (NewOrphanSweepService driver enum))"
proof -
  have "keeps (execution_at i) (sweep_orphan (system_host host) (NewOrphanSweepService driver enum) r)" for r
    unfolding sweep_orphan_def emitOrphanEvent_def NewOrphanSweepService_simps system_host_simps Let_def
    by (intro keeps_intros)
  then have "keeps (execution_at i) (sweep_processes (system_host host) (NewOrphanSweepService driver enum) execs procs obs)"
    for execs procs obs
    by (induction procs arbitrary: obs) (auto simp: Let_def intro!: keeps_intros)
  then show ?thesis
    unfolding SweepOnce_def NewOrphanSweepService_simps system_host_simps by (intro keeps_intros)
qed

section \<open>Reconciling\<close>

lemma Reconcile_evolves:
  assumes "\<not> terminal (rec_State rec)"
  shows "wp (Reconcile host inspect rec) (\<lambda>r _. evolves rec (fst r)) s"
  by (rule wp_mono [OF wp_conj [OF Reconcile_same Reconcile_allowed]]) (use assms in \<open>auto intro: evolves_same\<close>)

lemma live_Reconcile:
  fixes s :: "'w System"
  assumes "table.live i rec0 rec s" and "\<not> terminal (rec_State rec)"
    and "\<And>r s'. table.live i rec0 (fst r) s' \<Longrightarrow> rec_ExecutionID (fst r) = rec_ExecutionID rec \<Longrightarrow> Q r s'"
  shows "wp (Reconcile (system_host host) (StaticInspectorResolver (system_host host) backend) rec) Q s"
proof (rule wp_mono [OF wp_conj [OF Reconcile_evolves [OF assms(2)]]])
  show "wp (Reconcile (system_host host) (StaticInspectorResolver (system_host host) backend) rec)
      (\<lambda>_ s'. execution_at i s' = execution_at i s) s"
    by (rule keepsD [OF at_Reconcile]) simp
next
  fix r :: "LaunchExecutionRecord \<times> go_error option" and s' :: "'w System"
  assume "evolves rec (fst r) \<and> execution_at i s' = execution_at i s"
  then show "Q r s'"
    by (intro assms(3) table.live_evolves [OF table.live_keep [OF assms(1)]]) (auto simp: evolves_id)
qed

lemma reconcile_watched:
  assumes "table.live i rec0 rec s"
  shows "wp (reconcileExecution driver host rec) (\<lambda>_ s'. since i rec0 s') s"
proof (cases "terminal (rec_State rec)")
  case True
  then show ?thesis
    using table.live_past [OF assms] by (auto simp: reconcileExecution_def terminal_def)
next
  case False
  then have "\<not> (rec_State rec = StateExited \<or> rec_State rec = StateFailed \<or> rec_State rec = StateTerminated)"
    by (auto simp: terminal_def)
  then show ?thesis
    unfolding reconcileExecution_def Let_def if_not_P
  proof (intro wp_bindI live_Reconcile [OF assms False] wp_ifI wp_retI keepsD [OF at_change])
    fix r :: "LaunchExecutionRecord \<times> go_error option" and s1 s2 :: "'a System"
    assume "table.live i rec0 (fst r) s1" "execution_at i s2 = execution_at i s1"
    then have "table.live i rec0 (fst r) s2" by (rule table.live_keep)
    then show "wp (sql driver (\<lambda>flt. SaveExecution flt (fst r)))
        (\<lambda>err. wp (ret (fst r, err)) (\<lambda>_ s'. since i rec0 s')) s2"
      by (rule table.wp_write) (simp add: table.live_past)
  qed (auto elim: table.live_past)
qed

lemma reconcile_other:
  assumes "rec_ExecutionID rec \<noteq> i"
  shows "wp (reconcileExecution driver host rec) (\<lambda>_ s'. execution_at i s' = execution_at i s) s"
proof -
  have same: "wp (Reconcile (system_host host) (StaticInspectorResolver (system_host host) backend) rec)
      (\<lambda>r s'. rec_ExecutionID (fst r) = rec_ExecutionID rec \<and> execution_at i s' = execution_at i s) s" for backend
  proof (rule wp_mono [OF wp_conj [OF Reconcile_same]])
    show "wp (Reconcile (system_host host) (StaticInspectorResolver (system_host host) backend) rec)
        (\<lambda>_ s'. execution_at i s' = execution_at i s) s"
      by (rule keepsD [OF at_Reconcile]) simp
  qed (simp add: same_process_def)
  show ?thesis
    unfolding reconcileExecution_def Let_def
    by (intro wp_ifI wp_retI refl wp_bindI wp_mono [OF same] keepsD [OF at_change [of i]] table.wp_write_other)
      (use assms in auto)
qed

lemma listed_stored:
  assumes "db_ok db" and "listByStateCondition flt c db = Inr recs"
  shows "distinct (map rec_ExecutionID recs)"
    and "rec \<in> set recs \<Longrightarrow> execution_view db (rec_ExecutionID rec) = Some rec"
proof -
  have recs: "recs = map row_payload (filter c (db_executions db))"
    using assms(2) by (auto simp: listByStateCondition_def split: option.splits)
  have dist: "distinct (map row_execution_id (db_executions db))"
    and ok: "\<forall>row\<in>set (db_executions db). row_ok row"
    using assms(1) by (auto simp: db_ok_def list_all_iff)
  have "map rec_ExecutionID recs = map row_execution_id (filter c (db_executions db))"
    using ok by (auto simp: recs row_ok_def)
  then show "distinct (map rec_ExecutionID recs)" using dist by (simp add: distinct_map_filter)
  assume "rec \<in> set recs"
  then obtain row where row: "row \<in> set (db_executions db)" "rec = row_payload row" by (auto simp: recs)
  with key_view_in [OF dist row(1)] ok show "execution_view db (rec_ExecutionID rec) = Some rec"
    by (auto simp: execution_view_def row_ok_def)
qed

lemma reconcile_list_watched:
  assumes "since i rec0 s" and "distinct (map rec_ExecutionID recs)"
    and "\<forall>r\<in>set recs. rec_ExecutionID r = i \<longrightarrow> execution_at i s = Some r"
  shows "wp (reconcile_list driver host recs sums) (\<lambda>_ s'. since i rec0 s') s"
  using assms
proof (induction recs arbitrary: sums s)
  case (Cons r recs)
  have live: "table.live i rec0 r s"
    by (rule table.live_loaded [OF Cons.prems(1)]) (use Cons.prems(3) in simp)
  show ?case
  proof (cases "rec_ExecutionID r = i")
    case True
    then have "\<forall>r\<in>set recs. rec_ExecutionID r \<noteq> i" using Cons.prems(2) by (auto simp: image_iff)
    then show ?thesis
      unfolding reconcile_list.simps
      by (intro wp_bindI wp_mono [OF reconcile_watched [OF live]] Cons.IH) (use Cons.prems(2) in auto)
  next
    case False
    show ?thesis
      unfolding reconcile_list.simps
      by (intro wp_bindI wp_mono [OF wp_conj [OF reconcile_watched [OF live] reconcile_other [OF False]]] Cons.IH)
        (use Cons.prems in auto)
  qed
qed simp

section \<open>The handlers\<close>

text \<open>An id read from the table: what the read returns is stored under that id.\<close>

lemma got_stored:
  assumes "sound s" and "GetExecution flt j (sys_db s) = (r, True, None)"
  shows "execution_view (sys_db s) j = Some r" and "rec_ExecutionID r = j"
proof -
  show "execution_view (sys_db s) j = Some r"
    using assms(2) by (auto simp: GetExecution_view split: option.splits)
  then show "rec_ExecutionID r = j"
    using assms(1) by (auto simp: sound_def intro: execution_view_own)
qed

lemma wp_loaded:
  assumes "sound s" and "since i rec0 s"
    and "\<And>r s'. table.live i rec0 r s' \<Longrightarrow> rec_ExecutionID r = j \<Longrightarrow> Q (r, True, None) s'"
    and "\<And>got s'. since i rec0 s' \<Longrightarrow> \<not> fst (snd got) \<or> snd (snd got) \<noteq> None \<Longrightarrow> Q got s'"
  shows "wp (sql_read driver (\<lambda>flt. GetExecution flt j)) Q s"
  unfolding sql_read_def wp_sql fst_conv snd_conv
proof (rule wp_any)
  fix flt and w :: 'a
  let ?s = "s\<lparr>sys_machine := w, sys_db := sys_db s\<rparr>"
  have s: "execution_at i ?s = execution_at i s" by (simp add: execution_at_def)
  obtain r found err where got: "GetExecution flt j (sys_db s) = (r, found, err)"
    by (cases "GetExecution flt j (sys_db s)") auto
  show "Q (GetExecution flt j (sys_db s)) ?s"
  proof (cases "found \<and> err = None")
    case True
    then have "execution_view (sys_db s) j = Some r" "rec_ExecutionID r = j"
      using got_stored [OF assms(1)] got by auto
    then have "table.live i rec0 r ?s"
      using assms(2) s by (intro table.live_loaded) (auto simp: table.past_def execution_at_def)
    then show ?thesis using True got \<open>rec_ExecutionID r = j\<close> assms(3) by simp
  next
    case False
    then show ?thesis using assms(2,4) got s by (auto simp: table.past_def)
  qed
qed

lemma reconciled_view_watched:
  assumes "sound s" and "since i rec0 s" and "\<And>r. keeps (execution_at i) (answer r)"
  shows "wp (reconciled_view driver host j answer) (\<lambda>_ s'. since i rec0 s') s"
proof -
  have answered: "wp (answer r) (\<lambda>_ s'. since i rec0 s') s1" if "since i rec0 s1" for r s1
    using keeps_since [OF assms(3)] that unfolding preserves_def by blast
  show ?thesis
    unfolding reconciled_view_def
  proof (rule wp_bindI, rule wp_loaded [OF assms(1,2)])
    fix r and s' :: "'a System" assume "table.live i rec0 r s'"
    then show "wp (case (r, True, None) of (rec, found, err) \<Rightarrow>
        if err \<noteq> None \<or> \<not> found then ret (ErrorReply 404 ''Execution not found'' None)
        else do { res \<leftarrow> reconcileExecution driver host rec; answer (fst res) })
        (\<lambda>_ s'. since i rec0 s') s'"
      by (simp, intro wp_bindI wp_mono [OF reconcile_watched] answered)
  qed (auto split: prod.split)
qed

text \<open>A launch writes under the id it has drawn, and nowhere else.\<close>

interpretation elsewhere: launch_calls "system_host host" "NewLaunchHandler driver host" "execution_at i"
    "\<lambda>rec v v'. rec_ExecutionID rec \<noteq> i \<longrightarrow> v' = v"
  for driver host i
proof
  fix rec and s :: "'a System"
  show "wp (orc_SaveExecution (NewLaunchHandler driver host) rec)
      (\<lambda>_ s'. rec_ExecutionID rec \<noteq> i \<longrightarrow> execution_at i s' = execution_at i s) s"
    by (simp add: wp_sql wp_any execution_at_def SaveExecution_view)
next
  fix b and s :: "'a System"
  show "wp (orc_Resolve (NewLaunchHandler driver host) b)
      (\<lambda>r s'. execution_at i s' = execution_at i s \<and>
         (\<forall>E. r = Inr E \<longrightarrow> (\<forall>spec. keeps (execution_at i) (exec_Prepare E spec)) \<and>
            (\<forall>p. keeps (execution_at i) (exec_Execute E p)) \<and>
            (\<forall>pid. keeps (execution_at i) (exec_Terminate E pid)))) s"
    by (simp add: machine_executor [where view = "execution_at i"] execution_at_def)
qed (auto intro!: keeps_intros)

lemma launch_watched:
  assumes "\<And>w. wp (host_NewUUID host) (\<lambda>u _. u \<noteq> i) w" and "since i rec0 s"
  shows "wp (StartLaunch (system_host host) (NewLaunchHandler driver host) spec) (\<lambda>_ s'. since i rec0 s') s"
proof (rule wp_mono [OF elsewhere.StartLaunch_files_new [where P = "\<lambda>u. u \<noteq> i" and i = i]])
  fix s' :: "'a System"
  show "wp (host_NewUUID (system_host host)) (\<lambda>u _. u \<noteq> i) s'"
    by (simp add: wp_on_machine assms(1))
next
  fix r and s' :: "'a System"
  assume "rec_ExecutionID r \<noteq> i \<and> elsewhere.filed i s (rec_ExecutionID r) r s'"
  then show "since i rec0 s'"
    using assms(2) by (simp add: elsewhere.filed_def table.past_def)
qed

subsection \<open>Termination\<close>

lemma live_transition:
  assumes "table.live i rec0 r s"
    and "\<And>r' s'. table.live i rec0 r' s' \<Longrightarrow>
      rec_State r' = (if IsTransitionAllowed (rec_State r) n then n else rec_State r) \<Longrightarrow> Q r' s'"
  shows "wp (transition (system_host host) r n c m) Q s"
proof (cases "IsTransitionAllowed (rec_State r) n")
  case True
  have "wp (host_Now (system_host host))
      (\<lambda>t s'. Q (traced ''StateTransition'' ''Success'' c m t (r\<lparr>rec_State := n\<rparr>)) s') s"
    unfolding system_host_simps
  proof (rule keepsD [OF at_machine [of i]])
    fix t and s' :: "'a System" assume "execution_at i s' = execution_at i s"
    with assms(1) have "table.live i rec0 r s'" by (rule table.live_keep)
    then show "Q (traced ''StateTransition'' ''Success'' c m t (r\<lparr>rec_State := n\<rparr>)) s'"
      by (intro assms(2) table.live_evolves [OF _ evolves_moved [OF evolves_refl True]]) (simp_all add: True)
  qed
  then show ?thesis by (simp add: transition_def True)
next
  case False
  then show ?thesis using assms(2) [OF assms(1)] by (simp add: transition_def)
qed

lemma live_now:
  assumes "table.live i rec0 r s" and "\<And>t s'. table.live i rec0 r s' \<Longrightarrow> Q t s'"
  shows "wp (host_Now (system_host host)) Q s"
  unfolding system_host_simps
  by (rule keepsD [OF at_machine [of i]], rule assms(2), rule table.live_keep [OF assms(1)])

lemma live_save:
  assumes "table.live i rec0 r s" and "\<And>s'. table.live i rec0 r s' \<Longrightarrow> Q () s'"
  shows "wp (save (NewLaunchHandler driver host) r) Q s"
  unfolding save_def NewLaunchHandler_simps
  by (intro wp_bindI wp_retI table.wp_write [OF assms(1)] assms(2))

lemma live_event:
  assumes "table.live i rec0 r s" and "\<And>s'. table.live i rec0 r s' \<Longrightarrow> Q () s'"
  shows "wp (emitEvent (system_host host) (NewLaunchHandler driver host) t r' c m) Q s"
proof -
  have "keeps (execution_at i) (emitEvent (system_host host) (NewLaunchHandler driver host) t r' c m)"
    unfolding emitEvent_def NewLaunchHandler_simps system_host_simps Let_def option.case
    by (intro keeps_intros)
  then show ?thesis
    by (rule keepsD) (auto intro: assms(2) table.live_keep [OF assms(1)])
qed

lemma live_kill:
  assumes "table.live i rec0 r s" and "\<And>err s'. table.live i rec0 r s' \<Longrightarrow> Q err s'"
  shows "wp (kill_process_of (NewLaunchHandler driver host) r') Q s"
  by (rule wp_mono [OF elsewhere.kill_keeps [where i = i]]) (intro assms(2) table.live_keep [OF assms(1)])

lemma report_watched:
  assumes "table.live i rec0 r s" and "\<not> terminal (rec_State r)"
  shows "wp (report_terminated (system_host host) (NewLaunchHandler driver host) r) (\<lambda>_ s'. since i rec0 s') s"
    and "wp (report_kill_failure (system_host host) (NewLaunchHandler driver host) r e) (\<lambda>_ s'. since i rec0 s') s"
proof -
  show "wp (report_terminated (system_host host) (NewLaunchHandler driver host) r) (\<lambda>_ s'. since i rec0 s') s"
    unfolding report_terminated_def
  proof (rule wp_bindI, rule live_now [OF assms(1)])
    fix t and s' :: "'a System" assume "table.live i rec0 r s'"
    then have "table.live i rec0 (r\<lparr>rec_TerminatedAtSec := Some t, rec_RuntimeLiveness := ''Dead'',
        rec_RuntimeReadiness := ''NotReady''\<rparr>) s'"
      by (rule table.live_evolves) (use assms(2) in \<open>simp add: evolves_def continues_from_def\<close>)
    then show "wp (do {
        r2 \<leftarrow> transition (system_host host)
             (r\<lparr>rec_TerminatedAtSec := Some t, rec_RuntimeLiveness := ''Dead'',
                 rec_RuntimeReadiness := ''NotReady''\<rparr>)
             StateTerminated '''' ''Process terminated successfully'';
        _ \<leftarrow> save (NewLaunchHandler driver host) r2;
        _ \<leftarrow> emitEvent (system_host host) (NewLaunchHandler driver host) EventTypeTerminated r2 ''''
               ''Process terminated successfully'';
        ret (r2, None) }) (\<lambda>_ s'. since i rec0 s') s'"
      unfolding wp_bind wp_return
      by (rule live_transition, elim live_save live_event, elim table.live_past)
  qed
  show "wp (report_kill_failure (system_host host) (NewLaunchHandler driver host) r e) (\<lambda>_ s'. since i rec0 s') s"
    unfolding report_kill_failure_def wp_bind wp_AppendTrace
  proof (rule live_now [OF assms(1)])
    fix t and s' :: "'a System" assume "table.live i rec0 r s'"
    then have "table.live i rec0 (traced ''Termination'' ''Failed'' ReasonErrTermSignalFailed e t r) s'"
      by (rule table.live_evolves) (intro evolves_traced assms(2) evolves_refl)
    then show "wp (save (NewLaunchHandler driver host) (traced ''Termination'' ''Failed'' ReasonErrTermSignalFailed e t r))
        (\<lambda>_. wp (emitEvent (system_host host) (NewLaunchHandler driver host) EventTypeTerminationFailed
             (traced ''Termination'' ''Failed'' ReasonErrTermSignalFailed e t r) ReasonErrTermSignalFailed e)
           (\<lambda>_. wp (ret (traced ''Termination'' ''Failed'' ReasonErrTermSignalFailed e t r, Some e))
              (\<lambda>_ s'. since i rec0 s'))) s'"
      unfolding wp_return by (elim live_save live_event, elim table.live_past)
  qed
qed

lemma terminate_watched:
  assumes "sound s" and "since i rec0 s"
  shows "wp (TerminateLaunch (system_host host) (NewLaunchHandler driver host) j) (\<lambda>_ s'. since i rec0 s') s"
  unfolding TerminateLaunch_def NewLaunchHandler_simps
proof (rule wp_bindI, rule wp_loaded [OF assms])
  fix rec and s1 :: "'a System"
  assume live: "table.live i rec0 rec s1"
  show "wp (case (rec, True, None) of (rec, found, err) \<Rightarrow>
       if err \<noteq> None \<or> \<not> found
       then ret (rec, Some (''execution not found or err: '' @
              (case err of None \<Rightarrow> ''%!w(<nil>)'' | Some e \<Rightarrow> e)))
       else if rec_State rec = StateTerminated \<or> rec_State rec = StateFailed \<or> rec_State rec = StateExited
       then ret (rec, None)
       else do {
         r1 \<leftarrow> transition (system_host host) rec StateTerminating '''' ''Termination requested by API'';
         _ \<leftarrow> save (NewLaunchHandler driver host) r1;
         _ \<leftarrow> emitEvent (system_host host) (NewLaunchHandler driver host) EventTypeTerminationRequested r1 ''''
                ''Termination requested by API'';
         kill_err \<leftarrow> kill_process_of (NewLaunchHandler driver host) r1;
         (case kill_err of
            None \<Rightarrow> report_terminated (system_host host) (NewLaunchHandler driver host) r1
          | Some e \<Rightarrow> report_kill_failure (system_host host) (NewLaunchHandler driver host) r1 e)
       }) (\<lambda>_ s'. since i rec0 s') s1"
    unfolding prod.case
  proof (intro wp_ifI wp_retI table.live_past [OF live], goal_cases)
    case 1
    then have open': "\<not> terminal (rec_State rec)" by (auto simp: terminal_def)
    show ?case
      unfolding wp_bind
    proof (rule live_transition [OF live], rule live_save, assumption, rule live_event, assumption,
        rule live_kill, assumption)
      fix r1 kill_err and s2 :: "'a System"
      assume r1: "rec_State r1 = (if IsTransitionAllowed (rec_State rec) StateTerminating
            then StateTerminating else rec_State rec)" and live1: "table.live i rec0 r1 s2"
      have open1: "\<not> terminal (rec_State r1)" using r1 open' by simp
      show "wp (case kill_err of
            None \<Rightarrow> report_terminated (system_host host) (NewLaunchHandler driver host) r1
          | Some e \<Rightarrow> report_kill_failure (system_host host) (NewLaunchHandler driver host) r1 e)
          (\<lambda>_ s'. since i rec0 s') s2"
        using report_watched [OF live1 open1] by (simp split: option.split)
    qed
  qed
qed (auto split: prod.split)

subsection \<open>Recovery\<close>

lemma recovered_evolves:
  assumes "\<not> terminal (rec_State rec)" and recovered: "recovered_by clock seen epoch rec r"
  shows "evolves rec r"
proof -
  note same = recovered_by_same [OF recovered]
  from recovered have "rec_State r = rec_State rec \<or> rec_State r = StateUnknown \<or>
      rec_State rec = StateTerminating \<and> rec_State r = StateTerminated"
    by (auto simp: recovered_by_def split: option.splits if_splits)
  then have "rec_State r = rec_State rec \<or> IsTransitionAllowed (rec_State rec) (rec_State r)"
    using to_unknown [OF assms(1)] by (auto simp: IsTransitionAllowed_def)
  with evolves_same [OF assms(1) same] show ?thesis .
qed

lemma at_recover_record:
  "keeps (execution_at i) (recover_record (system_host host) (ProcessInspector (system_host host)) rec)"
proof -
  have "keeps (execution_at i) (ProcessInspector (system_host host) i' pid prep)" for i' pid prep
    unfolding ProcessInspector_def process_alive_def system_host_simps Let_def by (intro keeps_intros)
  then show ?thesis
    unfolding recover_record_def recover_observed_def TransitionTo_def AppendTrace_def system_host_simps Let_def
    by (intro keeps_intros)
qed

text \<open>Recovering one execution is observing it, writing the result, and an event.\<close>

lemma recoverExecution_calls:
  "\<exists>event. (\<forall>now res. keeps (execution_at i) (event now res)) \<and>
     recoverExecution (system_host host) (bootstrapper_of driver host epoch) rec = do {
       now \<leftarrow> host_Now (system_host host);
       res \<leftarrow> recover_record (system_host host) (ProcessInspector (system_host host))
               (rec\<lparr>rec_RecoveryEpoch := epoch, rec_LastObservedAtSec := Some now\<rparr>);
       _ \<leftarrow> sql driver (\<lambda>flt. SaveExecution flt (fst res));
       event now res
     }"
proof (intro exI conjI allI)
  let ?event = "\<lambda>now (res :: LaunchExecutionRecord \<times> EventType \<times> string \<times> string). do {
       uid \<leftarrow> host_NewUUID (system_host host);
       _ \<leftarrow> sql driver (\<lambda>flt. AppendEvent flt
         \<lparr>ev_EventID = uid, ev_ExecutionID = rec_ExecutionID (fst res), ev_EventType = fst (snd res),
          ev_TimestampSec = now, ev_ReasonCode = fst (snd (snd res)),
          ev_PayloadJSON = Some (PayloadMessage (snd (snd (snd res))))\<rparr>);
       ret ()
     }"
  show "keeps (execution_at i) (?event now res)" for now res
    unfolding system_host_simps by (intro keeps_intros)
  show "recoverExecution (system_host host) (bootstrapper_of driver host epoch) rec = do {
       now \<leftarrow> host_Now (system_host host);
       res \<leftarrow> recover_record (system_host host) (ProcessInspector (system_host host))
               (rec\<lparr>rec_RecoveryEpoch := epoch, rec_LastObservedAtSec := Some now\<rparr>);
       _ \<leftarrow> sql driver (\<lambda>flt. SaveExecution flt (fst res));
       ?event now res
     }"
    by (simp add: recoverExecution_def case_prod_unfold)
qed

lemma recoverExecution_watched:
  assumes open': "\<not> terminal (rec_State rec)"
  shows "table.live i rec0 rec s \<Longrightarrow>
      wp (recoverExecution (system_host host) (bootstrapper_of driver host epoch) rec) (\<lambda>_ s'. since i rec0 s') s"
    and "rec_ExecutionID rec \<noteq> i \<Longrightarrow>
      wp (recoverExecution (system_host host) (bootstrapper_of driver host epoch) rec)
        (\<lambda>_ s'. execution_at i s' = execution_at i s) s"
proof -
  let ?recover = "\<lambda>now. recover_record (system_host host) (ProcessInspector (system_host host))
        (rec\<lparr>rec_RecoveryEpoch := epoch, rec_LastObservedAtSec := Some now\<rparr>)"
  have recover: "wp (?recover now) (\<lambda>r s'. evolves rec (fst r) \<and> execution_at i s' = execution_at i s1) s1" for now s1
  proof (rule wp_mono [OF wp_conj [OF recover_record_row [where clock = "\<lambda>_. True", OF open' process_inspector_seen TrueI]]])
    show "wp (?recover now) (\<lambda>_ s'. execution_at i s' = execution_at i s1) s1"
      by (rule keepsD [OF at_recover_record]) simp
  qed (auto intro: recovered_evolves [OF open'])
  obtain event where event: "\<And>now res. keeps (execution_at i) (event now res)"
    and calls: "recoverExecution (system_host host) (bootstrapper_of driver host epoch) rec = do {
       now \<leftarrow> host_Now (system_host host);
       res \<leftarrow> ?recover now;
       _ \<leftarrow> sql driver (\<lambda>flt. SaveExecution flt (fst res));
       event now res
     }"
    using recoverExecution_calls [of i host driver epoch rec] by blast
  show "wp (recoverExecution (system_host host) (bootstrapper_of driver host epoch) rec)
      (\<lambda>_ s'. since i rec0 s') s" if live: "table.live i rec0 rec s"
    unfolding calls wp_bind
  proof (rule live_now [OF live], rule wp_mono [OF recover], elim conjE)
    fix now and s1 s2 :: "'a System" and res :: "LaunchExecutionRecord \<times> EventType \<times> string \<times> string"
    assume "table.live i rec0 rec s1" "evolves rec (fst res)" "execution_at i s2 = execution_at i s1"
    then have "table.live i rec0 (fst res) s2"
      using table.live_evolves table.live_keep by blast
    then show "wp (sql driver (\<lambda>flt. SaveExecution flt (fst res)))
        (\<lambda>_. wp (event now res) (\<lambda>_ s'. since i rec0 s')) s2"
      by (rule table.wp_write) (rule keepsD [OF event], simp add: table.past_def table.live_def, blast)
  qed
  show "wp (recoverExecution (system_host host) (bootstrapper_of driver host epoch) rec)
        (\<lambda>_ s'. execution_at i s' = execution_at i s) s" if other: "rec_ExecutionID rec \<noteq> i"
    unfolding calls wp_bind system_host_simps
  proof (rule keepsD [OF at_machine [of i]], rule wp_mono [OF recover [unfolded system_host_simps]], elim conjE)
    fix now and s1 s2 :: "'a System" and res :: "LaunchExecutionRecord \<times> EventType \<times> string \<times> string"
    assume st: "execution_at i s1 = execution_at i s" "execution_at i s2 = execution_at i s1"
      and "evolves rec (fst res)"
    then have "rec_ExecutionID (fst res) \<noteq> i" using other by (simp add: evolves_id)
    then show "wp (sql driver (\<lambda>flt. SaveExecution flt (fst res)))
        (\<lambda>_. wp (event now res) (\<lambda>_ s'. execution_at i s' = execution_at i s)) s2"
      by (rule table.wp_write_other) (rule keepsD [OF event], simp add: st)
  qed
qed

lemma recover_all_watched:
  assumes "since i rec0 s" and "distinct (map rec_ExecutionID recs)"
    and "\<forall>r\<in>set recs. \<not> terminal (rec_State r) \<and> (rec_ExecutionID r = i \<longrightarrow> execution_at i s = Some r)"
  shows "wp (recover_all (system_host host) (bootstrapper_of driver host epoch) recs) (\<lambda>_ s'. since i rec0 s') s"
  using assms
proof (induction recs arbitrary: s)
  case (Cons r recs)
  have live: "table.live i rec0 r s"
    by (rule table.live_loaded [OF Cons.prems(1)]) (use Cons.prems(3) in simp)
  have open': "\<not> terminal (rec_State r)" using Cons.prems(3) by simp
  note watched = recoverExecution_watched [OF open']
  show ?case
  proof (cases "rec_ExecutionID r = i")
    case True
    then have "\<forall>r\<in>set recs. rec_ExecutionID r \<noteq> i" using Cons.prems(2) by (auto simp: image_iff)
    then show ?thesis
      unfolding recover_all.simps
      by (intro wp_bindI wp_mono [OF watched(1) [OF live]] Cons.IH) (use Cons.prems(2,3) in auto)
  next
    case False
    show ?thesis
      unfolding recover_all.simps
      by (intro wp_bindI wp_mono [OF wp_conj [OF watched(1) [OF live] watched(2) [OF False]]] Cons.IH)
        (use Cons.prems in auto)
  qed
qed simp

text \<open>The two listings: every record listed is the one stored under its id.\<close>

lemma wp_listed:
  assumes "sound s" and "since i rec0 s"
    and "\<And>recs s'. since i rec0 s' \<Longrightarrow> distinct (map rec_ExecutionID recs) \<Longrightarrow>
      (\<forall>r\<in>set recs. rec_ExecutionID r = i \<longrightarrow> execution_at i s' = Some r) \<Longrightarrow>
      (\<forall>r\<in>set recs. \<exists>row. row_payload row = r \<and> row_ok row \<and> c row) \<Longrightarrow> Q (Inr recs) s'"
    and "\<And>err s'. since i rec0 s' \<Longrightarrow> Q (Inl err) s'"
  shows "wp (sql_read driver (\<lambda>flt. listByStateCondition flt c)) Q s"
  unfolding sql_read_def wp_sql fst_conv snd_conv
proof (rule wp_any)
  fix flt and w :: 'a
  let ?s = "s\<lparr>sys_machine := w, sys_db := sys_db s\<rparr>"
  have past: "since i rec0 ?s" using assms(2) by (simp add: table.past_def execution_at_def)
  show "Q (listByStateCondition flt c (sys_db s)) ?s"
  proof (cases "listByStateCondition flt c (sys_db s)")
    case (Inl err)
    then show ?thesis using assms(4) past by simp
  next
    case (Inr recs)
    have ok: "db_ok (sys_db s)" using assms(1) by (simp add: sound_def)
    have "recs = map row_payload (filter c (db_executions (sys_db s)))"
      using Inr by (auto simp: listByStateCondition_def split: option.splits)
    then have rows: "\<forall>r\<in>set recs. \<exists>row. row_payload row = r \<and> row_ok row \<and> c row"
      using ok by (auto simp: db_ok_def list_all_iff)
    have "Q (Inr recs) ?s"
      by (rule assms(3) [OF past listed_stored(1) [OF ok Inr] _ rows])
        (use listed_stored(2) [OF ok Inr] in \<open>auto simp: execution_at_def\<close>)
    then show ?thesis by (simp add: Inr)
  qed
qed

lemma list_watched:
  assumes "sound s" and "since i rec0 s"
  shows "wp (ListLaunches driver host) (\<lambda>_ s'. since i rec0 s') s"
  unfolding ListLaunches_def ListExecutions_def
  by (rule wp_bindI, rule wp_listed [OF assms]) (auto intro!: wp_bindI wp_mono [OF reconcile_list_watched])

lemma boot_watched:
  assumes "sound s" and "since i rec0 s"
  shows "wp (boot_recovery driver host) (\<lambda>_ s'. since i rec0 s') s"
proof -
  have boot: "wp (Bootstrap (system_host host) (bootstrapper_of driver host epoch)) (\<lambda>_ s'. since i rec0 s') s1"
    if "sound s1" "since i rec0 s1" for epoch s1
    unfolding Bootstrap_def bootstrapper_of_simps ListRecoverableExecutions_def
  proof (rule wp_bindI, rule wp_listed [OF that])
    fix recs and s2 :: "'a System"
    assume s2: "since i rec0 s2" "distinct (map rec_ExecutionID recs)"
        "\<forall>r\<in>set recs. rec_ExecutionID r = i \<longrightarrow> execution_at i s2 = Some r"
      and rows: "\<forall>r\<in>set recs. \<exists>row. row_payload row = r \<and> row_ok row \<and> state_not_terminal row"
    from rows have "\<forall>r\<in>set recs. \<not> terminal (rec_State r)"
      by (auto simp: row_ok_def state_not_terminal_def terminal_def)
    with s2 show "wp (case Inr recs of
        Inl err \<Rightarrow> ret (Some (''failed to list recoverable executions: '' @ err))
      | Inr recs \<Rightarrow> do { _ \<leftarrow> recover_all (system_host host) (bootstrapper_of driver host epoch) recs; ret None })
      (\<lambda>_ s'. since i rec0 s') s2"
      by (auto intro!: wp_bindI wp_mono [OF recover_all_watched])
  qed simp
  have "keeps (\<lambda>s. (sound s, execution_at i s)) (on_machine (host_NewUUID host))"
    by (intro keeps_on_machine) (simp add: sound_def execution_at_def)
  then show ?thesis
    unfolding boot_recovery_def NewRecoveryBootstrapper_def State_Monad.bind_assoc bind_ret system_host_simps
    by (intro wp_bindI, elim keepsD, intro boot) (use assms in \<open>auto simp: table.past_def\<close>)
qed

lemma restart_watched:
  assumes "sound s" and "since i rec0 s"
  shows "wp (restart driver host) (\<lambda>_ s'. since i rec0 s') s"
  unfolding restart_def wp_bind wp_on_nodes
  by (rule boot_watched) (use assms in \<open>auto simp: sound_def table.past_def execution_at_def\<close>)

section \<open>Runs of the server\<close>

text \<open>
  The other handlers do not write executions. \<open>step_watched\<close> goes through the routes; the id of a
  watched execution is never drawn again.
\<close>

lemma silent_handlers:
  "preserves (since i rec0) (DryRunLaunch host bound)" "preserves (since i rec0) (InspectTrace driver j)"
  "preserves (since i rec0) (InspectEvents driver j)" "preserves (since i rec0) (ListOrphans_handler driver flter)"
  "preserves (since i rec0) (GetOrphan_handler driver j)"
  "preserves (since i rec0) (SweepOnce (system_host host) (NewOrphanSweepService driver enum))"
proof -
  have prepare: "preserves (since i rec0) (exec_Prepare E spec)"
    if "StaticExecutorResolver (system_host host) b = Inr E" for E b spec
    by (rule keeps_since, rule machine_executor(1) [OF _ that]) (simp add: execution_at_def)
  have "preserves (since i rec0) (on_nodes f)" for f :: "InMemoryStore \<Rightarrow> 'b \<times> InMemoryStore"
    by (rule keeps_since [OF at_nodes])
  then show "preserves (since i rec0) (DryRunLaunch host bound)"
    unfolding DryRunLaunch_def Let_def by (intro preserves_intros prepare; assumption?)
qed (unfold InspectTrace_def InspectEvents_def ListOrphans_handler_def GetOrphan_handler_def,
    (intro keeps_since keeps_intros at_sweep)+)

lemma view_handlers:
  assumes "sound s" and "since i rec0 s"
  shows "wp (InspectLaunch driver host j) (\<lambda>_ s'. since i rec0 s') s"
    and "wp (ObserveLaunch driver host j) (\<lambda>_ s'. since i rec0 s') s"
    and "wp (InspectReadiness driver host j) (\<lambda>_ s'. since i rec0 s') s"
  unfolding InspectLaunch_def ObserveLaunch_def InspectReadiness_def Let_def
  by (intro reconciled_view_watched [OF assms] keeps_intros)+

lemma handler_watched:
  assumes "\<And>w. wp (host_NewUUID host) (\<lambda>u _. u \<noteq> i) w" and "sound s" and "since i rec0 s"
  shows "wp (ExecuteLaunch driver host bound) (\<lambda>_ s'. since i rec0 s') s"
    and "wp (TerminateLaunch_handler driver host j) (\<lambda>_ s'. since i rec0 s') s"
proof -
  show "wp (ExecuteLaunch driver host bound) (\<lambda>_ s'. since i rec0 s') s"
    unfolding ExecuteLaunch_def
    by (intro wp_sumI wp_retI assms(3) wp_bindI wp_mono [OF launch_watched [OF assms(1,3)]])
  show "wp (TerminateLaunch_handler driver host j) (\<lambda>_ s'. since i rec0 s') s"
    unfolding TerminateLaunch_handler_def
    by (rule wp_bindI, rule wp_mono [OF terminate_watched [OF assms(2,3)]]) (auto split: prod.split option.split)
qed

lemma runD: "wp m (\<lambda>_. P) s \<Longrightarrow> run_state m s = (a, s') \<Longrightarrow> P s'"
  by (simp add: wp_def)

lemma step_watched:
  assumes "server_step driver host enum s s'" and "\<And>w. wp (host_NewUUID host) (\<lambda>u _. u \<noteq> i) w"
    and "sound s" and "since i rec0 s"
  shows "since i rec0 s'"
  using assms
proof (induction rule: server_step.induct)
  case (machine s w)
  then show ?case by (simp add: since_iff)
next
  case (ingest s now bound)
  then show ?case by (simp add: since_iff)
next
  case (execute bound s a s')
  show ?case by (rule runD [OF handler_watched(1) [OF execute(2-4)] execute(1)])
next
  case (terminate i s c s')
  show ?case by (rule runD [OF handler_watched(2) [OF terminate(2-4)] terminate(1)])
next
  case (list s d s')
  show ?case by (rule runD [OF list_watched [OF list(3,4)] list(1)])
next
  case (inspect i s e s')
  show ?case by (rule runD [OF view_handlers(1) [OF inspect(3,4)] inspect(1)])
next
  case (observe i s f s')
  show ?case by (rule runD [OF view_handlers(2) [OF observe(3,4)] observe(1)])
next
  case (readiness i s g s')
  show ?case by (rule runD [OF view_handlers(3) [OF readiness(3,4)] readiness(1)])
qed (auto elim: preservesD [OF silent_handlers(1)] preservesD [OF silent_handlers(2)]
    preservesD [OF silent_handlers(3)] preservesD [OF silent_handlers(4)]
    preservesD [OF silent_handlers(5)] preservesD [OF silent_handlers(6)])

text \<open>A run: steps and restarts in any order, also restarts whose bootstrap ends in an error.\<close>

inductive server_run ::
    "'w driver \<Rightarrow> 'w Host \<Rightarrow> 'w Enumerator \<Rightarrow> 'w System \<Rightarrow> 'w System \<Rightarrow> bool"
  for driver host enum where
  refl: "server_run driver host enum s s"
| step: "server_run driver host enum s s1 \<Longrightarrow> server_step driver host enum s1 s2 \<Longrightarrow> server_run driver host enum s s2"
| restarted: "server_run driver host enum s s1 \<Longrightarrow> run_state (restart driver host) s1 = (err, s2) \<Longrightarrow>
    server_run driver host enum s s2"

lemma run_sound: "server_run driver host enum s s' \<Longrightarrow> sound s \<Longrightarrow> sound s'"
  by (induction rule: server_run.induct) (auto intro: plain.step_sound preservesD [OF plain.sound_restart])

section \<open>Properties\<close>

text \<open>
  C1: An execution is never lost and its history is never rewritten. Over every run of the server, with
  any requests, sweeps, crashes, restarts and failing SQL statements, a stored execution stays
  stored under its id; its id, workload, node, spec and creation time stay the same; its trace is only
  extended; its state only moves along allowed transitions; and once it is terminal, the record does
  not change any more. The only assumption is that no later launch draws the same UUID.
\<close>
theorem execution_history:
  assumes "server_run driver host enum s s'" and "db_ok (sys_db s)" and "mem_ok (sys_mem s)"
    and "\<forall>w. fst (run_state (host_NewUUID host) w) \<noteq> i"
    and "execution_view (sys_db s) i = Some rec"
  shows "\<exists>r. execution_view (sys_db s') i = Some r \<and>
    rec_ExecutionID r = rec_ExecutionID rec \<and> rec_WorkloadID r = rec_WorkloadID rec \<and>
    rec_NodeID r = rec_NodeID rec \<and> rec_Spec r = rec_Spec rec \<and> rec_CreatedAtSec r = rec_CreatedAtSec rec \<and>
    prefix (rec_Trace rec) (rec_Trace r) \<and>
    IsTransitionAllowed\<^sup>*\<^sup>* (rec_State rec) (rec_State r) \<and>
    (terminal (rec_State rec) \<longrightarrow> r = rec)"
proof -
  have fresh: "wp (host_NewUUID host) (\<lambda>u _. u \<noteq> i) w" for w
    using assms(4) by (simp add: wp_run)
  have sound: "sound s" using assms(2,3) by (simp add: sound_def)
  have start: "since i rec s"
    using assms(5) by (simp add: since_iff)
  have "since i rec s'"
    using assms(1) sound start
  proof (induction rule: server_run.induct)
    case (step s s1 s2)
    then show ?case using step_watched [OF step.hyps(2) fresh] run_sound [OF step.hyps(1)] by blast
  next
    case (restarted s s1 err s2)
    then show ?case using runD [OF restart_watched restarted.hyps(2)] run_sound [OF restarted.hyps(1)] by blast
  qed
  then show ?thesis
    by (auto simp: since_iff evolves_def continues_from_def)
qed

theorem execution_history_witness:
  "\<exists>r. execution_view (sys_db (snd (run_state (InspectLaunch (ret None) (still_host 9) ''e'') sample_system))) ''e'' =
     Some r \<and> rec_Spec r = rec_Spec sample_running_exec \<and>
     IsTransitionAllowed\<^sup>*\<^sup>* StateRunning (rec_State r)"
proof -
  let ?run = "run_state (InspectLaunch (ret None) (still_host 9) ''e'') sample_system"
  have "server_run (ret None) (still_host 9) NoopEnumerator sample_system (snd ?run)"
    by (rule server_run.step [OF server_run.refl]) (rule server_step.inspect, rule prod.collapse [symmetric])
  moreover have "db_ok (sys_db sample_system)" "mem_ok (sys_mem sample_system)"
    by (simp_all add: db_ok_def sample_system_def)
  moreover have "\<forall>w. fst (run_state (host_NewUUID (still_host 9)) w) \<noteq> ''e''"
    by simp
  moreover have "execution_view (sys_db sample_system) ''e'' = Some sample_running_exec"
    by (simp add: execution_view_def sample_system_def sample_running_exec_def)
  moreover have "rec_State sample_running_exec = StateRunning"
    by (simp add: sample_running_exec_def)
  ultimately show ?thesis
    using execution_history [of "ret None" "still_host 9" NoopEnumerator sample_system "snd ?run" "''e''" sample_running_exec]
    by auto
qed

end
