(* ===== verification/Liveness.thy ===== *)
theory Liveness
  imports Server
begin

text \<open>
  That launches get somewhere. On a healthy machine a valid launch of a registered node is running
  after one poll; an execution whose process is gone is settled by one poll. \<open>healthy\<close> is what the
  operating system has to do for that: the artifact exists, directories and processes can be
  created, a started process answers signal 0, and the hypervisor has created its control socket.
  Nothing is assumed of the clock.
\<close>

section \<open>A healthy machine\<close>

definition returns :: "('w, 'a) state \<Rightarrow> ('a \<Rightarrow> bool) \<Rightarrow> bool" where
  "returns m P \<longleftrightarrow> (\<forall>w. P (fst (run_state m w)))"

lemma returnsD: "returns m P \<Longrightarrow> (\<And>a w'. P a \<Longrightarrow> Q a w') \<Longrightarrow> wp m Q w"
  by (auto simp: returns_def wp_def split: prod.splits) (metis fst_conv)

definition healthy :: "'w Host \<Rightarrow> LaunchSpec \<Rightarrow> bool" where
  "healthy host spec \<longleftrightarrow>
     returns (host_StatIsSocket host (fst (resolvePrimaryDisk spec))) (\<lambda>r. r \<noteq> Inl StatNotExist) \<and>
     (\<forall>p. returns (host_MkdirAll host p) (\<lambda>r. r = None)) \<and>
     (\<forall>b args. returns (host_Start host b args) (\<lambda>r. \<exists>pid. r = Inr pid)) \<and>
     (\<forall>pid. returns (host_FindProcess host pid) (\<lambda>r. r = None)) \<and>
     (\<forall>pid. returns (host_Signal0 host pid) (\<lambda>r. r = None)) \<and>
     (\<forall>token\<in>{''qemu'', ''cloudhypervisor''}.
        returns (host_StatIsSocket host (runtime_dir (spec_WorkloadID spec) @ ''/'' @ token @ ''.sock''))
          (\<lambda>r. r = Inr True))"

lemma machine_returns:
  assumes "returns m P" and "\<And>a s'. P a \<Longrightarrow> sys_mem s' = sys_mem s \<Longrightarrow> Q a s'"
  shows "wp (on_machine m) Q s"
  unfolding wp_on_machine by (rule returnsD [OF assms(1)]) (simp add: assms(2))

section \<open>The launch pipeline, followed\<close>

interpretation nodes: launch_calls "system_host host" "NewLaunchHandler driver host" sys_mem "\<lambda>rec v v'. v' = v"
  for driver host
proof
  fix b and s :: "'a System"
  show "wp (orc_Resolve (NewLaunchHandler driver host) b)
      (\<lambda>r s'. sys_mem s' = sys_mem s \<and>
         (\<forall>E. r = Inr E \<longrightarrow> (\<forall>spec. keeps sys_mem (exec_Prepare E spec)) \<and>
            (\<forall>p. keeps sys_mem (exec_Execute E p)) \<and> (\<forall>pid. keeps sys_mem (exec_Terminate E pid)))) s"
    by (simp add: machine_executor [where view = sys_mem])
next
  fix rec and s :: "'a System"
  show "wp (orc_SaveExecution (NewLaunchHandler driver host) rec) (\<lambda>_ s'. sys_mem s' = sys_mem s) s"
    by (simp add: wp_sql wp_any)
next
  fix i
  show "keeps sys_mem (orc_GetNode (NewLaunchHandler driver host) i)"
    by (simp add: keeps_def wp_on_nodes)
qed (auto intro!: keeps_intros)

lemma wp_moved:
  assumes "IsTransitionAllowed (rec_State rec) n"
    and "\<And>t s'. sys_mem s' = sys_mem s \<Longrightarrow>
      Q (traced ''StateTransition'' ''Success'' c m t (rec\<lparr>rec_State := n\<rparr>)) s'"
  shows "wp (transition (system_host host) rec n c m) Q s"
proof -
  have "wp (host_Now (system_host host))
      (\<lambda>t s'. Q (traced ''StateTransition'' ''Success'' c m t (rec\<lparr>rec_State := n\<rparr>)) s') s"
    by (rule keepsD [OF nodes.now_law]) (rule assms(2))
  then show ?thesis using assms(1) by (simp add: transition_def)
qed

lemmas follow = nodes.wp_save nodes.wp_event nodes.wp_trace nodes.wp_keep [OF nodes.now_law]
  nodes.wp_keep [OF nodes.uuid_law]

text \<open>\<open>wired b spec p\<close>: the prepared state names the backend and the socket that backend's inspector reads.\<close>

definition wired :: "string \<Rightarrow> LaunchSpec \<Rightarrow> PreparedLaunch \<Rightarrow> bool" where
  "wired b spec p \<longleftrightarrow> prep_RuntimeBackend p = b \<and>
     (if b = ''kvm_qemu''
      then \<exists>q. prep_KvmQemu p = Some q \<and>
        qemu_ControlSocketPath q = runtime_dir (spec_WorkloadID spec) @ ''/qemu.sock''
      else b = ''cloud_hypervisor'' \<and> (\<exists>c. prep_CloudHypervisor p = Some c \<and>
        ch_ControlSocketPath c = runtime_dir (spec_WorkloadID spec) @ ''/cloudhypervisor.sock''))"

lemma prepare_follows:
  assumes "healthy host spec" and "fst (resolvePrimaryDisk spec) \<noteq> ''''" and "validIDPattern (spec_WorkloadID spec)"
    and "StaticExecutorResolver (system_host host) b = Inr E" and "b \<noteq> ''firecracker''"
    and "\<And>p s'. wired b spec p \<Longrightarrow> sys_mem s' = sys_mem s \<Longrightarrow> Q (Inr p) s'"
  shows "wp (exec_Prepare E spec) Q s"
proof -
  have stat: "returns (host_StatIsSocket host (fst (resolvePrimaryDisk spec))) (\<lambda>r. r \<noteq> Inl StatNotExist)"
    using assms(1) by (simp add: healthy_def)
  have cases: "b = ''kvm_qemu'' \<and> E = KvmExecutor (system_host host) \<or>
      b = ''cloud_hypervisor'' \<and> E = CloudHypervisorExecutor (system_host host)"
    using assms(4,5) by (auto simp: StaticExecutorResolver_def split: if_splits)
  obtain path fmt where disk: "resolvePrimaryDisk spec = (path, fmt)" by (cases "resolvePrimaryDisk spec")
  show ?thesis
    using cases stat assms(2,3,6) disk
    by (auto simp: KvmExecutor_def CloudHypervisorExecutor_def kvm_Prepare_def ch_Prepare_def Let_def
        artifact_missing_def GetControlSocketPath_eq wired_def intro!: machine_returns)
qed

lemma execute_follows:
  assumes "healthy host spec" and "StaticExecutorResolver (system_host host) b = Inr E" and "wired b spec p"
    and "\<And>pid s'. sys_mem s' = sys_mem s \<Longrightarrow> Q (Inr pid) s'"
  shows "wp (exec_Execute E p) Q s"
proof -
  have spawn: "wp (spawn (system_host host) path bin args) Q s" for path bin args
  proof -
    have mk: "returns (host_MkdirAll host d) (\<lambda>r. r = None)" and
      start: "returns (host_Start host bin args) (\<lambda>r. \<exists>pid. r = Inr pid)" for d
      using assms(1) by (simp_all add: healthy_def)
    have started: "wp (on_machine (host_Start host bin args))
        (\<lambda>r. Q (case r of Inl e \<Rightarrow> Inl (''executable failed to start: '' @ e) | Inr pid \<Rightarrow> Inr pid)) s1"
      if "sys_mem s1 = sys_mem s" for s1
      by (rule machine_returns [OF start]) (use that assms(4) in auto)
    show ?thesis
      unfolding spawn_def system_host_simps
      by (auto simp: started intro!: machine_returns [OF mk])
  qed
  show ?thesis
    using assms(2,3) spawn
    by (auto simp: StaticExecutorResolver_def wired_def KvmExecutor_def CloudHypervisorExecutor_def
        kvm_Execute_def ch_Execute_def split: if_splits)
qed

lemma valid_backend:
  assumes "val_IsValid (ValidateLaunch spec node)" and "spec_LaunchMode spec = ''Execute''"
  shows "fst (SelectBackend spec node) \<in> {''kvm_qemu'', ''cloud_hypervisor''}"
proof -
  have "selection_codes spec node = []" using assms(1) by (simp add: ValidateLaunch_codes)
  then have "fst (SelectBackend spec node) \<noteq> ''firecracker''" using assms(2) by (simp add: selection_codes_Nil)
  then show ?thesis
    using ValidateLaunch_valid_backend [OF assms(1)] by (auto simp: backend_ready_def split: if_splits)
qed

text \<open>A launch of a registered node, on a healthy machine.\<close>

definition startable :: "'w Host \<Rightarrow> LaunchSpec \<Rightarrow> 'w System \<Rightarrow> bool" where
  "startable host spec s \<longleftrightarrow>
     healthy host spec \<and> fst (resolvePrimaryDisk spec) \<noteq> '''' \<and> validIDPattern (spec_WorkloadID spec) \<and>
     (\<exists>node. GetNode (spec_NodeID spec) (sys_mem s) = (node, None) \<and> val_IsValid (ValidateLaunch spec node))"

definition spawned :: "LaunchSpec \<Rightarrow> LaunchExecutionRecord \<Rightarrow> bool" where
  "spawned spec r \<longleftrightarrow> rec_State r = StateStarting \<and>
     (\<exists>pid p b. rec_PID r = Some pid \<and> rec_PreparedState r = Some p \<and> wired b spec p)"

lemma wp_node_known:
  assumes "GetNode i (sys_mem s) = (node, None)" and "sys_mem s1 = sys_mem s" and "Q (node, None) s1"
  shows "wp (on_nodes (\<lambda>m. (GetNode i m, m))) Q s1"
  using assms(1,3) by (simp add: wp_on_nodes flip: assms(2))

lemma initialize_follows:
  "wp (initializeRecord (system_host host) (NewLaunchHandler driver host) spec)
     (\<lambda>r s'. (rec_State r = StatePending \<and> rec_PID r = None) \<and> sys_mem s' = sys_mem s) s"
  unfolding initializeRecord_def Let_def wp_bind wp_return
  by (intro follow) (simp add: zero_LaunchExecutionRecord_def)

lemma validate_follows:
  assumes "GetNode (spec_NodeID spec) (sys_mem s) = (node, None)" and "val_IsValid (ValidateLaunch spec node)"
    and "rec_State r = StatePending" and "sys_mem s1 = sys_mem s"
  shows "wp (validateAndRecord (system_host host) (NewLaunchHandler driver host) spec r)
     (\<lambda>v s'. snd v \<and> rec_State (fst v) = StatePreparing \<and> sys_mem s' = sys_mem s) s1"
  unfolding validateAndRecord_def Let_def wp_bind NewLaunchHandler_simps(1)
  by (rule wp_node_known [OF assms(1,4)], simp add: assms(2), rule wp_moved)
    (use assms in \<open>auto simp: allowed_steps intro!: follow\<close>)

definition made_ready :: "string \<Rightarrow> LaunchSpec \<Rightarrow> LaunchExecutionRecord \<Rightarrow> bool" where
  "made_ready b spec r \<longleftrightarrow> rec_State r = StateValidated \<and> (\<exists>p. rec_PreparedState r = Some p \<and> wired b spec p)"

lemma prepareAndRecord_follows:
  assumes "startable host spec s" and "GetNode (spec_NodeID spec) (sys_mem s) = (node, None)"
    and "StaticExecutorResolver (system_host host) (fst (SelectBackend spec node)) = Inr E"
    and "fst (SelectBackend spec node) \<noteq> ''firecracker''"
    and "rec_State r = StatePreparing" and "sys_mem s1 = sys_mem s"
  shows "wp (prepareAndRecord (system_host host) (NewLaunchHandler driver host) spec r)
     (\<lambda>v _. snd v = Some E \<and> made_ready (fst (SelectBackend spec node)) spec (fst v)) s1"
proof -
  from assms(1) have ok: "healthy host spec" "fst (resolvePrimaryDisk spec) \<noteq> ''''" "validIDPattern (spec_WorkloadID spec)"
    by (simp_all add: startable_def)
  show ?thesis
    unfolding prepareAndRecord_def Let_def wp_bind NewLaunchHandler_simps
    by (rule nodes.wp_trace, rule wp_node_known [OF assms(2)], simp only: assms(6),
        simp only: fst_conv assms(3) wp_return sum.case wp_bind, rule prepare_follows [OF ok assms(3,4)],
        simp only: sum.case wp_bind, intro follow wp_moved wp_retI)
      (use assms(5) in \<open>auto simp: allowed_steps made_ready_def\<close>)
qed

lemma spawn_follows:
  assumes "healthy host spec" and "spec_LaunchMode spec = ''Execute''"
    and "StaticExecutorResolver (system_host host) b = Inr E" and "made_ready b spec r"
  shows "wp (spawnAndRecord (system_host host) (NewLaunchHandler driver host) spec r E) (\<lambda>r _. spawned spec r) s"
proof -
  from assms(4) obtain p where r: "rec_State r = StateValidated" "rec_PreparedState r = Some p" "wired b spec p"
    by (auto simp: made_ready_def)
  show ?thesis
    unfolding spawnAndRecord_def execute_prepared_def Let_def wp_bind
    by (rule wp_moved, simp add: r(1), rule nodes.wp_save, simp add: assms(2) r(2) del: system_host_simps,
        rule execute_follows [OF assms(1,3) r(3)])
      (unfold sum.case Let_def wp_bind, intro follow wp_moved wp_retI,
        use r in \<open>auto simp: spawned_def allowed_steps\<close>)
qed

lemma launch_follows:
  assumes "startable host spec s" and "spec_LaunchMode spec = ''Execute''"
  shows "wp (StartLaunch (system_host host) (NewLaunchHandler driver host) spec) (\<lambda>r _. spawned spec r) s"
proof -
  from assms(1) obtain node where healthy: "healthy host spec"
    and node: "GetNode (spec_NodeID spec) (sys_mem s) = (node, None)" and valid: "val_IsValid (ValidateLaunch spec node)"
    by (auto simp: startable_def)
  let ?b = "fst (SelectBackend spec node)"
  have b: "?b = ''kvm_qemu'' \<or> ?b = ''cloud_hypervisor''" using valid_backend [OF valid assms(2)] by simp
  then have not_fc: "?b \<noteq> ''firecracker''" by auto
  from b obtain E where E: "StaticExecutorResolver (system_host host) ?b = Inr E"
    by (auto simp: StaticExecutorResolver_def)
  note stages = validate_follows [OF node valid] prepareAndRecord_follows [OF assms(1) node E not_fc]
    spawn_follows [OF healthy assms(2) E]
  show ?thesis
    unfolding StartLaunch_def
    by (intro wp_bindI, rule wp_mono [OF initialize_follows], elim conjE, intro wp_bindI nodes.wp_save,
        rule wp_mono [OF stages(1)], assumption, simp)
      (auto intro!: wp_mono [OF stages(2)] stages(3))
qed

subsection \<open>A launch the validation refuses\<close>

definition refused :: "string list \<Rightarrow> LaunchExecutionRecord \<Rightarrow> bool" where
  "refused codes r \<longleftrightarrow> rec_State r = StateFailed \<and> rec_PID r = None \<and> rec_Trace r \<noteq> [] \<and>
     step_ReasonCode (last (rec_Trace r)) = ReasonErrValidationFailed \<and>
     step_Message (last (rec_Trace r)) = ''Node missing prerequisites: '' @ fmt_strings codes"

lemma refusal_follows:
  assumes "GetNode (spec_NodeID spec) (sys_mem s) = (node, None)" and "\<not> val_IsValid (ValidateLaunch spec node)"
    and "rec_State r = StatePending \<and> rec_PID r = None" and "sys_mem s1 = sys_mem s"
  shows "wp (validateAndRecord (system_host host) (NewLaunchHandler driver host) spec r)
     (\<lambda>v _. \<not> snd v \<and> refused (val_BlockingReasonCodes (ValidateLaunch spec node)) (fst v)) s1"
  unfolding validateAndRecord_def fail_validation_def Let_def wp_bind NewLaunchHandler_simps(1)
  by (rule wp_node_known [OF assms(1,4)], simp add: assms(2) del: system_host_simps, intro wp_bindI wp_moved)
    (use assms(3) in \<open>auto simp: allowed_steps refused_def IsTransitionAllowed_def intro!: follow\<close>)

lemma launch_refused:
  assumes "GetNode (spec_NodeID spec) (sys_mem s) = (node, None)" and "\<not> val_IsValid (ValidateLaunch spec node)"
  shows "wp (StartLaunch (system_host host) (NewLaunchHandler driver host) spec)
     (\<lambda>r _. refused (val_BlockingReasonCodes (ValidateLaunch spec node)) r) s"
  unfolding StartLaunch_def
  by (intro wp_bindI, rule wp_mono [OF initialize_follows], elim conjE, intro wp_bindI nodes.wp_save,
      rule wp_mono [OF refusal_follows [OF assms]]) auto

section \<open>One poll, with the machine's answer known\<close>

definition gone :: "'w Host \<Rightarrow> int \<Rightarrow> bool" where
  "gone host pid \<longleftrightarrow> returns (host_Signal0 host pid) (\<lambda>r. r \<noteq> None)"

lemma process_alive_healthy:
  "healthy host spec \<Longrightarrow> (\<And>s'. Q True s') \<Longrightarrow> wp (process_alive (system_host host) pid) Q s"
  unfolding process_alive_def wp_bind
  by (auto simp: healthy_def intro!: machine_returns)

lemma process_alive_gone:
  "gone host pid \<Longrightarrow> (\<And>s'. Q False s') \<Longrightarrow> wp (process_alive (system_host host) pid) Q s"
  unfolding process_alive_def wp_bind gone_def
  by (rule wp_any) (auto intro!: machine_returns)

lemma inspect_wired:
  assumes "healthy host spec" and "wired b spec p"
    and "\<And>obs s'. obs_ProcessExists obs \<Longrightarrow> obs_BackendReadySignal obs \<Longrightarrow> Q (Inr obs) s'"
  shows "wp (StaticInspectorResolver (system_host host) b i (Some pid) p) Q s"
proof -
  have socket: "wp (socket_inspector bk d e (system_host host) (Some pid)
      (runtime_dir (spec_WorkloadID spec) @ ''/'' @ token @ ''.sock'')) Q s1"
    if "token \<in> {''qemu'', ''cloudhypervisor''}" for bk d e token s1
  proof -
    have sock: "returns (host_StatIsSocket host (runtime_dir (spec_WorkloadID spec) @ ''/'' @ token @ ''.sock''))
        (\<lambda>r. r = Inr True)"
      using assms(1) that by (auto simp: healthy_def)
    have exists: "wp (SocketExists (system_host host)
        (runtime_dir (spec_WorkloadID spec) @ ''/'' @ token @ ''.sock'')) R s2" if "\<And>s3. R True s3" for R s2
      unfolding SocketExists_def wp_bind system_host_simps using that
      by (simp del: append.simps append_assoc) (rule machine_returns [OF sock], simp)
    show ?thesis
      unfolding socket_inspector_def wp_bind
      by (rule wp_any, simp only: option.case, rule process_alive_healthy [OF assms(1)],
          simp del: append.simps append_assoc, rule exists, rule wp_any) (simp add: assms(3))
  qed
  show ?thesis
    using assms(2) socket [of "''qemu''"] socket [of "''cloudhypervisor''"]
    by (auto simp: wired_def StaticInspectorResolver_def QemuInspector_def CloudHypervisorInspector_def
        split: if_splits)
qed

lemma inspect_gone:
  assumes "gone host pid" and "\<And>obs s'. \<not> obs_ProcessExists obs \<Longrightarrow> Q (Inr obs) s'"
  shows "wp (StaticInspectorResolver (system_host host) b i (Some pid) p) Q s"
  by (auto simp: StaticInspectorResolver_def QemuInspector_def CloudHypervisorInspector_def ProcessInspector_def
      socket_inspector_def Let_def zero_observation_def
      intro!: wp_any process_alive_gone [OF assms(1)] assms(2))

definition backend_of :: "LaunchExecutionRecord \<Rightarrow> string" where
  "backend_of rec = (case rec_PreparedState rec of None \<Rightarrow> '''' | Some p \<Rightarrow> prep_RuntimeBackend p)"

lemma Reconcile_spawned:
  assumes "healthy host spec" and "spawned spec rec"
  shows "wp (Reconcile (system_host host) (StaticInspectorResolver (system_host host) (backend_of rec)) rec)
    (\<lambda>r _. rec_State (fst r) = StateRunning \<and> rec_RuntimeReadiness (fst r) = ''Ready'') s"
proof -
  from assms(2) obtain pid p b where rec: "rec_State rec = StateStarting" "rec_PID rec = Some pid"
    "rec_PreparedState rec = Some p" "wired b spec p"
    by (auto simp: spawned_def)
  have b: "backend_of rec = b" "prepared_or_zero rec = p"
    using rec by (simp_all add: backend_of_def wired_def prepared_or_zero_def)
  have observed: "wp (reconcile_observed (system_host host) now rec obs)
      (\<lambda>r _. rec_State (fst r) = StateRunning \<and> rec_RuntimeReadiness (fst r) = ''Ready'') s1"
    if "obs_ProcessExists obs" "obs_BackendReadySignal obs" for now obs s1
    using that rec(1) unfolding reconcile_observed_def Let_def
    by (intro wp_intros; simp add: IsTransitionAllowed_def)
  show ?thesis
    by (rule ReconcileI, unfold b) (use rec in \<open>auto intro!: inspect_wired [OF assms(1) rec(4)] observed\<close>)
qed

definition ended :: "LaunchExecutionRecord \<Rightarrow> LaunchExecutionRecord \<Rightarrow> bool" where
  "ended rec r \<longleftrightarrow> rec_RuntimeLiveness r = ''Dead'' \<and>
     rec_State r = (if rec_State rec = StateStarting then StateFailed
                    else if rec_State rec = StateTerminating then StateTerminated else StateExited)"

lemma Reconcile_gone:
  assumes "rec_PID rec = Some pid" and "gone host pid" and "polled (rec_State rec)"
    and "rec_State rec \<noteq> StateDegraded"
  shows "wp (Reconcile (system_host host) (StaticInspectorResolver (system_host host) b) rec)
    (\<lambda>r _. ended rec (fst r)) s"
proof -
  have observed: "wp (reconcile_observed (system_host host) now rec obs)
      (\<lambda>r _. ended rec (fst r)) s1"
    if "\<not> obs_ProcessExists obs" for now obs s1
    by (rule wp_mono [OF wp_conj [OF reconcile_observed_row [OF assms(3)] reconcile_observed_liveness]])
      (use assms(3,4) that in \<open>auto simp: polled_def poll_row_def ended_def\<close>)
  show ?thesis
    by (rule ReconcileI) (use assms in \<open>auto intro!: inspect_gone [OF assms(2)] observed\<close>)
qed

text \<open>A poll that moves the record answers with the record it stored.\<close>

lemma InspectLaunch_moves:
  assumes "execution_view (sys_db s) i = Some rec" and "rec_ExecutionID rec = i" and "\<not> terminal (rec_State rec)"
    and "\<And>s1. wp (Reconcile (system_host host) (StaticInspectorResolver (system_host host) (backend_of rec)) rec)
      (\<lambda>r _. P (fst r)) s1"
    and "\<And>r. P r \<Longrightarrow> rec_State r \<noteq> rec_State rec"
  shows "wp (InspectLaunch (ret None) host i)
    (\<lambda>reply s'. \<exists>r. reply = Reply 200 r \<and> P r \<and> same_process rec r \<and> execution_view (sys_db s') i = Some r) s"
proof -
  have unsettled: "\<not> (rec_State rec = StateExited \<or> rec_State rec = StateFailed \<or> rec_State rec = StateTerminated)"
    using assms(3) by (auto simp: terminal_def)
  have "wp (reconcileExecution (ret None) host rec) (\<lambda>r _. P (fst r)) s1" for s1
    unfolding reconcileExecution_def Let_def backend_of_def [symmetric] if_not_P [OF unsettled]
    by (intro wp_bindI wp_mono [OF assms(4)]) (auto intro!: wp_any)
  from wp_conj [OF reconcileExecution_in_step this]
  show ?thesis
    using assms(1,2,5)
    by (fastforce simp: InspectLaunch_def reconciled_view_def sql_read_def wp_sql GetExecution_view
        in_step_def executions_of_def elim!: wp_mono)
qed

section \<open>Properties\<close>

text \<open>A launch request, anything on the machine, and an inspection of the execution that was answered.\<close>

definition launch_and_poll ::
    "'w Host \<Rightarrow> ('w, unit) state \<Rightarrow> LaunchSpec
     \<Rightarrow> ('w System, LaunchExecutionRecord Reply \<times> LaunchExecutionRecord Reply) state" where
  "launch_and_poll host meanwhile spec = do {
     launched \<leftarrow> ExecuteLaunch (ret None) host (Inr spec);
     _ \<leftarrow> on_machine meanwhile;
     polled \<leftarrow> InspectLaunch (ret None) host
       (case launched of Reply _ rec \<Rightarrow> rec_ExecutionID rec | ErrorReply _ _ _ \<Rightarrow> '''');
     ret (launched, polled)
   }"

lemma startable_runs:
  assumes "startable host (spec\<lparr>spec_LaunchMode := ''Execute''\<rparr>) s"
  shows "wp (launch_and_poll host meanwhile spec)
     (\<lambda>(launched, polled) s'. \<exists>r r'.
        launched = Reply 202 r \<and> rec_State r = StateStarting \<and> rec_PID r \<noteq> None \<and>
        polled = Reply 200 r' \<and> rec_State r' = StateRunning \<and> rec_RuntimeReadiness r' = ''Ready'' \<and>
        same_process r r' \<and> GetExecution None (rec_ExecutionID r) (sys_db s') = (r', True, None)) s"
proof -
  let ?spec = "spec\<lparr>spec_LaunchMode := ''Execute''\<rparr>"
  have healthy: "healthy host ?spec" using assms by (simp add: startable_def)
  have launch: "wp (StartLaunch (system_host host) (NewLaunchHandler (ret None) host) ?spec)
      (\<lambda>r s1. spawned ?spec r \<and> execution_view (sys_db s1) (rec_ExecutionID r) = Some r) s"
    by (rule wp_mono [OF wp_conj [OF launch_follows [OF assms] service.StartLaunch_files]])
      (simp_all add: service_filed executions_of_def)
  have poll: "wp (InspectLaunch (ret None) host (rec_ExecutionID r))
      (\<lambda>reply s'. \<exists>r'. reply = Reply 200 r' \<and> (rec_State r' = StateRunning \<and> rec_RuntimeReadiness r' = ''Ready'') \<and>
         same_process r r' \<and> execution_view (sys_db s') (rec_ExecutionID r) = Some r') s1"
    if "spawned ?spec r" "execution_view (sys_db s1) (rec_ExecutionID r) = Some r" for r s1
    by (rule InspectLaunch_moves [OF that(2) refl _ Reconcile_spawned [OF healthy that(1)]])
      (use that(1) in \<open>auto simp: spawned_def terminal_def\<close>)
  have seen: "wp (do { _ \<leftarrow> on_machine meanwhile;
        polled \<leftarrow> InspectLaunch (ret None) host (rec_ExecutionID r); ret (Reply 202 r, polled) })
     (\<lambda>(launched, polled) s'. \<exists>r r'.
        launched = Reply 202 r \<and> rec_State r = StateStarting \<and> rec_PID r \<noteq> None \<and>
        polled = Reply 200 r' \<and> rec_State r' = StateRunning \<and> rec_RuntimeReadiness r' = ''Ready'' \<and>
        same_process r r' \<and> GetExecution None (rec_ExecutionID r) (sys_db s') = (r', True, None)) s1"
    if "spawned ?spec r" "execution_view (sys_db s1) (rec_ExecutionID r) = Some r" for r s1
    unfolding wp_bind wp_on_machine
    by (rule wp_any, rule wp_mono [OF poll [OF that(1)]])
      (use that in \<open>auto simp: spawned_def GetExecution_view\<close>)
  show ?thesis
    unfolding launch_and_poll_def ExecuteLaunch_def sum.case wp_bind [of "StartLaunch _ _ _"] bind_assoc
    by (rule wp_mono [OF launch], elim conjE, frule (1) seen)
      (simp add: spawned_def)
qed

text \<open>
  C5: A launch gets running. On a healthy machine, executing a spec that is valid for its registered
  node, whose workload id and image are usable, answers 202 with a Starting record that has a PID;
  whatever the machine does meanwhile, the next inspection of that execution answers 200 with the
  same process, Running and Ready, and that is what the database then holds.
\<close>
theorem healthy_launch_runs:
  assumes "startable host (spec\<lparr>spec_LaunchMode := ''Execute''\<rparr>) s"
  shows "wp (launch_and_poll host meanwhile spec)
     (\<lambda>(launched, polled) s'. \<exists>r r'.
        launched = Reply 202 r \<and> rec_State r = StateStarting \<and> rec_PID r \<noteq> None \<and>
        polled = Reply 200 r' \<and> rec_State r' = StateRunning \<and> rec_RuntimeReadiness r' = ''Ready'' \<and>
        same_process r r' \<and> GetExecution None (rec_ExecutionID r) (sys_db s') = (r', True, None)) s"
  by (rule startable_runs [OF assms])

definition ready_system :: "unit System" where
  "ready_system = sample_system\<lparr>sys_mem := SaveNodeState sample_envelope sample_node NewInMemoryStore\<rparr>"

lemma vm_spec_valid: "val_IsValid (ValidateLaunch vm_spec sample_node)"
proof -
  have ready: "backend_ready vm_spec sample_node ''kvm_qemu''"
    by (simp add: backend_ready_def vm_spec_def zero_LaunchSpec_def capability_usable_def
        sample_node_capability normalizeStorage_def version_satisfied_def checkVersionRequirement_def)
  have "admitted_backends vm_spec = [''kvm_qemu'']"
    by (simp add: admitted_backends_def vm_spec_def zero_LaunchSpec_def vm_backends_def)
  with ready show ?thesis
    by (simp add: ValidateLaunch_codes generic_codes_Nil selection_codes_Nil SelectBackend_find find_backend_def
        seccomp_requested_def) (simp add: vm_spec_def zero_LaunchSpec_def)
qed

lemma ready_startable: "startable (still_host 7) vm_spec ready_system"
proof -
  have "healthy (still_host 7 :: unit Host) vm_spec"
    by (simp add: healthy_def returns_def still_host_def)
  moreover have "GetNode (spec_NodeID vm_spec) (sys_mem ready_system) = (sample_node, None)"
    by (simp add: GetNode_def ready_system_def SaveNodeState_def sample_node_def projected_def initial_record_def NewInMemoryStore_def
        vm_spec_def zero_LaunchSpec_def)
  moreover have "validIDPattern (spec_WorkloadID vm_spec)" "fst (resolvePrimaryDisk vm_spec) \<noteq> ''''"
    by (simp_all add: validIDPattern_def valid_id_char_def vm_spec_def zero_LaunchSpec_def resolvePrimaryDisk_def)
  ultimately show ?thesis by (simp add: startable_def vm_spec_valid)
qed

lemma vm_spec_mode: "vm_spec\<lparr>spec_LaunchMode := ''Execute''\<rparr> = vm_spec"
  by (simp add: vm_spec_def)

theorem healthy_launch_runs_witness:
  "wp (launch_and_poll (still_host 7) (ret ()) vm_spec)
     (\<lambda>(launched, polled) _. \<exists>r'. polled = Reply 200 r' \<and> rec_State r' = StateRunning) ready_system"
proof -
  have "startable (still_host 7) (vm_spec\<lparr>spec_LaunchMode := ''Execute''\<rparr>) ready_system"
    by (simp only: vm_spec_mode ready_startable)
  from healthy_launch_runs [OF this] show ?thesis
    by (rule wp_mono) auto
qed

text \<open>
  C7: A process that is gone is noticed. If the operating system refuses signal 0 to the recorded
  process, one inspection of an execution that is Starting, Running, Terminating or Unknown answers
  200 with the same process settled and not alive, as Failed when it was still starting, Terminated
  when it was being terminated and Exited otherwise, and the database holds that record.
\<close>
theorem dead_process_settles:
  assumes "db_ok (sys_db s)" and "execution_view (sys_db s) i = Some rec" and "rec_PID rec = Some pid"
    and "gone host pid" and "polled (rec_State rec)" and "rec_State rec \<noteq> StateDegraded"
  shows "wp (InspectLaunch (ret None) host i)
     (\<lambda>reply s'. \<exists>r. reply = Reply 200 r \<and> same_process rec r \<and> rec_RuntimeLiveness r = ''Dead'' \<and>
        rec_State r = (if rec_State rec = StateStarting then StateFailed
                       else if rec_State rec = StateTerminating then StateTerminated else StateExited) \<and>
        execution_view (sys_db s') i = Some r) s"
proof -
  have live: "\<not> terminal (rec_State rec)" using assms(5) by (auto simp: terminal_def)
  have moved: "rec_State r \<noteq> rec_State rec" if "ended rec r" for r
    using that assms(5) by (auto simp: ended_def)
  show ?thesis
    by (rule wp_mono [OF InspectLaunch_moves [OF assms(2) execution_view_own [OF assms(1,2)] live
            Reconcile_gone [OF assms(3-6)] moved]]) (auto simp: ended_def)
qed

theorem dead_process_settles_witness:
  "wp (InspectLaunch (ret None) (still_host 9\<lparr>host_Signal0 := \<lambda>_. ret (Some ''no such process'')\<rparr>) ''e'')
     (\<lambda>reply s'. \<exists>r. reply = Reply 200 r \<and> rec_State r = StateExited) sample_system"
proof -
  have ok: "db_ok (sys_db sample_system)" by (simp add: db_ok_def sample_system_def)
  have stored: "execution_view (sys_db sample_system) ''e'' = Some sample_running_exec"
    "rec_PID sample_running_exec = Some 77" "rec_State sample_running_exec = StateRunning"
    by (simp_all add: execution_view_def sample_system_def sample_running_exec_def)
  have gone: "gone (still_host 9\<lparr>host_Signal0 := \<lambda>_. ret (Some ''no such process'')\<rparr>) 77"
    by (simp add: gone_def returns_def still_host_def)
  show ?thesis
    by (rule wp_mono [OF dead_process_settles [OF ok stored(1,2) gone]]) (auto simp: stored)
qed

end
