(* ===== verification/Race.thy ===== *)
theory Race
  imports Server
begin

text \<open>
  What the atomicity of the handlers hides. The service takes no lock around the read, the
  inspection and the write of a poll, so another handler can run in between. \<open>reconcile_around\<close> is
  \<^verbatim>\<open>reconcileExecution\<close> with such a handler run between its inspection and its write: the poll's
  record is stored whatever the other handler stored, so the result of a termination that was already
  answered can be lost. The theorems on histories speak of runs whose handlers do not overlap.
\<close>

definition reconcile_around ::
    "'w driver \<Rightarrow> 'w Host \<Rightarrow> ('w System, 'b) state \<Rightarrow> LaunchExecutionRecord
     \<Rightarrow> ('w System, 'b option \<times> LaunchExecutionRecord \<times> go_error option) state" where
  "reconcile_around driver host other before =
     (if rec_State before = StateExited \<or> rec_State before = StateFailed \<or> rec_State before = StateTerminated
      then ret (None, before, None)
      else do {
        let backend = (case rec_PreparedState before of None \<Rightarrow> '''' | Some p \<Rightarrow> prep_RuntimeBackend p);
        res \<leftarrow> Reconcile (system_host host) (StaticInspectorResolver (system_host host) backend) before;
        (if snd res \<noteq> None then ret (None, res)
         else do {
           b \<leftarrow> other;
           _ \<leftarrow> record_change driver host before (fst res);
           err \<leftarrow> sql driver (\<lambda>flt. SaveExecution flt (fst res));
           ret (Some b, fst res, err)
         })
      })"

lemma reconcile_around_alone:
  "do { res \<leftarrow> reconcile_around driver host (ret ()) rec; ret (snd res) } = reconcileExecution driver host rec"
  by (simp add: reconcile_around_def reconcileExecution_def Let_def bind_ret
      if_distrib [of "\<lambda>m. State_Monad.bind m (\<lambda>res. ret (snd res))"] cong: if_cong)

theorem interleaved_poll_wins:
  assumes "\<not> terminal (rec_State rec)"
  shows "wp (reconcile_around (ret None) host other rec)
     (\<lambda>(b, r, err) s'. same_process rec r \<and>
        (b \<noteq> None \<longrightarrow> execution_view (sys_db s') (rec_ExecutionID rec) = Some r)) s"
proof -
  have unsettled: "\<not> (rec_State rec = StateExited \<or> rec_State rec = StateFailed \<or> rec_State rec = StateTerminated)"
    using assms by (auto simp: terminal_def)
  have save: "wp (sql (ret None) (\<lambda>flt. SaveExecution flt r))
      (\<lambda>_ s2. execution_view (sys_db s2) (rec_ExecutionID r) = Some r) s1" for r s1
    by (auto simp: wp_sql SaveExecution_view)
  show ?thesis
    unfolding reconcile_around_def Let_def if_not_P [OF unsettled] wp_bind
    by (rule wp_mono [OF Reconcile_same])
      (auto simp: same_process_def intro!: wp_any wp_mono [OF save])
qed

text \<open>The termination answers with a Terminated record; the poll that overlaps it files Running.\<close>

theorem interleaved_poll_resurrects:
  "wp (reconcile_around (ret None) (still_host 9)
        (TerminateLaunch (system_host (still_host 9)) (NewLaunchHandler (ret None) (still_host 9)) ''e'')
        sample_running_exec)
     (\<lambda>(b, r, err) s'. (\<exists>t. b = Some (t, None) \<and> rec_State t = StateTerminated) \<and>
        (\<exists>r'. execution_view (sys_db s') ''e'' = Some r' \<and> rec_State r' = StateRunning)) sample_system"
proof -
  let ?R = "Reconcile (system_host (still_host 9)) (StaticInspectorResolver (system_host (still_host 9)) ''kvm_qemu'')
    sample_running_exec"
  have stored: "execution_view (sys_db sample_system) ''e'' = Some sample_running_exec"
    by (simp add: execution_view_def sample_system_def sample_running_exec_def)
  have rec: "rec_State sample_running_exec = StateRunning" "rec_ExecutionID sample_running_exec = ''e''"
    "rec_PreparedState sample_running_exec = Some (zero_PreparedLaunch\<lparr>prep_RuntimeBackend := ''kvm_qemu''\<rparr>)"
    "rec_PID sample_running_exec = Some 77"
    by (simp_all add: sample_running_exec_def)
  have backend: "(case rec_PreparedState sample_running_exec of None \<Rightarrow> '''' | Some p \<Rightarrow> prep_RuntimeBackend p) =
      ''kvm_qemu''"
    by (simp add: rec)
  have poll: "wp ?R (\<lambda>r _. rec_State (fst r) = StateRunning \<and> snd r = None) sample_system"
  proof -
    have observed: "wp (reconcile_observed (system_host (still_host 9)) now sample_running_exec obs)
        (\<lambda>r _. rec_State (fst r) = StateRunning \<and> snd r = None) s1"
      if "obs_ProcessExists obs" "obs_BackendSpecificError obs = None" for now obs s1
      by (rule wp_mono [OF reconcile_observed_row]) (use that in \<open>simp_all add: rec poll_row_def\<close>)
    show ?thesis
      by (rule ReconcileI) (simp_all add: rec prepared_or_zero_def StaticInspectorResolver_def QemuInspector_def
          socket_inspector_def process_alive_def zero_PreparedLaunch_def zero_observation_def observed wp_on_machine)
  qed
  have kept: "wp ?R (\<lambda>_ s1. execution_view (sys_db s1) ''e'' = Some sample_running_exec) sample_system"
    by (rule keepsD [OF keeps_Reconcile]) (simp add: executions_of_def stored)
  have terminate: "wp (TerminateLaunch (system_host (still_host 9)) (NewLaunchHandler (ret None) (still_host 9)) ''e'')
      (\<lambda>(t, err) _. err = None \<and> rec_State t = StateTerminated) s1"
    if "execution_view (sys_db s1) ''e'' = Some sample_running_exec" for s1 :: "unit System"
    using that
    by (simp add: TerminateLaunch_def wp_sql sql_read_def GetExecution_view rec transition_def TransitionTo_def
        AppendTrace_def IsTransitionAllowed_def save_def emitEvent_def kill_process_of_def wp_on_machine
        StaticExecutorResolver_def KvmExecutor_def kill_process_def report_terminated_def)
  have live: "\<not> terminal (rec_State sample_running_exec)" by (simp add: rec terminal_def)
  have "wp (reconcile_around (ret None) (still_host 9)
        (TerminateLaunch (system_host (still_host 9)) (NewLaunchHandler (ret None) (still_host 9)) ''e'')
        sample_running_exec)
     (\<lambda>(b, r, err) _. (\<exists>t. b = Some (t, None) \<and> rec_State t = StateTerminated) \<and> rec_State r = StateRunning)
     sample_system"
    unfolding reconcile_around_def Let_def backend
    by (simp only: rec wp_bind LaunchState.distinct simp_thms if_False,
        rule wp_mono [OF wp_conj [OF poll kept]], elim conjE, simp only: simp_thms if_False wp_bind,
        rule wp_mono [OF terminate], assumption) (auto intro!: wp_any)
  from wp_conj [OF this interleaved_poll_wins [OF live]] show ?thesis
    by (rule wp_mono) (auto simp: rec)
qed

end
