(* ===== verification/Startup.thy ===== *)
theory Startup
  imports Server
begin

text \<open>
  The start of the server: \<^verbatim>\<open>NewSQLiteStore\<close> and \<^verbatim>\<open>migrate\<close> of \<^verbatim>\<open>internal/store/sqlite/db.go\<close>, and the
  part of \<^verbatim>\<open>runServer\<close> of \<^verbatim>\<open>cmd/schedune/main.go\<close> that runs before the first request. A database file
  has each table or not; \<open>flt k\<close> is the error the driver returns for the \<open>k\<close>th statement, if any.
\<close>

section \<open>Opening the database\<close>

record SQLiteFile =
  file_executions :: "execution_row list option"
  file_events :: "RuntimeEvent list option"
  file_orphans :: "OrphanRecord list option"

definition create_table :: "'a list option \<Rightarrow> 'a list option" where
  "create_table t = (case t of None \<Rightarrow> Some [] | Some rows \<Rightarrow> Some rows)"

text \<open>Three tables, then six indexes, which hold no rows.\<close>

definition migration :: "(SQLiteFile \<Rightarrow> SQLiteFile) list" where
  "migration =
     [\<lambda>f. f\<lparr>file_executions := create_table (file_executions f)\<rparr>,
      \<lambda>f. f\<lparr>file_events := create_table (file_events f)\<rparr>,
      \<lambda>f. f\<lparr>file_orphans := create_table (file_orphans f)\<rparr>] @ replicate 6 id"

text \<open>The driver runs the statements of one Exec in order and stops at the first that fails.\<close>

fun exec_statements ::
    "(nat \<Rightarrow> go_error option) \<Rightarrow> nat \<Rightarrow> (SQLiteFile \<Rightarrow> SQLiteFile) list \<Rightarrow> SQLiteFile \<Rightarrow> go_error option \<times> SQLiteFile" where
  "exec_statements flt k [] f = (None, f)"
| "exec_statements flt k (st # sts) f =
     (case flt k of Some err \<Rightarrow> (Some err, f) | None \<Rightarrow> exec_statements flt (Suc k) sts (st f))"

definition migrate :: "(nat \<Rightarrow> go_error option) \<Rightarrow> SQLiteFile \<Rightarrow> go_error option \<times> SQLiteFile" where
  "migrate flt f = exec_statements flt 0 migration f"

text \<open>An opened store reads and writes the tables of its file.\<close>

definition opened :: "SQLiteFile \<Rightarrow> SQLiteStore" where
  "opened f =
     \<lparr>db_executions = (case file_executions f of None \<Rightarrow> [] | Some rows \<Rightarrow> rows),
      db_events = (case file_events f of None \<Rightarrow> [] | Some rows \<Rightarrow> rows),
      db_orphans = (case file_orphans f of None \<Rightarrow> [] | Some rows \<Rightarrow> rows)\<rparr>"

definition NewSQLiteStore ::
    "go_error option \<Rightarrow> go_error option \<Rightarrow> (nat \<Rightarrow> go_error option) \<Rightarrow> SQLiteFile
     \<Rightarrow> (go_error + SQLiteStore) \<times> SQLiteFile" where
  "NewSQLiteStore open_err ping_err flt f =
     (case open_err of
        Some err \<Rightarrow> (Inl err, f)
      | None \<Rightarrow>
         (case ping_err of
            Some err \<Rightarrow> (Inl err, f)
          | None \<Rightarrow>
             (case migrate flt f of
                (Some err, f1) \<Rightarrow> (Inl (''failed to migrate db: '' @ err), f1)
              | (None, f1) \<Rightarrow> (Inr (opened f1), f1))))"

text \<open>\<^verbatim>\<open>runServer\<close> up to the first request: the server exits or serves from a state.\<close>

datatype 'w Start = Fatal string go_error | Serving "'w System"

definition runServer ::
    "'w driver \<Rightarrow> 'w Host \<Rightarrow> go_error option \<Rightarrow> go_error option \<Rightarrow> (nat \<Rightarrow> go_error option) \<Rightarrow> SQLiteFile \<Rightarrow> 'w
     \<Rightarrow> 'w Start" where
  "runServer driver host open_err ping_err flt f w =
     (case fst (NewSQLiteStore open_err ping_err flt f) of
        Inl err \<Rightarrow> Fatal ''Failed to initialize SQLite store'' err
      | Inr db \<Rightarrow>
         (case run_state (boot_recovery driver host) \<lparr>sys_mem = NewInMemoryStore, sys_db = db, sys_machine = w\<rparr> of
            (Some err, s) \<Rightarrow> Fatal ''Failed to run recovery bootstrap'' err
          | (None, s) \<Rightarrow> Serving s))"

section \<open>What a start keeps\<close>

text \<open>Whatever statement fails, no row of the file is lost.\<close>

lemma create_table_rows [simp]:
  "(case create_table t of None \<Rightarrow> [] | Some rows \<Rightarrow> rows) = (case t of None \<Rightarrow> [] | Some rows \<Rightarrow> rows)"
  by (simp add: create_table_def split: option.split)

lemma exec_keeps:
  assumes "\<forall>st\<in>set sts. \<forall>f. opened (st f) = opened f"
  shows "opened (snd (exec_statements flt k sts f)) = opened f"
  using assms by (induction sts arbitrary: k f) (simp_all split: option.split)

lemma migrate_keeps: "opened (snd (migrate flt f)) = opened f"
  unfolding migrate_def by (rule exec_keeps) (auto simp: migration_def opened_def)

lemma NewSQLiteStore_keeps:
  "opened (snd (NewSQLiteStore open_err ping_err flt f)) = opened f"
  "fst (NewSQLiteStore open_err ping_err flt f) = Inr db \<Longrightarrow> db = opened f"
  using migrate_keeps [of flt f] by (auto simp: NewSQLiteStore_def split: option.splits prod.splits)

lemma exec_ok: "exec_statements (\<lambda>_. None) k sts f = (None, fold (\<lambda>st. st) sts f)"
  by (induction sts arbitrary: k f) simp_all

text \<open>After a migration without an error all tables exist, so a second one changes nothing.\<close>

lemma migrate_complete:
  assumes "migrate (\<lambda>_. None) f = (err, f')"
  shows "err = None \<and> file_executions f' \<noteq> None \<and> file_events f' \<noteq> None \<and> file_orphans f' \<noteq> None \<and>
    migrate (\<lambda>_. None) f' = (None, f')"
  using assms
  by (auto simp: migrate_def exec_ok migration_def create_table_def eval_nat_numeral split: option.splits)

text \<open>
  A server that serves on a file a reachable state of an earlier run left behind is again in a
  reachable state: opening the database and the bootstrap are exactly a restart.
\<close>

theorem serving_reachable:
  assumes "reachable driver host enum s" and "opened f = sys_db s"
    and "runServer driver host open_err ping_err flt f (sys_machine s) = Serving s'"
  shows "reachable driver host enum s'"
proof -
  let ?s = "\<lparr>sys_mem = NewInMemoryStore, sys_db = sys_db s, sys_machine = sys_machine s\<rparr>"
  from assms(3) obtain db where "fst (NewSQLiteStore open_err ping_err flt f) = Inr db"
    and boot: "run_state (boot_recovery driver host)
      \<lparr>sys_mem = NewInMemoryStore, sys_db = db, sys_machine = sys_machine s\<rparr> = (None, s')"
    by (auto simp: runServer_def split: sum.splits prod.splits option.splits)
  then have "db = sys_db s" using NewSQLiteStore_keeps(2) assms(2) by metis
  with boot have "run_state (restart driver host) s = (None, s')"
    by (cases s) (simp add: restart_def on_nodes_def)
  with assms(1) show ?thesis by (rule reachable.restarted)
qed

text \<open>A server that starts on a new file serves from a reachable state as well.\<close>

theorem first_serving_reachable:
  assumes "runServer driver host open_err ping_err flt
      \<lparr>file_executions = None, file_events = None, file_orphans = None\<rparr> w = Serving s'"
  shows "reachable driver host enum s'"
  by (rule serving_reachable [OF reachable.first_start]) (use assms in \<open>simp_all add: opened_def\<close>)

lemma exec_fails: "fst (exec_statements flt k sts f) = None \<longleftrightarrow> (\<forall>j<length sts. flt (k + j) = None)"
proof (induction sts arbitrary: k f)
  case (Cons st sts)
  then show ?case by (auto simp: less_Suc_eq_0_disj split: option.split)
qed simp

lemma migrate_fails: "fst (migrate flt f) = None \<longleftrightarrow> (\<forall>k<9. flt k = None)"
proof -
  have "length migration = 9" by (simp add: migration_def)
  then show ?thesis by (simp add: migrate_def exec_fails)
qed

lemma opening_fails:
  "(\<exists>db. fst (NewSQLiteStore open_err ping_err flt f) = Inr db) \<longleftrightarrow>
   open_err = None \<and> ping_err = None \<and> (\<forall>k<9. flt k = None)"
  unfolding migrate_fails [of flt f, symmetric]
  by (auto simp: NewSQLiteStore_def split: option.split prod.split)



end
