(* ===== verification/Readiness.thy ===== *)
theory Readiness
  imports Reconcile
begin

text \<open>
  \<^verbatim>\<open>internal/domain/readiness.go\<close>: the readiness evaluators of the backends. The QEMU and the Cloud
  Hypervisor evaluator differ in the backend's name in the messages, the word for the socket and the
  reason code of the timeout. The source never reads the state argument.
\<close>

record ReadinessDecision =
  rd_Liveness :: string
  rd_Readiness :: string
  rd_ReasonCode :: string
  rd_Message :: string

definition evaluate_socket_backend ::
    "string \<Rightarrow> string \<Rightarrow> string \<Rightarrow> RuntimeObservation \<Rightarrow> int \<Rightarrow> ReadinessDecision" where
  "evaluate_socket_backend name socket timeoutCode obs readinessDeadlineSec =
     (if \<not> obs_ProcessExists obs
      then (if obs_ExitCode obs \<noteq> None
            then \<lparr>rd_Liveness = ''Dead'', rd_Readiness = ''Failed'',
                  rd_ReasonCode = ''ERR_EXEC_RUNTIME_EXITED_EARLY'',
                  rd_Message = name @ '' process exited before readiness''\<rparr>
            else \<lparr>rd_Liveness = ''Unknown'', rd_Readiness = ''Unknown'',
                  rd_ReasonCode = ''ERR_RECONCILE_PROCESS_MISSING'',
                  rd_Message = name @ '' process missing during readiness evaluation''\<rparr>)
      else if obs_BackendReadySignal obs
      then \<lparr>rd_Liveness = ''Alive'', rd_Readiness = ''Ready'', rd_ReasonCode = '''',
            rd_Message = name @ '' readiness signal observed via '' @ obs_BackendSignalSource obs\<rparr>
      else if \<not> obs_StartupGraceElapsed obs
      then \<lparr>rd_Liveness = ''Alive'', rd_Readiness = ''InProgress'', rd_ReasonCode = '''',
            rd_Message = name @ '' startup grace window still active''\<rparr>
      else if readinessDeadlineSec > 0 \<and> obs_ObservedAtSec obs > readinessDeadlineSec
      then \<lparr>rd_Liveness = ''Alive'', rd_Readiness = ''Failed'', rd_ReasonCode = timeoutCode,
            rd_Message = name @ '' '' @ socket @ '' did not appear before timeout''\<rparr>
      else \<lparr>rd_Liveness = ''Alive'', rd_Readiness = ''InProgress'', rd_ReasonCode = '''',
            rd_Message = name @ '' process alive but readiness signal not yet observed''\<rparr>)"

definition EvaluateQemuReadiness :: "LaunchState \<Rightarrow> RuntimeObservation \<Rightarrow> int \<Rightarrow> ReadinessDecision" where
  "EvaluateQemuReadiness st obs readinessDeadlineSec =
     evaluate_socket_backend ''qemu'' ''readiness socket'' ''ERR_READY_QEMU_SOCKET_TIMEOUT'' obs
       readinessDeadlineSec"

definition EvaluateCloudHypervisorReadiness ::
    "LaunchState \<Rightarrow> RuntimeObservation \<Rightarrow> int \<Rightarrow> ReadinessDecision" where
  "EvaluateCloudHypervisorReadiness st obs readinessDeadlineSec =
     evaluate_socket_backend ''cloud hypervisor'' ''API socket'' ''ERR_READY_CLOUDHYPERVISOR_SOCKET_TIMEOUT''
       obs readinessDeadlineSec"

definition EvaluateBackendReadiness ::
    "string \<Rightarrow> LaunchState \<Rightarrow> RuntimeObservation \<Rightarrow> int \<Rightarrow> ReadinessDecision" where
  "EvaluateBackendReadiness backend st obs readinessDeadlineSec =
     (if backend = ''kvm_qemu'' then EvaluateQemuReadiness st obs readinessDeadlineSec
      else if backend = ''cloud_hypervisor'' then EvaluateCloudHypervisorReadiness st obs readinessDeadlineSec
      else \<lparr>rd_Liveness = ''Unknown'', rd_Readiness = ''Unknown'',
            rd_ReasonCode = ''ERR_READY_BACKEND_UNSUPPORTED'',
            rd_Message = ''no readiness evaluator available for backend '' @ backend\<rparr>)"

section \<open>Properties\<close>

text \<open>
  The readiness evaluators and the reconciler agree on a starting execution: for an observation
  after the startup grace, evaluated at the time of the poll against the record's own deadline, the
  evaluator says Ready exactly when the poll moves the execution to Running, InProgress exactly when
  it keeps it in Starting, and Failed or (for a process that is gone) Unknown exactly when it fails it.
\<close>
theorem evaluators_agree_with_reconciler:
  assumes "b = ''kvm_qemu'' \<or> b = ''cloud_hypervisor''" and "obs_StartupGraceElapsed obs"
  shows "poll_outcome StateStarting (obs_ProcessExists obs) (obs_BackendReadySignal obs)
       (deadline_passed (obs_ObservedAtSec obs) rec) (obs_BackendSpecificError obs \<noteq> None) =
     Inr (let d = EvaluateBackendReadiness b StateStarting obs (readiness_deadline rec) in
          if rd_Readiness d = ''Ready'' then StateRunning
          else if rd_Readiness d = ''InProgress'' then StateStarting else StateFailed)"
  using assms
  by (auto simp: EvaluateBackendReadiness_def EvaluateQemuReadiness_def EvaluateCloudHypervisorReadiness_def
      evaluate_socket_backend_def deadline_passed_def Let_def)

theorem evaluators_agree_with_reconciler_witness:
  "poll_outcome StateStarting True True (deadline_passed 0 sample_starting) False = Inr StateRunning"
  using evaluators_agree_with_reconciler [of "''kvm_qemu''"
      "zero_observation\<lparr>obs_ProcessExists := True, obs_BackendReadySignal := True, obs_StartupGraceElapsed := True\<rparr>"
      sample_starting]
  by (simp add: EvaluateBackendReadiness_def EvaluateQemuReadiness_def evaluate_socket_backend_def
      zero_observation_def Let_def)

end
