(* ===== verification/Doctor.thy ===== *)
theory Doctor
  imports Go_Prelude
begin

text \<open>
  The command line of \<^verbatim>\<open>cmd/schedune/main.go\<close> apart from the server: the dispatch on the first
  argument, the help text and the preflight report of \<^verbatim>\<open>schedune doctor\<close>. What the report asks of
  the machine is \<open>DoctorHost\<close>; a report is the list of lines printed. \<open>goos\<close> and \<open>goarch\<close> are the
  constants the program was built with.
\<close>

section \<open>What the report asks of the machine\<close>

record 'w DoctorHost =
  dh_Access :: "string \<Rightarrow> nat \<Rightarrow> ('w, bool) state"
  dh_MkdirAll :: "string \<Rightarrow> ('w, go_error option) state"
  dh_Exists :: "string \<Rightarrow> ('w, bool) state"
  dh_LookPath :: "string \<Rightarrow> ('w, go_error + string) state"
  dh_Uname :: "('w, go_error + string) state"
  dh_VersionOutput :: "string \<Rightarrow> ('w, go_error + string) state"
  dh_Listen :: "string \<Rightarrow> ('w, bool) state"
  dh_TempDir :: "('w, string) state"

definition ansi :: "string \<Rightarrow> string \<Rightarrow> string" where
  "ansi colour label = ''['' @ [char_of (27::nat)] @ colour @ label @ [char_of (27::nat)] @ ''[0m]''"

definition PASS :: string where "PASS = ansi ''[32m'' ''OK''"
definition WARN :: string where "WARN = ansi ''[33m'' ''WARN''"
definition INFO :: string where "INFO = ansi ''[36m'' ''INFO''"
definition FAIL :: string where "FAIL = ansi ''[31m'' ''FAIL''"

definition checkCommand :: "'w DoctorHost \<Rightarrow> string \<Rightarrow> ('w, string) state" where
  "checkCommand dh name = do {
     found \<leftarrow> dh_LookPath dh name;
     ret (case found of Inl err \<Rightarrow> '''' | Inr path \<Rightarrow> path)
   }"

text \<open>The last byte of the output is cut off; an empty output makes the slice panic: \<open>None\<close>.\<close>

definition getKernelVersion :: "'w DoctorHost \<Rightarrow> ('w, string option) state" where
  "getKernelVersion dh = do {
     out \<leftarrow> dh_Uname dh;
     ret (case out of Inl err \<Rightarrow> Some ''unknown'' | Inr s \<Rightarrow> if s = '''' then None else Some (butlast s))
   }"

definition checkPort :: "'w DoctorHost \<Rightarrow> string \<Rightarrow> ('w, bool) state" where
  "checkPort dh port = dh_Listen dh port"

text \<open>White space is that of ASCII; Go also trims the Unicode spaces, which no version banner has.\<close>

definition ascii_space :: "char \<Rightarrow> bool" where
  "ascii_space c \<longleftrightarrow> (let n = (of_char c :: nat) in (9 \<le> n \<and> n \<le> 13) \<or> n = 32)"

definition TrimSpace :: "string \<Rightarrow> string" where
  "TrimSpace s = rev (dropWhile ascii_space (rev (dropWhile ascii_space s)))"

definition getBinaryVersion :: "'w DoctorHost \<Rightarrow> string \<Rightarrow> ('w, string) state" where
  "getBinaryVersion dh path = do {
     out \<leftarrow> dh_VersionOutput dh path;
     ret (case out of
        Inl err \<Rightarrow> ''unknown''
      | Inr s \<Rightarrow>
          let version = take 128 (TrimSpace (takeWhile (\<lambda>c. c \<noteq> char_of (10::nat)) s)) in
          if version = '''' then ''unknown'' else version)
   }"

section \<open>The sections of the report\<close>

text \<open>Each section returns its lines and the flags it sets.\<close>

definition heading :: "string \<Rightarrow> string \<Rightarrow> string list" where
  "heading title rule = [title, rule]"

definition doctor_title :: "string list" where
  "doctor_title =
     [''============================================'',
      ''              Schedune Doctor               '',
      ''============================================'', '''']"

text \<open>The operating system: the lines and \<open>agentInspectReady\<close>, or the lines printed before a panic.\<close>

definition doctor_os ::
    "'w DoctorHost \<Rightarrow> string \<Rightarrow> string \<Rightarrow> ('w, string list + string list \<times> bool) state" where
  "doctor_os dh goos goarch =
     (let start = heading ''Host'' ''----'' in
      if goos = ''linux''
      then do {
        kernel \<leftarrow> getKernelVersion dh;
        let known = start @ [PASS @ '' OS: '' @ goos, PASS @ '' Architecture: '' @ goarch];
        ret (case kernel of
               None \<Rightarrow> Inl known
             | Some k \<Rightarrow> Inr (known @ [PASS @ '' Kernel: '' @ k], True))
      }
      else ret (Inr (start @
        [WARN @ '' OS: '' @ goos @ '' (Control plane: evaluator mode. Agent/Runtime: Linux required)''], False)))"

definition doctor_proc :: "'w DoctorHost \<Rightarrow> ('w, string list \<times> bool) state" where
  "doctor_proc dh = do {
     readable \<leftarrow> dh_Access dh ''/proc'' 4;
     ret ([(if readable then PASS @ '' /proc: readable'' else WARN @ '' /proc: not readable''), ''''], readable)
   }"

text \<open>The paths: the lines and \<open>controlPlaneReady\<close>.\<close>

definition doctor_paths :: "'w DoctorHost \<Rightarrow> ('w, string list \<times> bool) state" where
  "doctor_paths dh = do {
     err \<leftarrow> dh_MkdirAll dh ''./var'';
     db \<leftarrow> (case err of
        Some e \<Rightarrow> ret (FAIL @ '' SQLite DB Path: ./var not writable ('' @ e @ '')'', False)
      | None \<Rightarrow> do {
          writable \<leftarrow> dh_Access dh ''./var'' 2;
          ret (if writable then (PASS @ '' SQLite DB Path: ./var/schedune.db (writable)'', True)
               else (FAIL @ '' SQLite DB Path: ./var not writable'', False))
        });
     err2 \<leftarrow> dh_MkdirAll dh ''./var/run'';
     run \<leftarrow> (if err2 = None then dh_Access dh ''./var/run'' 2 else ret False);
     tmp \<leftarrow> dh_TempDir dh;
     ret (heading ''Storage / Paths'' ''---------------'' @
       [fst db,
        (if run then PASS @ '' Runtime Path: ./var/run (writable)''
         else FAIL @ '' Runtime Path: ./var/run not writable''),
        PASS @ '' Temp Path: '' @ tmp @ '' (writable)'', ''''], snd db)
   }"

text \<open>The devices: the lines, \<open>kvmExists\<close> and the first value of \<open>vmLaunchReady\<close>.\<close>

definition doctor_devices :: "'w DoctorHost \<Rightarrow> ('w, string list \<times> bool \<times> bool) state" where
  "doctor_devices dh = do {
     kvm \<leftarrow> dh_Exists dh ''/dev/kvm'';
     open_kvm \<leftarrow> (if kvm then dh_Access dh ''/dev/kvm'' 6 else ret False);
     tun \<leftarrow> dh_Exists dh ''/dev/net/tun'';
     cgroup \<leftarrow> dh_Access dh ''/sys/fs/cgroup'' 4;
     ret (heading ''Virtualization Primitives'' ''-------------------------'' @
       [(if kvm then (if open_kvm then PASS @ '' /dev/kvm: present and openable''
                      else WARN @ '' /dev/kvm: present but not openable by current user'')
         else INFO @ '' /dev/kvm: missing''),
        (if tun then PASS @ '' /dev/net/tun: present'' else INFO @ '' /dev/net/tun: missing''),
        (if cgroup then PASS @ '' cgroups: readable'' else INFO @ '' cgroups: not readable''), ''''],
       kvm, open_kvm)
   }"

text \<open>The binaries: the lines, whether QEMU was found, \<open>chReady\<close> and \<open>fcReady\<close>.\<close>

definition doctor_binaries :: "'w DoctorHost \<Rightarrow> string \<Rightarrow> ('w, string list \<times> bool \<times> bool \<times> bool) state" where
  "doctor_binaries dh goarch = do {
     let qemuBin = (if goarch = ''arm64'' then ''qemu-system-aarch64'' else ''qemu-system-x86_64'');
     qemu \<leftarrow> checkCommand dh qemuBin;
     ch \<leftarrow> checkCommand dh ''cloud-hypervisor'';
     fc \<leftarrow> checkCommand dh ''firecracker'';
     ret (heading ''Backend Binaries'' ''----------------'' @
       [(if qemu \<noteq> '''' then PASS @ '' QEMU: '' @ qemu else INFO @ '' QEMU: '' @ qemuBin @ '' not found''),
        (if ch \<noteq> '''' then PASS @ '' Cloud Hypervisor: '' @ ch else INFO @ '' Cloud Hypervisor: not found''),
        (if fc \<noteq> '''' then PASS @ '' Firecracker: '' @ fc else INFO @ '' Firecracker: not found''), ''''],
       qemu \<noteq> '''', ch \<noteq> '''', fc \<noteq> '''')
   }"

definition doctor_control :: "'w DoctorHost \<Rightarrow> bool \<Rightarrow> ('w, string list \<times> bool) state" where
  "doctor_control dh ready = do {
     free \<leftarrow> checkPort dh ''127.0.0.1:9090'';
     let controlPlaneReady = (ready \<and> free);
     ret (heading ''Control Plane'' ''-------------'' @
       [(if free then PASS @ '' API Port: 127.0.0.1:9090 is available''
         else FAIL @ '' API Port: 127.0.0.1:9090 is in use or unavailable''),
        (if controlPlaneReady then PASS @ '' SQLite Initialization: possible''
         else FAIL @ '' SQLite Initialization: blocked by path errors''), ''''], controlPlaneReady)
   }"

record DoctorFlags =
  df_controlPlaneReady :: bool
  df_agentInspectReady :: bool
  df_vmLaunchReady :: bool
  df_kvmExists :: bool
  df_chReady :: bool
  df_fcReady :: bool
  df_orphanSweepReady :: bool

definition doctor_summary :: "DoctorFlags \<Rightarrow> string list" where
  "doctor_summary f = heading ''Summary'' ''-------'' @
     [(if df_controlPlaneReady f then PASS else FAIL) @ '' Control plane'',
      (if df_agentInspectReady f then PASS else FAIL) @ '' Agent inspect'',
      (if df_vmLaunchReady f then PASS @ '' VM launch''
       else if df_kvmExists f then WARN @ '' VM launch (missing QEMU or permissions)''
       else INFO @ '' VM launch (missing /dev/kvm)''),
      (if df_chReady f \<and> df_kvmExists f then PASS @ '' Cloud Hypervisor support''
       else INFO @ '' Cloud Hypervisor support (missing binary or /dev/kvm)''),
      (if df_fcReady f \<and> df_kvmExists f then PASS @ '' Firecracker support''
       else INFO @ '' Firecracker support (missing binary or /dev/kvm)''),
      (if df_orphanSweepReady f then PASS else FAIL) @ '' Orphan sweep prerequisites'', '''']"

definition doctor_advice :: "string \<Rightarrow> DoctorFlags \<Rightarrow> string list" where
  "doctor_advice goos f =
     [''Recommended next step:'',
      (if goos \<noteq> ''linux'' \<and> df_controlPlaneReady f then ''  make demo-fixture (evaluator mode)''
       else if df_controlPlaneReady f \<and> df_agentInspectReady f then ''  make demo''
       else ''  Resolve [FAIL] items before continuing.'')]"

text \<open>The report after its lines on the operating system.\<close>

definition doctor_report ::
    "'w DoctorHost \<Rightarrow> string \<Rightarrow> string \<Rightarrow> string list \<Rightarrow> bool \<Rightarrow> ('w, string list) state" where
  "doctor_report dh goos goarch osLines agentReady = do {
     proc \<leftarrow> doctor_proc dh;
     paths \<leftarrow> doctor_paths dh;
     devices \<leftarrow> doctor_devices dh;
     binaries \<leftarrow> doctor_binaries dh goarch;
     control \<leftarrow> doctor_control dh (snd paths);
     let f = \<lparr>df_controlPlaneReady = snd control, df_agentInspectReady = agentReady,
              df_vmLaunchReady = (snd (snd devices) \<and> fst (snd binaries)),
              df_kvmExists = fst (snd devices), df_chReady = fst (snd (snd binaries)),
              df_fcReady = snd (snd (snd binaries)), df_orphanSweepReady = snd proc\<rparr>;
     ret (osLines @ fst proc @ fst paths @ fst devices @ fst binaries @ fst control @
       doctor_summary f @ doctor_advice goos f)
   }"

text \<open>All lines of the report as \<open>Inr\<close>, or as \<open>Inl\<close> those printed before the program panicked.\<close>

definition runDoctor ::
    "'w DoctorHost \<Rightarrow> string \<Rightarrow> string \<Rightarrow> ('w, string list + string list) state" where
  "runDoctor dh goos goarch = do {
     os \<leftarrow> doctor_os dh goos goarch;
     (case os of
        Inl printed \<Rightarrow> ret (Inl (doctor_title @ printed))
      | Inr (osLines, agentReady) \<Rightarrow> do {
          report \<leftarrow> doctor_report dh goos goarch osLines agentReady;
          ret (Inr (doctor_title @ report))
        })
   }"

section \<open>The command line\<close>

definition printHelp :: "string list" where
  "printHelp =
     [''Schedune Control Plane'', '''', ''Usage:'', ''  schedune <command>'', '''', ''Commands:'',
      ''  server    Start the control plane API server'',
      ''  doctor    Run the preflight checks to verify local readiness'']"

text \<open>What \<^verbatim>\<open>main\<close> does with the arguments after the program's name.\<close>

datatype Command = RunServer | RunDoctor | ExitWithHelp "string list" nat

fun main_dispatch :: "string list \<Rightarrow> Command" where
  "main_dispatch [] = ExitWithHelp printHelp 1"
| "main_dispatch (command # _) =
     (if command = ''server'' then RunServer
      else if command = ''doctor'' then RunDoctor
      else ExitWithHelp ((''Unknown command: '' @ command) # printHelp) 1)"

section \<open>What the advice means\<close>

lemma marks_distinct [simp]:
  "PASS \<noteq> FAIL" "FAIL \<noteq> PASS" "PASS @ x \<noteq> FAIL @ y" "FAIL @ x \<noteq> PASS @ y"
  by (simp_all add: PASS_def FAIL_def ansi_def)

text \<open>
  The advice to run the demo is given only when the database directory is writable, the API port is
  free and the program runs on Linux, and each of these is a line of the report.
\<close>

theorem doctor_recommends_demo:
  "wp (runDoctor dh goos goarch)
     (\<lambda>out _. case out of
        Inl printed \<Rightarrow> goos = ''linux''
      | Inr report \<Rightarrow> last report = ''  make demo'' \<longrightarrow>
          goos = ''linux'' \<and> PASS @ '' OS: linux'' \<in> set report \<and>
          PASS @ '' SQLite DB Path: ./var/schedune.db (writable)'' \<in> set report \<and>
          PASS @ '' API Port: 127.0.0.1:9090 is available'' \<in> set report \<and>
          PASS @ '' Control plane'' \<in> set report) w"
proof -
  have os: "wp (doctor_os dh goos goarch)
      (\<lambda>r _. case r of Inl _ \<Rightarrow> goos = ''linux''
        | Inr (ls, ready) \<Rightarrow> ready \<longrightarrow> goos = ''linux'' \<and> PASS @ '' OS: linux'' \<in> set ls) w"
    by (auto simp: doctor_os_def getKernelVersion_def Let_def intro!: wp_any split: sum.splits option.splits)
  have paths: "wp (doctor_paths dh)
      (\<lambda>r _. snd r \<longrightarrow> PASS @ '' SQLite DB Path: ./var/schedune.db (writable)'' \<in> set (fst r)) w1" for w1
    unfolding doctor_paths_def wp_bind
    by (rule wp_any) (auto split: option.splits intro!: wp_any [where m = "dh_Access dh x n" for x n]
        wp_any [where m = "dh_MkdirAll dh x" for x] wp_any [where m = "dh_TempDir dh"])
  have control: "wp (doctor_control dh b)
      (\<lambda>r _. snd r \<longrightarrow> b \<and> PASS @ '' API Port: 127.0.0.1:9090 is available'' \<in> set (fst r)) w1" for b w1
    unfolding doctor_control_def wp_bind by (rule wp_any) (simp add: Let_def)
  let ?Q = "\<lambda>report. last report = ''  make demo'' \<longrightarrow>
          goos = ''linux'' \<and> PASS @ '' OS: linux'' \<in> set report \<and>
          PASS @ '' SQLite DB Path: ./var/schedune.db (writable)'' \<in> set report \<and>
          PASS @ '' API Port: 127.0.0.1:9090 is available'' \<in> set report \<and>
          PASS @ '' Control plane'' \<in> set report"
  have report: "wp (doctor_report dh goos goarch ls ready) (\<lambda>report _. ?Q (doctor_title @ report)) w1"
    if "ready \<longrightarrow> goos = ''linux'' \<and> PASS @ '' OS: linux'' \<in> set ls" for ls ready w1
    unfolding doctor_report_def wp_bind
    by (rule wp_any, rule wp_mono [OF paths], rule wp_any, rule wp_any, rule wp_mono [OF control])
      (use that in \<open>simp add: Let_def doctor_advice_def doctor_summary_def heading_def\<close>)
  show ?thesis
    unfolding runDoctor_def wp_bind
    by (rule wp_mono [OF os]) (auto split: sum.splits intro!: wp_mono [OF report])
qed

end
