(* ===== verification/Spec2Isabelle.thy ===== *)
theory Spec2Isabelle
  imports History Liveness Race Startup Readiness Doctor Version
begin

text \<open>
  \<^bold>\<open>The Schedune control plane\<close>

  Schedune places and runs virtual machines. Agents on the nodes send envelopes of facts and
  capabilities; the control plane, a Go program under \<^verbatim>\<open>src/schedune-control-plane\<close>, projects them into
  node records, evaluates nodes against workload intents, schedules, plans and validates launches,
  starts the hypervisor as a child process, follows it through a state machine whose records are kept
  in SQLite, recovers them after a restart, and sweeps the process table for orphans. This library
  models that program and proves what makes it correct.

  \<^bold>\<open>How the parts interact\<close>

  An envelope enters by \<open>Ingest\<close>, is projected (\<open>ProjectEnvelope\<close>) and stored in memory
  (\<open>SaveNodeState\<close>). A plan request runs \<open>BuildLaunchPlan\<close>, which calls the scheduler, which
  evaluates every node; the plan is validated (\<open>ValidateLaunch\<close>, \<open>SelectBackend\<close>). A launch request
  runs \<open>StartLaunch\<close>: a record is created, the node read back and the spec validated, an executor
  resolved for the selected backend, the launch prepared and the process spawned, with a save and an
  event after each stage. Later requests poll the execution (\<open>reconcileExecution\<close>, which calls
  \<open>Reconcile\<close> with the backend's inspector and files the result) or terminate it
  (\<open>TerminateLaunch\<close>). At a start of the server \<open>boot_recovery\<close> passes over all unsettled records, and
  a background loop runs \<open>SweepOnce\<close>.

  \<^bold>\<open>Theories and what they model\<close>

  \<^item> Go_Prelude: Go values and idioms: errors, insertion-ordered maps, 64-bit wrap-around, decimal
    printing and parsing, \<open>sort.Slice\<close> as any sort, and operations with effects as state monads with
    the predicate \<open>wp\<close>.
  \<^item> Schema, Launch_Schema, Event_Schema: \<^verbatim>\<open>pkg/schema\<close>: the constants, the reason-code registry, the
    envelope, spec, record and event structs as records and datatypes with the source's fields.
  \<^item> Version, Projection, Eligibility, Scheduler, Runtime_Select, Validate_Launch, Plan_Launch,
    Readiness: the pure part of \<^verbatim>\<open>internal/domain\<close>, one theory per Go file (Plan_Launch also has the
    handler of \<^verbatim>\<open>internal/api/plan_handlers.go\<close>, Eligibility both \<^verbatim>\<open>evaluate.go\<close> and \<^verbatim>\<open>eligibility.go\<close>).
  \<^item> Lifecycle, Reconcile: \<^verbatim>\<open>internal/domain/lifecycle\<close>: the transition table, \<open>TransitionTo\<close>, and one
    reconciliation, with its decision table \<open>poll_outcome\<close>.
  \<^item> Host, Runtime_Exec, Enumerate: \<^verbatim>\<open>internal/runtime\<close>: what the program asks of the operating system
    (the record \<open>Host\<close>), the inspectors, the executors, paths and disks, and the process enumerator
    over an abstract proc file system.
  \<^item> Orchestrator, Launch_Log: \<^verbatim>\<open>internal/domain/orchestrator.go\<close> over the interfaces it declares, and
    its refinement of the launch and termination protocols, stated on logs of interface calls.
  \<^item> Stores: \<^verbatim>\<open>internal/store\<close>: the memory store, and the SQL tables as lists of rows; \<open>flt\<close> is the
    error the driver returns for a statement, if it fails.
  \<^item> Service_World: the state \<open>System\<close> of the server (node store, database, machine) and the wiring of
    \<open>NewLaunchHandler\<close>. Recovery, Orphan_Sweep: \<^verbatim>\<open>internal/recovery\<close>. Api: the handlers of
    \<^verbatim>\<open>internal/api\<close>.
  \<^item> Server: \<^verbatim>\<open>runServer\<close> of \<^verbatim>\<open>cmd/schedune/main.go\<close> as the step relation \<open>server_step\<close>, with restarts.
    Startup: the opening of the database and the start of the server. Doctor: the rest of that file,
    the preflight report as the lines it prints.
  \<^item> History, Liveness, Race: properties of the whole server over time.

  \<^bold>\<open>Interfaces\<close>

  Each contract between components is a locale, interpreted where its provider is modelled:
  \<open>plain_inspector\<close> (Host), \<open>executor\<close> (Runtime_Exec), \<open>launch_calls\<close> and its extension
  \<open>durable_launch\<close> (Service_World: what the orchestrator relies on in the execution store),
  \<open>recoverable_store\<close> (Recovery), \<open>orphan_store\<close> (Orphan_Sweep), \<open>server_invariant\<close> (Server: what a
  property of the stores needs to hold in every reachable state) and \<open>watched_store\<close> (History: what a
  store that may fail still guarantees for one execution). \<open>launch_calls\<close> is interpreted for three
  observations of the same wiring: all stored executions, one execution of a database that may fail,
  and the node store. \<open>server_invariant\<close> is interpreted for the well-formedness of the tables and for
  the agreement of what is stored twice.

  \<^bold>\<open>What the lemmas show\<close>

  \<^item> Over time: an execution is never lost nor rewritten whatever the database does
    (\<open>execution_history\<close>), survives restarts (\<open>launch_survives_restart\<close>, \<open>boot_recovery_accounts\<close>,
    \<open>server_serves_again\<close>), gets running on a healthy machine (\<open>healthy_launch_runs\<close>) and settles when
    its process is gone (\<open>dead_process_settles\<close>); the tables stay well formed
    (\<open>reachable_server_sound\<close>). What recovery does to a record is the table \<open>recovered_by\<close> over the
    clock and the liveness that the machine gives as \<open>answers\<close>.
  \<^item> From plan to process: a plan that is answered Ready runs when it is submitted, unless its backend
    is Firecracker, which is planned but never executed (\<open>ready_plan_launches\<close>).
  \<^item> Launch and termination: protocol refinement, the validation gate before every Execute, the three
    outcomes, what is persisted, and durability through the real stores.
  \<^item> Lifecycle: transitions only along the table, rank arguments for coming to rest, the decision
    table of a poll, and what the repository's inspectors can make of it.
  \<^item> Pure components: each optimised or staged function against a declarative characterisation
    (first ready backend, best eligible node, exact validity, version requirements), round trip of
    versions, staleness and panics of the projection, safety of socket paths.

  \<^bold>\<open>Bounds and fuel\<close>

  No definition uses fuel: every loop of the program runs over a list and is structural recursion,
  and the server's endless loops are rules of \<open>server_step\<close>. Unix times are mathematical integers;
  \<open>wrap64\<close> is written out where the program subtracts or adds timestamps that come from outside.

  \<^bold>\<open>Assumptions and what is not modelled\<close>

  \<^item> The operating system, the SQL driver, the UUID generator and SHA-256 are parameters. Most theorems
    hold for every value of them; those that need more state it (a driver that does not fail is
    \<open>ret None\<close>; \<open>healthy\<close>; a UUID that is not drawn again).
  \<^item> The web framework (binding, struct validation, routing, JSON encoding) is not modelled: a handler
    takes the bound request or the binding error. The JSON column of a row is taken to hold the record
    itself, so encoding is assumed lossless. Log output is not modelled.
  \<^item> A handler is one step of the server. A crash in the middle of a handler is covered as far as the
    database goes, since a driver that fails from some statement on leaves the rows such a crash
    leaves. Handlers of the same execution that overlap are not covered: Race shows that a poll can
    then overwrite the result of a termination. The panic of the sweep goroutine ends the process and
    is followed by a restart.
  \<^item> The names of \<^verbatim>\<open>recovery_state.go\<close> have no use in the program. The node agent is a Rust program and
    not part of this development, and neither are the tests, scripts and demo fixtures.
\<close>

section \<open>Properties that span components\<close>

text \<open>
  C16: The state of the server stays sound: in every state that the server reaches from its first
  start, through any requests, sweeps, changes of the machine and restarts, and with a database that
  may fail on any statement, the execution table has one row per id whose id, state and update-time
  columns are those of the stored record, the orphan table has one row per id, and the node found
  under an id is the projection, made at some time, of the raw envelope stored under that id.
\<close>
theorem reachable_server_sound:
  "reachable driver host enum s \<Longrightarrow>
   db_ok (sys_db s) \<and> mem_ok (sys_mem s) \<and>
   (\<forall>row\<in>set (db_executions (sys_db s)). row_execution_id row = rec_ExecutionID (row_payload row) \<and>
      row_state row = state_name (rec_State (row_payload row)) \<and>
      row_updated_at_sec row = rec_UpdatedAtSec (row_payload row)) \<and>
   (\<forall>i n. GetNode i (sys_mem s) = (n, None) \<longrightarrow>
      (\<exists>env now. mget (mem_rawEnvelopes (sys_mem s)) i = Some env \<and> env_NodeID env = i \<and>
         ProjectEnvelope now env = Inr n))"
  using plain.reachable_sound [of driver host enum s] twice.reachable_sound [of driver host enum s]
  by (auto simp: sound_with_def times_agree_def nodes_projected_def db_ok_def row_ok_def list_all_iff
      GetNode_def split: option.splits)

theorem reachable_server_sound_witness:
  "\<exists>env now. mget (mem_rawEnvelopes (snd (Ingest 1010 (Inr sample_envelope) NewInMemoryStore))) ''n1'' = Some env \<and>
     ProjectEnvelope now env = Inr sample_node"
proof -
  let ?s = "\<lparr>sys_mem = NewInMemoryStore, sys_db = \<lparr>db_executions = [], db_events = [], db_orphans = []\<rparr>,
      sys_machine = ()\<rparr> :: unit System"
  let ?s' = "?s\<lparr>sys_mem := snd (Ingest 1010 (Inr sample_envelope) (sys_mem ?s))\<rparr>"
  have "reachable (ret None) (still_host 7) NoopEnumerator ?s'"
    by (rule reachable.step [OF reachable.first_start server_step.ingest])
  note sound = reachable_server_sound [OF this]
  have "GetNode ''n1'' (sys_mem ?s') = (sample_node, None)"
    by (simp add: Ingest_def ProjectEnvelope_eq sample_envelope_def sample_capability_def provenance_panics_def GetNode_def SaveNodeState_def
        sample_node_def NewInMemoryStore_def projected_def initial_record_def)
  with sound have "\<exists>env now. mget (mem_rawEnvelopes (sys_mem ?s')) ''n1'' = Some env \<and> env_NodeID env = ''n1'' \<and>
      ProjectEnvelope now env = Inr sample_node"
    by (elim conjE allE [of _ "''n1''"] allE [of _ sample_node] impE)
  then show ?thesis by auto
qed

text \<open>
  C2: A launch survives a restart. Whatever a launch through the server returned, and whatever the
  machine did meanwhile, the next start finds that very record. A settled execution is kept as it was
  returned. Any other is the same process (PID, prepared state, spec, and a trace that extends the one
  returned), stamped with the epoch that this start drew, the first UUID after \<open>meanwhile\<close>, and moved
  as \<open>recovered\<close> says: alive and otherwise unchanged when the machine answers signal 0 for its PID,
  Terminated or Unknown when it does not, Unknown without a PID.
\<close>
theorem launch_survives_restart:
  assumes "db_ok (sys_db s)" and "mem_ok (sys_mem s)"
  shows "wp (do {
       r \<leftarrow> StartLaunch (system_host host) (NewLaunchHandler (ret None) host) spec;
       w \<leftarrow> on_machine (do { _ \<leftarrow> meanwhile; State (\<lambda>w. (w, w)) });
       err \<leftarrow> restart (ret None) host;
       ret (r, w, err)
     }) (\<lambda>(r, w, err) s'. err = None \<and> sys_mem s' = NewInMemoryStore \<and>
       (\<exists>r'. GetExecution None (rec_ExecutionID r) (sys_db s') = (r', True, None) \<and>
          (if settled r then r' = r
           else recovered host (fst (run_state (host_NewUUID host) w)) r r' \<and> same_process r r'))) s"
proof -
  let ?found = "\<lambda>r w s'. \<exists>r'. GetExecution None (rec_ExecutionID r) (sys_db s') = (r', True, None) \<and>
     (if settled r then r' = r else recovered host (boot_epoch host w) r r' \<and> same_process r r')"
  have boot: "wp (boot_recovery (ret None) host)
      (\<lambda>err s'. err = None \<and> sys_mem s' = NewInMemoryStore \<and> ?found r (sys_machine s2) s') s2"
    if "db_ok (sys_db s2)" "execution_view (sys_db s2) (rec_ExecutionID r) = Some r"
      "sys_mem s2 = NewInMemoryStore" for r s2
  proof -
    have "wp (boot_recovery (ret None) host) (\<lambda>_ s'. sys_mem s' = NewInMemoryStore) s2"
      by (rule keepsD [OF boot_keeps_nodes]) (simp add: that(3))
    from wp_conj [OF boot_recovery_ok [OF that(1)] this] show ?thesis
    proof (rule wp_mono, elim conjE, intro conjI)
      fix err and s' :: "'a System"
      assume "\<forall>i. case execution_view (sys_db s2) i of
           None \<Rightarrow> execution_view (sys_db s') i = None
         | Some rec \<Rightarrow> if settled rec then execution_view (sys_db s') i = Some rec
             else \<exists>r. execution_view (sys_db s') i = Some r \<and>
               recovered host (boot_epoch host (sys_machine s2)) rec r"
      from spec [OF this, of "rec_ExecutionID r"] that(2) show "?found r (sys_machine s2) s'"
        by (cases "settled r") (auto simp: GetExecution_view recovered_same)
    qed
  qed
  have "wp (StartLaunch (system_host host) (NewLaunchHandler (ret None) host) spec) (\<lambda>_. sound) s"
    using plain.sound_StartLaunch [of host "ret None" spec] assms
    unfolding preserves_def by (simp add: sound_def [of s])
  from wp_conj [OF service.StartLaunch_files this]
  have launched: "wp (StartLaunch (system_host host) (NewLaunchHandler (ret None) host) spec)
      (\<lambda>r s1. db_ok (sys_db s1) \<and> execution_view (sys_db s1) (rec_ExecutionID r) = Some r) s"
    by (rule wp_mono) (simp add: service_filed executions_of_def sound_def)
  have observed: "wp (State (\<lambda>w. (w, w))) Q w = Q w w" for Q and w :: 'a
    by (simp add: wp_def)
  show ?thesis
    unfolding restart_def wp_bind wp_return wp_on_machine wp_on_nodes observed
    by (rule wp_mono [OF launched], rule wp_any, rule wp_mono [OF boot]) auto
qed

theorem launch_survives_restart_witness:
  "wp (do {
       r \<leftarrow> StartLaunch (system_host (still_host 7)) (NewLaunchHandler (ret None) (still_host 7)) vm_spec;
       w \<leftarrow> on_machine (do { _ \<leftarrow> ret (); State (\<lambda>w. (w, w)) });
       err \<leftarrow> restart (ret None) (still_host 7);
       ret (r, w, err)
     }) (\<lambda>(r, w, err) s'. \<exists>r'. GetExecution None (rec_ExecutionID r) (sys_db s') = (r', True, None) \<and>
       rec_State r' = StateStarting \<and> rec_RuntimeLiveness r' = ''Alive'' \<and>
       rec_RecoveryEpoch r' = ''00000000-0000-4000-8000-000000000001'') ready_system"
proof -
  let ?host = "still_host 7 :: unit Host"
  have ok: "db_ok (sys_db ready_system)" "mem_ok (sys_mem ready_system)"
    by (simp_all add: db_ok_def ready_system_def sample_system_def mem_ok_SaveNodeState)
  have mode: "spec_LaunchMode vm_spec = ''Execute''" by (simp add: vm_spec_def)
  have launched: "wp (do {
       r \<leftarrow> StartLaunch (system_host ?host) (NewLaunchHandler (ret None) ?host) vm_spec;
       w \<leftarrow> on_machine (do { _ \<leftarrow> ret (); State (\<lambda>w. (w, w)) });
       err \<leftarrow> restart (ret None) ?host;
       ret (r, w, err)
     }) (\<lambda>(r, w, err) _. spawned vm_spec r) ready_system"
    unfolding wp_bind by (rule wp_mono [OF launch_follows [OF ready_startable mode]]) (simp add: wp_any)
  have alive: "answers (process_alive ?host pid) a \<Longrightarrow> a" for pid a
    by (auto simp: answers_def process_alive_def)
  have row: "rec_State r' = rec_State r \<and> rec_RuntimeLiveness r' = ''Alive'' \<and> rec_RecoveryEpoch r' = epoch"
    if "recovered ?host epoch r r'" "rec_PID r = Some pid" for epoch r r' pid
    using that alive by (auto simp: recovered_epoch) (auto simp: recovered_def recovered_by_def split: if_splits)
  show ?thesis
    by (rule wp_mono [OF wp_conj [OF launch_survives_restart [OF ok] launched]])
      (auto simp: spawned_def settled_def dest!: row)
qed

lemma ready_plan_valid:
  assumes "plan_Status (PlanLaunch clk nodes lookup req) = PlanStatusReady"
    and "plan_PlannedLaunchSpec (PlanLaunch clk nodes lookup req) = Some spec"
  obtains node where "lookup (spec_NodeID spec) = (node, None)" "val_IsValid (ValidateLaunch spec node)"
    "plan_ValidationResult (PlanLaunch clk nodes lookup req) = Some (ValidateLaunch spec node)"
    "spec_LaunchMode spec \<noteq> ''Execute''"
proof -
  define b where "b = BuildLaunchPlan clk (lreq_WorkloadIntent req) (lreq_LaunchTemplate req) (lreq_Mode req)
    (lreq_TargetNodeID req) nodes"
  have ready: "plan_Status b = PlanStatusReady" and spec: "plan_PlannedLaunchSpec b = Some spec"
    using assms by (auto simp: PlanLaunch_def Let_def simp flip: b_def
        split: if_splits option.splits prod.splits LaunchPlanStatus.splits)
  with BuildLaunchPlan_outcome [of clk "lreq_WorkloadIntent req" "lreq_LaunchTemplate req" "lreq_Mode req"
      "lreq_TargetNodeID req" nodes]
  have node: "plan_SelectedNode b = Some (spec_NodeID spec)" and mode: "spec_LaunchMode spec \<noteq> ''Execute''"
    by (auto simp: b_def split: if_splits option.splits)
  obtain n err where "lookup (spec_NodeID spec) = (n, err)" by (cases "lookup (spec_NodeID spec)")
  with assms(1) that [of n] mode show ?thesis
    by (simp add: PlanLaunch_def ready spec node Let_def flip: b_def split: if_splits)
qed

lemma SelectBackend_mode: "fst (SelectBackend (spec\<lparr>spec_LaunchMode := m\<rparr>) node) = fst (SelectBackend spec node)"
proof -
  have "normalizeStorage (spec\<lparr>spec_LaunchMode := m\<rparr>) = normalizeStorage spec"
    by (simp add: normalizeStorage_def)
  moreover have "version_satisfied (spec\<lparr>spec_LaunchMode := m\<rparr>) node = version_satisfied spec node"
    by (intro ext) (simp add: version_satisfied_def split: option.split)
  ultimately have "backend_ready (spec\<lparr>spec_LaunchMode := m\<rparr>) node = backend_ready spec node"
    by (intro ext) (simp add: backend_ready_def)
  moreover have "vm_backends (spec\<lparr>spec_LaunchMode := m\<rparr>) = vm_backends spec"
    by (simp add: vm_backends_def Let_def)
  ultimately show ?thesis
    by (simp add: SelectBackend_find find_backend_def admitted_backends_def)
qed

lemma execute_codes:
  assumes "val_IsValid (ValidateLaunch spec node)"
  shows "val_BlockingReasonCodes (ValidateLaunch (spec\<lparr>spec_LaunchMode := ''Execute''\<rparr>) node) =
     (if val_SelectedBackend (ValidateLaunch spec node) = ''firecracker''
      then [ReasonErrLaunchBackendExecutionUnsupported] else [])"
proof -
  have "generic_codes (spec\<lparr>spec_LaunchMode := ''Execute''\<rparr>) node = generic_codes spec node"
    by (simp add: generic_codes_def seccomp_requested_def)
  then show ?thesis
    using assms ValidateLaunch_selected [OF assms]
    by (simp add: ValidateLaunch_codes SelectBackend_mode selection_codes_def [of "spec\<lparr>spec_LaunchMode := ''Execute''\<rparr>"] Let_def
        selection_codes_Nil BackendFirecracker_def)
qed

lemma resolvePrimaryDisk_mode: "resolvePrimaryDisk (spec\<lparr>spec_LaunchMode := m\<rparr>) = resolvePrimaryDisk spec"
  by (cases "spec_Storage spec") (simp_all add: resolvePrimaryDisk_def)

lemma healthy_mode: "healthy host (spec\<lparr>spec_LaunchMode := m\<rparr>) = healthy host spec"
  by (simp add: healthy_def resolvePrimaryDisk_mode)

text \<open>A launch the validation refuses is filed as Failed, and an inspection finds it so.\<close>

lemma refused_and_polled:
  assumes "GetNode (spec_NodeID spec) (sys_mem s) = (node, None)"
    and "\<not> val_IsValid (ValidateLaunch (spec\<lparr>spec_LaunchMode := ''Execute''\<rparr>) node)"
  shows "wp (launch_and_poll host meanwhile spec)
     (\<lambda>(launched, polled) s'. \<exists>r. launched = Reply 409 r \<and> polled = Reply 200 r \<and>
        refused (val_BlockingReasonCodes (ValidateLaunch (spec\<lparr>spec_LaunchMode := ''Execute''\<rparr>) node)) r \<and>
        GetExecution None (rec_ExecutionID r) (sys_db s') = (r, True, None)) s"
proof -
  let ?spec = "spec\<lparr>spec_LaunchMode := ''Execute''\<rparr>"
  let ?codes = "val_BlockingReasonCodes (ValidateLaunch ?spec node)"
  have node: "GetNode (spec_NodeID ?spec) (sys_mem s) = (node, None)" using assms(1) by simp
  have launch: "wp (StartLaunch (system_host host) (NewLaunchHandler (ret None) host) ?spec)
      (\<lambda>r s1. refused ?codes r \<and> execution_view (sys_db s1) (rec_ExecutionID r) = Some r) s"
    by (rule wp_mono [OF wp_conj [OF launch_refused [OF node assms(2)] service.StartLaunch_files]])
      (simp_all add: service_filed executions_of_def)
  have settled: "reconcileExecution (ret None) host r = ret (r, None)" if "refused ?codes r" for r
    using that by (simp add: reconcileExecution_def refused_def)
  show ?thesis
    unfolding launch_and_poll_def ExecuteLaunch_def sum.case wp_bind [of "StartLaunch _ _ _"] bind_assoc
    by (rule wp_mono [OF launch], elim conjE)
      (auto simp: InspectLaunch_def reconciled_view_def sql_read_def wp_sql wp_on_machine GetExecution_view settled
        intro!: wp_any, simp add: refused_def)
qed


definition sample_request :: LaunchPlanRequest where
  "sample_request =
     \<lparr>lreq_SchemaVersion = ''v1alpha1'', lreq_WorkloadIntent = sample_intent,
      lreq_LaunchTemplate =
        \<lparr>tpl_SchemaVersion = ''1'', tpl_WorkloadID = ''wl-1'', tpl_TenantID = ''t'', tpl_NodeID = '''',
         tpl_RuntimeClass = ''VirtualMachine'', tpl_Architecture = ''x86_64'',
         tpl_ImageReference = ''/img/a.qcow2'', tpl_KernelImagePath = '''', tpl_RootfsPath = '''',
         tpl_NetworkAttachments = [], tpl_Storage = [], tpl_Networks = [], tpl_Security = None,
         tpl_Vcpu = 2, tpl_MemoryMB = 512, tpl_LaunchMode = ''Execute'',
         tpl_RuntimeBackendPreference = '''', tpl_AllowBackendFallback = False, tpl_RuntimeVersion = None\<rparr>,
      lreq_Mode = ''execute'', lreq_TargetNodeID = ''n1''\<rparr>"

definition sample_planned :: LaunchSpec where
  "sample_planned = hydrate sample_intent (lreq_LaunchTemplate sample_request) ''execute'' ''n1''"

lemma sample_planned_valid: "val_IsValid (ValidateLaunch sample_planned sample_node)"
  and sample_planned_backend: "fst (SelectBackend sample_planned sample_node) = ''kvm_qemu''"
proof -
  have ready: "backend_ready sample_planned sample_node ''kvm_qemu''"
    "\<not> backend_ready sample_planned sample_node ''cloud_hypervisor''"
    by (simp_all add: backend_ready_def sample_planned_def hydrate_def sample_request_def capability_usable_def
        sample_node_capability normalizeStorage_def version_satisfied_def checkVersionRequirement_def)
  have "admitted_backends sample_planned = [''cloud_hypervisor'', ''kvm_qemu'']"
    by (simp add: admitted_backends_def sample_planned_def hydrate_def sample_request_def vm_backends_def)
  with ready show backend: "fst (SelectBackend sample_planned sample_node) = ''kvm_qemu''"
    by (simp add: SelectBackend_find find_backend_def)
  have "generic_codes sample_planned sample_node = []"
    by (simp add: generic_codes_Nil seccomp_requested_def sample_planned_def hydrate_def sample_request_def)
  with backend show "val_IsValid (ValidateLaunch sample_planned sample_node)"
    by (simp add: ValidateLaunch_codes selection_codes_Nil)
qed

lemma sample_request_planned:
  "let plan = PlanLaunch (\<lambda>_. 1030) [sample_node] (\<lambda>i. GetNode i (sys_mem ready_system)) sample_request in
   plan_Status plan = PlanStatusReady \<and> plan_PlannedLaunchSpec plan = Some sample_planned \<and>
   plan_ValidationResult plan = Some (ValidateLaunch sample_planned sample_node)"
proof -
  have eligible: "er_IsEligible (Evaluate 1030 sample_intent sample_node)"
    by (simp add: Evaluate_eligible hard_codes_Nil health_acceptable_def telemetry_fresh_def sample_intent_def
        capability_supported_def sample_node_capability wrap64_def)
  have "sd_SelectedNode (ScheduleV0 (\<lambda>_. 1030) sample_intent [sample_node]) = Some ''n1''"
    by (simp add: ScheduleV0_eq eligible_candidates_def eligible Let_def)
  moreover have "consistent sample_intent (lreq_LaunchTemplate sample_request)"
    "node_admitted (lreq_LaunchTemplate sample_request) ''n1'' ''n1''"
    "lreq_WorkloadIntent sample_request = sample_intent" "lreq_TargetNodeID sample_request = ''n1''"
    "lreq_Mode sample_request = ''execute''"
    by (simp_all add: consistent_def node_admitted_def sample_intent_def sample_request_def)
  moreover have "GetNode ''n1'' (sys_mem ready_system) = (sample_node, None)"
    by (simp add: GetNode_def ready_system_def SaveNodeState_def sample_node_def projected_def initial_record_def
        NewInMemoryStore_def)
  ultimately show ?thesis
    using BuildLaunchPlan_outcome [of "\<lambda>_. 1030" sample_intent "lreq_LaunchTemplate sample_request" "''execute''"
        "''n1''" "[sample_node]"] sample_planned_valid
    by (simp add: PlanLaunch_def sample_planned_def Let_def)
qed


end
